(* ===== verification/Prelude.thy ===== *)
theory Prelude
  imports Main "HOL-Library.Multiset"
begin

text \<open>
  What every component of the model shares: the result type of code that may throw, the JavaScript
  string operations the services use, and the lemma collections that carry the component proofs.

  A function that may throw returns \<open>'e + 'a\<close>: \<open>Inl e\<close> is the thrown value (or the rejection of
  the promise an \<open>async\<close> function returns), \<open>Inr x\<close> the value returned. Since every model is a pure
  function, \<open>await\<close> is sequencing. Logging (\<open>console.log\<close>, winston) has no counterpart unless the
  logging call itself can throw.
\<close>

named_theorems result_simps \<open>equations that run the result combinators\<close>
named_theorems string_simps \<open>equations that run the string operations\<close>
named_theorems model_defs \<open>definitions of the model a proof may unfold freely\<close>

section \<open>Results: throw, catch, and loops that stop at the first throw\<close>

type_synonym ('e, 'a) result = "'e + 'a"

definition rbind :: "('e, 'a) result \<Rightarrow> ('a \<Rightarrow> ('e, 'b) result) \<Rightarrow> ('e, 'b) result" where
  "rbind m f = (case m of Inl e \<Rightarrow> Inl e | Inr x \<Rightarrow> f x)"

definition rmap :: "('a \<Rightarrow> 'b) \<Rightarrow> ('e, 'a) result \<Rightarrow> ('e, 'b) result" where
  "rmap f m = rbind m (\<lambda>x. Inr (f x))"

text \<open>\<open>try { m } catch (e) { handler e }\<close>\<close>

definition rcatch :: "('e, 'a) result \<Rightarrow> ('e \<Rightarrow> ('f, 'a) result) \<Rightarrow> ('f, 'a) result" where
  "rcatch m h = (case m of Inl e \<Rightarrow> h e | Inr x \<Rightarrow> Inr x)"

text \<open>\<open>Array.prototype.map\<close> and \<open>filter\<close> with a callback that may throw.\<close>

fun rmapM :: "('a \<Rightarrow> ('e, 'b) result) \<Rightarrow> 'a list \<Rightarrow> ('e, 'b list) result" where
  "rmapM f [] = Inr []"
| "rmapM f (x # xs) = rbind (f x) (\<lambda>y. rbind (rmapM f xs) (\<lambda>ys. Inr (y # ys)))"

fun rfilterM :: "('a \<Rightarrow> ('e, bool) result) \<Rightarrow> 'a list \<Rightarrow> ('e, 'a list) result" where
  "rfilterM p [] = Inr []"
| "rfilterM p (x # xs) =
     rbind (p x) (\<lambda>b. rbind (rfilterM p xs) (\<lambda>ys. Inr (if b then x # ys else ys)))"

lemma rbind_simps [simp, result_simps]:
  "rbind (Inl e) f = Inl e"
  "rbind (Inr x) f = f x"
  by (simp_all add: rbind_def)

lemma rmap_simps [simp, result_simps]:
  "rmap g (Inl e) = Inl e"
  "rmap g (Inr x) = Inr (g x)"
  by (simp_all add: rmap_def)

lemma rcatch_simps [simp, result_simps]:
  "rcatch (Inl e) h = h e"
  "rcatch (Inr x) h = Inr x"
  by (simp_all add: rcatch_def)

lemma rbind_eq_Inr: "rbind m f = Inr y \<longleftrightarrow> (\<exists>x. m = Inr x \<and> f x = Inr y)"
  by (cases m) auto

lemma rbind_eq_Inl: "rbind m f = Inl e \<longleftrightarrow> m = Inl e \<or> (\<exists>x. m = Inr x \<and> f x = Inl e)"
  by (cases m) auto

lemma rmap_eq_Inr: "rmap g m = Inr y \<longleftrightarrow> (\<exists>x. m = Inr x \<and> y = g x)"
  by (cases m) auto

lemma rcatch_Inr_total: "(\<And>e. \<exists>x. h e = Inr x) \<Longrightarrow> \<exists>x. rcatch m h = Inr x"
  by (cases m) auto

lemma rmapM_pure: "(\<And>x. x \<in> set xs \<Longrightarrow> f x = Inr (g x)) \<Longrightarrow> rmapM f xs = Inr (map g xs)"
  by (induction xs) auto

lemma rmapM_length: "rmapM f xs = Inr ys \<Longrightarrow> length ys = length xs"
  by (induction xs arbitrary: ys) (auto simp: rbind_eq_Inr)

lemma rmapM_nth: "rmapM f xs = Inr ys \<Longrightarrow> i < length xs \<Longrightarrow> f (xs ! i) = Inr (ys ! i)"
proof (induction xs arbitrary: ys i)
  case Nil
  then show ?case by simp
next
  case (Cons x xs)
  then obtain y zs where "f x = Inr y" "rmapM f xs = Inr zs" "ys = y # zs"
    by (auto simp: rbind_eq_Inr)
  with Cons show ?case by (cases i) auto
qed

lemma rfilterM_pure:
  "(\<And>x. x \<in> set xs \<Longrightarrow> p x = Inr (q x)) \<Longrightarrow> rfilterM p xs = Inr (filter q xs)"
  by (induction xs) auto

lemma rfilterM_sound:
  "rfilterM p xs = Inr ys \<Longrightarrow> y \<in> set ys \<Longrightarrow> y \<in> set xs \<and> p y = Inr True"
  by (induction xs arbitrary: ys) (auto simp: rbind_eq_Inr split: if_splits)

section \<open>Strings\<close>

text \<open>
  A JavaScript string is a HOL \<open>string\<close>. The strings the services compare and build are ASCII, where
  the two agree; \<open>toLowerCase\<close> and \<open>toUpperCase\<close> below map the ASCII letters only.
\<close>

definition lower_char :: "char \<Rightarrow> char" where
  "lower_char c =
     (let n = (of_char c :: nat) in if 65 \<le> n \<and> n \<le> 90 then char_of (n + 32) else c)"

definition upper_char :: "char \<Rightarrow> char" where
  "upper_char c =
     (let n = (of_char c :: nat) in if 97 \<le> n \<and> n \<le> 122 then char_of (n - 32) else c)"

definition toLowerCase :: "string \<Rightarrow> string" where
  "toLowerCase s = map lower_char s"

definition toUpperCase :: "string \<Rightarrow> string" where
  "toUpperCase s = map upper_char s"

definition starts_with :: "string \<Rightarrow> string \<Rightarrow> bool" where
  "starts_with s p \<longleftrightarrow> take (length p) s = p"

text \<open>\<open>s.indexOf(p)\<close>: the first position where \<open>p\<close> occurs, \<open>-1\<close> if there is none.\<close>

fun index_from :: "nat \<Rightarrow> string \<Rightarrow> string \<Rightarrow> int" where
  "index_from i [] p = (if p = [] then int i else - 1)"
| "index_from i (c # s) p =
     (if starts_with (c # s) p then int i else index_from (Suc i) s p)"

definition indexOf :: "string \<Rightarrow> string \<Rightarrow> int" where
  "indexOf s p = index_from 0 s p"

definition str_includes :: "string \<Rightarrow> string \<Rightarrow> bool" where
  "str_includes s p \<longleftrightarrow> indexOf s p \<noteq> - 1"

text \<open>\<open>s.split(c)\<close> for a separator of one character.\<close>

fun split_char :: "char \<Rightarrow> string \<Rightarrow> string list" where
  "split_char c [] = [[]]"
| "split_char c (d # s) =
     (if d = c then [] # split_char c s
      else case split_char c s of [] \<Rightarrow> [[d]] | w # ws \<Rightarrow> (d # w) # ws)"

text \<open>\<open>xs.join(sep)\<close>\<close>

fun join_str :: "string \<Rightarrow> string list \<Rightarrow> string" where
  "join_str sep [] = []"
| "join_str sep [w] = w"
| "join_str sep (w # ws) = w @ sep @ join_str sep ws"

lemma length_lower [simp]: "length (toLowerCase s) = length s"
  by (simp add: toLowerCase_def)

lemma starts_with_append [simp]: "starts_with (p @ s) p"
  by (simp add: starts_with_def)

lemma starts_with_iff: "starts_with s p \<longleftrightarrow> (\<exists>r. s = p @ r)"
  unfolding starts_with_def by (metis append_eq_conv_conj append_take_drop_id)

lemma index_from_ge: "index_from i s p = - 1 \<or> int i \<le> index_from i s p"
  by (induction s arbitrary: i) (auto, (metis int_Suc le_add_same_cancel2 order_trans zle_add1_eq_le
      zless_add1_eq)?)

lemma index_from_zero_iff: "index_from i s p = int i \<longleftrightarrow> starts_with s p"
proof (cases s)
  case Nil
  then show ?thesis by (auto simp: starts_with_def)
next
  case (Cons c r)
  then show ?thesis using index_from_ge [of "Suc i" r p] by auto
qed

lemma indexOf_zero_iff: "indexOf s p = 0 \<longleftrightarrow> starts_with s p"
  using index_from_zero_iff [of 0 s p] by (simp add: indexOf_def)

lemma index_from_none_iff: "index_from i s p = - 1 \<longleftrightarrow> (\<forall>u v. s \<noteq> u @ p @ v)"
proof (induction s arbitrary: i)
  case Nil
  then show ?case by auto
next
  case (Cons c s)
  have "(\<exists>u v. c # s = u @ p @ v) \<longleftrightarrow> starts_with (c # s) p \<or> (\<exists>u v. s = u @ p @ v)"
    (is "?L \<longleftrightarrow> ?R")
  proof
    assume ?L
    then obtain u v where "c # s = u @ p @ v" by blast
    then show ?R by (cases u) (auto simp: starts_with_iff)
  next
    assume ?R
    then show ?L
      by (metis append_Cons append_Nil starts_with_iff)
  qed
  with Cons.IH [of "Suc i"] show ?case by auto
qed

lemma str_includes_iff: "str_includes s p \<longleftrightarrow> (\<exists>u v. s = u @ p @ v)"
  by (simp add: str_includes_def indexOf_def index_from_none_iff)

lemma indexOf_pos_iff: "indexOf s p > 0 \<longleftrightarrow> str_includes s p \<and> \<not> starts_with s p"
  using index_from_ge [of 0 s p] indexOf_zero_iff [of s p]
  by (auto simp: str_includes_def indexOf_def)

lemma split_char_nonempty [simp]: "split_char c s \<noteq> []"
  by (induction s) (auto split: list.splits)

text \<open>Splitting at a character and joining with it gives the string back.\<close>

lemma join_split: "join_str [c] (split_char c s) = s"
proof (induction s)
  case Nil
  then show ?case by simp
next
  case (Cons d s)
  obtain w ws where sp: "split_char c s = w # ws"
    using split_char_nonempty [of c s] by (cases "split_char c s") auto
  show ?case
  proof (cases "d = c")
    case True
    with sp Cons show ?thesis by simp
  next
    case False
    with sp Cons show ?thesis by (cases ws) auto
  qed
qed

lemma split_char_no_sep: "w \<in> set (split_char c s) \<Longrightarrow> c \<notin> set w"
  by (induction s arbitrary: w) (auto split: if_splits list.splits)

section \<open>Lists\<close>

text \<open>\<open>Array.prototype.find\<close> is the library's \<open>find\<close>; \<open>xs[0]\<close> that may be missing is \<open>head_opt\<close>.\<close>

definition head_opt :: "'a list \<Rightarrow> 'a option" where
  "head_opt xs = (case xs of [] \<Rightarrow> None | x # _ \<Rightarrow> Some x)"

lemma head_opt_simps [simp]: "head_opt [] = None" "head_opt (x # xs) = Some x"
  by (simp_all add: head_opt_def)

lemma find_Some_mem: "find p xs = Some x \<Longrightarrow> x \<in> set xs \<and> p x"
  by (auto simp: find_Some_iff)

lemma find_distinct: "distinct (map f xs) \<Longrightarrow> x \<in> set xs \<Longrightarrow> find (\<lambda>y. f y = f x) xs = Some x"
  by (induction xs) (auto simp: rev_image_eqI)

definition opt_or :: "'a option \<Rightarrow> 'a \<Rightarrow> 'a" where
  \<comment> \<open>\<open>x ?? d\<close>\<close>
  "opt_or x d = (case x of None \<Rightarrow> d | Some v \<Rightarrow> v)"

lemma opt_or_simps [simp]: "opt_or None d = d" "opt_or (Some v) d = v"
  by (simp_all add: opt_or_def)

end
