(* ===== verification/Ordered_Map.thy ===== *)
theory Ordered_Map
  imports Prelude "HOL-Library.AList"
begin

text \<open>
  The \<open>Map\<close> of JavaScript: keys in the order of their first insertion, a later \<open>set\<close> keeps the
  position. The interface its users rely on is the locale \<open>js_map\<close>; the model is an association list
  with distinct keys, and \<open>om\<close> is the interpretation. Three components use it: the environment
  manager of the offer service, \<open>arrayToMap\<close> and the transaction counts of the frontend.
\<close>

locale js_map =
  fixes empty :: "'m"
    and set_key :: "'k \<Rightarrow> 'v \<Rightarrow> 'm \<Rightarrow> 'm"
    and get_key :: "'m \<Rightarrow> 'k \<Rightarrow> 'v option"
    and keys_of :: "'m \<Rightarrow> 'k list"
    and ok :: "'m \<Rightarrow> bool"
  assumes get_empty: "get_key empty k = None"
    and get_set: "get_key (set_key k v m) k' = (if k' = k then Some v else get_key m k')"
    and keys_get: "ok m \<Longrightarrow> k \<in> set (keys_of m) \<longleftrightarrow> get_key m k \<noteq> None"
    and keys_distinct: "ok m \<Longrightarrow> distinct (keys_of m)"
    and ok_empty: "ok empty"
    and ok_set: "ok m \<Longrightarrow> ok (set_key k v m)"
begin

text \<open>Filling a map from a list: the last element with a key wins.\<close>

definition fill :: "('a \<Rightarrow> 'k) \<Rightarrow> ('a \<Rightarrow> 'v) \<Rightarrow> 'a list \<Rightarrow> 'm \<Rightarrow> 'm" where
  "fill kf vf xs m = foldl (\<lambda>m x. set_key (kf x) (vf x) m) m xs"

lemma ok_fill: "ok m \<Longrightarrow> ok (fill kf vf xs m)"
  unfolding fill_def by (induction xs arbitrary: m) (auto simp: ok_set)

lemma get_fill:
  "get_key (fill kf vf xs m) k =
     (case find (\<lambda>x. kf x = k) (rev xs) of None \<Rightarrow> get_key m k | Some x \<Rightarrow> Some (vf x))"
proof (induction xs rule: rev_induct)
  case Nil
  then show ?case by (simp add: fill_def)
next
  case (snoc x xs)
  have "fill kf vf (xs @ [x]) m = set_key (kf x) (vf x) (fill kf vf xs m)"
    by (simp add: fill_def)
  with snoc show ?case by (auto simp: get_set)
qed

lemma get_fill_mem:
  "x \<in> set xs \<Longrightarrow> (\<And>y. y \<in> set xs \<Longrightarrow> kf y = kf x \<Longrightarrow> vf y = vf x) \<Longrightarrow>
     get_key (fill kf vf xs m) (kf x) = Some (vf x)"
proof -
  assume x: "x \<in> set xs" and same: "\<And>y. y \<in> set xs \<Longrightarrow> kf y = kf x \<Longrightarrow> vf y = vf x"
  then have "find (\<lambda>y. kf y = kf x) (rev xs) \<noteq> None"
    by (auto simp: find_None_iff)
  then obtain y where "find (\<lambda>y. kf y = kf x) (rev xs) = Some y" by blast
  with same find_Some_mem [OF this] show ?thesis by (simp add: get_fill)
qed

text \<open>Counting with \<open>map.set(k, (map.get(k) ?? 0) + 1)\<close> counts every key.\<close>

definition tally :: "('v \<Rightarrow> 'v) \<Rightarrow> 'v \<Rightarrow> 'k list \<Rightarrow> 'm \<Rightarrow> 'm" where
  "tally inc zero ks m = foldl (\<lambda>m k. set_key k (inc (opt_or (get_key m k) zero)) m) m ks"

lemma tally_snoc:
  "tally inc zero (ks @ [k]) m
     = set_key k (inc (opt_or (get_key (tally inc zero ks m) k) zero)) (tally inc zero ks m)"
  by (simp add: tally_def)

lemma ok_tally: "ok m \<Longrightarrow> ok (tally inc zero ks m)"
  by (induction ks rule: rev_induct) (simp_all add: tally_def ok_set)

lemma get_tally:
  "get_key (tally inc zero ks empty) k =
     (if k \<in> set ks then Some ((inc ^^ count_list ks k) zero) else None)"
proof (induction ks rule: rev_induct)
  case Nil
  then show ?case by (simp add: tally_def get_empty)
next
  case (snoc x ks)
  then show ?case
    by (cases "k = x") (auto simp: tally_snoc get_set count_list_0_iff funpow_swap1)
qed

lemma keys_tally: "set (keys_of (tally inc zero ks empty)) = set ks"
  using keys_get [OF ok_tally [OF ok_empty]] by (auto simp: get_tally split: if_splits)

lemma keys_tally_distinct: "distinct (keys_of (tally inc zero ks empty))"
  by (rule keys_distinct [OF ok_tally [OF ok_empty]])

end

section \<open>The model\<close>

type_synonym ('k, 'v) jsmap = "('k \<times> 'v) list"

definition om_empty :: "('k, 'v) jsmap" where
  "om_empty = []"

definition om_set :: "'k \<Rightarrow> 'v \<Rightarrow> ('k, 'v) jsmap \<Rightarrow> ('k, 'v) jsmap" where
  "om_set k v m = AList.update k v m"

definition om_get :: "('k, 'v) jsmap \<Rightarrow> 'k \<Rightarrow> 'v option" where
  "om_get m k = map_of m k"

definition om_keys :: "('k, 'v) jsmap \<Rightarrow> 'k list" where
  "om_keys m = map fst m"

definition om_values :: "('k, 'v) jsmap \<Rightarrow> 'v list" where
  "om_values m = map snd m"

definition om_ok :: "('k, 'v) jsmap \<Rightarrow> bool" where
  "om_ok m \<longleftrightarrow> distinct (map fst m)"

interpretation om: js_map om_empty om_set om_get om_keys om_ok
proof unfold_locales
  show "om_get om_empty k = None" for k :: 'a
    by (simp add: om_get_def om_empty_def)
  show "om_get (om_set k v m) k' = (if k' = k then Some v else om_get m k')"
    for k k' :: 'a and v :: 'b and m
    by (simp add: om_get_def om_set_def update_conv')
  show "k \<in> set (om_keys m) \<longleftrightarrow> om_get m k \<noteq> None" for m and k :: 'a
    by (simp add: om_keys_def om_get_def map_of_eq_None_iff)
  show "om_ok m \<Longrightarrow> distinct (om_keys m)" for m :: "('a, 'b) jsmap"
    by (simp add: om_ok_def om_keys_def)
  show "om_ok om_empty" by (simp add: om_ok_def om_empty_def)
  show "om_ok m \<Longrightarrow> om_ok (om_set k v m)" for m and k :: 'a and v :: 'b
    by (simp add: om_ok_def om_set_def distinct_update)
qed

text \<open>Insertion order: a new key goes last, an old one keeps its place.\<close>

lemma om_keys_set: "om_keys (om_set k v m) = (if k \<in> set (om_keys m) then om_keys m else om_keys m @ [k])"
  by (simp add: om_keys_def om_set_def update_keys)

lemma om_values_get: "om_ok m \<Longrightarrow> v \<in> set (om_values m) \<longleftrightarrow> (\<exists>k. om_get m k = Some v)"
  by (force simp: om_values_def om_get_def om_ok_def)

end
