(* ===== verification/Offer_Env.thy ===== *)
theory Offer_Env
  imports Ordered_Map
begin

text \<open>
  The environment manager of the offer service (\<open>src/offerservice/src/env\<close>). A registered variable
  has a name, an optional default and a \<open>deferred\<close> flag; reading one falls back to the default and
  throws when there is none; \<open>checkEnvVars\<close> runs at start-up and throws with the list of the
  variables that have neither a value nor a default and are not deferred. \<open>process.env\<close> is an
  argument \<open>penv\<close> of everything that reads it.
\<close>

type_synonym process_env = "string \<Rightarrow> string option"

datatype env_error =
    MissingEnvVarError string
  | NotRegistered string
  | ValuesMissing "string list"

record env_var =
  ev_name :: string
  ev_defaultValue :: "string option"
  ev_deferred :: bool

definition EnvVar :: "string \<Rightarrow> string option \<Rightarrow> bool \<Rightarrow> env_var" where
  "EnvVar name defaultValue deferred =
     \<lparr>ev_name = name, ev_defaultValue = defaultValue, ev_deferred = deferred\<rparr>"

definition valuePresent :: "process_env \<Rightarrow> env_var \<Rightarrow> bool" where
  "valuePresent penv v \<longleftrightarrow> penv (ev_name v) \<noteq> None"

definition hasDefault :: "env_var \<Rightarrow> bool" where
  "hasDefault v \<longleftrightarrow> ev_defaultValue v \<noteq> None"

definition getValue :: "process_env \<Rightarrow> env_var \<Rightarrow> (env_error, string) result" where
  "getValue penv v =
     (case penv (ev_name v) of
        None \<Rightarrow> (case ev_defaultValue v of
                   None \<Rightarrow> Inl (MissingEnvVarError (ev_name v))
                 | Some d \<Rightarrow> Inr d)
      | Some value \<Rightarrow> Inr value)"

type_synonym env_manager = "(string, env_var) jsmap"

definition EnvManager :: env_manager where
  "EnvManager = om_empty"

definition register :: "env_var \<Rightarrow> env_manager \<Rightarrow> env_manager" where
  "register v m = om_set (ev_name v) v m"

definition getEnvList :: "env_manager \<Rightarrow> string list" where
  "getEnvList m = om_keys m"

definition getEnv :: "process_env \<Rightarrow> env_manager \<Rightarrow> string \<Rightarrow> (env_error, string) result" where
  "getEnv penv m name =
     (case om_get m name of
        None \<Rightarrow> Inl (NotRegistered name)
      | Some v \<Rightarrow> getValue penv v)"

text \<open>The four lists \<open>checkEnvVars\<close> sorts the variables into, and the loop that fills them.\<close>

record env_check =
  ck_missing :: "string list"
  ck_deferred :: "string list"
  ck_checked :: "string list"
  ck_defaults :: "string list"

definition check_step :: "process_env \<Rightarrow> env_check \<Rightarrow> env_var \<Rightarrow> env_check" where
  "check_step penv c v =
     (if valuePresent penv v then c\<lparr>ck_checked := ck_checked c @ [ev_name v]\<rparr>
      else if hasDefault v then c\<lparr>ck_defaults := ck_defaults c @ [ev_name v]\<rparr>
      else if ev_deferred v then c\<lparr>ck_deferred := ck_deferred c @ [ev_name v]\<rparr>
      else c\<lparr>ck_missing := ck_missing c @ [ev_name v]\<rparr>)"

definition check_loop :: "process_env \<Rightarrow> env_manager \<Rightarrow> env_check" where
  "check_loop penv m =
     foldl (check_step penv)
       \<lparr>ck_missing = [], ck_deferred = [], ck_checked = [], ck_defaults = []\<rparr> (om_values m)"

definition checkEnvVars :: "process_env \<Rightarrow> env_manager \<Rightarrow> (env_error, unit) result" where
  "checkEnvVars penv m =
     (let c = check_loop penv m
      in if ck_missing c \<noteq> [] then Inl (ValuesMissing (ck_missing c)) else Inr ())"

section \<open>The instance of the service\<close>

text \<open>The names, as the code has them (\<open>LOGIN_SERIVCE_PROTOCOL\<close> names a misspelt variable).\<close>

definition MANAGER_BASE_URL :: string where "MANAGER_BASE_URL = ''MANAGER_BASE_URL''"
definition MANAGER_PORT :: string where "MANAGER_PORT = ''MANAGER_PORT''"
definition MANAGER_PROTOCOL :: string where "MANAGER_PROTOCOL = ''MANAGER_PROTOCOL''"
definition LOGIN_SERVICE_BASE_URL :: string where "LOGIN_SERVICE_BASE_URL = ''LOGIN_SERVICE_BASE_URL''"
definition LOGIN_SERVICE_PORT :: string where "LOGIN_SERVICE_PORT = ''LOGIN_SERVICE_PORT''"
definition LOGIN_SERIVCE_PROTOCOL :: string where "LOGIN_SERIVCE_PROTOCOL = ''LOGIN_SERVICE_POROTOCOL''"
definition APP_PORT :: string where "APP_PORT = ''APP_PORT''"
definition FEATURE_FLAG_SERVICE_BASE_URL :: string where
  "FEATURE_FLAG_SERVICE_BASE_URL = ''FEATURE_FLAG_SERVICE_BASE_URL''"
definition FEATURE_FLAG_SERVICE_PORT :: string where
  "FEATURE_FLAG_SERVICE_PORT = ''FEATURE_FLAG_SERVICE_PORT''"
definition FEATURE_FLAG_SERVICE_PROTOCOL :: string where
  "FEATURE_FLAG_SERVICE_PROTOCOL = ''FEATURE_FLAG_SERVICE_PROTOCOL''"

lemmas env_names =
  MANAGER_BASE_URL_def MANAGER_PORT_def MANAGER_PROTOCOL_def LOGIN_SERVICE_BASE_URL_def
  LOGIN_SERVICE_PORT_def LOGIN_SERIVCE_PROTOCOL_def APP_PORT_def FEATURE_FLAG_SERVICE_BASE_URL_def
  FEATURE_FLAG_SERVICE_PORT_def FEATURE_FLAG_SERVICE_PROTOCOL_def

definition envManager_vars :: "env_var list" where
  "envManager_vars =
     [EnvVar MANAGER_BASE_URL (Some ''localhost'') False,
      EnvVar MANAGER_PORT (Some ''8081'') False,
      EnvVar MANAGER_PROTOCOL (Some ''http'') False,
      EnvVar LOGIN_SERVICE_BASE_URL (Some ''localhost'') False,
      EnvVar LOGIN_SERVICE_PORT (Some ''8081'') False,
      EnvVar LOGIN_SERIVCE_PROTOCOL (Some ''http'') False,
      EnvVar APP_PORT (Some ''8080'') False,
      EnvVar FEATURE_FLAG_SERVICE_BASE_URL (Some ''localhost'') False,
      EnvVar FEATURE_FLAG_SERVICE_PORT (Some ''80'') False,
      EnvVar FEATURE_FLAG_SERVICE_PROTOCOL (Some ''http'') False]"

definition envManager :: env_manager where
  "envManager = foldl (\<lambda>m v. register v m) EnvManager envManager_vars"

section \<open>Lemmas\<close>

text \<open>A manager built by registering is a map filled by name.\<close>

lemma register_fill: "foldl (\<lambda>m v. register v m) m vs = om.fill ev_name (\<lambda>v. v) vs m"
  by (simp add: om.fill_def register_def)

text \<open>Every entry of a well-formed manager sits under its own name.\<close>

definition env_wf :: "env_manager \<Rightarrow> bool" where
  "env_wf m \<longleftrightarrow> om_ok m \<and> (\<forall>k v. om_get m k = Some v \<longrightarrow> ev_name v = k)"

lemma env_wf_empty: "env_wf EnvManager"
  by (simp add: env_wf_def EnvManager_def om.ok_empty om.get_empty)

lemma env_wf_register: "env_wf m \<Longrightarrow> env_wf (register v m)"
  by (auto simp: env_wf_def register_def om.ok_set om.get_set split: if_splits)

lemma env_wf_registers: "env_wf m \<Longrightarrow> env_wf (foldl (\<lambda>m v. register v m) m vs)"
  by (induction vs arbitrary: m) (auto simp: env_wf_register)

lemma env_wf_envManager: "env_wf envManager"
  unfolding envManager_def by (rule env_wf_registers [OF env_wf_empty])

lemma getEnv_register:
  "getEnv penv (register v m) n = (if n = ev_name v then getValue penv v else getEnv penv m n)"
  by (simp add: getEnv_def register_def om.get_set)

lemma getEnvList_register:
  "getEnvList (register v m)
     = (if ev_name v \<in> set (getEnvList m) then getEnvList m else getEnvList m @ [ev_name v])"
  by (simp add: getEnvList_def register_def om_keys_set)

text \<open>The loop of \<open>checkEnvVars\<close> is four filters.\<close>

lemma check_loop_filters:
  "foldl (check_step penv) c vs =
     \<lparr>ck_missing = ck_missing c @ map ev_name
        (filter (\<lambda>v. \<not> valuePresent penv v \<and> \<not> hasDefault v \<and> \<not> ev_deferred v) vs),
      ck_deferred = ck_deferred c @ map ev_name
        (filter (\<lambda>v. \<not> valuePresent penv v \<and> \<not> hasDefault v \<and> ev_deferred v) vs),
      ck_checked = ck_checked c @ map ev_name (filter (valuePresent penv) vs),
      ck_defaults = ck_defaults c @ map ev_name
        (filter (\<lambda>v. \<not> valuePresent penv v \<and> hasDefault v) vs)\<rparr>"
  by (induction vs arbitrary: c) (auto simp: check_step_def)

lemma ck_missing_loop:
  "ck_missing (check_loop penv m) =
     map ev_name (filter (\<lambda>v. \<not> valuePresent penv v \<and> \<not> hasDefault v \<and> \<not> ev_deferred v) (om_values m))"
  by (simp add: check_loop_def check_loop_filters)

lemma getValue_ok_iff: "(\<exists>x. getValue penv v = Inr x) \<longleftrightarrow> valuePresent penv v \<or> hasDefault v"
  by (auto simp: getValue_def valuePresent_def hasDefault_def split: option.splits)

text \<open>What start-up checking buys: afterwards a registered variable that is not deferred can be read.\<close>

lemma checkEnvVars_readable:
  assumes "env_wf m" "checkEnvVars penv m = Inr ()" "om_get m n = Some v" "\<not> ev_deferred v"
  shows "\<exists>x. getEnv penv m n = Inr x"
proof -
  have "v \<in> set (om_values m)"
    using assms(1,3) by (auto simp: env_wf_def om_values_get)
  moreover have "filter (\<lambda>v. \<not> valuePresent penv v \<and> \<not> hasDefault v \<and> \<not> ev_deferred v) (om_values m) = []"
    using assms(2) by (auto simp: checkEnvVars_def ck_missing_loop Let_def split: if_splits)
  ultimately have "valuePresent penv v \<or> hasDefault v"
    using assms(4) by (auto simp: filter_empty_conv)
  then show ?thesis using assms(3) getValue_ok_iff [of penv v] by (simp add: getEnv_def)
qed

text \<open>
  Start-up checking is exact. \<open>checkEnvVars\<close> throws if and only if reading some registered
  variable that is not deferred would throw, and it then reports exactly those variables.
\<close>

lemma checkEnvVars_exact:
  assumes "env_wf m"
  shows "checkEnvVars penv m = Inr () \<longleftrightarrow>
           (\<forall>n v. om_get m n = Some v \<and> \<not> ev_deferred v \<longrightarrow> (\<exists>x. getEnv penv m n = Inr x))"
    (is "?L \<longleftrightarrow> ?R")
proof
  assume ?L
  then show ?R using checkEnvVars_readable [OF assms] by blast
next
  assume r: ?R
  have "valuePresent penv v \<or> hasDefault v \<or> ev_deferred v" if v: "v \<in> set (om_values m)" for v
  proof -
    from v assms obtain k where k: "om_get m k = Some v"
      by (auto simp: env_wf_def om_values_get)
    show ?thesis
    proof (cases "ev_deferred v")
      case False
      with r k obtain x where "getEnv penv m k = Inr x" by blast
      with k have "\<exists>x. getValue penv v = Inr x" by (simp add: getEnv_def)
      then show ?thesis using getValue_ok_iff by blast
    qed simp
  qed
  then have "ck_missing (check_loop penv m) = []"
    by (auto simp: ck_missing_loop filter_empty_conv)
  then show ?L by (simp add: checkEnvVars_def)
qed

section \<open>Reading configuration as an interface\<close>

text \<open>
  The URL builders only need a source of configuration that answers for the names they use. The
  contract: every name of \<open>known\<close> can be read.
\<close>

locale config_source =
  fixes read :: "string \<Rightarrow> (env_error, string) result"
    and known :: "string set"
  assumes known_read: "n \<in> known \<Longrightarrow> \<exists>x. read n = Inr x"
begin

definition answer :: "string \<Rightarrow> string" where
  "answer n = (case read n of Inl e \<Rightarrow> [] | Inr x \<Rightarrow> x)"

lemma read_answer: "n \<in> known \<Longrightarrow> read n = Inr (answer n)"
  using known_read [of n] by (auto simp: answer_def)

text \<open>A client that reads three known variables and combines them never throws.\<close>

lemma read_three:
  assumes "a \<in> known" "b \<in> known" "c \<in> known"
  shows "rbind (read a) (\<lambda>x. rbind (read b) (\<lambda>y. rbind (read c) (\<lambda>z. Inr (f x y z))))
           = Inr (f (answer a) (answer b) (answer c))"
  using assms by (simp add: read_answer)

end

lemma envManager_get: "om_get envManager n = find (\<lambda>v. ev_name v = n) (rev envManager_vars)"
  unfolding envManager_def register_fill om.get_fill EnvManager_def
  by (simp add: om.get_empty split: option.splits)

lemma envManager_names: "map ev_name envManager_vars =
  [MANAGER_BASE_URL, MANAGER_PORT, MANAGER_PROTOCOL, LOGIN_SERVICE_BASE_URL, LOGIN_SERVICE_PORT,
   LOGIN_SERIVCE_PROTOCOL, APP_PORT, FEATURE_FLAG_SERVICE_BASE_URL, FEATURE_FLAG_SERVICE_PORT,
   FEATURE_FLAG_SERVICE_PROTOCOL]"
  by (simp add: envManager_vars_def EnvVar_def)

lemma envManager_defaults: "v \<in> set envManager_vars \<Longrightarrow> hasDefault v"
  by (auto simp: envManager_vars_def EnvVar_def hasDefault_def)

lemma envManager_known:
  assumes "n \<in> set (map ev_name envManager_vars)"
  shows "\<exists>x. getEnv penv envManager n = Inr x"
proof -
  from assms have "find (\<lambda>v. ev_name v = n) (rev envManager_vars) \<noteq> None"
    by (auto simp: find_None_iff)
  then obtain v where v: "find (\<lambda>v. ev_name v = n) (rev envManager_vars) = Some v" by blast
  then have "hasDefault v" using find_Some_mem [OF v] envManager_defaults by auto
  then have "\<exists>x. getValue penv v = Inr x" using getValue_ok_iff by blast
  with v show ?thesis by (simp add: getEnv_def envManager_get)
qed

interpretation env: config_source "getEnv penv envManager" "set (map ev_name envManager_vars)" for penv
  by unfold_locales (rule envManager_known)

section \<open>Properties\<close>

lemma missing_iff: "getValue penv v = Inl (MissingEnvVarError (ev_name v)) \<longleftrightarrow>
    \<not> valuePresent penv v \<and> \<not> hasDefault v"
  by (auto simp: getValue_def valuePresent_def hasDefault_def split: option.splits)

lemma checkEnvVars_reports:
  assumes wf: "env_wf m" and r: "checkEnvVars penv m = Inl e"
  shows "\<exists>ns. e = ValuesMissing ns \<and> distinct ns \<and> set ns =
           {n. \<exists>v. om_get m n = Some v \<and> \<not> ev_deferred v \<and> getEnv penv m n = Inl (MissingEnvVarError n)}"
proof -
  let ?bad = "\<lambda>v. \<not> valuePresent penv v \<and> \<not> hasDefault v \<and> \<not> ev_deferred v"
  have e: "e = ValuesMissing (map ev_name (filter ?bad (om_values m)))"
    using r by (auto simp: checkEnvVars_def ck_missing_loop Let_def split: if_splits)
  have names: "map ev_name (om_values m) = om_keys m"
    using wf by (auto simp: env_wf_def om_values_def om_keys_def om_get_def om_ok_def
        intro!: map_cong)
  have "distinct (map ev_name (om_values m))"
    unfolding names using wf by (intro om.keys_distinct) (simp add: env_wf_def)
  then have d: "distinct (map ev_name (filter ?bad (om_values m)))" by (rule distinct_map_filter)
  have "set (map ev_name (filter ?bad (om_values m))) =
      {n. \<exists>v. om_get m n = Some v \<and> \<not> ev_deferred v \<and> getEnv penv m n = Inl (MissingEnvVarError n)}"
  proof (intro set_eqI iffI)
    fix n assume "n \<in> set (map ev_name (filter ?bad (om_values m)))"
    then obtain v where v: "v \<in> set (om_values m)" "?bad v" "n = ev_name v" by auto
    then obtain k where "om_get m k = Some v" using wf by (auto simp: env_wf_def om_values_get)
    moreover with wf v(3) have "k = n" by (auto simp: env_wf_def)
    ultimately show "n \<in> {n. \<exists>v. om_get m n = Some v \<and> \<not> ev_deferred v \<and>
        getEnv penv m n = Inl (MissingEnvVarError n)}"
      using v missing_iff [of penv v] by (auto simp: getEnv_def)
  next
    fix n assume "n \<in> {n. \<exists>v. om_get m n = Some v \<and> \<not> ev_deferred v \<and>
        getEnv penv m n = Inl (MissingEnvVarError n)}"
    then obtain v where v: "om_get m n = Some v" "\<not> ev_deferred v"
        "getValue penv v = Inl (MissingEnvVarError n)" by (auto simp: getEnv_def)
    then have n: "ev_name v = n" using wf by (simp add: env_wf_def)
    have "v \<in> set (om_values m)" using v(1) wf by (auto simp: env_wf_def om_values_get)
    with v n missing_iff [of penv v] show "n \<in> set (map ev_name (filter ?bad (om_values m)))" by auto
  qed
  with e d show ?thesis by blast
qed

text \<open>C16 (start-up check). For a manager built by registering any list of variables, the start-up
  check passes exactly when every registered variable that is not deferred can be read; when it
  throws, it reports each variable whose read would throw once, and no other.\<close>

theorem checkEnvVars_guards_reads:
  "let m = foldl (\<lambda>m v. register v m) EnvManager vs in
     (checkEnvVars penv m = Inr () \<longleftrightarrow>
        (\<forall>n v. om_get m n = Some v \<and> \<not> ev_deferred v \<longrightarrow> (\<exists>x. getEnv penv m n = Inr x))) \<and>
     (\<forall>e. checkEnvVars penv m = Inl e \<longrightarrow>
        (\<exists>ns. e = ValuesMissing ns \<and> distinct ns \<and> set ns =
          {n. \<exists>v. om_get m n = Some v \<and> \<not> ev_deferred v \<and>
             getEnv penv m n = Inl (MissingEnvVarError n)}))"
  unfolding Let_def
  using env_wf_registers [OF env_wf_empty, of vs]
  by (intro conjI allI impI checkEnvVars_exact checkEnvVars_reports)

lemma checkEnvVars_guards_reads_witness:
  "\<exists>x. getEnv (\<lambda>n. Some ''v'') (foldl (\<lambda>m v. register v m) EnvManager [EnvVar ''A'' None False]) ''A'' = Inr x"
proof -
  let ?m = "foldl (\<lambda>m v. register v m) EnvManager [EnvVar ''A'' None False]"
  have "checkEnvVars (\<lambda>n. Some ''v'') ?m = Inr ()"
    by (simp add: checkEnvVars_def check_loop_def check_step_def register_def EnvManager_def om_empty_def
        om_set_def om_values_def EnvVar_def valuePresent_def)
  moreover have "om_get ?m ''A'' = Some (EnvVar ''A'' None False)"
    by (simp add: register_def EnvManager_def om_empty_def om_set_def om_get_def EnvVar_def)
  moreover have "\<not> ev_deferred (EnvVar ''A'' None False)" by (simp add: EnvVar_def)
  ultimately show ?thesis
    using checkEnvVars_guards_reads [of "[EnvVar ''A'' None False]" "\<lambda>n. Some ''v''"]
    unfolding Let_def by blast
qed

end
