(* ===== verification/JS_Num.thy ===== *)
theory JS_Num
  imports Prelude "HOL-Library.Log_Nat"
begin

text \<open>
  The \<open>number\<close> type of JavaScript: IEEE 754 doubles, executable. A finite number is the rational it
  denotes, and every arithmetic operator rounds the exact result to the nearest double, ties to even
  (\<open>fl\<close>), overflowing to an infinity beyond the largest double. The two zeros are one value: no code
  modelled here divides by a zero it computed with a sign, or asks for the sign of a zero.

  The lemmas are those the numeric code of the services rests on: rounding is monotone, leaves
  integers of at most 53 bits alone, and has relative error at most \<open>2^-53\<close> on normal numbers.
\<close>

section \<open>Rounding\<close>

datatype jsnum = NaN | PInf | NInf | Fin rat

definition pow2 :: "int \<Rightarrow> rat" where
  "pow2 k = (if 0 \<le> k then 2 ^ nat k else 1 / 2 ^ nat (- k))"

text \<open>The exponent of the leading bit of a positive rational.\<close>

definition ilog2 :: "rat \<Rightarrow> int" where
  "ilog2 q = (let (n, d) = quotient_of q; k = bitlen n - bitlen d
              in if pow2 k \<le> q then k else k - 1)"

definition round_even :: "rat \<Rightarrow> int" where
  "round_even q = (let f = \<lfloor>q\<rfloor>; r = q - of_int f
                   in if r < 1 / 2 then f
                      else if 1 / 2 < r then f + 1
                      else if even f then f else f + 1)"

text \<open>The exponent of the last place of a double near \<open>q\<close>: 53 significant bits, none below \<open>2^-1074\<close>.\<close>

definition expo :: "rat \<Rightarrow> int" where
  "expo q = max (- 1074) (ilog2 q - 52)"

definition fl_pos :: "rat \<Rightarrow> rat" where
  "fl_pos q = of_int (round_even (q / pow2 (expo q))) * pow2 (expo q)"

definition fl_rat :: "rat \<Rightarrow> rat" where
  "fl_rat q = (if q = 0 then 0 else if 0 < q then fl_pos q else - fl_pos (- q))"

definition max_double :: rat where
  "max_double = (2 ^ 53 - 1) * 2 ^ 971"

definition fl :: "rat \<Rightarrow> jsnum" where
  "fl q = (let y = fl_rat q in if max_double < y then PInf else if y < - max_double then NInf else Fin y)"

section \<open>The operators\<close>

fun jneg :: "jsnum \<Rightarrow> jsnum" where
  "jneg NaN = NaN" | "jneg PInf = NInf" | "jneg NInf = PInf" | "jneg (Fin a) = Fin (- a)"

fun jadd :: "jsnum \<Rightarrow> jsnum \<Rightarrow> jsnum" where
  "jadd (Fin a) (Fin b) = fl (a + b)"
| "jadd NaN y = NaN"
| "jadd x NaN = NaN"
| "jadd PInf NInf = NaN"
| "jadd NInf PInf = NaN"
| "jadd PInf y = PInf"
| "jadd NInf y = NInf"
| "jadd x PInf = PInf"
| "jadd x NInf = NInf"

definition jsub :: "jsnum \<Rightarrow> jsnum \<Rightarrow> jsnum" where
  "jsub x y = jadd x (jneg y)"

fun jsign :: "jsnum \<Rightarrow> int" where
  "jsign NaN = 0" | "jsign PInf = 1" | "jsign NInf = - 1" | "jsign (Fin a) = \<lfloor>sgn a\<rfloor>"

definition inf_of :: "int \<Rightarrow> jsnum" where
  "inf_of s = (if s > 0 then PInf else if s < 0 then NInf else NaN)"

fun jmul :: "jsnum \<Rightarrow> jsnum \<Rightarrow> jsnum" where
  "jmul (Fin a) (Fin b) = fl (a * b)"
| "jmul NaN y = NaN"
| "jmul x NaN = NaN"
| "jmul x y = inf_of (jsign x * jsign y)"

fun jdiv :: "jsnum \<Rightarrow> jsnum \<Rightarrow> jsnum" where
  "jdiv (Fin a) (Fin b) = (if b = 0 then inf_of (jsign (Fin a)) else fl (a / b))"
| "jdiv NaN y = NaN"
| "jdiv x NaN = NaN"
| "jdiv (Fin a) y = Fin 0"
| "jdiv x (Fin b) = (if b < 0 then jneg x else x)"
| "jdiv x y = NaN"

fun jfloor :: "jsnum \<Rightarrow> jsnum" where
  "jfloor (Fin a) = Fin (of_int \<lfloor>a\<rfloor>)" | "jfloor x = x"

fun jceil :: "jsnum \<Rightarrow> jsnum" where
  "jceil (Fin a) = Fin (of_int \<lceil>a\<rceil>)" | "jceil x = x"

fun jabs :: "jsnum \<Rightarrow> jsnum" where
  "jabs (Fin a) = Fin \<bar>a\<bar>" | "jabs NaN = NaN" | "jabs x = PInf"

fun jlt :: "jsnum \<Rightarrow> jsnum \<Rightarrow> bool" where
  "jlt (Fin a) (Fin b) \<longleftrightarrow> a < b"
| "jlt NaN y \<longleftrightarrow> False"
| "jlt x NaN \<longleftrightarrow> False"
| "jlt NInf y \<longleftrightarrow> y \<noteq> NInf"
| "jlt x PInf \<longleftrightarrow> x \<noteq> PInf"
| "jlt x y \<longleftrightarrow> False"

text \<open>\<open>===\<close> on numbers\<close>

definition jeq :: "jsnum \<Rightarrow> jsnum \<Rightarrow> bool" where
  "jeq x y \<longleftrightarrow> x = y \<and> x \<noteq> NaN"

definition jle :: "jsnum \<Rightarrow> jsnum \<Rightarrow> bool" where
  "jle x y \<longleftrightarrow> jlt x y \<or> jeq x y"

text \<open>\<open>Math.max\<close> and \<open>Math.min\<close> of two numbers\<close>

definition jmax :: "jsnum \<Rightarrow> jsnum \<Rightarrow> jsnum" where
  "jmax x y = (if x = NaN \<or> y = NaN then NaN else if jlt x y then y else x)"

definition jmin :: "jsnum \<Rightarrow> jsnum \<Rightarrow> jsnum" where
  "jmin x y = (if x = NaN \<or> y = NaN then NaN else if jlt y x then y else x)"

definition jint :: "int \<Rightarrow> jsnum" where
  "jint i = Fin (of_int i)"

text \<open>A double: the values a \<open>number\<close> can have.\<close>

definition is_double :: "rat \<Rightarrow> bool" where
  "is_double r \<longleftrightarrow> fl r = Fin r"

lemma jint_simps [simp]: "jlt (jint a) (jint b) \<longleftrightarrow> a < b" "jint a = jint b \<longleftrightarrow> a = b"
  "jint a \<noteq> NaN" "jfloor (jint a) = jint a"
  by (simp_all add: jint_def)

lemma jle_Fin [simp]: "jle (Fin a) (Fin b) \<longleftrightarrow> a \<le> b"
  by (auto simp: jle_def jeq_def)

lemma jle_NaN [simp]: "\<not> jle NaN y" "\<not> jle x NaN"
  by (cases y; simp add: jle_def jeq_def) (cases x; simp add: jle_def jeq_def)

lemma jlt_imp_jle: "jlt x y \<Longrightarrow> jle x y"
  by (simp add: jle_def)

section \<open>Facts about rounding\<close>

lemma pow2_pos [simp]: "0 < pow2 k"
  by (simp add: pow2_def)

lemma pow2_nonzero [simp]: "pow2 k \<noteq> 0" and pow2_nonneg [simp]: "0 \<le> pow2 k"
  using pow2_pos [of k] by linarith+

lemma pow2_powi: "pow2 k = 2 powi k"
  unfolding pow2_def power_int_def by (simp add: inverse_eq_divide power_one_over)

lemma pow2_add: "pow2 (j + k) = pow2 j * pow2 k"
  by (simp add: pow2_powi power_int_add)

lemma pow2_mono: "j \<le> k \<Longrightarrow> pow2 j \<le> pow2 k"
  by (simp add: pow2_powi power_int_increasing)

lemma pow2_nat: "pow2 (int n) = 2 ^ n"
  by (simp add: pow2_def)

lemma pow2_Suc: "pow2 (k + 1) = 2 * pow2 k"
  by (simp add: pow2_add) (simp add: pow2_def)

lemma round_even_of_int [simp]: "round_even (of_int i) = i"
  by (simp add: round_even_def)

lemma round_even_err: "\<bar>of_int (round_even q) - q\<bar> \<le> 1 / 2"
proof -
  have "of_int \<lfloor>q\<rfloor> \<le> q" "q < of_int \<lfloor>q\<rfloor> + 1" by linarith+
  then show ?thesis by (auto simp: round_even_def Let_def)
qed

lemma round_even_mono: "p \<le> q \<Longrightarrow> round_even p \<le> round_even q"
proof -
  assume "p \<le> q"
  then have f: "\<lfloor>p\<rfloor> \<le> \<lfloor>q\<rfloor>" by (rule floor_mono)
  have up: "round_even p \<le> \<lfloor>p\<rfloor> + 1" and lo: "\<lfloor>q\<rfloor> \<le> round_even q"
    by (auto simp: round_even_def Let_def)
  show ?thesis
  proof (cases "\<lfloor>p\<rfloor> = \<lfloor>q\<rfloor>")
    case True
    with \<open>p \<le> q\<close> show ?thesis by (auto simp: round_even_def Let_def)
  next
    case False
    with f up lo show ?thesis by linarith
  qed
qed

lemma bitlen_le: "0 < (n::int) \<Longrightarrow> pow2 (bitlen n - 1) \<le> of_int n"
  and bitlen_gt: "0 < (n::int) \<Longrightarrow> of_int n < pow2 (bitlen n)"
proof -
  assume n: "0 < n"
  then have b: "0 < bitlen n"
    using bitlen_eq_zero_iff [of n] bitlen_nonneg [of n] by linarith
  from n have "2 ^ nat (bitlen n - 1) \<le> n" "n < 2 ^ nat (bitlen n)"
    using bitlen_bounds [of n] by auto
  then have "of_int (2 ^ nat (bitlen n - 1)) \<le> (of_int n :: rat)"
    "(of_int n :: rat) < of_int (2 ^ nat (bitlen n))"
    by (simp_all only: of_int_le_iff of_int_less_iff)
  with b show "pow2 (bitlen n - 1) \<le> of_int n" "of_int n < pow2 (bitlen n)"
    by (simp_all add: pow2_def)
qed

lemma ilog2_bounds:
  assumes "0 < q"
  shows "pow2 (ilog2 q) \<le> q \<and> q < pow2 (ilog2 q + 1)"
proof -
  obtain n d where nd: "quotient_of q = (n, d)" by (cases "quotient_of q")
  then have d: "0 < d" and q: "q = of_int n / of_int d"
    using quotient_of_denom_pos quotient_of_div by blast+
  with assms have n: "0 < n" by (simp add: zero_less_divide_iff)
  let ?k = "bitlen n - bitlen d"
  have "pow2 (bitlen n - 1) / pow2 (bitlen d) \<le> of_int n / of_int d"
    by (rule frac_le) (use n d bitlen_le [of n] bitlen_gt [of d] in auto)
  moreover have "pow2 (bitlen n - 1) = pow2 (?k - 1) * pow2 (bitlen d)"
    by (simp add: pow2_add [symmetric])
  ultimately have lo: "pow2 (?k - 1) \<le> q" by (simp add: q)
  have "of_int n / of_int d < pow2 (bitlen n) / pow2 (bitlen d - 1)"
    by (rule frac_less) (use n d bitlen_gt [of n] bitlen_le [of d] in auto)
  moreover have "pow2 (bitlen n) = pow2 (?k + 1) * pow2 (bitlen d - 1)"
    by (simp add: pow2_add [symmetric])
  ultimately have hi: "q < pow2 (?k + 1)" by (simp add: q)
  from lo hi show ?thesis by (simp add: ilog2_def nd Let_def)
qed

lemma ilog2_mono:
  assumes "0 < p" "p \<le> q"
  shows "ilog2 p \<le> ilog2 q"
proof (rule ccontr)
  assume "\<not> ?thesis"
  then have "pow2 (ilog2 q + 1) \<le> pow2 (ilog2 p)" by (intro pow2_mono) simp
  with ilog2_bounds [of p] ilog2_bounds [of q] assms show False by linarith
qed

lemma expo_mono: "0 < p \<Longrightarrow> p \<le> q \<Longrightarrow> expo p \<le> expo q"
  using ilog2_mono [of p q] by (simp add: expo_def)

text \<open>The scaled significand of a positive number is below \<open>2^53\<close>, and at least \<open>2^52\<close> if normal.\<close>

lemma significand_lt: "0 < q \<Longrightarrow> q / pow2 (expo q) < 2 ^ 53"
proof -
  assume q: "0 < q"
  have "q < pow2 (ilog2 q + 1)" using ilog2_bounds [OF q] by simp
  also have "\<dots> \<le> pow2 (53 + expo q)" by (rule pow2_mono) (simp add: expo_def)
  also have "\<dots> = 2 ^ 53 * pow2 (expo q)" using pow2_nat [of 53] by (simp add: pow2_add)
  finally show ?thesis by (simp add: divide_less_eq)
qed

lemma significand_ge: "0 < q \<Longrightarrow> - 1074 < expo q \<Longrightarrow> 2 ^ 52 * pow2 (expo q) \<le> q"
proof -
  assume q: "0 < q" and e: "- 1074 < expo q"
  have "2 ^ 52 * pow2 (expo q) = pow2 (52 + expo q)"
    using pow2_nat [of 52] by (simp add: pow2_add)
  also have "52 + expo q = ilog2 q" using e by (simp add: expo_def)
  finally show ?thesis using ilog2_bounds [OF q] by simp
qed

lemma fl_pos_nonneg: "0 < q \<Longrightarrow> 0 \<le> fl_pos q"
proof -
  assume "0 < q"
  then have "round_even 0 \<le> round_even (q / pow2 (expo q))"
    by (intro round_even_mono) (simp add: zero_le_divide_iff)
  then have "0 \<le> round_even (q / pow2 (expo q))"
    using round_even_of_int [of 0] by simp
  then show ?thesis by (simp add: fl_pos_def zero_le_mult_iff)
qed

lemma fl_pos_mono:
  assumes "0 < p" "p \<le> q"
  shows "fl_pos p \<le> fl_pos q"
proof (cases "expo p = expo q")
  case True
  have "p / pow2 (expo q) \<le> q / pow2 (expo q)"
    by (rule divide_right_mono) (use assms in simp_all)
  then have "round_even (p / pow2 (expo q)) \<le> round_even (q / pow2 (expo q))"
    by (rule round_even_mono)
  with True show ?thesis by (simp add: fl_pos_def)
next
  case False
  with expo_mono [OF assms] have e: "expo p + 1 \<le> expo q" by simp
  have q: "0 < q" using assms by simp
  have "round_even (p / pow2 (expo p)) \<le> round_even (of_int (2 ^ 53))"
    using significand_lt [OF assms(1)] by (intro round_even_mono) simp
  then have "round_even (p / pow2 (expo p)) \<le> 2 ^ 53"
    by (simp only: round_even_of_int)
  then have "(of_int (round_even (p / pow2 (expo p))) :: rat) \<le> of_int (2 ^ 53)"
    by (simp only: of_int_le_iff)
  then have "fl_pos p \<le> 2 ^ 53 * pow2 (expo p)"
    unfolding fl_pos_def by (intro mult_right_mono) simp_all
  also have "\<dots> = 2 ^ 52 * pow2 (expo p + 1)" by (simp add: pow2_Suc)
  also have "\<dots> \<le> 2 ^ 52 * pow2 (expo q)" using pow2_mono [OF e] by simp
  also have "\<dots> \<le> fl_pos q"
  proof -
    have "- 1074 < expo q" using e by (simp add: expo_def)
    from significand_ge [OF q this] have "of_int (2 ^ 52) \<le> q / pow2 (expo q)"
      by (simp add: le_divide_eq)
    then have "round_even (of_int (2 ^ 52)) \<le> round_even (q / pow2 (expo q))"
      by (rule round_even_mono)
    then have "2 ^ 52 \<le> round_even (q / pow2 (expo q))"
      by (simp only: round_even_of_int)
    then have "of_int (2 ^ 52) \<le> (of_int (round_even (q / pow2 (expo q))) :: rat)"
      by (simp only: of_int_le_iff)
    then show ?thesis unfolding fl_pos_def by (intro mult_right_mono) simp_all
  qed
  finally show ?thesis .
qed

lemma fl_rat_mono: "p \<le> q \<Longrightarrow> fl_rat p \<le> fl_rat q"
proof -
  assume pq: "p \<le> q"
  consider "0 < p" | "p = 0" | "p < 0" "0 < q" | "p < 0" "q = 0" | "p < 0" "q < 0" by linarith
  then show ?thesis
  proof cases
    case 1
    with pq fl_pos_mono [of p q] show ?thesis by (simp add: fl_rat_def)
  next
    case 2
    with pq fl_pos_nonneg [of q] show ?thesis by (auto simp: fl_rat_def)
  next
    case 3
    with fl_pos_nonneg [of q] fl_pos_nonneg [of "- p"] show ?thesis by (simp add: fl_rat_def)
  next
    case 4
    with fl_pos_nonneg [of "- p"] show ?thesis by (simp add: fl_rat_def)
  next
    case 5
    with pq fl_pos_mono [of "- q" "- p"] show ?thesis by (simp add: fl_rat_def)
  qed
qed

lemma fl_rat_neg: "fl_rat (- q) = - fl_rat q"
  by (simp add: fl_rat_def)

lemma fl_pos_err: "0 < q \<Longrightarrow> \<bar>fl_pos q - q\<bar> \<le> pow2 (expo q) / 2"
proof -
  let ?e = "pow2 (expo q)"
  have "\<bar>(of_int (round_even (q / ?e)) - q / ?e) * ?e\<bar> \<le> 1 / 2 * ?e"
    unfolding abs_mult using round_even_err [of "q / ?e"] by (intro mult_mono) auto
  moreover have "(of_int (round_even (q / ?e)) - q / ?e) * ?e = fl_pos q - q"
    by (simp add: fl_pos_def left_diff_distrib)
  ultimately show ?thesis by simp
qed

text \<open>Relative error of rounding a normal number.\<close>

lemma fl_pos_rel_err: "pow2 (- 1022) \<le> q \<Longrightarrow> \<bar>fl_pos q - q\<bar> \<le> q / 2 ^ 53"
proof -
  assume q: "pow2 (- 1022) \<le> q"
  then have pos: "0 < q" using pow2_pos [of "- 1022"] by linarith
  have "- 1022 \<le> ilog2 q"
  proof (rule ccontr)
    assume "\<not> ?thesis"
    then have "pow2 (ilog2 q + 1) \<le> pow2 (- 1022)" by (intro pow2_mono) simp
    with q ilog2_bounds [OF pos] show False by linarith
  qed
  then have "52 + expo q = ilog2 q" by (simp add: expo_def)
  moreover have "2 ^ 52 * pow2 (expo q) = pow2 (52 + expo q)"
    using pow2_nat [of 52] by (simp add: pow2_add)
  ultimately have "2 ^ 52 * pow2 (expo q) \<le> q" using ilog2_bounds [OF pos] by simp
  then have "pow2 (expo q) / 2 \<le> q / 2 ^ 53" by simp
  with fl_pos_err [OF pos] show ?thesis by linarith
qed

text \<open>Integers of at most 53 bits, scaled by a power of two in range, are doubles.\<close>

lemma fl_pos_exact:
  assumes "0 < m" "m \<le> 2 ^ 53" "- 1074 \<le> k"
  shows "fl_pos (of_int m * pow2 k) = of_int m * pow2 k"
proof (cases "m = 2 ^ 53")
  case True
  have eq: "of_int m * pow2 k = pow2 (53 + k)"
    using True pow2_nat [of 53] by (simp add: pow2_add)
  have il: "ilog2 (pow2 (53 + k)) = 53 + k"
  proof -
    let ?l = "ilog2 (pow2 (53 + k))"
    have b: "pow2 ?l \<le> pow2 (53 + k)" "pow2 (53 + k) < pow2 (?l + 1)"
      using ilog2_bounds [of "pow2 (53 + k)"] by auto
    have "?l \<le> 53 + k"
    proof (rule ccontr)
      assume "\<not> ?thesis"
      then have "pow2 (53 + k + 1) \<le> pow2 ?l" by (intro pow2_mono) simp
      with b(1) pow2_Suc [of "53 + k"] pow2_pos [of "53 + k"] show False by linarith
    qed
    moreover have "\<not> ?l + 1 \<le> 53 + k" using pow2_mono [of "?l + 1" "53 + k"] b(2) by fastforce
    ultimately show ?thesis by simp
  qed
  have ex: "expo (pow2 (53 + k)) = k + 1" using il assms(3) by (simp add: expo_def)
  have "pow2 (53 + k) / pow2 (k + 1) = of_int (2 ^ 52)"
    using pow2_nat [of 52] pow2_add [of 52 "k + 1"] by simp
  then have "fl_pos (pow2 (53 + k)) = of_int (round_even (of_int (2 ^ 52))) * pow2 (k + 1)"
    by (simp only: fl_pos_def ex)
  also have "\<dots> = of_int (2 ^ 52) * pow2 (k + 1)" by (simp only: round_even_of_int)
  also have "\<dots> = pow2 (53 + k)"
    using pow2_add [of 52 "k + 1"] pow2_nat [of 52] by simp
  finally show ?thesis by (simp only: eq)
next
  case False
  let ?q = "of_int m * pow2 k"
  have q: "0 < ?q" using assms by simp
  have "ilog2 ?q - 52 \<le> k"
  proof (rule ccontr)
    assume "\<not> ?thesis"
    then have "pow2 (53 + k) \<le> pow2 (ilog2 ?q)" by (intro pow2_mono) simp
    also have "\<dots> \<le> ?q" using ilog2_bounds [OF q] by simp
    finally have "2 ^ 53 * pow2 k \<le> of_int m * pow2 k"
      using pow2_nat [of 53] by (simp add: pow2_add)
    then have "(of_int (2 ^ 53) :: rat) \<le> of_int m" by simp
    then have "2 ^ 53 \<le> m" by (simp only: of_int_le_iff)
    with False assms(2) show False by simp
  qed
  then have e: "expo ?q \<le> k" using assms(3) by (simp add: expo_def)
  have split: "pow2 k = pow2 (k - j) * pow2 j" for j
    using pow2_add [of "k - j" j] by simp
  have "?q / pow2 (expo ?q) = of_int m * pow2 (k - expo ?q)"
    using split [of "expo ?q"] by (simp add: divide_eq_eq)
  also have "\<dots> = of_int (m * 2 ^ nat (k - expo ?q))" using e by (simp add: pow2_def)
  finally have s: "?q / pow2 (expo ?q) = of_int (m * 2 ^ nat (k - expo ?q))" .
  have "of_int (round_even (?q / pow2 (expo ?q))) = ?q / pow2 (expo ?q)"
    unfolding s by (simp only: round_even_of_int)
  then show ?thesis by (simp add: fl_pos_def)
qed

lemma fl_rat_exact:
  assumes "\<bar>m\<bar> \<le> 2 ^ 53" "- 1074 \<le> k"
  shows "fl_rat (of_int m * pow2 k) = of_int m * pow2 k"
proof -
  consider "m = 0" | "0 < m" | "m < 0" by linarith
  then show ?thesis
  proof cases
    case 1
    then show ?thesis by (simp add: fl_rat_def)
  next
    case 2
    with assms fl_pos_exact [of m k] show ?thesis by (simp add: fl_rat_def)
  next
    case 3
    with assms fl_pos_exact [of "- m" k] have "fl_pos (of_int (- m) * pow2 k) = of_int (- m) * pow2 k"
      by simp
    moreover have "(of_int m :: rat) * pow2 k < 0" using 3 by (simp add: mult_less_0_iff)
    ultimately show ?thesis by (simp add: fl_rat_def)
  qed
qed

lemma fl_rat_of_int: "\<bar>m\<bar> \<le> 2 ^ 53 \<Longrightarrow> fl_rat (of_int m) = of_int m"
  using fl_rat_exact [of m 0] by (simp add: pow2_def)

lemma big_power_le_max: "(2::rat) ^ 53 \<le> max_double"
proof -
  have "(2::rat) ^ 53 * 1 \<le> (2 ^ 53 - 1) * 2 ^ 971"
    by (rule order_trans [of _ "(2 ^ 53 - 1) * 2 ^ 1"]) (simp, rule mult_left_mono, simp_all)
  then show ?thesis by (simp add: max_double_def)
qed

text \<open>A rational whose rounding stays within 53-bit integers does not overflow.\<close>

lemma fl_small: "\<bar>fl_rat q\<bar> \<le> 2 ^ 53 \<Longrightarrow> fl q = Fin (fl_rat q)"
  using big_power_le_max by (auto simp: fl_def Let_def)

lemma fl_of_int: "\<bar>m\<bar> \<le> 2 ^ 53 \<Longrightarrow> fl (of_int m) = jint m"
proof -
  assume m: "\<bar>m\<bar> \<le> 2 ^ 53"
  then have "\<bar>(of_int m :: rat)\<bar> \<le> of_int (2 ^ 53)"
    by (simp only: of_int_abs [symmetric] of_int_le_iff)
  with m fl_small [of "of_int m"] show ?thesis by (simp add: fl_rat_of_int jint_def)
qed

lemma fl_mono: "p \<le> q \<Longrightarrow> jle (fl p) (fl q)"
  using fl_rat_mono [of p q] by (auto simp: fl_def Let_def jle_def jeq_def)

lemma is_double_fix: "is_double r \<Longrightarrow> fl_rat r = r"
  by (auto simp: is_double_def fl_def Let_def split: if_splits)

text \<open>Doubles below one stay at least \<open>2^-53\<close> away from it.\<close>

lemma double_lt_one:
  assumes "is_double r" "r < 1"
  shows "r \<le> 1 - 1 / 2 ^ 53"
proof (cases "r < 1 / 2")
  case True
  then show ?thesis by simp
next
  case False
  then have pos: "0 < r" by simp
  have p1: "pow2 (- 1) = 1 / 2" and p0: "pow2 0 = 1" by (simp_all add: pow2_def)
  have "ilog2 r = - 1"
  proof (rule antisym)
    show "ilog2 r \<le> - 1"
    proof (rule ccontr)
      assume "\<not> ?thesis"
      then have "pow2 0 \<le> pow2 (ilog2 r)" by (intro pow2_mono) simp
      with ilog2_bounds [OF pos] assms(2) p0 show False by linarith
    qed
    show "- 1 \<le> ilog2 r"
    proof (rule ccontr)
      assume "\<not> ?thesis"
      then have "pow2 (ilog2 r + 1) \<le> pow2 (- 1)" by (intro pow2_mono) simp
      with ilog2_bounds [OF pos] False p1 show False by linarith
    qed
  qed
  then have e: "expo r = - 53" by (simp add: expo_def)
  have p53: "pow2 (- 53) = 1 / 2 ^ 53" by (simp add: pow2_def)
  define n where "n = round_even (r / pow2 (expo r))"
  have "r = of_int n * (1 / 2 ^ 53)"
    using is_double_fix [OF assms(1)] pos by (simp add: fl_rat_def fl_pos_def n_def e p53)
  then have rn: "r = of_int n / 2 ^ 53" by simp
  with assms(2) have "of_int n < (of_int (2 ^ 53) :: rat)" by simp
  then have "n < 2 ^ 53" by (simp only: of_int_less_iff)
  then have "n \<le> 2 ^ 53 - 1" by simp
  then have "(of_int n :: rat) \<le> of_int (2 ^ 53 - 1)" by (simp only: of_int_le_iff)
  with rn show ?thesis by simp
qed

text \<open>
  \<open>Math.floor(Math.random() * m)\<close> is an index below \<open>m\<close>: rounding the product never reaches \<open>m\<close>.
\<close>

lemma fl_scale_below:
  assumes "is_double r" "0 \<le> r" "r < 1" and m: "0 < m" "m \<le> 2 ^ 53"
  shows "\<exists>y. fl (r * of_int m) = Fin y \<and> 0 \<le> y \<and> y < of_int m"
proof (cases "r = 0")
  case True
  with m show ?thesis using fl_of_int [of 0] by (simp add: jint_def)
next
  case False
  let ?m = "of_int m :: rat"
  have rm: "(1::rat) \<le> ?m" using m by simp
  have mle: "?m \<le> 2 ^ 53"
  proof -
    have "?m \<le> of_int (2 ^ 53)" using m(2) by (simp only: of_int_le_iff)
    then show ?thesis by simp
  qed
  have pos: "0 < r * ?m" using False assms(2) m by simp
  have le: "r * ?m \<le> (1 - 1 / 2 ^ 53) * ?m"
    by (rule mult_right_mono) (use double_lt_one [OF assms(1,3)] m in simp_all)
  have lt: "fl_pos (r * ?m) < ?m"
  proof (cases "pow2 (- 1022) \<le> r * ?m")
    case True
    from fl_pos_rel_err [OF this] have "fl_pos (r * ?m) \<le> r * ?m + r * ?m / 2 ^ 53"
      by linarith
    also have "\<dots> = (r * ?m) * (1 + 1 / 2 ^ 53)" by (simp add: ring_distribs)
    also have "\<dots> \<le> ((1 - 1 / 2 ^ 53) * ?m) * (1 + 1 / 2 ^ 53)"
      using le by (rule mult_right_mono) simp
    also have "\<dots> < ?m" using rm by simp
    finally show ?thesis .
  next
    case False
    then have "fl_pos (r * ?m) \<le> fl_pos (of_int 1 * pow2 (- 1022))"
      using pos by (intro fl_pos_mono) simp_all
    also have "\<dots> = pow2 (- 1022)" using fl_pos_exact [of 1 "- 1022"] by simp
    also have "\<dots> < pow2 (- 1021)"
      using pow2_Suc [of "- 1022"] by simp
    also have "\<dots> \<le> pow2 0" by (rule pow2_mono) simp
    also have "\<dots> \<le> ?m" using rm by (simp add: pow2_def)
    finally show ?thesis .
  qed
  have fr: "fl_rat (r * ?m) = fl_pos (r * ?m)"
    using pos unfolding fl_rat_def by (simp only: less_irrefl if_True split: if_split) auto
  have ge: "0 \<le> fl_pos (r * ?m)" using fl_pos_nonneg [OF pos] .
  from lt ge mle have "\<bar>fl_rat (r * ?m)\<bar> \<le> 2 ^ 53" unfolding fr by linarith
  then have "fl (r * ?m) = Fin (fl_pos (r * ?m))" using fl_small fr by simp
  with lt ge show ?thesis by simp
qed

lemma jfloor_scale:
  assumes "is_double r" "0 \<le> r" "r < 1" "0 < m" "m \<le> 2 ^ 53"
  shows "\<exists>j. jfloor (jmul (Fin r) (jint m)) = jint j \<and> 0 \<le> j \<and> j < m"
proof -
  obtain y where y: "fl (r * of_int m) = Fin y" "0 \<le> y" "y < of_int m"
    using fl_scale_below [OF assms] by blast
  have "0 \<le> \<lfloor>y\<rfloor>" "\<lfloor>y\<rfloor> < m" using y(2,3) by (simp_all add: floor_less_iff)
  with y(1) show ?thesis by (intro exI [of _ "\<lfloor>y\<rfloor>"]) (simp add: jint_def)
qed

text \<open>In the range of everyday quantities rounding does not overflow and is near.\<close>

lemma fl_near:
  assumes "1 / 2 ^ 100 \<le> q" "q \<le> 2 ^ 52"
  shows "\<exists>p. fl q = Fin p \<and> q * (1 - 1 / 2 ^ 53) \<le> p \<and> p \<le> q * (1 + 1 / 2 ^ 53) \<and> 0 < p"
proof -
  have "pow2 (- 1022) \<le> pow2 (- 100)" by (rule pow2_mono) simp
  also have "pow2 (- 100) = 1 / 2 ^ 100" by (simp add: pow2_def)
  finally have "pow2 (- 1022) \<le> q" using assms(1) by linarith
  then have err: "\<bar>fl_pos q - q\<bar> \<le> q / 2 ^ 53" by (rule fl_pos_rel_err)
  have pos: "0 < q" by (rule less_le_trans [OF _ assms(1)]) simp
  have bounds: "q * (1 - 1 / 2 ^ 53) \<le> fl_pos q" "fl_pos q \<le> q * (1 + 1 / 2 ^ 53)"
  proof -
    have "fl_pos q - q \<le> q / 2 ^ 53" "q - fl_pos q \<le> q / 2 ^ 53" using err by linarith+
    then show "q * (1 - 1 / 2 ^ 53) \<le> fl_pos q" "fl_pos q \<le> q * (1 + 1 / 2 ^ 53)"
      by (simp_all add: right_diff_distrib distrib_left)
  qed
  have "0 < q * (1 - 1 / 2 ^ 53)" using pos by simp
  then have lo: "0 < fl_pos q" using bounds(1) by linarith
  have "q * (1 + 1 / 2 ^ 53) \<le> 2 ^ 52 * (1 + 1 / 2 ^ 53)" using assms(2) by (intro mult_right_mono) auto
  also have "\<dots> \<le> 2 ^ 53" by simp
  finally have "\<bar>fl_rat q\<bar> \<le> 2 ^ 53" using bounds(2) pos lo by (simp add: fl_rat_def)
  then have "fl q = Fin (fl_pos q)" using fl_small [of q] pos by (simp add: fl_rat_def)
  with bounds lo show ?thesis by blast
qed

text \<open>Dividing a budget by a price not above it.\<close>

lemma budget_quotient:
  assumes "0 < p" "1 / 1000000 \<le> p" "p \<le> m" "m \<le> 10 ^ 9"
  shows "\<exists>q. jdiv (Fin m) (Fin p) = Fin q \<and> 1 \<le> q \<and> q * p \<le> m * (1 + 1 / 2 ^ 53)"
proof -
  have ge1: "1 \<le> m / p" using assms by (simp add: le_divide_eq)
  have "m / p \<le> 10 ^ 9 / (1 / 1000000)" using assms by (intro frac_le) auto
  also have "\<dots> \<le> 2 ^ 52" by simp
  finally have hi: "m / p \<le> 2 ^ 52" .
  have "1 / 2 ^ 100 \<le> (1::rat)" by simp
  then have lo: "1 / 2 ^ 100 \<le> m / p" using ge1 by linarith
  obtain q where q: "fl (m / p) = Fin q" "q \<le> m / p * (1 + 1 / 2 ^ 53)" using fl_near [OF lo hi] by blast
  have "jle (fl 1) (fl (m / p))" using ge1 by (rule fl_mono)
  then have "1 \<le> q" using q(1) fl_of_int [of 1] by (simp add: jint_def)
  moreover have "q * p \<le> m / p * (1 + 1 / 2 ^ 53) * p" using q(2) assms(1) by (intro mult_right_mono) auto
  moreover have "m / p * (1 + 1 / 2 ^ 53) * p = m * (1 + 1 / 2 ^ 53)" using assms(1) by simp
  ultimately show ?thesis using q(1) assms(1) by auto
qed

text \<open>The product of a price and a literal factor, both rounded.\<close>

lemma fl_lit_near:
  assumes "1 / 1000 \<le> q" "q \<le> 1000"
  shows "\<exists>t. fl q = Fin t \<and> q * (1 - 1 / 2 ^ 53) \<le> t \<and> t \<le> q * (1 + 1 / 2 ^ 53)"
proof -
  have "1 / 2 ^ 100 \<le> q" using assms(1) by (rule order_trans [rotated]) simp
  moreover have "q \<le> 2 ^ 52" using assms(2) by (rule order_trans) simp
  ultimately show ?thesis using fl_near [of q] by blast
qed

lemma fl_scaled_near:
  assumes a: "1 / 1000 \<le> a" "a \<le> 10 ^ 9" and q: "1 / 1000 \<le> q" "q \<le> 1000"
  shows "\<exists>p. jmul (Fin a) (fl q) = Fin p \<and> 0 < p \<and>
           a * q * (1 - 1 / 2 ^ 53) * (1 - 1 / 2 ^ 53) \<le> p \<and> p \<le> a * q * (1 + 1 / 2 ^ 53) * (1 + 1 / 2 ^ 53)"
proof -
  obtain t where t: "fl q = Fin t" "q * (1 - 1 / 2 ^ 53) \<le> t" "t \<le> q * (1 + 1 / 2 ^ 53)"
    using fl_lit_near [OF q] by blast
  have a0: "0 \<le> a" "0 < a" using a(1) by (auto intro: order_trans less_le_trans [rotated])
  have lo: "a * q * (1 - 1 / 2 ^ 53) \<le> a * t" and hi: "a * t \<le> a * q * (1 + 1 / 2 ^ 53)"
    unfolding mult.assoc using t a0 by (auto intro: mult_left_mono)
  have aq: "1 / 1000 * (1 / 1000) \<le> a * q" using a q a0 by (intro mult_mono) auto
  have qa: "a * q \<le> 10 ^ 9 * 1000" using a q a0 by (intro mult_mono) auto
  have "1 / 2 ^ 100 \<le> (1 / 1000 * (1 / 1000)) * (1 - 1 / 2 ^ 53 :: rat)" by simp
  also have "\<dots> \<le> a * q * (1 - 1 / 2 ^ 53)" using aq by (intro mult_right_mono) auto
  also note lo
  finally have l: "1 / 2 ^ 100 \<le> a * t" .
  have "a * q * (1 + 1 / 2 ^ 53) \<le> 10 ^ 9 * 1000 * (1 + 1 / 2 ^ 53)"
    using qa by (intro mult_right_mono) auto
  also have "\<dots> \<le> 2 ^ 52" by simp
  finally have h: "a * t \<le> 2 ^ 52" using hi by (rule order_trans [rotated])
  obtain p where p: "fl (a * t) = Fin p" "a * t * (1 - 1 / 2 ^ 53) \<le> p"
      "p \<le> a * t * (1 + 1 / 2 ^ 53)" "0 < p"
    using fl_near [OF l h] by blast
  have "a * q * (1 - 1 / 2 ^ 53) * (1 - 1 / 2 ^ 53) \<le> a * t * (1 - 1 / 2 ^ 53)"
    using lo by (intro mult_right_mono) auto
  moreover have "a * t * (1 + 1 / 2 ^ 53) \<le> a * q * (1 + 1 / 2 ^ 53) * (1 + 1 / 2 ^ 53)"
    using hi by (intro mult_right_mono) auto
  ultimately show ?thesis using p t(1) by (intro exI [of _ p]) auto
qed

end
