(* ===== verification/JS_Value.thy ===== *)
theory JS_Value
  imports JS_Num
begin

text \<open>
  JavaScript values as the services meet them at run time: decoded JSON, property access on a value
  of unknown shape (a \<open>TypeError\<close> on \<open>undefined\<close> and \<open>null\<close>), the conversions \<open>Number(s)\<close>,
  \<open>parseFloat\<close>, \<open>parseInt\<close>, \<open>toString\<close>, and the errors a call may throw. All of it is the language
  and its standard library; the HTTP client (axios) itself stays a parameter of the models.
\<close>

section \<open>Numbers and their decimal strings\<close>

definition digit_char :: "nat \<Rightarrow> char" where
  "digit_char d = char_of (48 + d)"

definition is_digit :: "char \<Rightarrow> bool" where
  "is_digit c \<longleftrightarrow> (let n = (of_char c :: nat) in 48 \<le> n \<and> n \<le> 57)"

definition digit_val :: "char \<Rightarrow> nat" where
  "digit_val c = of_char c - 48"

fun dec :: "nat \<Rightarrow> string" where
  "dec n = (if n < 10 then [digit_char n] else dec (n div 10) @ [digit_char (n mod 10)])"

declare dec.simps [simp del]

definition digits_val :: "string \<Rightarrow> nat" where
  "digits_val ds = foldl (\<lambda>a c. 10 * a + digit_val c) 0 ds"

definition pow10 :: "int \<Rightarrow> rat" where
  "pow10 k = (if 0 \<le> k then 10 ^ nat k else 1 / 10 ^ nat (- k))"

definition ilog10 :: "rat \<Rightarrow> int" where
  "ilog10 q = (let (n, d) = quotient_of q; k = int (length (dec (nat n))) - int (length (dec (nat d)))
               in if pow10 k \<le> q then k else k - 1)"

text \<open>The shortest decimal that rounds to \<open>r\<close>: digits and the position of the point.\<close>

fun shortest :: "nat \<Rightarrow> rat \<Rightarrow> int \<Rightarrow> int \<Rightarrow> nat \<times> int" where
  "shortest 0 r n k = (nat (round_even (r / pow10 (n - k))), n)"
| "shortest (Suc fuel) r n k =
     (let s = round_even (r / pow10 (n - k))
      in if fl (of_int s * pow10 (n - k)) = Fin r
         then (if s = 10 ^ nat k then (10 ^ nat (k - 1), n + 1) else (nat s, n))
         else shortest fuel r n (k + 1))"

definition format_decimal :: "string \<Rightarrow> int \<Rightarrow> string" where
  "format_decimal ds n =
     (let k = int (length ds) in
      if k \<le> n \<and> n \<le> 21 then ds @ replicate (nat (n - k)) CHR ''0''
      else if 0 < n \<and> n \<le> 21 then take (nat n) ds @ ''.'' @ drop (nat n) ds
      else if - 6 < n \<and> n \<le> 0 then ''0.'' @ replicate (nat (- n)) CHR ''0'' @ ds
      else (take 1 ds @ (if k = 1 then [] else ''.'' @ drop 1 ds)
            @ ''e'' @ (if 0 < n then ''+'' else ''-'') @ dec (nat \<bar>n - 1\<bar>)))"

definition pos_to_string :: "rat \<Rightarrow> string" where
  "pos_to_string r =
     (if of_int \<lfloor>r\<rfloor> = r \<and> r \<le> 2 ^ 53 then dec (nat \<lfloor>r\<rfloor>)
      else case shortest 16 r (ilog10 r + 1) 1 of (s, n) \<Rightarrow> format_decimal (dec s) n)"

fun num_to_string :: "jsnum \<Rightarrow> string" where
  "num_to_string NaN = ''NaN''"
| "num_to_string PInf = ''Infinity''"
| "num_to_string NInf = ''-Infinity''"
| "num_to_string (Fin r) =
     (if r = 0 then ''0'' else if r < 0 then ''-'' @ pos_to_string (- r) else pos_to_string r)"

section \<open>Strings to numbers\<close>

definition is_space :: "char \<Rightarrow> bool" where
  "is_space c \<longleftrightarrow> (of_char c :: nat) \<in> {9, 10, 11, 12, 13, 32, 160}"

definition trim_start :: "string \<Rightarrow> string" where
  "trim_start s = dropWhile is_space s"

definition trim :: "string \<Rightarrow> string" where
  "trim s = rev (dropWhile is_space (rev (trim_start s)))"

text \<open>An optional exponent part; without digits after the \<open>e\<close> it is not consumed.\<close>

definition scan_exp :: "string \<Rightarrow> int \<times> string" where
  "scan_exp s =
     (case s of
        [] \<Rightarrow> (0, s)
      | c # t \<Rightarrow>
          if c \<noteq> CHR ''e'' \<and> c \<noteq> CHR ''E'' then (0, s)
          else let neg = (t \<noteq> [] \<and> hd t = CHR ''-'');
                   u = (if t \<noteq> [] \<and> (hd t = CHR ''-'' \<or> hd t = CHR ''+'') then tl t else t);
                   ds = takeWhile is_digit u
               in if ds = [] then (0, s)
                  else ((if neg then - 1 else 1) * int (digits_val ds), dropWhile is_digit u))"

text \<open>The longest unsigned decimal literal at the start of a string, and the rest.\<close>

definition scan_decimal :: "string \<Rightarrow> (rat \<times> string) option" where
  "scan_decimal s =
     (let ip = takeWhile is_digit s; r = dropWhile is_digit s;
          dot = (r \<noteq> [] \<and> hd r = CHR ''.'');
          fp = (if dot then takeWhile is_digit (tl r) else []);
          r' = (if dot then dropWhile is_digit (tl r) else r)
      in if ip = [] \<and> fp = [] then None
         else case scan_exp r' of (e, rest) \<Rightarrow>
           Some (of_nat (digits_val (ip @ fp)) * pow10 (e - int (length fp)), rest))"

definition split_sign :: "string \<Rightarrow> bool \<times> string" where
  "split_sign s =
     (case s of
        [] \<Rightarrow> (False, s)
      | c # t \<Rightarrow> if c = CHR ''-'' then (True, t) else if c = CHR ''+'' then (False, t) else (False, s))"

definition signed :: "bool \<Rightarrow> jsnum \<Rightarrow> jsnum" where
  "signed neg x = (if neg then jneg x else x)"

definition radix_digit :: "char \<Rightarrow> nat option" where
  "radix_digit c =
     (let n = (of_char c :: nat) in
      if 48 \<le> n \<and> n \<le> 57 then Some (n - 48)
      else if 97 \<le> n \<and> n \<le> 122 then Some (n - 87)
      else if 65 \<le> n \<and> n \<le> 90 then Some (n - 55) else None)"

definition is_radix :: "nat \<Rightarrow> char \<Rightarrow> bool" where
  "is_radix b c \<longleftrightarrow> (case radix_digit c of None \<Rightarrow> False | Some d \<Rightarrow> d < b)"

definition radix_val :: "nat \<Rightarrow> string \<Rightarrow> nat" where
  "radix_val b ds = foldl (\<lambda>a c. b * a + (case radix_digit c of None \<Rightarrow> 0 | Some d \<Rightarrow> d)) 0 ds"

text \<open>The prefixes \<open>0x\<close>, \<open>0o\<close> and \<open>0b\<close> of a literal without sign.\<close>

definition radix_prefix :: "string \<Rightarrow> (nat \<times> string) option" where
  "radix_prefix s =
     (case s of
        z # x # t \<Rightarrow>
          if z \<noteq> CHR ''0'' then None
          else if x = CHR ''x'' \<or> x = CHR ''X'' then Some (16, t)
          else if x = CHR ''o'' \<or> x = CHR ''O'' then Some (8, t)
          else if x = CHR ''b'' \<or> x = CHR ''B'' then Some (2, t) else None
      | _ \<Rightarrow> None)"

text \<open>\<open>Number(s)\<close>: the whole string, trimmed, must be a literal; the empty string is 0.\<close>

definition Number_of_string :: "string \<Rightarrow> jsnum" where
  "Number_of_string s0 =
     (let s = trim s0 in
      if s = [] then Fin 0
      else case radix_prefix s of
        Some (b, t) \<Rightarrow> (if t \<noteq> [] \<and> list_all (is_radix b) t then fl (of_nat (radix_val b t)) else NaN)
      | None \<Rightarrow>
          (case split_sign s of (neg, t) \<Rightarrow>
             if t = ''Infinity'' then signed neg PInf
             else case scan_decimal t of
               Some (v, []) \<Rightarrow> signed neg (fl v)
             | _ \<Rightarrow> NaN))"

definition parseFloat :: "string \<Rightarrow> jsnum" where
  "parseFloat s =
     (case split_sign (trim_start s) of (neg, t) \<Rightarrow>
        if starts_with t ''Infinity'' then signed neg PInf
        else case scan_decimal t of None \<Rightarrow> NaN | Some (v, _) \<Rightarrow> signed neg (fl v))"

definition parseInt :: "string \<Rightarrow> jsnum" where
  "parseInt s =
     (case split_sign (trim_start s) of (neg, t) \<Rightarrow>
        let (b, u) = (case t of z # x # r \<Rightarrow>
                        if z = CHR ''0'' \<and> (x = CHR ''x'' \<or> x = CHR ''X'') then (16, r) else (10, t)
                      | _ \<Rightarrow> (10, t));
            ds = takeWhile (is_radix b) u
        in if ds = [] then NaN else signed neg (fl (of_nat (radix_val b ds))))"

section \<open>Values\<close>

datatype jsval =
    Undefined
  | Null
  | Bool bool
  | Num jsnum
  | Str string
  | Arr "jsval list"
  | Obj "(string \<times> jsval) list"

record http_response =
  rs_status :: int
  rs_statusText :: string
  rs_data :: jsval

text \<open>What a call may throw: an axios error (message, and the response if there was one), an error
  object of the language, or a bare string.\<close>

datatype js_error =
    AxiosError string "http_response option"
  | TypeError string
  | ErrorMsg string
  | ThrownStr string

fun isAxiosError :: "js_error \<Rightarrow> bool" where
  "isAxiosError (AxiosError m r) \<longleftrightarrow> True"
| "isAxiosError e \<longleftrightarrow> False"

fun error_to_string :: "js_error \<Rightarrow> string" where
  "error_to_string (AxiosError m r) = ''AxiosError: '' @ m"
| "error_to_string (TypeError m) = ''TypeError: '' @ m"
| "error_to_string (ErrorMsg m) = ''Error: '' @ m"
| "error_to_string (ThrownStr m) = m"

text \<open>\<open>v.p\<close>, for the data properties the code reads (none of them lives on a prototype).\<close>

fun get_prop :: "jsval \<Rightarrow> string \<Rightarrow> (js_error, jsval) result" where
  "get_prop Undefined p = Inl (TypeError (''Cannot read properties of undefined (reading '' @ p @ '')''))"
| "get_prop Null p = Inl (TypeError (''Cannot read properties of null (reading '' @ p @ '')''))"
| "get_prop (Obj kvs) p = Inr (case map_of kvs p of None \<Rightarrow> Undefined | Some v \<Rightarrow> v)"
| "get_prop v p = Inr Undefined"

text \<open>\<open>v?.p\<close>\<close>

definition opt_prop :: "jsval \<Rightarrow> string \<Rightarrow> jsval" where
  "opt_prop v p = (case get_prop v p of Inl _ \<Rightarrow> Undefined | Inr w \<Rightarrow> w)"

text \<open>\<open>v ?? d\<close>\<close>

definition nullish :: "jsval \<Rightarrow> jsval \<Rightarrow> jsval" where
  "nullish v d = (if v = Undefined \<or> v = Null then d else v)"

fun truthy :: "jsval \<Rightarrow> bool" where
  "truthy Undefined = False"
| "truthy Null = False"
| "truthy (Bool b) = b"
| "truthy (Num x) = (x \<noteq> NaN \<and> x \<noteq> Fin 0)"
| "truthy (Str s) = (s \<noteq> [])"
| "truthy v = True"

text \<open>\<open>String(v)\<close> and, on anything but \<open>undefined\<close> and \<open>null\<close>, \<open>v.toString()\<close>.\<close>

fun to_str :: "jsval \<Rightarrow> string" where
  "to_str Undefined = ''undefined''"
| "to_str Null = ''null''"
| "to_str (Bool b) = (if b then ''true'' else ''false'')"
| "to_str (Num x) = num_to_string x"
| "to_str (Str s) = s"
| "to_str (Arr vs) = join_str '','' (map (\<lambda>v. if v = Undefined \<or> v = Null then [] else to_str v) vs)"
| "to_str (Obj kvs) = ''[object Object]''"

definition call_toString :: "jsval \<Rightarrow> (js_error, string) result" where
  "call_toString v =
     (if v = Undefined \<or> v = Null then Inl (TypeError ''Cannot read properties (reading toString)'')
      else Inr (to_str v))"

fun to_number :: "jsval \<Rightarrow> jsnum" where
  "to_number Undefined = NaN"
| "to_number Null = Fin 0"
| "to_number (Bool b) = (if b then Fin 1 else Fin 0)"
| "to_number (Num x) = x"
| "to_number (Str s) = Number_of_string s"
| "to_number (Arr vs) = Number_of_string (to_str (Arr vs))"
| "to_number (Obj kvs) = NaN"

text \<open>\<open>===\<close>, and \<open>SameValueZero\<close>, which \<open>Array.prototype.includes\<close> uses: two objects that
  were built separately are never the same value.\<close>

fun strict_eq :: "jsval \<Rightarrow> jsval \<Rightarrow> bool" where
  "strict_eq (Arr vs) w = False"
| "strict_eq (Obj kvs) w = False"
| "strict_eq (Num x) w = (case w of Num y \<Rightarrow> jeq x y | _ \<Rightarrow> False)"
| "strict_eq v w = (v = w)"

definition same_value_zero :: "jsval \<Rightarrow> jsval \<Rightarrow> bool" where
  "same_value_zero v w \<longleftrightarrow> strict_eq v w \<or> (v = Num NaN \<and> w = Num NaN)"

text \<open>Calling an array method on a value that is not an array.\<close>

fun as_array :: "string \<Rightarrow> jsval \<Rightarrow> (js_error, jsval list) result" where
  "as_array m (Arr vs) = Inr vs"
| "as_array m Undefined = Inl (TypeError (''Cannot read properties of undefined (reading '' @ m @ '')''))"
| "as_array m Null = Inl (TypeError (''Cannot read properties of null (reading '' @ m @ '')''))"
| "as_array m v = Inl (TypeError (m @ '' is not a function''))"

lemma get_prop_total_Obj [simp]: "\<exists>v. get_prop (Obj kvs) p = Inr v"
  by simp

lemma nullish_simps [simp]: "nullish Undefined d = d" "nullish Null d = d"
  "nullish (Bool b) d = Bool b" "nullish (Str s) d = Str s" "nullish (Num x) d = Num x"
  by (simp_all add: nullish_def)

lemma call_toString_simps [simp]:
  "call_toString (Num x) = Inr (num_to_string x)" "call_toString (Str s) = Inr s"
  by (simp_all add: call_toString_def)

section \<open>A decimal printed is read back\<close>

lemma of_char_digit [simp]: "d < 10 \<Longrightarrow> (of_char (digit_char d) :: nat) = 48 + d"
  by (simp add: digit_char_def)

lemma digit_char_facts [simp]:
  "d < 10 \<Longrightarrow> is_digit (digit_char d)" "d < 10 \<Longrightarrow> digit_val (digit_char d) = d"
  "d < 10 \<Longrightarrow> \<not> is_space (digit_char d)"
  by (auto simp: is_digit_def digit_val_def is_space_def Let_def)

lemma dec_digits: "\<forall>c \<in> set (dec n). is_digit c"
proof (induction n rule: dec.induct)
  case (1 n)
  then show ?case by (cases "n < 10") (auto simp: dec.simps [of n])
qed

lemma dec_nonempty [simp]: "dec n \<noteq> []"
  by (subst dec.simps) simp

lemma digits_val_append [simp]: "digits_val (ds @ [c]) = 10 * digits_val ds + digit_val c"
  by (simp add: digits_val_def)

lemma digits_val_dec [simp]: "digits_val (dec n) = n"
proof (induction n rule: dec.induct)
  case (1 n)
  show ?case
  proof (cases "n < 10")
    case True
    then show ?thesis by (simp add: dec.simps [of n] digits_val_def)
  next
    case False
    with 1 show ?thesis by (simp add: dec.simps [of n])
  qed
qed

lemma is_digit_iff: "is_digit c \<longleftrightarrow> 48 \<le> (of_char c :: nat) \<and> (of_char c :: nat) \<le> 57"
  by (simp add: is_digit_def Let_def)

lemma digit_not_space: "is_digit c \<Longrightarrow> \<not> is_space c"
  by (auto simp: is_digit_iff is_space_def)

lemma trim_digits: "ds \<noteq> [] \<Longrightarrow> \<forall>c \<in> set ds. is_digit c \<Longrightarrow> trim ds = ds"
proof -
  assume d: "ds \<noteq> []" "\<forall>c \<in> set ds. is_digit c"
  then have "\<not> is_space (hd ds)" "\<not> is_space (last ds)"
    by (auto dest: digit_not_space)
  moreover have "rev ds = last ds # rev (butlast ds)"
    using d(1) by (metis append_butlast_last_id rev.simps(2) rev_append rev_rev_ident append_Nil
        append_Cons)
  moreover from d(1) obtain c cs where "ds = c # cs" by (cases ds) auto
  ultimately show ?thesis by (simp add: trim_def trim_start_def)
qed

lemma radix_prefix_digits: "\<forall>c \<in> set ds. is_digit c \<Longrightarrow> radix_prefix ds = None"
proof (cases ds)
  case Nil
  then show ?thesis by (simp add: radix_prefix_def)
next
  case (Cons z t)
  assume d: "\<forall>c \<in> set ds. is_digit c"
  show ?thesis
  proof (cases t)
    case Nil
    with Cons show ?thesis by (simp add: radix_prefix_def)
  next
    case (Cons x u)
    with d \<open>ds = z # t\<close> have "is_digit x" by simp
    then have "x \<notin> {CHR ''x'', CHR ''X'', CHR ''o'', CHR ''O'', CHR ''b'', CHR ''B''}"
      by (auto simp: is_digit_iff)
    with Cons \<open>ds = z # t\<close> show ?thesis by (simp add: radix_prefix_def)
  qed
qed

lemma split_sign_digits: "ds \<noteq> [] \<Longrightarrow> \<forall>c \<in> set ds. is_digit c \<Longrightarrow> split_sign ds = (False, ds)"
  by (cases ds) (auto simp: split_sign_def is_digit_iff)

lemma scan_decimal_digits:
  "ds \<noteq> [] \<Longrightarrow> \<forall>c \<in> set ds. is_digit c \<Longrightarrow> scan_decimal ds = Some (of_nat (digits_val ds), [])"
  by (simp add: scan_decimal_def scan_exp_def pow10_def takeWhile_eq_all_conv [THEN iffD2]
      dropWhile_eq_Nil_conv [THEN iffD2] Let_def)

lemma digits_not_Infinity: "\<forall>c \<in> set ds. is_digit c \<Longrightarrow> ds \<noteq> ''Infinity''"
  by (auto simp: is_digit_iff)

lemma Number_of_dec: "n \<le> 2 ^ 53 \<Longrightarrow> Number_of_string (dec n) = jint (int n)"
proof -
  assume n: "n \<le> 2 ^ 53"
  have d: "dec n \<noteq> []" "\<forall>c \<in> set (dec n). is_digit c" using dec_digits by auto
  have "fl (of_int (int n)) = jint (int n)" using n by (intro fl_of_int) simp
  then show ?thesis
    using d digits_not_Infinity [OF d(2)]
    by (simp add: Number_of_string_def trim_digits radix_prefix_digits split_sign_digits
        scan_decimal_digits signed_def Let_def)
qed

lemma digit_char_0: "digit_char 0 = CHR ''0''"
  by code_simp

lemma num_to_string_nat: "n \<le> 2 ^ 53 \<Longrightarrow> num_to_string (jint (int n)) = dec n"
proof -
  assume n: "n \<le> 2 ^ 53"
  then have "(of_nat n :: rat) \<le> of_nat (2 ^ 53)" by (simp only: of_nat_le_iff)
  then show ?thesis by (auto simp: jint_def pos_to_string_def dec.simps [of 0] digit_char_0)
qed

text \<open>Identifiers travel as decimal strings: \<open>Number(String(n))\<close> is \<open>n\<close>.\<close>

lemma Number_toString_nat: "n \<le> 2 ^ 53 \<Longrightarrow> Number_of_string (num_to_string (jint (int n))) = jint (int n)"
  by (simp add: num_to_string_nat Number_of_dec)

end
