(* ===== verification/Offer_Urls.thy ===== *)
theory Offer_Urls
  imports Offer_Env JS_Value
begin

text \<open>
  The URLs the offer service calls (\<open>src/offerservice/src/urls\<close>). Each base is read from three
  environment variables through the manager; the WHATWG \<open>URL\<close> constructor is the argument \<open>mkURL\<close>
  (path, base), which returns the string of the URL or throws.
\<close>

type_synonym url_ctor = "string \<Rightarrow> string \<Rightarrow> (js_error, string) result"

definition GET_PRODUCTS_API :: string where "GET_PRODUCTS_API = ''/api/Products/GetProducts''"
definition GET_PACKAGES_API :: string where "GET_PACKAGES_API = ''/api/Packages/GetPackages''"
definition CREATE_ACCOUNT_API :: string where "CREATE_ACCOUNT_API = ''/api/Accounts/CreateNewAccount''"
definition GET_FLAGS_API :: string where "GET_FLAGS_API = ''/v1/flags''"

text \<open>The messages of the errors; a list is printed by \<open>JSON.stringify\<close> (the names need no escape).\<close>

definition quoted :: "string \<Rightarrow> string" where
  "quoted s = [CHR 0x22] @ s @ [CHR 0x22]"

fun env_to_js :: "env_error \<Rightarrow> js_error" where
  "env_to_js (MissingEnvVarError n) = ErrorMsg (''Value for env var ['' @ n @ ''] is missing'')"
| "env_to_js (NotRegistered n) = ErrorMsg (''Env var ['' @ n @ ''] is not registered'')"
| "env_to_js (ValuesMissing ns) = ErrorMsg (''Values missing for env vars [['' @ join_str '','' (map quoted ns) @ '']]'')"

text \<open>\<open>`${protocol}://${baseUrl}:${port}`\<close>\<close>

definition base_url :: "string \<Rightarrow> string \<Rightarrow> string \<Rightarrow> string" where
  "base_url protocol host port = protocol @ ''://'' @ host @ '':'' @ port"

definition getManagerBase :: "process_env \<Rightarrow> (env_error, string) result" where
  "getManagerBase penv =
     rbind (getEnv penv envManager MANAGER_PROTOCOL) (\<lambda>protocol.
     rbind (getEnv penv envManager MANAGER_BASE_URL) (\<lambda>baseUrl.
     rbind (getEnv penv envManager MANAGER_PORT) (\<lambda>port.
       Inr (base_url protocol baseUrl port))))"

definition getLoginServiceBaseUrl :: "process_env \<Rightarrow> (env_error, string) result" where
  "getLoginServiceBaseUrl penv =
     rbind (getEnv penv envManager LOGIN_SERIVCE_PROTOCOL) (\<lambda>protocol.
     rbind (getEnv penv envManager LOGIN_SERVICE_BASE_URL) (\<lambda>baseUrl.
     rbind (getEnv penv envManager LOGIN_SERVICE_PORT) (\<lambda>port.
       Inr (base_url protocol baseUrl port))))"

definition getFeatureFlagServiceBaseUrl :: "process_env \<Rightarrow> (env_error, string) result" where
  "getFeatureFlagServiceBaseUrl penv =
     rbind (getEnv penv envManager FEATURE_FLAG_SERVICE_PROTOCOL) (\<lambda>protocol.
     rbind (getEnv penv envManager FEATURE_FLAG_SERVICE_BASE_URL) (\<lambda>baseUrl.
     rbind (getEnv penv envManager FEATURE_FLAG_SERVICE_PORT) (\<lambda>port.
       Inr (base_url protocol baseUrl port))))"

text \<open>\<open>new URL(path, base)\<close> where computing the base may throw first.\<close>

definition with_base ::
  "url_ctor \<Rightarrow> string \<Rightarrow> (env_error, string) result \<Rightarrow> (js_error, string) result" where
  "with_base mkURL path base =
     (case base of Inl e \<Rightarrow> Inl (env_to_js e) | Inr b \<Rightarrow> mkURL path b)"

definition getPackagesUrl :: "url_ctor \<Rightarrow> process_env \<Rightarrow> (js_error, string) result" where
  "getPackagesUrl mkURL penv = with_base mkURL GET_PACKAGES_API (getManagerBase penv)"

definition getProductsUrl :: "url_ctor \<Rightarrow> process_env \<Rightarrow> (js_error, string) result" where
  "getProductsUrl mkURL penv = with_base mkURL GET_PRODUCTS_API (getManagerBase penv)"

definition getCreateNewUserUrl :: "url_ctor \<Rightarrow> process_env \<Rightarrow> (js_error, string) result" where
  "getCreateNewUserUrl mkURL penv = with_base mkURL CREATE_ACCOUNT_API (getLoginServiceBaseUrl penv)"

definition getFlagsUrl :: "url_ctor \<Rightarrow> process_env \<Rightarrow> (js_error, string) result" where
  "getFlagsUrl mkURL penv = with_base mkURL GET_FLAGS_API (getFeatureFlagServiceBaseUrl penv)"

section \<open>No base URL throws\<close>

lemma env_names_distinct: "distinct (map ev_name envManager_vars)"
  unfolding envManager_names by (simp add: env_names)

lemma env_names_known [simp]:
  "MANAGER_BASE_URL \<in> set (map ev_name envManager_vars)"
  "MANAGER_PORT \<in> set (map ev_name envManager_vars)"
  "MANAGER_PROTOCOL \<in> set (map ev_name envManager_vars)"
  "LOGIN_SERVICE_BASE_URL \<in> set (map ev_name envManager_vars)"
  "LOGIN_SERVICE_PORT \<in> set (map ev_name envManager_vars)"
  "LOGIN_SERIVCE_PROTOCOL \<in> set (map ev_name envManager_vars)"
  "FEATURE_FLAG_SERVICE_BASE_URL \<in> set (map ev_name envManager_vars)"
  "FEATURE_FLAG_SERVICE_PORT \<in> set (map ev_name envManager_vars)"
  "FEATURE_FLAG_SERVICE_PROTOCOL \<in> set (map ev_name envManager_vars)"
  unfolding envManager_names by simp_all

lemma getManagerBase_eq:
  "getManagerBase penv = Inr (base_url (env.answer penv MANAGER_PROTOCOL)
     (env.answer penv MANAGER_BASE_URL) (env.answer penv MANAGER_PORT))"
  unfolding getManagerBase_def by (rule env.read_three) (rule env_names_known)+

lemma getLoginServiceBaseUrl_eq:
  "getLoginServiceBaseUrl penv = Inr (base_url (env.answer penv LOGIN_SERIVCE_PROTOCOL)
     (env.answer penv LOGIN_SERVICE_BASE_URL) (env.answer penv LOGIN_SERVICE_PORT))"
  unfolding getLoginServiceBaseUrl_def by (rule env.read_three) (rule env_names_known)+

lemma getFeatureFlagServiceBaseUrl_eq:
  "getFeatureFlagServiceBaseUrl penv = Inr (base_url (env.answer penv FEATURE_FLAG_SERVICE_PROTOCOL)
     (env.answer penv FEATURE_FLAG_SERVICE_BASE_URL) (env.answer penv FEATURE_FLAG_SERVICE_PORT))"
  unfolding getFeatureFlagServiceBaseUrl_def by (rule env.read_three) (rule env_names_known)+

text \<open>What a variable of the instance reads as: its value, or the default of the table.\<close>

lemma env_answer_default:
  assumes "v \<in> set envManager_vars"
  shows "env.answer penv (ev_name v) = opt_or (penv (ev_name v)) (the (ev_defaultValue v))"
proof -
  have "find (\<lambda>w. ev_name w = ev_name v) (rev envManager_vars) = Some v"
  proof -
    from assms have "find (\<lambda>w. ev_name w = ev_name v) (rev envManager_vars) \<noteq> None"
      by (auto simp: find_None_iff)
    then obtain w where w: "find (\<lambda>w. ev_name w = ev_name v) (rev envManager_vars) = Some w"
      by blast
    then have "w \<in> set envManager_vars" "ev_name w = ev_name v" using find_Some_mem [OF w] by auto
    with assms env_names_distinct have "w = v" by (auto simp: distinct_map inj_on_def)
    with w show ?thesis by simp
  qed
  moreover have "ev_defaultValue v \<noteq> None" using envManager_defaults [OF assms] by (simp add: hasDefault_def)
  ultimately show ?thesis
    by (auto simp: env.answer_def getEnv_def envManager_get getValue_def split: option.splits)
qed

end
