(* ===== verification/Offer_Offers.thy ===== *)
theory Offer_Offers
  imports Offer_Urls
begin

text \<open>
  The offers endpoint (\<open>src/offerservice/src/offers\<close>): the static catalogue, the two filters, the
  static providers and those that ask the EasyTrade manager, and the request handler. What a provider
  promises its handler is the locale \<open>offer_source\<close> (a filtered answer obeys the filter) and its
  extension \<open>total_offer_source\<close> (it never rejects). Data from the network is a \<open>jsval\<close> of any shape.
\<close>

type_synonym axios_get = "string \<Rightarrow> (js_error, http_response) result"
type_synonym axios_post = "string \<Rightarrow> jsval \<Rightarrow> (js_error, http_response) result"

section \<open>The catalogue\<close>

definition mk_package :: "string \<Rightarrow> rat \<Rightarrow> string list \<Rightarrow> jsval" where
  "mk_package name price support =
     Obj [(''name'', Str name), (''price'', Num (fl price)), (''support'', Arr (map Str support))]"

definition packages :: jsval where
  "packages = Arr
     [mk_package ''Starter'' 0 [''Email''],
      mk_package ''Light'' (2499 / 100) [''Email'', ''Hotline''],
      mk_package ''Pro'' (4999 / 100) [''Email'', ''Hotline'', ''AccountManager'']]"

definition mk_product :: "string \<Rightarrow> rat \<Rightarrow> string \<Rightarrow> jsval" where
  "mk_product name ppT currency =
     Obj [(''name'', Str name), (''ppT'', Num (fl ppT)), (''currency'', Str currency)]"

definition products :: jsval where
  "products = Arr
     [mk_product ''Share'' (59 / 10) ''EUR'',
      mk_product ''ETF'' (59 / 10) ''EUR'',
      mk_product ''Crypto'' (59 / 10) ''EUR'']"

section \<open>Filters\<close>

record PackageFilter =
  maxYearlyFee :: "jsnum option"

record ProductFilter =
  productNames :: "jsval option"

text \<open>\<open>p.price <= maxYearlyFee\<close>: the right side is a number, so the left is converted to one.\<close>

definition price_at_most :: "jsnum \<Rightarrow> jsval \<Rightarrow> (js_error, bool) result" where
  "price_at_most m p = rbind (get_prop p ''price'') (\<lambda>v. Inr (jle (to_number v) m))"

definition filterPackages :: "jsval \<Rightarrow> PackageFilter \<Rightarrow> (js_error, jsval) result" where
  "filterPackages pkgs f =
     (case maxYearlyFee f of
        None \<Rightarrow> Inr pkgs
      | Some m \<Rightarrow> rbind (as_array ''filter'' pkgs) (\<lambda>ps. rmap Arr (rfilterM (price_at_most m) ps)))"

text \<open>\<open>names.includes(p.name)\<close>, where \<open>names\<close> is whatever \<open>JSON.parse\<close> returned: an array, a string
  (which has an \<open>includes\<close> of its own, a substring test), or a value without that method.\<close>

definition name_included :: "jsval \<Rightarrow> jsval \<Rightarrow> (js_error, bool) result" where
  "name_included names p =
     (if names = Undefined \<or> names = Null
      then Inl (TypeError ''Cannot read properties of null (reading includes)'')
      else rbind (get_prop p ''name'') (\<lambda>n.
        case names of
          Arr vs \<Rightarrow> Inr (list_ex (\<lambda>v. same_value_zero v n) vs)
        | Str s \<Rightarrow> Inr (str_includes s (to_str n))
        | _ \<Rightarrow> Inl (TypeError ''productNames.includes is not a function'')))"

definition filterProducts :: "jsval \<Rightarrow> ProductFilter \<Rightarrow> (js_error, jsval) result" where
  "filterProducts prods f =
     (case productNames f of
        None \<Rightarrow> Inr prods
      | Some names \<Rightarrow> rbind (as_array ''filter'' prods) (\<lambda>ps. rmap Arr (rfilterM (name_included names) ps)))"

section \<open>Providers\<close>

definition StaticPackageProvider_getPackages :: "PackageFilter option \<Rightarrow> (js_error, jsval) result" where
  "StaticPackageProvider_getPackages flt =
     (case flt of None \<Rightarrow> Inr packages | Some f \<Rightarrow> filterPackages packages f)"

definition StaticProductProvider_getProducts :: "ProductFilter option \<Rightarrow> (js_error, jsval) result" where
  "StaticProductProvider_getProducts flt =
     (case flt of None \<Rightarrow> Inr products | Some f \<Rightarrow> filterProducts products f)"

text \<open>The manager is asked through axios; every error on the way becomes the empty list.\<close>

definition EasyTradePackageProvider_getPackages ::
  "url_ctor \<Rightarrow> process_env \<Rightarrow> axios_get \<Rightarrow> PackageFilter option \<Rightarrow> (js_error, jsval) result" where
  "EasyTradePackageProvider_getPackages mkURL penv axios_get flt =
     rcatch
       (rbind (getPackagesUrl mkURL penv) (\<lambda>url.
        rbind (axios_get url) (\<lambda>res.
          case flt of None \<Rightarrow> Inr (rs_data res) | Some f \<Rightarrow> filterPackages (rs_data res) f)))
       (\<lambda>err. Inr (Arr []))"

definition EasyTradeProductProvider_getProducts ::
  "url_ctor \<Rightarrow> process_env \<Rightarrow> axios_get \<Rightarrow> ProductFilter option \<Rightarrow> (js_error, jsval) result" where
  "EasyTradeProductProvider_getProducts mkURL penv axios_get flt =
     rcatch
       (rbind (getProductsUrl mkURL penv) (\<lambda>url.
        rbind (axios_get url) (\<lambda>res.
          case flt of None \<Rightarrow> Inr (rs_data res) | Some f \<Rightarrow> filterProducts (rs_data res) f)))
       (\<lambda>err. Inr (Arr []))"

section \<open>The handler\<close>

text \<open>What the handler reads of a request: the route parameter, the parsed query (express's query
  parser gives a string, an array or an object), and the \<open>Accept\<close> header.\<close>

record GetOffersRequest =
  rq_platform :: string
  rq_productFilter :: jsval
  rq_maxYearlyFeeFilter :: jsval
  rq_accept :: "string option"

datatype body = JsonBody jsval | TextBody string

record reply =
  rp_status :: int
  rp_type :: string
  rp_body :: body

definition xmlMimeTypes :: "string list" where
  "xmlMimeTypes = [''application/xml'', ''text/xml'']"

text \<open>Promise.all over two promises: both run, a rejection of either rejects.\<close>

definition promise_all2 ::
  "('e, 'a) result \<Rightarrow> ('e, 'b) result \<Rightarrow> ('e, 'a \<times> 'b) result" where
  "promise_all2 p q = rbind p (\<lambda>x. rbind q (\<lambda>y. Inr (x, y)))"

definition offer_data :: "string \<Rightarrow> jsval \<Rightarrow> jsval \<Rightarrow> jsval" where
  "offer_data platform packageResult productResult =
     Obj [(''platform'', Str ''EasyTrade''), (''quoteFor'', Str platform),
          (''packages'', packageResult), (''products'', productResult)]"

text \<open>The end of the handler: XML for a client that accepts exactly one of the two types, else JSON.\<close>

definition send_offer ::
  "(jsval \<Rightarrow> (js_error, string) result) \<Rightarrow> string option \<Rightarrow> jsval \<Rightarrow> (js_error, reply) result" where
  "send_offer build_xml acceptHeader data =
     (let json = Inr \<lparr>rp_status = 200, rp_type = ''application/json'', rp_body = JsonBody data\<rparr>
      in case acceptHeader of
        None \<Rightarrow> json
      | Some a \<Rightarrow>
          if a \<in> set xmlMimeTypes
          then rbind (build_xml (Obj [(''offer'', data)])) (\<lambda>xmlBody.
            Inr \<lparr>rp_status = 200, rp_type = hd xmlMimeTypes, rp_body = TextBody xmlBody\<rparr>)
          else json)"

text \<open>\<open>JSON.parse\<close> and the XML builder are arguments.\<close>

definition getOffers ::
  "(string \<Rightarrow> (js_error, jsval) result) \<Rightarrow> (jsval \<Rightarrow> (js_error, string) result)
   \<Rightarrow> (PackageFilter option \<Rightarrow> (js_error, jsval) result)
   \<Rightarrow> (ProductFilter option \<Rightarrow> (js_error, jsval) result)
   \<Rightarrow> GetOffersRequest \<Rightarrow> (js_error, reply) result" where
  "getOffers json_parse build_xml getPackages getProducts req =
     (let platform = rq_platform req;
          productFilter = rq_productFilter req;
          maxYearlyFeeFilter =
            (if rq_maxYearlyFeeFilter req = Undefined then None
             else Some (to_number (rq_maxYearlyFeeFilter req)))
      in rbind (if productFilter = Undefined then Inr None
                else rmap Some (json_parse (to_str productFilter))) (\<lambda>parsedProductFilter.
         rbind (promise_all2 (getPackages (Some \<lparr>maxYearlyFee = maxYearlyFeeFilter\<rparr>))
                  (getProducts (Some \<lparr>productNames = parsedProductFilter\<rparr>))) (\<lambda>results.
         send_offer build_xml (rq_accept req) (offer_data platform (fst results) (snd results)))))"

text \<open>The controller registered on the route: the EasyTrade providers.\<close>

definition getOffersGetController ::
  "(string \<Rightarrow> (js_error, jsval) result) \<Rightarrow> (jsval \<Rightarrow> (js_error, string) result)
   \<Rightarrow> url_ctor \<Rightarrow> process_env \<Rightarrow> axios_get \<Rightarrow> GetOffersRequest \<Rightarrow> (js_error, reply) result" where
  "getOffersGetController json_parse build_xml mkURL penv axios_get req =
     getOffers json_parse build_xml
       (EasyTradePackageProvider_getPackages mkURL penv axios_get)
       (EasyTradeProductProvider_getProducts mkURL penv axios_get) req"

section \<open>What the filters do\<close>

text \<open>The elements a filter admits.\<close>

definition admits_package :: "PackageFilter \<Rightarrow> jsval \<Rightarrow> bool" where
  "admits_package f p \<longleftrightarrow>
     (case maxYearlyFee f of None \<Rightarrow> True | Some m \<Rightarrow> price_at_most m p = Inr True)"

definition admits_product :: "ProductFilter \<Rightarrow> jsval \<Rightarrow> bool" where
  "admits_product f p \<longleftrightarrow>
     (case productNames f of None \<Rightarrow> True | Some names \<Rightarrow> name_included names p = Inr True)"

lemma rfilterM_subset: "rfilterM p xs = Inr ys \<Longrightarrow> set ys \<subseteq> set xs"
  using rfilterM_sound by fast

lemma filterPackages_admits:
  "filterPackages pkgs f = Inr v \<Longrightarrow> maxYearlyFee f \<noteq> None \<Longrightarrow>
     \<exists>vs. v = Arr vs \<and> (\<forall>p \<in> set vs. admits_package f p)"
  by (auto simp: filterPackages_def admits_package_def rbind_eq_Inr rmap_eq_Inr split: option.splits
      dest: rfilterM_sound)

lemma filterProducts_admits:
  "filterProducts prods f = Inr v \<Longrightarrow> productNames f \<noteq> None \<Longrightarrow>
     \<exists>vs. v = Arr vs \<and> (\<forall>p \<in> set vs. admits_product f p)"
  by (auto simp: filterProducts_def admits_product_def rbind_eq_Inr rmap_eq_Inr split: option.splits
      dest: rfilterM_sound)

text \<open>On an array of objects filtering by price never throws and is the plain list filter.\<close>

definition price_of :: "jsval \<Rightarrow> jsnum" where
  "price_of p = to_number (opt_prop p ''price'')"

definition is_obj :: "jsval \<Rightarrow> bool" where
  "is_obj v = (case v of Obj kvs \<Rightarrow> True | _ \<Rightarrow> False)"

lemma filterPackages_objects:
  assumes "\<forall>p \<in> set ps. is_obj p"
  shows "filterPackages (Arr ps) \<lparr>maxYearlyFee = Some m\<rparr> = Inr (Arr (filter (\<lambda>p. jle (price_of p) m) ps))"
proof -
  have "price_at_most m p = Inr (jle (price_of p) m)" if "p \<in> set ps" for p
    using assms that by (cases p) (auto simp: price_at_most_def price_of_def opt_prop_def is_obj_def)
  then have "rfilterM (price_at_most m) ps = Inr (filter (\<lambda>p. jle (price_of p) m) ps)"
    by (rule rfilterM_pure)
  then show ?thesis by (simp add: filterPackages_def)
qed

text \<open>A list of names selects the products with one of these names.\<close>

lemma same_value_zero_Str [simp]: "same_value_zero (Str s) v \<longleftrightarrow> v = Str s"
  by (cases v) (auto simp: same_value_zero_def)

lemma filterProducts_names:
  assumes "\<forall>p \<in> set ps. is_obj p"
  shows "filterProducts (Arr ps) \<lparr>productNames = Some (Arr (map Str names))\<rparr>
           = Inr (Arr (filter (\<lambda>p. \<exists>n \<in> set names. opt_prop p ''name'' = Str n) ps))"
proof -
  have "name_included (Arr (map Str names)) p = Inr (\<exists>n \<in> set names. opt_prop p ''name'' = Str n)"
    if "p \<in> set ps" for p
    using assms that
    by (cases p) (auto simp: name_included_def opt_prop_def list_ex_iff is_obj_def)
  then have "rfilterM (name_included (Arr (map Str names))) ps
               = Inr (filter (\<lambda>p. \<exists>n \<in> set names. opt_prop p ''name'' = Str n) ps)"
    by (rule rfilterM_pure)
  then show ?thesis by (simp add: filterProducts_def)
qed

section \<open>The providers' contract\<close>

locale offer_source =
  fixes get :: "'f option \<Rightarrow> (js_error, jsval) result"
    and constrains_list :: "'f \<Rightarrow> bool"
    and admits :: "'f \<Rightarrow> jsval \<Rightarrow> bool"
  assumes obeys: "get (Some f) = Inr v \<Longrightarrow> constrains_list f \<Longrightarrow>
                    \<exists>vs. v = Arr vs \<and> (\<forall>p \<in> set vs. admits f p)"

locale total_offer_source = offer_source +
  assumes never_rejects: "get f \<noteq> Inl e"
begin

lemma returns: "\<exists>v. get f = Inr v"
  using never_rejects [of f] by (cases "get f") auto

lemma returns_admitted:
  "constrains_list f \<Longrightarrow> \<exists>vs. get (Some f) = Inr (Arr vs) \<and> (\<forall>p \<in> set vs. admits f p)"
  using returns [of "Some f"] obeys by blast

end

definition has_max_fee :: "PackageFilter \<Rightarrow> bool" where
  "has_max_fee f \<longleftrightarrow> maxYearlyFee f \<noteq> None"

definition has_names :: "ProductFilter \<Rightarrow> bool" where
  "has_names f \<longleftrightarrow> productNames f \<noteq> None"

lemma catalogue_objects:
  "packages = Arr ps \<Longrightarrow> \<forall>p \<in> set ps. is_obj p" "products = Arr ps \<Longrightarrow> \<forall>p \<in> set ps. is_obj p"
  by (auto simp: packages_def products_def mk_package_def mk_product_def is_obj_def)

lemma static_packages_never_reject: "StaticPackageProvider_getPackages f \<noteq> Inl e"
proof (cases f)
  case None
  then show ?thesis by (simp add: StaticPackageProvider_getPackages_def)
next
  case (Some g)
  obtain ps where ps: "packages = Arr ps" by (simp add: packages_def)
  show ?thesis
  proof (cases "maxYearlyFee g")
    case None
    with Some show ?thesis by (simp add: StaticPackageProvider_getPackages_def filterPackages_def)
  next
    case (Some m)
    then have "g = \<lparr>maxYearlyFee = Some m\<rparr>" by simp
    with \<open>f = Some g\<close> ps filterPackages_objects [OF catalogue_objects(1) [OF ps]]
    show ?thesis by (simp add: StaticPackageProvider_getPackages_def)
  qed
qed

interpretation static_packages:
  total_offer_source StaticPackageProvider_getPackages has_max_fee admits_package
proof unfold_locales
  show "StaticPackageProvider_getPackages f \<noteq> Inl e" for f e by (rule static_packages_never_reject)
qed (auto simp: StaticPackageProvider_getPackages_def has_max_fee_def dest: filterPackages_admits)

interpretation static_products:
  offer_source StaticProductProvider_getProducts has_names admits_product
  by unfold_locales
    (auto simp: StaticProductProvider_getProducts_def has_names_def dest: filterProducts_admits)

lemma rcatch_eq_Inr: "rcatch m h = Inr x \<longleftrightarrow> m = Inr x \<or> (\<exists>e. m = Inl e \<and> h e = Inr x)"
  by (cases m) auto

interpretation manager_packages:
  total_offer_source "EasyTradePackageProvider_getPackages mkURL penv axios_get" has_max_fee admits_package
  for mkURL penv axios_get
proof unfold_locales
  show "EasyTradePackageProvider_getPackages mkURL penv axios_get f \<noteq> Inl e" for f e
    by (simp add: EasyTradePackageProvider_getPackages_def rcatch_def split: sum.splits)
  show "\<exists>vs. v = Arr vs \<and> (\<forall>p \<in> set vs. admits_package f p)"
    if "EasyTradePackageProvider_getPackages mkURL penv axios_get (Some f) = Inr v" "has_max_fee f" for f v
    using that filterPackages_admits
    by (fastforce simp: EasyTradePackageProvider_getPackages_def has_max_fee_def rcatch_eq_Inr rbind_eq_Inr)
qed

interpretation manager_products:
  total_offer_source "EasyTradeProductProvider_getProducts mkURL penv axios_get" has_names admits_product
  for mkURL penv axios_get
proof unfold_locales
  show "EasyTradeProductProvider_getProducts mkURL penv axios_get f \<noteq> Inl e" for f e
    by (simp add: EasyTradeProductProvider_getProducts_def rcatch_def split: sum.splits)
  show "\<exists>vs. v = Arr vs \<and> (\<forall>p \<in> set vs. admits_product f p)"
    if "EasyTradeProductProvider_getProducts mkURL penv axios_get (Some f) = Inr v" "has_names f" for f v
    using that filterProducts_admits
    by (fastforce simp: EasyTradeProductProvider_getProducts_def has_names_def rcatch_eq_Inr rbind_eq_Inr)
qed

section \<open>The handler over any pair of total sources\<close>

lemma send_offer_total:
  "\<forall>v. \<exists>x. build_xml v = Inr x \<Longrightarrow> \<exists>r. send_offer build_xml a data = Inr r"
proof -
  assume "\<forall>v. \<exists>x. build_xml v = Inr x"
  then obtain x where "build_xml (Obj [(''offer'', data)]) = Inr x" by blast
  then show ?thesis by (cases a) (simp_all add: send_offer_def)
qed

lemma send_offer_body:
  "send_offer build_xml a data = Inr r \<Longrightarrow>
     rp_status r = 200 \<and>
     (rp_body r = JsonBody data \<or> (\<exists>x. rp_body r = TextBody x \<and> build_xml (Obj [(''offer'', data)]) = Inr x))"
  by (auto simp: send_offer_def Let_def rbind_eq_Inr split: option.splits if_splits)

locale offers_backend =
  pk: total_offer_source getPackages has_max_fee admits_package +
  pr: total_offer_source getProducts has_names admits_product
  for getPackages :: "PackageFilter option \<Rightarrow> (js_error, jsval) result"
  and getProducts :: "ProductFilter option \<Rightarrow> (js_error, jsval) result"
begin

lemma sources_answer: "\<exists>p q. promise_all2 (getPackages f) (getProducts g) = Inr (p, q)"
  using pk.returns [of f] pr.returns [of g] by (auto simp: promise_all2_def)

lemma handler_rejects_iff:
  assumes "\<forall>v. \<exists>x. build_xml v = Inr x"
  shows "(\<exists>e. getOffers json_parse build_xml getPackages getProducts req = Inl e) \<longleftrightarrow>
           rq_productFilter req \<noteq> Undefined \<and> (\<exists>e. json_parse (to_str (rq_productFilter req)) = Inl e)"
proof -
  have ok: "\<nexists>e. rbind (promise_all2 (getPackages f) (getProducts g))
                (\<lambda>rs. send_offer build_xml a (h rs)) = Inl e" for f g a h
  proof -
    obtain p q where pq: "promise_all2 (getPackages f) (getProducts g) = Inr (p, q)"
      using sources_answer by blast
    obtain r where "send_offer build_xml a (h (p, q)) = Inr r"
      using send_offer_total [OF assms] by blast
    with pq show ?thesis by simp
  qed
  show ?thesis
  proof (cases "rq_productFilter req = Undefined")
    case True
    then show ?thesis using ok by (simp add: getOffers_def Let_def)
  next
    case False
    then show ?thesis using ok
      by (cases "json_parse (to_str (rq_productFilter req))") (simp_all add: getOffers_def Let_def)
  qed
qed

text \<open>The offer of an answered request: which packages and products it may list.\<close>

lemma handler_answer:
  assumes "getOffers json_parse build_xml getPackages getProducts req = Inr r"
  shows "rp_status r = 200 \<and>
    (\<exists>pk_v pr_v. (rp_body r = JsonBody (offer_data (rq_platform req) pk_v pr_v)
          \<or> (\<exists>x. rp_body r = TextBody x
               \<and> build_xml (Obj [(''offer'', offer_data (rq_platform req) pk_v pr_v)]) = Inr x)) \<and>
       (rq_maxYearlyFeeFilter req \<noteq> Undefined \<longrightarrow>
          (\<exists>ps. pk_v = Arr ps \<and> (\<forall>p \<in> set ps.
              admits_package \<lparr>maxYearlyFee = Some (to_number (rq_maxYearlyFeeFilter req))\<rparr> p))) \<and>
       (rq_productFilter req \<noteq> Undefined \<longrightarrow>
          (\<exists>ps names. json_parse (to_str (rq_productFilter req)) = Inr names \<and> pr_v = Arr ps \<and>
              (\<forall>p \<in> set ps. admits_product \<lparr>productNames = Some names\<rparr> p))))"
proof -
  let ?mf = "if rq_maxYearlyFeeFilter req = Undefined then None else Some (to_number (rq_maxYearlyFeeFilter req))"
  from assms obtain pf pk_v pr_v where
    pf: "(if rq_productFilter req = Undefined then Inr None
          else rmap Some (json_parse (to_str (rq_productFilter req)))) = Inr pf"
    and pk_v: "getPackages (Some \<lparr>maxYearlyFee = ?mf\<rparr>) = Inr pk_v"
    and pr_v: "getProducts (Some \<lparr>productNames = pf\<rparr>) = Inr pr_v"
    and r: "rp_status r = 200 \<and> (rp_body r = JsonBody (offer_data (rq_platform req) pk_v pr_v)
          \<or> (\<exists>x. rp_body r = TextBody x
               \<and> build_xml (Obj [(''offer'', offer_data (rq_platform req) pk_v pr_v)]) = Inr x))"
    using send_offer_body [of build_xml "rq_accept req"]
    unfolding getOffers_def Let_def rbind_eq_Inr promise_all2_def by fastforce
  have "\<exists>ps. pk_v = Arr ps \<and> (\<forall>p \<in> set ps. admits_package \<lparr>maxYearlyFee = ?mf\<rparr> p)"
    if "rq_maxYearlyFeeFilter req \<noteq> Undefined"
    using pk.obeys [OF pk_v] that by (simp add: has_max_fee_def)
  moreover have "\<exists>ps names. json_parse (to_str (rq_productFilter req)) = Inr names \<and> pr_v = Arr ps \<and>
              (\<forall>p \<in> set ps. admits_product \<lparr>productNames = Some names\<rparr> p)"
    if "rq_productFilter req \<noteq> Undefined"
    using pf pr.obeys [OF pr_v] that by (auto simp: has_names_def rmap_eq_Inr)
  ultimately show ?thesis using r by (intro conjI exI [of _ pk_v] exI [of _ pr_v]) auto
qed

end

interpretation manager_backend:
  offers_backend "EasyTradePackageProvider_getPackages mkURL penv axios_get"
    "EasyTradeProductProvider_getProducts mkURL penv axios_get" for mkURL penv axios_get
  by unfold_locales

section \<open>Properties\<close>





text \<open>Catalogue filters. On an array of objects, as the manager's API and the static catalogue give
  it, filtering cannot throw: packages are kept exactly when their price is at most the fee, products
  exactly when their name is one of the names, both in the order of the source.\<close>

lemma providers_filter_exactly:
  assumes objs: "\<forall>p \<in> set ps. is_obj p"
    and url: "getPackagesUrl mkURL penv = Inr u" "axios_get u = Inr res" "rs_data res = Arr ps"
    and url': "getProductsUrl mkURL penv = Inr u'" "axios_get u' = Inr res'" "rs_data res' = Arr ps"
  shows "EasyTradePackageProvider_getPackages mkURL penv axios_get (Some \<lparr>maxYearlyFee = Some m\<rparr>)
           = Inr (Arr (filter (\<lambda>p. jle (price_of p) m) ps)) \<and>
         EasyTradeProductProvider_getProducts mkURL penv axios_get
             (Some \<lparr>productNames = Some (Arr (map Str names))\<rparr>)
           = Inr (Arr (filter (\<lambda>p. \<exists>n \<in> set names. opt_prop p ''name'' = Str n) ps))"
  using url url' filterPackages_objects [OF objs] filterProducts_names [OF objs]
  by (simp add: EasyTradePackageProvider_getPackages_def EasyTradeProductProvider_getProducts_def)

lemma providers_filter_exactly_witness:
  "EasyTradeProductProvider_getProducts (\<lambda>p b. Inr p) (\<lambda>n. None)
     (\<lambda>u. Inr \<lparr>rs_status = 200, rs_statusText = [],
               rs_data = Arr [Obj [(''name'', Str ''Share'')], Obj [(''name'', Str ''ETF'')]]\<rparr>)
     (Some \<lparr>productNames = Some (Arr (map Str [''ETF'']))\<rparr>)
   = Inr (Arr [Obj [(''name'', Str ''ETF'')]])"
  using providers_filter_exactly [of "[Obj [(''name'', Str ''Share'')], Obj [(''name'', Str ''ETF'')]]"
      "\<lambda>p b. Inr p" "\<lambda>n. None" GET_PACKAGES_API
      "\<lambda>u. Inr \<lparr>rs_status = 200, rs_statusText = [],
               rs_data = Arr [Obj [(''name'', Str ''Share'')], Obj [(''name'', Str ''ETF'')]]\<rparr>"
      "\<lparr>rs_status = 200, rs_statusText = [],
               rs_data = Arr [Obj [(''name'', Str ''Share'')], Obj [(''name'', Str ''ETF'')]]\<rparr>"
      GET_PRODUCTS_API
      "\<lparr>rs_status = 200, rs_statusText = [],
               rs_data = Arr [Obj [(''name'', Str ''Share'')], Obj [(''name'', Str ''ETF'')]]\<rparr>"
      "Fin 0" "[''ETF'']"]
  by (simp add: getPackagesUrl_def getProductsUrl_def with_base_def getManagerBase_eq is_obj_def opt_prop_def)

end
