(* ===== verification/Offer_Plugins.thy ===== *)
theory Offer_Plugins
  imports Offer_Offers
begin

text \<open>
  The plugin machinery of the offer service (\<open>src/offerservice/src/plugins\<close>, \<open>utils.ts\<close>): the random
  choice of the affected platforms, the slowdown plugin, the middleware that runs a plugin when its
  flag is on, and the OpenFeature provider that asks the feature flag service.
  \<open>Math.random\<close> is the argument \<open>random\<close>: the value of its k-th call.
\<close>

section \<open>sampleArray\<close>

text \<open>
  Reads and writes by a computed index. \<open>None\<close> is a hole (or \<open>undefined\<close>); a write past the end
  extends the array, and an index that is no array index leaves the elements alone.
\<close>

definition array_index :: "jsnum \<Rightarrow> nat option" where
  "array_index x =
     (case x of Fin r \<Rightarrow> if 0 \<le> r \<and> of_int \<lfloor>r\<rfloor> = r then Some (nat \<lfloor>r\<rfloor>) else None | _ \<Rightarrow> None)"

definition array_get :: "'a option list \<Rightarrow> jsnum \<Rightarrow> 'a option" where
  "array_get xs x = (case array_index x of Some j \<Rightarrow> if j < length xs then xs ! j else None | None \<Rightarrow> None)"

definition array_set :: "'a option list \<Rightarrow> jsnum \<Rightarrow> 'a option \<Rightarrow> 'a option list" where
  "array_set xs x v =
     (case array_index x of
        Some j \<Rightarrow> if j < length xs then xs[j := v] else xs @ replicate (j - length xs) None @ [v]
      | None \<Rightarrow> xs)"

text \<open>One turn of the loop, at \<open>i\<close>: swap with the element at \<open>Math.floor(Math.random() * (i + 1))\<close>.\<close>

definition shuffle_step :: "jsnum \<Rightarrow> nat \<Rightarrow> 'a option list \<Rightarrow> 'a option list" where
  "shuffle_step r i result =
     (let j = jfloor (jmul r (jint (int i + 1)));
          tmp = array_get result j;
          result1 = array_set result j (array_get result (jint (int i)))
      in array_set result1 (jint (int i)) tmp)"

fun shuffle_loop :: "(nat \<Rightarrow> jsnum) \<Rightarrow> nat \<Rightarrow> nat \<Rightarrow> 'a option list \<Rightarrow> 'a option list" where
  "shuffle_loop random k 0 result = result"
| "shuffle_loop random k (Suc i) result =
     shuffle_loop random (Suc k) i (shuffle_step (random k) (Suc i) result)"

text \<open>\<open>result.length = size\<close> cuts the array or extends it with holes.\<close>

definition set_length :: "nat \<Rightarrow> 'a option list \<Rightarrow> 'a option list" where
  "set_length n xs = take n xs @ replicate (n - length xs) None"

definition sampleArray :: "(nat \<Rightarrow> jsnum) \<Rightarrow> 'a list \<Rightarrow> nat \<Rightarrow> 'a option list" where
  "sampleArray random array n =
     set_length n (shuffle_loop random 0 (length array - 1) (map Some array))"

text \<open>What the standard promises of \<open>Math.random\<close>.\<close>

definition random_ok :: "(nat \<Rightarrow> jsnum) \<Rightarrow> bool" where
  "random_ok random \<longleftrightarrow> (\<forall>k. \<exists>r. random k = Fin r \<and> is_double r \<and> 0 \<le> r \<and> r < 1)"

lemma array_index_jint [simp]: "array_index (jint (int i)) = Some i"
  by (simp add: array_index_def jint_def)

lemma shuffle_step_swaps:
  assumes "is_double r" "0 \<le> r" "r < 1" "i < length xs" "length xs \<le> 2 ^ 53"
  shows "\<exists>j \<le> i. shuffle_step (Fin r) i xs = xs[j := xs ! i, i := xs ! j]"
proof -
  have "Suc i \<le> 2 ^ 53" using assms(4,5) by (meson Suc_leI order_trans)
  then have "int (Suc i) \<le> int (2 ^ 53)" by (simp only: of_nat_le_iff)
  then have "int i + 1 \<le> 2 ^ 53" by simp
  then obtain j where j: "jfloor (jmul (Fin r) (jint (int i + 1))) = jint j" "0 \<le> j" "j < int i + 1"
    using jfloor_scale [OF assms(1-3), of "int i + 1"] by auto
  define n where "n = nat j"
  have n: "jfloor (jmul (Fin r) (jint (int i + 1))) = jint (int n)" "n \<le> i"
    using j by (auto simp: n_def)
  then show ?thesis using assms(4)
    by (intro exI [of _ n]) (simp add: shuffle_step_def array_get_def array_set_def)
qed

lemma shuffle_step_mset:
  assumes "random_ok random" "i < length xs" "length xs \<le> 2 ^ 53"
  shows "mset (shuffle_step (random k) i xs) = mset xs"
    and "length (shuffle_step (random k) i xs) = length xs"
proof -
  obtain r where r: "random k = Fin r" "is_double r" "0 \<le> r" "r < 1"
    using assms(1) by (auto simp: random_ok_def)
  then obtain j where "j \<le> i" "shuffle_step (random k) i xs = xs[j := xs ! i, i := xs ! j]"
    using shuffle_step_swaps [OF r(2-4) assms(2,3)] by auto
  with assms(2) show "mset (shuffle_step (random k) i xs) = mset xs"
    "length (shuffle_step (random k) i xs) = length xs"
    by (simp_all add: mset_swap)
qed

lemma shuffle_loop_mset:
  assumes "random_ok random" "i < length xs \<or> i = 0" "length xs \<le> 2 ^ 53"
  shows "mset (shuffle_loop random k i xs) = mset xs"
  using assms(2,3)
proof (induction i arbitrary: k xs)
  case 0
  then show ?case by simp
next
  case (Suc i)
  then have i: "Suc i < length xs" "length xs \<le> 2 ^ 53" by auto
  note st = shuffle_step_mset [OF assms(1) i, of k]
  have "mset (shuffle_loop random (Suc k) i (shuffle_step (random k) (Suc i) xs))
          = mset (shuffle_step (random k) (Suc i) xs)"
    using Suc.IH [of "shuffle_step (random k) (Suc i) xs" "Suc k"] st(2) i by simp
  then show ?case using st(1) by simp
qed

text \<open>A sample no larger than the array is a part of it, without holes and without repetitions the
  array does not have.\<close>

lemma sampleArray_part:
  assumes "random_ok random" "n \<le> length array" "length array \<le> 2 ^ 53"
  shows "\<exists>ys. sampleArray random array n = map Some ys \<and> length ys = n \<and> mset ys \<subseteq># mset array"
proof -
  let ?sh = "shuffle_loop random 0 (length array - 1) (map Some array)"
  have m: "mset ?sh = mset (map Some array)"
    using assms by (intro shuffle_loop_mset) (auto simp: less_le)
  then have len: "length ?sh = length array" using mset_eq_length by fastforce
  have "None \<notin> set ?sh" using mset_eq_setD [OF m] by auto
  then have "?sh = map Some (map the ?sh)"
    by (auto simp: map_idI intro!: nth_equalityI)
      (metis nth_mem option.exhaust_sel)
  then obtain zs where zs: "?sh = map Some zs" by blast
  have mz: "mset zs = mset array"
    using arg_cong [OF m, of "image_mset the"] zs by (simp add: multiset.map_comp o_def)
  have "sampleArray random array n = map Some (take n zs)"
    using assms(2) len zs by (simp add: sampleArray_def set_length_def take_map)
  moreover have "length (take n zs) = n" using len zs assms(2) by simp
  moreover have "mset (take n zs) \<subseteq># mset array"
    unfolding mz [symmetric] by (metis append_take_drop_id mset_append mset_subset_eq_add_left)
  ultimately show ?thesis by blast
qed

lemma sampleArray_too_large:
  assumes "random_ok random" "length array < n" "length array \<le> 2 ^ 53"
  shows "length (sampleArray random array n) = n \<and> last (sampleArray random array n) = None"
proof -
  have "mset (shuffle_loop random 0 (length array - 1) (map Some array)) = mset (map Some array)"
    using assms by (intro shuffle_loop_mset) (auto simp: less_le)
  then have "length (shuffle_loop random 0 (length array - 1) (map Some array)) = length array"
    using mset_eq_length by fastforce
  with assms(2) show ?thesis by (simp add: sampleArray_def set_length_def)
qed

section \<open>The slowdown plugin\<close>

definition AFFECTED_PLATFORM_COUNT :: nat where "AFFECTED_PLATFORM_COUNT = 2"
definition AFFECTED_PLATFROM_DELAY_MS :: nat where "AFFECTED_PLATFROM_DELAY_MS = 2000"

definition PLATFORMS :: "string list" where
  "PLATFORMS = [''dynatestsieger.at'', ''tradeCom.co.uk'', ''CryptoTrading.com'',
                ''CheapTrading.mi'', ''Stratton-oakmount.com'']"

record ErgoAggregatorSlowdownPlugin =
  delayMs :: nat
  affectedPlatforms :: "string option list"
  pluginName :: string

definition new_ErgoAggregatorSlowdownPlugin :: "nat \<Rightarrow> string option list \<Rightarrow> ErgoAggregatorSlowdownPlugin" where
  "new_ErgoAggregatorSlowdownPlugin ms platforms =
     \<lparr>delayMs = ms, affectedPlatforms = platforms, pluginName = ''ergo_aggregator_slowdown''\<rparr>"

definition isPlatformAffected :: "ErgoAggregatorSlowdownPlugin \<Rightarrow> string \<Rightarrow> bool" where
  "isPlatformAffected pl platformName \<longleftrightarrow> Some platformName \<in> set (affectedPlatforms pl)"

text \<open>What a middleware does to the request it is given, in order.\<close>

datatype mw_event = Delay nat | Next

text \<open>\<open>run\<close> returns the delays it waited; the promise does not reject.\<close>

definition ergo_run :: "ErgoAggregatorSlowdownPlugin \<Rightarrow> GetOffersRequest \<Rightarrow> (js_error, mw_event list) result" where
  "ergo_run pl req =
     (let platformName = rq_platform req
      in if isPlatformAffected pl platformName then Inr [Delay (delayMs pl)] else Inr [])"

definition ergo_getName :: "ErgoAggregatorSlowdownPlugin \<Rightarrow> string" where
  "ergo_getName pl = pluginName pl"

section \<open>Flags\<close>

text \<open>The feature flag client: any failure on the way is \<open>undefined\<close>. The constructor has already
  computed the URL of the service.\<close>

definition FeatureFlagClient :: "url_ctor \<Rightarrow> process_env \<Rightarrow> (js_error, string) result" where
  "FeatureFlagClient mkURL penv = getFlagsUrl mkURL penv"

definition getFlag :: "axios_get \<Rightarrow> string \<Rightarrow> string \<Rightarrow> jsval" where
  "getFlag axios_get featureFlagServiceUrl flagId =
     (case axios_get (featureFlagServiceUrl @ ''/'' @ flagId) of
        Inl err \<Rightarrow> Undefined
      | Inr res \<Rightarrow> rs_data res)"

record ResolutionDetails =
  rd_value :: jsval
  rd_variant :: string

definition resolveBooleanEvaluation :: "axios_get \<Rightarrow> string \<Rightarrow> string \<Rightarrow> bool \<Rightarrow> ResolutionDetails" where
  "resolveBooleanEvaluation axios_get url flagKey defaultValue =
     (let plugin = getFlag axios_get url flagKey
      in \<lparr>rd_value = nullish (opt_prop plugin ''enabled'') (Bool defaultValue), rd_variant = flagKey\<rparr>)"

text \<open>The other three evaluations throw.\<close>

definition resolve_unsupported :: "string \<Rightarrow> 'v \<Rightarrow> (js_error, ResolutionDetails) result" where
  "resolve_unsupported flagKey defaultValue = Inl (ErrorMsg ''Method not implemented.'')"

section \<open>The plugin runner\<close>

text \<open>
  The middleware of a plugin, given by its name and its \<open>run\<close>. \<open>getBooleanValue\<close> is the method of
  the OpenFeature client (a third-party object around the provider).
\<close>

definition getPluginRunner ::
  "(string \<Rightarrow> bool \<Rightarrow> (js_error, jsval) result) \<Rightarrow> string
   \<Rightarrow> ('req \<Rightarrow> (js_error, mw_event list) result) \<Rightarrow> 'req \<Rightarrow> (js_error, mw_event list) result" where
  "getPluginRunner getBooleanValue name run req =
     rbind (getBooleanValue name False) (\<lambda>pluginState.
     rbind (if truthy pluginState then run req else Inr []) (\<lambda>evs.
       Inr (evs @ [Next])))"

text \<open>The contract a plugin has with the runner: \<open>run\<close> resolves and does not itself call \<open>next\<close>.\<close>

locale iplugin =
  fixes name :: string
    and run :: "'req \<Rightarrow> (js_error, mw_event list) result"
  assumes run_resolves: "\<exists>evs. run req = Inr evs \<and> Next \<notin> set evs"
begin

lemma runner_total:
  assumes "getBooleanValue name False = Inr v"
  shows "\<exists>evs. getPluginRunner getBooleanValue name run req = Inr (evs @ [Next]) \<and> Next \<notin> set evs"
  using run_resolves [of req] assms by (auto simp: getPluginRunner_def)

lemma runner_off:
  "getBooleanValue name False = Inr v \<Longrightarrow> \<not> truthy v \<Longrightarrow>
     getPluginRunner getBooleanValue name run req = Inr [Next]"
  by (simp add: getPluginRunner_def)

lemma runner_on:
  "getBooleanValue name False = Inr v \<Longrightarrow> truthy v \<Longrightarrow> run req = Inr evs \<Longrightarrow>
     getPluginRunner getBooleanValue name run req = Inr (evs @ [Next])"
  by (simp add: getPluginRunner_def)

end

interpretation ergo: iplugin "ergo_getName pl" "ergo_run pl" for pl
  by unfold_locales (simp add: ergo_run_def Let_def)

text \<open>What the SDK documents of a boolean evaluation: it resolves to the value its provider gives.\<close>

definition sdk_evaluates :: "(string \<Rightarrow> bool \<Rightarrow> (js_error, jsval) result) \<Rightarrow> axios_get \<Rightarrow> string \<Rightarrow> bool" where
  "sdk_evaluates getBooleanValue axios_get url \<longleftrightarrow>
     (\<forall>k d. getBooleanValue k d = Inr (rd_value (resolveBooleanEvaluation axios_get url k d)))"

text \<open>The entry of \<open>pluginList\<close>, built when the module is loaded.\<close>

definition slowdown_plugin :: "(nat \<Rightarrow> jsnum) \<Rightarrow> ErgoAggregatorSlowdownPlugin" where
  "slowdown_plugin random =
     new_ErgoAggregatorSlowdownPlugin AFFECTED_PLATFROM_DELAY_MS
       (sampleArray random PLATFORMS AFFECTED_PLATFORM_COUNT)"

lemma slowdown_affected:
  assumes "random_ok random"
  shows "\<exists>a b. a \<noteq> b \<and> a \<in> set PLATFORMS \<and> b \<in> set PLATFORMS \<and>
           (\<forall>p. isPlatformAffected (slowdown_plugin random) p \<longleftrightarrow> p = a \<or> p = b)"
proof -
  have P: "length PLATFORMS = 5" "distinct PLATFORMS" by (simp_all add: PLATFORMS_def)
  then obtain ys where ys: "sampleArray random PLATFORMS 2 = map Some ys" "length ys = 2"
      "mset ys \<subseteq># mset PLATFORMS"
    using sampleArray_part [OF assms, of 2 PLATFORMS] by auto
  then obtain a b where ab: "ys = [a, b]" by (auto simp: numeral_2_eq_2 length_Suc_conv)
  have sub: "set_mset (mset ys) \<subseteq> set_mset (mset PLATFORMS)" using ys(3) by (rule set_mset_mono)
  have "a \<noteq> b"
  proof
    assume "a = b"
    then have "2 \<le> count (mset PLATFORMS) a" using mset_subset_eq_count [OF ys(3), of a] ab by simp
    moreover have "count (mset PLATFORMS) a \<le> 1"
      using P(2) unfolding distinct_count_atmost_1 by simp
    ultimately show False by simp
  qed
  with ab ys sub show ?thesis
    by (intro exI [of _ a] exI [of _ b])
      (auto simp: slowdown_plugin_def new_ErgoAggregatorSlowdownPlugin_def isPlatformAffected_def
        AFFECTED_PLATFORM_COUNT_def)
qed

text \<open>The two platforms that are slowed, and what the middleware does for each request.\<close>

lemma slowdown_runner:
  assumes "random_ok random"
  shows "\<exists>a b. a \<noteq> b \<and> a \<in> set PLATFORMS \<and> b \<in> set PLATFORMS \<and>
    (\<forall>getBooleanValue axios_get url req. sdk_evaluates getBooleanValue axios_get url \<longrightarrow>
       getPluginRunner getBooleanValue (ergo_getName (slowdown_plugin random)) (ergo_run (slowdown_plugin random)) req
         = Inr (if truthy (opt_prop (getFlag axios_get url ''ergo_aggregator_slowdown'') ''enabled'')
                     \<and> rq_platform req \<in> {a, b}
                then [Delay 2000, Next] else [Next]))"
proof -
  let ?pl = "slowdown_plugin random"
  obtain a b where ab: "a \<noteq> b" "a \<in> set PLATFORMS" "b \<in> set PLATFORMS"
      "\<And>p. isPlatformAffected ?pl p \<longleftrightarrow> p = a \<or> p = b"
    using slowdown_affected [OF assms(1)] by blast
  have name: "ergo_getName ?pl = ''ergo_aggregator_slowdown''" and ms: "delayMs ?pl = 2000"
    by (simp_all add: ergo_getName_def slowdown_plugin_def new_ErgoAggregatorSlowdownPlugin_def
        AFFECTED_PLATFROM_DELAY_MS_def)
  have "getPluginRunner getBooleanValue (ergo_getName ?pl) (ergo_run ?pl) req
      = Inr (if truthy (opt_prop (getFlag axios_get url ''ergo_aggregator_slowdown'') ''enabled'') \<and> rq_platform req \<in> {a, b}
             then [Delay 2000, Next] else [Next])"
    if sdk: "sdk_evaluates getBooleanValue axios_get url" for getBooleanValue axios_get url req
  proof -
    let ?on = "truthy (opt_prop (getFlag axios_get url ''ergo_aggregator_slowdown'') ''enabled'')"
    have "truthy (nullish v (Bool False)) = truthy v" for v
      by (cases v) (simp_all add: nullish_def)
    then obtain v where v: "getBooleanValue (ergo_getName ?pl) False = Inr v" "truthy v \<longleftrightarrow> ?on"
      using sdk unfolding name sdk_evaluates_def resolveBooleanEvaluation_def Let_def
      by (metis ResolutionDetails.select_convs(1))
    show ?thesis
    proof (cases "truthy v")
      case True
      have "ergo_run ?pl req = Inr (if rq_platform req \<in> {a, b} then [Delay 2000] else [])"
        using ab(4) ms by (simp add: ergo_run_def)
      from ergo.runner_on [where pl = ?pl and getBooleanValue = getBooleanValue and req = req, OF v(1) True this] v(2) True show ?thesis by simp
    next
      case False
      with ergo.runner_off [where pl = ?pl and getBooleanValue = getBooleanValue and req = req, OF v(1) False] v(2) show ?thesis by simp
    qed
  qed
  with ab(1-3) show ?thesis by blast
qed

section \<open>Properties\<close>

text \<open>Sampling. For every value of \<open>Math.random\<close>, a sample no larger than the array has the
  requested size, has no holes, and takes no element more often than the array has it; a larger
  request is padded with holes to the requested size.\<close>

lemma sampleArray_samples:
  assumes "random_ok random" "length array \<le> 2 ^ 53"
  shows "length (sampleArray random array n) = n \<and>
         (if n \<le> length array
          then \<exists>ys. sampleArray random array n = map Some ys \<and> mset ys \<subseteq># mset array
          else last (sampleArray random array n) = None)"
  using sampleArray_part [OF assms(1) _ assms(2), of n] sampleArray_too_large [OF assms(1) _ assms(2), of n]
  by (cases "n \<le> length array") auto

lemma random_zero_ok: "random_ok (\<lambda>k. Fin 0)"
  using fl_of_int [of 0] by (simp add: random_ok_def is_double_def jint_def)

lemma sampleArray_samples_witness:
  "length (sampleArray (\<lambda>k. Fin 0) PLATFORMS 2) = 2"
  using sampleArray_samples [of "\<lambda>k. Fin 0" PLATFORMS 2]
  by (simp add: random_zero_ok PLATFORMS_def)

text \<open>C17 (slowdown). Whatever the random numbers at start-up, two distinct platforms of the five are
  affected for the life of the process. The middleware of the plugin calls \<open>next\<close> exactly once, at the
  end; it waits 2000 ms before that exactly when the flag service reports the flag as enabled and
  the request's platform is affected; and it only calls \<open>next\<close> when the flag cannot be fetched.\<close>

theorem slowdown_middleware:
  assumes "random_ok random" and sdk: "sdk_evaluates getBooleanValue axios_get url"
  shows "\<exists>a b. a \<noteq> b \<and> a \<in> set PLATFORMS \<and> b \<in> set PLATFORMS \<and>
    (\<forall>req. getPluginRunner getBooleanValue (ergo_getName (slowdown_plugin random))
             (ergo_run (slowdown_plugin random)) req
         = Inr (if truthy (opt_prop (getFlag axios_get url ''ergo_aggregator_slowdown'') ''enabled'')
                     \<and> rq_platform req \<in> {a, b}
                then [Delay 2000, Next] else [Next])) \<and>
    (\<forall>e. axios_get (url @ ''/ergo_aggregator_slowdown'') = Inl e \<longrightarrow>
        \<not> truthy (opt_prop (getFlag axios_get url ''ergo_aggregator_slowdown'') ''enabled''))"
proof -
  obtain a b where "a \<noteq> b" "a \<in> set PLATFORMS" "b \<in> set PLATFORMS"
    "\<And>req. getPluginRunner getBooleanValue (ergo_getName (slowdown_plugin random)) (ergo_run (slowdown_plugin random)) req
      = Inr (if truthy (opt_prop (getFlag axios_get url ''ergo_aggregator_slowdown'') ''enabled'')
                  \<and> rq_platform req \<in> {a, b}
             then [Delay 2000, Next] else [Next])"
    using slowdown_runner [OF assms(1)] sdk by blast
  then show ?thesis by (intro exI [of _ a] exI [of _ b]) (simp add: getFlag_def opt_prop_def)
qed

lemma slowdown_middleware_witness:
  "getPluginRunner (\<lambda>k d. Inr (Bool False)) (ergo_getName (slowdown_plugin (\<lambda>k. Fin 0)))
     (ergo_run (slowdown_plugin (\<lambda>k. Fin 0)))
     \<lparr>rq_platform = ''p'', rq_productFilter = Undefined, rq_maxYearlyFeeFilter = Undefined, rq_accept = None\<rparr>
   = Inr [Next]"
proof -
  have "sdk_evaluates (\<lambda>k d. Inr (Bool False)) (\<lambda>u. Inr \<lparr>rs_status = 200, rs_statusText = [],
      rs_data = Obj [(''enabled'', Bool False)]\<rparr>) ''u''"
    by (simp add: sdk_evaluates_def resolveBooleanEvaluation_def getFlag_def opt_prop_def)
  from slowdown_middleware [OF random_zero_ok this] show ?thesis
    by (auto simp: getFlag_def opt_prop_def)
qed

end
