(* ===== verification/Offer_App.thy ===== *)
theory Offer_App
  imports Offer_Plugins
begin

text \<open>
  The rest of the offer service: the sign-up and version handlers (\<open>signups\<close>, \<open>version\<close>), the routes
  and the start of the application (\<open>routes\<close>, \<open>app.ts\<close>) as the list of layers given to express, in
  order. Express itself (matching, the default error handler) is not modelled.
\<close>

section \<open>Sign-up\<close>

text \<open>
  \<open>stringify_res\<close> is \<open>JSON.stringify\<close> on a whole axios response, which the success branch logs: the
  response holds the request object, so the call may throw.
\<close>

definition json_reply :: "int \<Rightarrow> jsval \<Rightarrow> reply" where
  "json_reply status v = \<lparr>rp_status = status, rp_type = ''application/json'', rp_body = JsonBody v\<rparr>"

definition signup_error :: "js_error \<Rightarrow> reply" where
  "signup_error err =
     (case err of
        AxiosError m resp \<Rightarrow>
          json_reply (opt_or (map_option rs_status resp) 500)
            (nullish (case resp of None \<Rightarrow> Undefined | Some r \<Rightarrow> rs_data r)
              (Str (''Unexpected server side error ['' @ error_to_string err @ '']'')))
      | _ \<Rightarrow> json_reply 500
          (Str (''Unexpected error when trying to singup user ['' @ error_to_string err @ '']'')))"

definition signUpNewUser ::
  "(http_response \<Rightarrow> (js_error, string) result) \<Rightarrow> url_ctor \<Rightarrow> process_env \<Rightarrow> axios_post
   \<Rightarrow> jsval \<Rightarrow> reply" where
  "signUpNewUser stringify_res mkURL penv axios_post req_body =
     (case rbind (getCreateNewUserUrl mkURL penv) (\<lambda>url.
           rbind (axios_post url req_body) (\<lambda>res.
           rbind (stringify_res res) (\<lambda>logged.
             Inr (json_reply 201 (rs_data res))))) of
        Inl err \<Rightarrow> signup_error err
      | Inr r \<Rightarrow> r)"

section \<open>Version\<close>

record Version =
  buildVersion :: string
  buildDate :: string
  buildCommit :: string

definition getVersionString :: "Version \<Rightarrow> string" where
  "getVersionString v =
     ''EasyTrade Offer Service Version: '' @ buildVersion v @ [CHR 0x0A, CHR 0x0A] @ ''Build date: ''
       @ buildDate v @ '', git commit: '' @ buildCommit v"

definition version_to_js :: "Version \<Rightarrow> jsval" where
  "version_to_js v =
     Obj [(''buildVersion'', Str (buildVersion v)), (''buildDate'', Str (buildDate v)),
          (''buildCommit'', Str (buildCommit v))]"

definition getVersion :: "Version \<Rightarrow> string option \<Rightarrow> reply" where
  "getVersion v accept =
     (if accept = Some ''application/json''
      then \<lparr>rp_status = 200, rp_type = ''application/json'', rp_body = JsonBody (version_to_js v)\<rparr>
      else \<lparr>rp_status = 200, rp_type = ''text/plain'', rp_body = TextBody (getVersionString v)\<rparr>)"

section \<open>Layers\<close>

datatype handler = OffersHandler | SignupHandler | VersionHandler

datatype layer =
    UrlEncoded
  | JsonBodyParser
  | CorsHeaders
  | LogRequest
  | SetFlagClient string
  | RunPlugin string ErgoAggregatorSlowdownPlugin
  | Get string handler
  | Post string handler

definition GET_OFFERS :: string where "GET_OFFERS = ''/api/offers/:platform''"
definition NEW_USER :: string where "NEW_USER = ''/api/signup''"
definition GET_VERSION :: string where "GET_VERSION = ''/api/version''"

definition pluginList :: "(nat \<Rightarrow> jsnum) \<Rightarrow> (string \<times> ErgoAggregatorSlowdownPlugin) list" where
  "pluginList random = [(GET_OFFERS, slowdown_plugin random)]"

text \<open>The provider's constructor computes the flag URL, which is where set-up may throw.\<close>

definition addOpenFeature :: "url_ctor \<Rightarrow> process_env \<Rightarrow> layer list \<Rightarrow> (js_error, layer list) result" where
  "addOpenFeature mkURL penv app =
     rbind (FeatureFlagClient mkURL penv) (\<lambda>url. Inr (app @ [SetFlagClient url]))"

definition setupPlugins ::
  "url_ctor \<Rightarrow> process_env \<Rightarrow> (nat \<Rightarrow> jsnum) \<Rightarrow> layer list \<Rightarrow> (js_error, layer list) result" where
  "setupPlugins mkURL penv random app =
     rbind (addOpenFeature mkURL penv app) (\<lambda>app1.
       Inr (foldl (\<lambda>a (route, plugin). a @ [RunPlugin route plugin]) app1 (pluginList random)))"

definition registerOffersRoutes :: "layer list \<Rightarrow> layer list" where
  "registerOffersRoutes app = app @ [Get GET_OFFERS OffersHandler]"

definition registerSignupRoutes :: "layer list \<Rightarrow> layer list" where
  "registerSignupRoutes app = app @ [Post NEW_USER SignupHandler]"

definition registerVersionRoutes :: "layer list \<Rightarrow> layer list" where
  "registerVersionRoutes app = app @ [Get GET_VERSION VersionHandler]"

definition registerRoutes :: "layer list \<Rightarrow> layer list" where
  "registerRoutes app = registerVersionRoutes (registerSignupRoutes (registerOffersRoutes app))"

text \<open>What the third layer sets on every answer, and what the fourth writes to the log; the query and the body come
  as the texts \<open>JSON.stringify\<close> gives.\<close>

definition cors_headers :: "(string \<times> string) list" where
  "cors_headers =
     [(''Access-Control-Allow-Origin'', ''*''),
      (''Access-Control-Allow-Methods'', ''OPTIONS, GET, POST, PUT, PATCH, DELETE''),
      (''Access-Control-Allow-Headers'', ''Content-Type, Authorization'')]"

record http_call =
  hc_method :: string
  hc_baseUrl :: string
  hc_path :: string
  hc_query :: string
  hc_body :: string

definition request_message :: "http_call \<Rightarrow> string" where
  "request_message req =
     ''Got ['' @ hc_method req @ ''] request to ['' @ hc_baseUrl req @ hc_path req @ ''] with query ['' @
     hc_query req @ ''] and body ['' @ hc_body req @ '']''"

text \<open>The module \<open>app.ts\<close>: check, middleware, plugins, routes, listen. \<open>app.disable\<close> switches a setting of
  express off and adds no layer.\<close>

record running =
  run_layers :: "layer list"
  run_disabled :: "string list"
  run_port :: jsnum

definition start_app ::
  "url_ctor \<Rightarrow> process_env \<Rightarrow> (nat \<Rightarrow> jsnum) \<Rightarrow> (js_error, running) result" where
  "start_app mkURL penv random =
     (case checkEnvVars penv envManager of
        Inl e \<Rightarrow> Inl (env_to_js e)
      | Inr u \<Rightarrow>
          rbind (setupPlugins mkURL penv random [UrlEncoded, JsonBodyParser, CorsHeaders, LogRequest])
            (\<lambda>app. let app1 = registerRoutes app
                   in case getEnv penv envManager APP_PORT of
                        Inl e \<Rightarrow> Inl (env_to_js e)
                      | Inr p \<Rightarrow> Inr \<lparr>run_layers = app1, run_disabled = [''x-powered-by''], run_port = parseInt p\<rparr>))"

section \<open>Lemmas\<close>

lemma checkEnvVars_envManager: "checkEnvVars penv envManager = Inr ()"
proof -
  have "\<forall>n v. om_get envManager n = Some v \<and> \<not> ev_deferred v \<longrightarrow> (\<exists>x. getEnv penv envManager n = Inr x)"
  proof (intro allI impI)
    fix n v assume "om_get envManager n = Some v \<and> \<not> ev_deferred v"
    then have "find (\<lambda>v. ev_name v = n) (rev envManager_vars) = Some v" by (simp add: envManager_get)
    from find_Some_mem [OF this] have "n \<in> set (map ev_name envManager_vars)" by auto
    then show "\<exists>x. getEnv penv envManager n = Inr x" by (rule envManager_known)
  qed
  then show ?thesis using checkEnvVars_exact [OF env_wf_envManager] by blast
qed

lemma app_port_answer: "getEnv penv envManager APP_PORT = Inr (opt_or (penv APP_PORT) ''8080'')"
proof -
  have v: "EnvVar APP_PORT (Some ''8080'') False \<in> set envManager_vars" by (simp add: envManager_vars_def)
  have "APP_PORT \<in> set (map ev_name envManager_vars)" unfolding envManager_names by simp
  then have "getEnv penv envManager APP_PORT = Inr (env.answer penv APP_PORT)" by (rule env.read_answer)
  then show ?thesis using env_answer_default [OF v, of penv] by (simp add: EnvVar_def)
qed

lemma start_app_eq:
  "start_app mkURL penv random =
     rbind (getFlagsUrl mkURL penv) (\<lambda>url. Inr
       \<lparr>run_layers = [UrlEncoded, JsonBodyParser, CorsHeaders, LogRequest, SetFlagClient url,
          RunPlugin GET_OFFERS (slowdown_plugin random), Get GET_OFFERS OffersHandler,
          Post NEW_USER SignupHandler, Get GET_VERSION VersionHandler],
        run_disabled = [''x-powered-by''], run_port = parseInt (opt_or (penv APP_PORT) ''8080'')\<rparr>)"
  by (cases "getFlagsUrl mkURL penv")
    (simp_all add: start_app_def checkEnvVars_envManager setupPlugins_def addOpenFeature_def
      FeatureFlagClient_def pluginList_def registerRoutes_def registerOffersRoutes_def
      registerSignupRoutes_def registerVersionRoutes_def app_port_answer)

lemma getCreateNewUserUrl_const:
  "getCreateNewUserUrl (\<lambda>p b. Inr u) penv = Inr u"
  by (simp add: getCreateNewUserUrl_def with_base_def getLoginServiceBaseUrl_eq)

lemma getFlagsUrl_const:
  "getFlagsUrl (\<lambda>p b. Inr u) penv = Inr u"
  by (simp add: getFlagsUrl_def with_base_def getFeatureFlagServiceBaseUrl_eq)

lemma getFlagsUrl_call:
  "getFlagsUrl mkURL penv = mkURL GET_FLAGS_API
     (base_url (env.answer penv FEATURE_FLAG_SERVICE_PROTOCOL)
        (env.answer penv FEATURE_FLAG_SERVICE_BASE_URL) (env.answer penv FEATURE_FLAG_SERVICE_PORT))"
  by (simp add: getFlagsUrl_def with_base_def getFeatureFlagServiceBaseUrl_eq)

section \<open>Properties\<close>

text \<open>C20 (sign-up). A client is told 201 exactly when the login service created the account and the
  response could be serialised for the log; when the account was created and the serialisation throws
  a \<open>TypeError\<close> (a circular structure) the client is told 500 all the same; a refusal of the login
  service is passed on with its own status.\<close>

theorem signUp_status:
  assumes url: "getCreateNewUserUrl mkURL penv = Inr url"
    and axios: "\<And>m r. axios_post url b = Inl (AxiosError m (Some r)) \<Longrightarrow> rs_status r \<noteq> 201"
    and json: "\<And>res e. stringify_res res = Inl e \<Longrightarrow> \<exists>m. e = TypeError m"
  shows "(rp_status (signUpNewUser stringify_res mkURL penv axios_post b) = 201 \<longleftrightarrow>
            (\<exists>res s. axios_post url b = Inr res \<and> stringify_res res = Inr s)) \<and>
         (\<forall>res e. axios_post url b = Inr res \<and> stringify_res res = Inl e \<longrightarrow>
            rp_status (signUpNewUser stringify_res mkURL penv axios_post b) = 500) \<and>
         (\<forall>m r. axios_post url b = Inl (AxiosError m (Some r)) \<longrightarrow>
            rp_status (signUpNewUser stringify_res mkURL penv axios_post b) = rs_status r)"
proof (cases "axios_post url b")
  case (Inl err)
  then show ?thesis using url axios
    by (cases err) (auto simp: signUpNewUser_def signup_error_def json_reply_def opt_or_def
        split: option.splits)
next
  case (Inr res)
  show ?thesis
  proof (cases "stringify_res res")
    case (Inl e)
    then obtain m where "e = TypeError m" using json by blast
    with url \<open>axios_post url b = Inr res\<close> Inl show ?thesis
      by (simp add: signUpNewUser_def signup_error_def json_reply_def)
  next
    case (Inr s)
    with \<open>axios_post url b = Inr res\<close> url show ?thesis
      by (simp add: signUpNewUser_def json_reply_def)
  qed
qed

lemma signUp_status_witness:
  "rp_status (signUpNewUser (\<lambda>r. Inl (TypeError ''circular'')) (\<lambda>p b. Inr ''u'') (\<lambda>n. None)
     (\<lambda>u b. Inr \<lparr>rs_status = 200, rs_statusText = ''OK'', rs_data = Null\<rparr>) Null) = 500"
  using signUp_status [of "\<lambda>p b. Inr ''u''" "\<lambda>n. None" "''u''"
      "\<lambda>u b. Inr \<lparr>rs_status = 200, rs_statusText = ''OK'', rs_data = Null\<rparr>" Null
      "\<lambda>r. Inl (TypeError ''circular'')"]
  by (simp add: getCreateNewUserUrl_const)

text \<open>Whatever the environment, the application starts unless the flag URL is refused by
  the URL constructor: every variable has a default, so neither the start-up check nor any read throws.
  The layers are then in this order: the body parsers, the CORS headers and the request log before
  everything, the flag client before the plugin that uses it, and the plugin, on the offers route,
  before the offers handler. The port is \<open>APP_PORT\<close>, or 8080.\<close>

lemma start_app_layers:
  "start_app mkURL penv random =
     rbind (mkURL GET_FLAGS_API
       (base_url (env.answer penv FEATURE_FLAG_SERVICE_PROTOCOL)
          (env.answer penv FEATURE_FLAG_SERVICE_BASE_URL) (env.answer penv FEATURE_FLAG_SERVICE_PORT)))
       (\<lambda>url. Inr
         \<lparr>run_layers = [UrlEncoded, JsonBodyParser, CorsHeaders, LogRequest, SetFlagClient url,
            RunPlugin GET_OFFERS (slowdown_plugin random), Get GET_OFFERS OffersHandler,
            Post NEW_USER SignupHandler, Get GET_VERSION VersionHandler],
          run_disabled = [''x-powered-by''], run_port = parseInt (opt_or (penv APP_PORT) ''8080'')\<rparr>)"
  by (simp add: start_app_eq getFlagsUrl_call)

end
