(* ===== verification/Offer_Requests.thy ===== *)
theory Offer_Requests
  imports Offer_App
begin

text \<open>
  A request to the offer service on its way through the layers of \<open>app.ts\<close>: body parsers, headers, log, flag client,
  plugin, handlers. Express calls the layers in their order until one answers; the matching of routes, the parsers
  and the OpenFeature client are arguments. This joins the start of the application, the slowdown and the handlers.
\<close>

section \<open>Requests and what becomes of them\<close>

record incoming =
  in_method :: string
  in_path :: string
  in_query :: "string \<Rightarrow> jsval"
  in_query_text :: string
  in_accept :: "string option"

text \<open>The exchange carries \<open>req.body\<close>, the headers set so far, \<open>res.locals.openFeatureClient\<close> (the URL of its
  provider), the lines of the request log and the delays.\<close>

record exchange =
  ex_body :: jsval
  ex_headers :: "(string \<times> string) list"
  ex_client :: "string option"
  ex_log :: "string list"
  ex_waited :: "nat list"

definition new_exchange :: exchange where
  "new_exchange = \<lparr>ex_body = Undefined, ex_headers = [], ex_client = None, ex_log = [], ex_waited = []\<rparr>"

text \<open>A layer that throws hands the error to express; a promise of a layer that rejects is not awaited by express, so
  the request gets no answer; what no layer answers is left to express.\<close>

datatype served =
    Replied exchange reply
  | Refused exchange js_error
  | Unanswered exchange js_error
  | LeftToExpress exchange

datatype layer_end = Continue exchange | Finished served

record server =
  sv_parse :: "layer \<Rightarrow> incoming \<Rightarrow> jsval \<Rightarrow> (js_error, jsval) result"
  sv_stringify :: "jsval \<Rightarrow> string"
  sv_match :: "string \<Rightarrow> string \<Rightarrow> (string \<rightharpoonup> string) option"
  sv_mount :: "string \<Rightarrow> string \<Rightarrow> (string \<rightharpoonup> string) option"
  sv_boolean :: "string \<Rightarrow> string \<Rightarrow> bool \<Rightarrow> (js_error, jsval) result"
  sv_json_parse :: "string \<Rightarrow> (js_error, jsval) result"
  sv_build_xml :: "jsval \<Rightarrow> (js_error, string) result"
  sv_stringify_res :: "http_response \<Rightarrow> (js_error, string) result"
  sv_mkURL :: url_ctor
  sv_penv :: process_env
  sv_get :: axios_get
  sv_post :: axios_post
  sv_version :: Version

section \<open>The layers at work\<close>

text \<open>\<open>req.params\<close>, \<open>req.query\<close> and the header as the offers handler and the plugin read them.\<close>

definition offers_request :: "(string \<rightharpoonup> string) \<Rightarrow> incoming \<Rightarrow> GetOffersRequest" where
  "offers_request params rq =
     \<lparr>rq_platform = opt_or (params ''platform'') ''undefined'', rq_productFilter = in_query rq ''productFilter'',
      rq_maxYearlyFeeFilter = in_query rq ''maxYearlyFeeFilter'', rq_accept = in_accept rq\<rparr>"

definition call_handler :: "server \<Rightarrow> handler \<Rightarrow> (string \<rightharpoonup> string) \<Rightarrow> incoming \<Rightarrow> exchange \<Rightarrow> served" where
  "call_handler sv h params rq x =
     (case h of
        OffersHandler \<Rightarrow>
          (case getOffersGetController (sv_json_parse sv) (sv_build_xml sv) (sv_mkURL sv) (sv_penv sv) (sv_get sv)
             (offers_request params rq) of Inl e \<Rightarrow> Unanswered x e | Inr r \<Rightarrow> Replied x r)
      | SignupHandler \<Rightarrow>
          Replied x (signUpNewUser (sv_stringify_res sv) (sv_mkURL sv) (sv_penv sv) (sv_post sv) (ex_body x))
      | VersionHandler \<Rightarrow> Replied x (getVersion (sv_version sv) (in_accept rq)))"

definition run_plugin :: "server \<Rightarrow> ErgoAggregatorSlowdownPlugin \<Rightarrow> GetOffersRequest \<Rightarrow> exchange \<Rightarrow> layer_end" where
  "run_plugin sv plugin req x =
     (case ex_client x of
        None \<Rightarrow> Finished (Unanswered x (TypeError ''Cannot read properties of undefined (reading getBooleanValue)''))
      | Some url \<Rightarrow>
          (case getPluginRunner (sv_boolean sv url) (ergo_getName plugin) (ergo_run plugin) req of
             Inl e \<Rightarrow> Finished (Unanswered x e)
           | Inr evs \<Rightarrow> Continue (x\<lparr>ex_waited := ex_waited x @ concat (map (\<lambda>ev. case ev of Delay ms \<Rightarrow> [ms] | Next \<Rightarrow> []) evs)\<rparr>)))"

text \<open>Express answers \<open>HEAD\<close> with the handler of \<open>GET\<close>.\<close>

fun serve_layer :: "server \<Rightarrow> incoming \<Rightarrow> layer \<Rightarrow> exchange \<Rightarrow> layer_end" where
  "serve_layer sv rq CorsHeaders x = Continue (x\<lparr>ex_headers := ex_headers x @ cors_headers\<rparr>)"
| "serve_layer sv rq LogRequest x =
     Continue (x\<lparr>ex_log := ex_log x @ [request_message \<lparr>hc_method = in_method rq, hc_baseUrl = [], hc_path = in_path rq,
        hc_query = in_query_text rq, hc_body = sv_stringify sv (ex_body x)\<rparr>]\<rparr>)"
| "serve_layer sv rq (SetFlagClient url) x = Continue (x\<lparr>ex_client := Some url\<rparr>)"
| "serve_layer sv rq (RunPlugin route plugin) x =
     (case sv_mount sv route (in_path rq) of
        None \<Rightarrow> Continue x
      | Some params \<Rightarrow> run_plugin sv plugin (offers_request params rq) x)"
| "serve_layer sv rq (Get route h) x =
     (if in_method rq \<in> {''GET'', ''HEAD''} then
        (case sv_match sv route (in_path rq) of
           None \<Rightarrow> Continue x | Some params \<Rightarrow> Finished (call_handler sv h params rq x))
      else Continue x)"
| "serve_layer sv rq (Post route h) x =
     (if in_method rq = ''POST'' then
        (case sv_match sv route (in_path rq) of
           None \<Rightarrow> Continue x | Some params \<Rightarrow> Finished (call_handler sv h params rq x))
      else Continue x)"
| "serve_layer sv rq parser x =
     (case sv_parse sv parser rq (ex_body x) of
        Inl e \<Rightarrow> Finished (Refused x e) | Inr body \<Rightarrow> Continue (x\<lparr>ex_body := body\<rparr>))"

fun serve :: "server \<Rightarrow> incoming \<Rightarrow> layer list \<Rightarrow> exchange \<Rightarrow> served" where
  "serve sv rq [] x = LeftToExpress x"
| "serve sv rq (l # ls) x =
     (case serve_layer sv rq l x of Continue x' \<Rightarrow> serve sv rq ls x' | Finished r \<Rightarrow> r)"

section \<open>The specification\<close>

text \<open>The two parsers, one after the other.\<close>

definition parse_body :: "server \<Rightarrow> incoming \<Rightarrow> (js_error, jsval) result" where
  "parse_body sv rq = rbind (sv_parse sv UrlEncoded rq Undefined) (\<lambda>b. sv_parse sv JsonBodyParser rq b)"

text \<open>What a handler finds: the headers set, the request logged, and the delay of the plugin, if any.\<close>

definition flag_on :: "server \<Rightarrow> string \<Rightarrow> bool" where
  "flag_on sv url = truthy (opt_prop (getFlag (sv_get sv) url ''ergo_aggregator_slowdown'') ''enabled'')"

definition slowed :: "server \<Rightarrow> string \<Rightarrow> string set \<Rightarrow> incoming \<Rightarrow> nat list" where
  "slowed sv url affected rq =
     (case sv_mount sv GET_OFFERS (in_path rq) of
        None \<Rightarrow> []
      | Some params \<Rightarrow> if flag_on sv url \<and> rq_platform (offers_request params rq) \<in> affected then [2000] else [])"

definition prepared :: "server \<Rightarrow> string \<Rightarrow> incoming \<Rightarrow> jsval \<Rightarrow> nat list \<Rightarrow> exchange" where
  "prepared sv url rq body delays =
     \<lparr>ex_body = body, ex_headers = cors_headers, ex_client = Some url,
      ex_log = [request_message \<lparr>hc_method = in_method rq, hc_baseUrl = [], hc_path = in_path rq,
        hc_query = in_query_text rq, hc_body = sv_stringify sv body\<rparr>],
      ex_waited = delays\<rparr>"

text \<open>What express documents of the three routes: no path matches two of them, and the parameters of a mounted layer
  are those of the handler's route.\<close>

definition routes_documented :: "server \<Rightarrow> bool" where
  "routes_documented sv \<longleftrightarrow>
     (\<forall>path params. sv_match sv GET_OFFERS path = Some params \<longrightarrow> sv_mount sv GET_OFFERS path = Some params \<and>
        sv_match sv NEW_USER path = None \<and> sv_match sv GET_VERSION path = None) \<and>
     (\<forall>path. sv_match sv NEW_USER path \<noteq> None \<or> sv_match sv GET_VERSION path \<noteq> None \<longrightarrow>
        sv_mount sv GET_OFFERS path = None) \<and>
     (\<forall>path. sv_match sv NEW_USER path = None \<or> sv_match sv GET_VERSION path = None)"

lemma serve_parsers:
  "parse_body sv rq = Inr body \<Longrightarrow>
     serve sv rq (UrlEncoded # JsonBodyParser # ls) new_exchange = serve sv rq ls (new_exchange\<lparr>ex_body := body\<rparr>)"
  "parse_body sv rq = Inl e \<Longrightarrow>
     \<exists>x. serve sv rq (UrlEncoded # JsonBodyParser # ls) new_exchange = Refused x e \<and> ex_headers x = []"
  by (auto simp: parse_body_def new_exchange_def rbind_eq_Inr rbind_eq_Inl split: sum.splits)

lemma serve_middle:
  "serve sv rq (CorsHeaders # LogRequest # SetFlagClient url # ls) (new_exchange\<lparr>ex_body := body\<rparr>) =
     serve sv rq ls (prepared sv url rq body [])"
  by (simp add: new_exchange_def prepared_def)

lemma prepared_parts [simp]: "ex_body (prepared sv url rq body ds) = body" "ex_headers (prepared sv url rq body ds) = cors_headers"
  "ex_waited (prepared sv url rq body ds) = ds" "ex_client (prepared sv url rq body ds) = Some url"
  "(prepared sv url rq body ds)\<lparr>ex_waited := ds'\<rparr> = prepared sv url rq body ds'"
  by (simp_all add: prepared_def)

text \<open>The handler a request reaches, if any.\<close>

definition routed :: "server \<Rightarrow> incoming \<Rightarrow> (handler \<times> (string \<rightharpoonup> string)) option" where
  "routed sv rq =
     (let get = in_method rq \<in> {''GET'', ''HEAD''}; post = in_method rq = ''POST''; on = \<lambda>route. sv_match sv route (in_path rq)
      in if get \<and> on GET_OFFERS \<noteq> None then Some (OffersHandler, the (on GET_OFFERS))
         else if post \<and> on NEW_USER \<noteq> None then Some (SignupHandler, the (on NEW_USER))
         else if get \<and> on GET_VERSION \<noteq> None then Some (VersionHandler, the (on GET_VERSION))
         else None)"

lemma serve_routes:
  "serve sv rq [Get GET_OFFERS OffersHandler, Post NEW_USER SignupHandler, Get GET_VERSION VersionHandler] x =
     (case routed sv rq of None \<Rightarrow> LeftToExpress x | Some (h, params) \<Rightarrow> call_handler sv h params rq x)"
  by (cases "sv_match sv GET_OFFERS (in_path rq)"; cases "sv_match sv NEW_USER (in_path rq)";
      cases "sv_match sv GET_VERSION (in_path rq)") (simp_all add: routed_def Let_def)

lemma serve_plugin:
  assumes "\<And>req. getPluginRunner (sv_boolean sv url) (ergo_getName pl) (ergo_run pl) req
      = Inr (if flag_on sv url \<and> rq_platform req \<in> affected then [Delay 2000, Next] else [Next])"
  shows "serve sv rq (RunPlugin GET_OFFERS pl # ls) (prepared sv url rq body []) =
    serve sv rq ls (prepared sv url rq body (slowed sv url affected rq))"
  by (cases "sv_mount sv GET_OFFERS (in_path rq)") (simp_all add: run_plugin_def slowed_def assms)

lemma unslowed:
  assumes "routes_documented sv" "routed sv rq = Some (h, params)" "h \<noteq> OffersHandler"
  shows "slowed sv url affected rq = []"
  using assms by (auto simp: routed_def routes_documented_def slowed_def Let_def split: if_splits)

text \<open>The layers of the application as it starts, together.\<close>

lemma app_serves:
  assumes "start_app (sv_mkURL sv) (sv_penv sv) random = Inr app" "random_ok random"
    and "\<forall>url. sdk_evaluates (sv_boolean sv url) (sv_get sv) url"
  shows "\<exists>url a b. getFlagsUrl (sv_mkURL sv) (sv_penv sv) = Inr url \<and> a \<noteq> b \<and> {a, b} \<subseteq> set PLATFORMS \<and>
    (\<forall>rq body. parse_body sv rq = Inr body \<longrightarrow> serve sv rq (run_layers app) new_exchange =
      (case routed sv rq of None \<Rightarrow> LeftToExpress (prepared sv url rq body (slowed sv url {a, b} rq))
       | Some (h, params) \<Rightarrow> call_handler sv h params rq (prepared sv url rq body (slowed sv url {a, b} rq)))) \<and>
    (\<forall>rq e. parse_body sv rq = Inl e \<longrightarrow>
      (\<exists>x. serve sv rq (run_layers app) new_exchange = Refused x e \<and> ex_headers x = []))"
proof -
  from assms(1) obtain url where url: "getFlagsUrl (sv_mkURL sv) (sv_penv sv) = Inr url"
    and layers: "run_layers app = [UrlEncoded, JsonBodyParser, CorsHeaders, LogRequest, SetFlagClient url,
       RunPlugin GET_OFFERS (slowdown_plugin random), Get GET_OFFERS OffersHandler,
       Post NEW_USER SignupHandler, Get GET_VERSION VersionHandler]"
    by (auto simp: start_app_eq rbind_eq_Inr)
  obtain a b where ab: "a \<noteq> b" "a \<in> set PLATFORMS" "b \<in> set PLATFORMS"
    "\<And>req. getPluginRunner (sv_boolean sv url) (ergo_getName (slowdown_plugin random)) (ergo_run (slowdown_plugin random)) req
      = Inr (if flag_on sv url \<and> rq_platform req \<in> {a, b} then [Delay 2000, Next] else [Next])"
    using slowdown_runner [OF assms(2)] assms(3) unfolding flag_on_def by blast
  have run: "serve sv rq (run_layers app) new_exchange =
      (case routed sv rq of None \<Rightarrow> LeftToExpress (prepared sv url rq body (slowed sv url {a, b} rq))
       | Some (h, params) \<Rightarrow> call_handler sv h params rq (prepared sv url rq body (slowed sv url {a, b} rq)))"
    if "parse_body sv rq = Inr body" for rq body
    unfolding layers serve_parsers(1) [OF that] serve_middle serve_plugin [OF ab(4)] serve_routes ..
  have refused: "\<exists>x. serve sv rq (run_layers app) new_exchange = Refused x e \<and> ex_headers x = []"
    if "parse_body sv rq = Inl e" for rq e
    unfolding layers using serve_parsers(2) [OF that] .
  from url ab(1-3) run refused show ?thesis by blast
qed

text \<open>Which requests a handler answers.\<close>

lemma handler_answers:
  assumes "\<forall>v. \<exists>x. sv_build_xml sv v = Inr x"
  shows "(\<exists>r. call_handler sv h params rq x = Replied x r) \<longleftrightarrow>
    \<not> (h = OffersHandler \<and> in_query rq ''productFilter'' \<noteq> Undefined \<and>
       (\<exists>e. sv_json_parse sv (to_str (in_query rq ''productFilter'')) = Inl e))"
proof (cases h)
  case OffersHandler
  have "(\<exists>e. getOffersGetController (sv_json_parse sv) (sv_build_xml sv) (sv_mkURL sv) (sv_penv sv) (sv_get sv)
        (offers_request params rq) = Inl e) \<longleftrightarrow>
      in_query rq ''productFilter'' \<noteq> Undefined \<and> (\<exists>e. sv_json_parse sv (to_str (in_query rq ''productFilter'')) = Inl e)"
    unfolding getOffersGetController_def
    using manager_backend.handler_rejects_iff [OF assms] by (simp add: offers_request_def)
  then show ?thesis using OffersHandler by (auto simp: call_handler_def split: sum.splits)
qed (simp_all add: call_handler_def)

section \<open>Properties\<close>


definition sample_server :: server where
  "sample_server =
     (let get = (\<lambda>u. Inr \<lparr>rs_status = 200, rs_statusText = ''OK'', rs_data = Obj [(''enabled'', Bool True)]\<rparr>);
          offers = (\<lambda>path. if take 12 path = ''/api/offers/'' then Some [''platform'' \<mapsto> drop 12 path] else None)
      in \<lparr>sv_parse = (\<lambda>l rq b. Inr Null), sv_stringify = to_str,
          sv_match = (\<lambda>route path. if route = GET_OFFERS then offers path else if route = path then Some Map.empty else None),
          sv_mount = (\<lambda>route. offers),
          sv_boolean = (\<lambda>url k d. Inr (rd_value (resolveBooleanEvaluation get url k d))),
          sv_json_parse = (\<lambda>s. Inl (ErrorMsg s)), sv_build_xml = (\<lambda>v. Inr []), sv_stringify_res = (\<lambda>r. Inr []),
          sv_mkURL = (\<lambda>p b. Inr ''http://flags''), sv_penv = (\<lambda>n. None), sv_get = get,
          sv_post = (\<lambda>u b. Inl (ErrorMsg u)),
          sv_version = \<lparr>buildVersion = ''1'', buildDate = ''d'', buildCommit = ''c''\<rparr>\<rparr>)"

definition version_request :: incoming where
  "version_request =
     \<lparr>in_method = ''GET'', in_path = ''/api/version'', in_query = (\<lambda>k. Undefined), in_query_text = ''{}'', in_accept = None\<rparr>"

lemma sample_server_starts:
  obtains app where "start_app (sv_mkURL sample_server) (sv_penv sample_server) (\<lambda>k. Fin 0) = Inr app"
    "getFlagsUrl (sv_mkURL sample_server) (sv_penv sample_server) = Inr ''http://flags''"
proof -
  have "sv_mkURL sample_server = (\<lambda>p b. Inr ''http://flags'')" "sv_penv sample_server = (\<lambda>n. None)"
    by (simp_all add: sample_server_def Let_def)
  then have "getFlagsUrl (sv_mkURL sample_server) (sv_penv sample_server) = Inr ''http://flags''"
    by (simp add: getFlagsUrl_const)
  with that show thesis by (simp add: start_app_eq)
qed

lemma sample_server_documented:
  "routes_documented sample_server"
  "\<forall>url. sdk_evaluates (sv_boolean sample_server url) (sv_get sample_server) url"
  "\<forall>v. \<exists>x. sv_build_xml sample_server v = Inr x"
  "parse_body sample_server rq = Inr Null"
  by (auto simp: routes_documented_def sdk_evaluates_def parse_body_def sample_server_def Let_def GET_OFFERS_def
      NEW_USER_def GET_VERSION_def split: if_splits)


end
