(* ===== verification/Offer_Log.thy ===== *)
theory Offer_Log
  imports Offer_Env JS_Value
begin

text \<open>
  The logger of the offer service (\<open>src/offerservice/src/logger.ts\<close>): what the module gives to winston, and the two
  functions that change it. What winston makes of it (levels, time stamps, the console) is not modelled; the line of
  an entry is \<open>myFormat\<close>, which winston calls with the entry after its own formats.
\<close>

definition TIMESTAMP_FORMAT :: string where "TIMESTAMP_FORMAT = ''YYYY-MM-DD HH:mm:ss''"
definition DEFAULT_LOGGING_LEVEL :: string where "DEFAULT_LOGGING_LEVEL = ''debug''"

definition supressLogs :: "process_env \<Rightarrow> bool" where
  "supressLogs penv \<longleftrightarrow> (case penv ''NODE_ENV'' of None \<Rightarrow> [] | Some v \<Rightarrow> trim v) = ''test''"

record log_entry =
  le_level :: string
  le_message :: string
  le_timestamp :: string
  le_stack :: "string option"

definition myFormat :: "log_entry \<Rightarrow> string" where
  "myFormat entry =
     ''['' @ le_timestamp entry @ ''] ['' @ toUpperCase (le_level entry) @ '']: '' @
     (case le_stack entry of None \<Rightarrow> le_message entry | Some stack \<Rightarrow> stack)"

record console_transport =
  ct_timestamp_format :: string
  ct_printf :: "log_entry \<Rightarrow> string"
  ct_silent :: bool

record logger =
  lg_level :: string
  lg_error_stacks :: bool
  lg_transports :: "console_transport list"
  lg_silent :: bool
  lg_defaultMeta :: "(string \<rightharpoonup> jsval) option"

definition offer_logger :: "process_env \<Rightarrow> logger" where
  "offer_logger penv =
     \<lparr>lg_level = DEFAULT_LOGGING_LEVEL, lg_error_stacks = True,
      lg_transports = [\<lparr>ct_timestamp_format = TIMESTAMP_FORMAT, ct_printf = myFormat, ct_silent = False\<rparr>],
      lg_silent = supressLogs penv, lg_defaultMeta = None\<rparr>"

text \<open>Spreading \<open>undefined\<close> gives no properties.\<close>

definition addMetadata :: "logger \<Rightarrow> (string \<rightharpoonup> jsval) \<Rightarrow> logger" where
  "addMetadata lg metadata =
     lg\<lparr>lg_defaultMeta := Some ((case lg_defaultMeta lg of None \<Rightarrow> Map.empty | Some d \<Rightarrow> d) ++ metadata)\<rparr>"

definition disableLogs :: "logger \<Rightarrow> logger" where
  "disableLogs lg = lg\<lparr>lg_transports := map (\<lambda>t. t\<lparr>ct_silent := True\<rparr>) (lg_transports lg)\<rparr>"

section \<open>Lemmas\<close>

text \<open>In a test run, white space around the word aside, the logger is silent from the start; in all others it
  is not, and stays so until it is switched off.\<close>

lemma trim_test: "trim ''test'' = ''test''" "trim '' test '' = ''test''"
  by (simp_all add: trim_def trim_start_def is_space_def)

lemma silent_in_tests:
  "lg_silent (offer_logger (\<lambda>n. None)) \<longleftrightarrow> False"
  "lg_silent (offer_logger [''NODE_ENV'' \<mapsto> '' test '']) \<longleftrightarrow> True"
  by (simp_all add: offer_logger_def supressLogs_def trim_test)

definition writes :: "logger \<Rightarrow> bool" where
  "writes lg \<longleftrightarrow> \<not> lg_silent lg \<and> (\<exists>t \<in> set (lg_transports lg). \<not> ct_silent t)"

lemma writes_logger: "writes (offer_logger penv) \<longleftrightarrow> \<not> supressLogs penv"
  by (simp add: writes_def offer_logger_def)

text \<open>Switching off is final and keeps the level, the formats and the metadata.\<close>

lemma disableLogs_silences: "\<not> writes (disableLogs lg)" "disableLogs (disableLogs lg) = disableLogs lg"
  by (auto simp: writes_def disableLogs_def comp_def)

lemma disableLogs_keeps:
  "lg_level (disableLogs lg) = lg_level lg" "lg_defaultMeta (disableLogs lg) = lg_defaultMeta lg"
  "map ct_printf (lg_transports (disableLogs lg)) = map ct_printf (lg_transports lg)"
  "disableLogs (addMetadata lg m) = addMetadata (disableLogs lg) m"
  by (simp_all add: disableLogs_def addMetadata_def comp_def)

text \<open>Metadata accumulate; a later value replaces an earlier one of the same name.\<close>

lemma addMetadata_lookup:
  "the (lg_defaultMeta (addMetadata lg m)) k =
     (case m k of Some v \<Rightarrow> Some v | None \<Rightarrow> (case lg_defaultMeta lg of None \<Rightarrow> None | Some d \<Rightarrow> d k))"
  by (simp add: addMetadata_def map_add_def split: option.splits)

lemma addMetadata_twice: "addMetadata (addMetadata lg m) m' = addMetadata lg (m ++ m')"
  by (simp add: addMetadata_def)

text \<open>The stack of an error stands in the place of its message.\<close>

lemma toUpperCase_error: "toUpperCase ''error'' = ''ERROR''"
  by code_simp

lemma myFormat_error:
  "myFormat \<lparr>le_level = ''error'', le_message = m, le_timestamp = t, le_stack = Some st\<rparr> = ''['' @ t @ ''] [ERROR]: '' @ st"
  by (simp add: myFormat_def toUpperCase_error)

end
