(* ===== verification/Loadgen_Selectors.thy ===== *)
theory Loadgen_Selectors
  imports Prelude
begin

text \<open>
  The selectors of the load generator (\<open>src/loadgen/src/selectors.ts\<close>): a label and an XPath
  expression each. Two of them, for the entries of the drop-down lists, are functions of the text.
\<close>

record selector =
  sel_name :: string
  sel_xpath :: string

definition XpathSelector :: "string \<Rightarrow> string \<Rightarrow> selector" where
  "XpathSelector name xpath = \<lparr>sel_name = name, sel_xpath = xpath\<rparr>"

definition common_currentBalance :: selector where
  "common_currentBalance =
     XpathSelector ''current-balance'' ''//input[@id=\"currentBalance\"]''"

definition loginPage_username :: selector where
  "loginPage_username =
     XpathSelector ''username-input'' ''//input[@id=\"login\"]''"

definition loginPage_password :: selector where
  "loginPage_password =
     XpathSelector ''password-input'' ''//input[@id=\"password\"]''"

definition loginPage_loginButton :: selector where
  "loginPage_loginButton =
     XpathSelector ''login-button'' ''//button[@id=\"submitButton\"]''"

definition navigation_sidebarToggler :: selector where
  "navigation_sidebarToggler =
     XpathSelector ''sidebar-toggler'' ''//button[@id=\"navigationToggler\"]''"

definition navigation_depositPage :: selector where
  "navigation_depositPage =
     XpathSelector ''deposit-page-nav'' ''//a[contains(@href, \"deposit\")]''"

definition navigation_homePage :: selector where
  "navigation_homePage =
     XpathSelector ''home-page-nav'' ''//a[contains(@href, \"home\")]''"

definition navigation_withdrawPage :: selector where
  "navigation_withdrawPage =
     XpathSelector ''withdraw-page-nav'' ''//a[contains(@href, \"withdraw\")]''"

definition navigation_instrumentsPage :: selector where
  "navigation_instrumentsPage =
     XpathSelector ''instruments-page-nav'' ''//a[contains(@href, \"instruments\")]''"

definition navigation_dropdownToggler :: selector where
  "navigation_dropdownToggler =
     XpathSelector ''dropdown-toggler'' ''//button[@id=\"profileToggler\"]''"

definition navigation_creditCardPage :: selector where
  "navigation_creditCardPage =
     XpathSelector ''credit-card-page-nav'' ''//a[contains(@href, \"credit-card\")]''"

definition navigation_logout :: selector where
  "navigation_logout =
     XpathSelector ''logout-button'' ''//li[@id=\"logoutItem\"]''"

definition depositPage_submit :: selector where
  "depositPage_submit =
     XpathSelector ''deposit-button'' ''//form//button[@type=\"submit\"]''"

definition depositPage_cardholderName :: selector where
  "depositPage_cardholderName =
     XpathSelector ''name-input'' ''//input[@id=\"cardholderName\"]''"

definition depositPage_cardType :: selector where
  "depositPage_cardType =
     XpathSelector ''credit-card-select'' ''//div[@id=\"cardType\"]''"

definition depositPage_cardType_provider :: "string \<Rightarrow> selector" where
  "depositPage_cardType_provider providerText =
     XpathSelector ''credit-card-provider''
       (''//*[@id=\"menu-cardType\"]//li[contains(text(), \"'' @ providerText @ ''\")]'')"

definition depositPage_address :: selector where
  "depositPage_address =
     XpathSelector ''address-input'' ''//input[@id=\"address\"]''"

definition depositPage_email :: selector where
  "depositPage_email =
     XpathSelector ''email-input'' ''//input[@id=\"email\"]''"

definition depositPage_cardNumber :: selector where
  "depositPage_cardNumber =
     XpathSelector ''card-number-input'' ''//input[@id=\"cardNumber\"]''"

definition depositPage_cardCvv :: selector where
  "depositPage_cardCvv =
     XpathSelector ''card-cvv-input'' ''//input[@id=\"cvv\"]''"

definition depositPage_amount :: selector where
  "depositPage_amount =
     XpathSelector ''deposit-amount-input'' ''//input[@id=\"amount\"]''"

definition depositPage_acceptTerms :: selector where
  "depositPage_acceptTerms =
     XpathSelector ''accept-terms-check'' ''//input[@id=\"agreement\"]''"

definition instrumentsPage_instrumentCard :: selector where
  "instrumentsPage_instrumentCard =
     XpathSelector ''instrument-card'' ''//div[contains(@class, \"instrument-card\")]/a[contains(@href, \"instruments\")]''"

definition instrumentsPage_ownedInstrument :: selector where
  "instrumentsPage_ownedInstrument =
     XpathSelector ''owned-instrument-card'' ''//div[contains(@class, \"owned-instrument\")]/a[contains(@href, \"instruments\")]''"

definition instrumentPage_quickBuyForm :: selector where
  "instrumentPage_quickBuyForm =
     XpathSelector ''quick-buy-nav'' ''//button[text()=\"Quick Buy\"]''"

definition instrumentPage_quickSellForm :: selector where
  "instrumentPage_quickSellForm =
     XpathSelector ''quick-sell-nav'' ''//button[text()=\"Quick Sell\"]''"

definition instrumentPage_buyForm :: selector where
  "instrumentPage_buyForm =
     XpathSelector ''long-buy-nav'' ''//button[text()=\"Buy\"]''"

definition instrumentPage_sellForm :: selector where
  "instrumentPage_sellForm =
     XpathSelector ''long-sell-nav'' ''//button[text()=\"Sell\"]''"

definition instrumentPage_instrumentPrice :: selector where
  "instrumentPage_instrumentPrice =
     XpathSelector ''instrument-price-view'' ''//h5[@id=\"instrumentPrice\"]''"

definition instrumentPage_instrumentName :: selector where
  "instrumentPage_instrumentName =
     XpathSelector ''instrument-name-view'' ''//*[@id=\"instrumentName\"]''"

definition instrumentPage_amountInput :: selector where
  "instrumentPage_amountInput =
     XpathSelector ''amount-input'' ''//input[@id=\"amount\"]''"

definition instrumentPage_possessedAmount :: selector where
  "instrumentPage_possessedAmount =
     XpathSelector ''owned-amount-view'' ''//input[@id=\"posessedAmount\"]''"

definition instrumentPage_priceInput :: selector where
  "instrumentPage_priceInput =
     XpathSelector ''price-input'' ''//input[@id=\"price\"]''"

definition instrumentPage_timeInput :: selector where
  "instrumentPage_timeInput =
     XpathSelector ''duration-input'' ''//input[@id=\"time\"]''"

definition instrumentPage_submitButton :: selector where
  "instrumentPage_submitButton =
     XpathSelector ''submit-transaction-button'' ''//button[@id=\"submitButton\"]''"

definition creditCardPage_nameInput :: selector where
  "creditCardPage_nameInput =
     XpathSelector ''name-input'' ''//input[@id=\"name\"]''"

definition creditCardPage_addressInput :: selector where
  "creditCardPage_addressInput =
     XpathSelector ''address-input'' ''//input[@id=\"address\"]''"

definition creditCardPage_emailInput :: selector where
  "creditCardPage_emailInput =
     XpathSelector ''email'' ''//input[@id=\"email\"]''"

definition creditCardPage_cardTypeInput :: selector where
  "creditCardPage_cardTypeInput =
     XpathSelector ''card-type-select'' ''//div[@id=\"type\"]''"

definition creditCardPage_cardType_type :: "string \<Rightarrow> selector" where
  "creditCardPage_cardType_type typeText =
     XpathSelector ''credit-card-provider''
       (''//*[@id=\"menu-type\"]//li[contains(text(), \"'' @ typeText @ ''\")]'')"

definition creditCardPage_orderCardButton :: selector where
  "creditCardPage_orderCardButton =
     XpathSelector ''order-card-button'' ''//button[@id=\"submitButton\"]''"

definition creditCardPage_acceptTerms :: selector where
  "creditCardPage_acceptTerms =
     XpathSelector ''accept-terms-check'' ''//input[@id=\"agreement\"]''"

definition creditCardPage_revokeCard :: selector where
  "creditCardPage_revokeCard =
     XpathSelector ''revoke-card-button'' ''//button[@id=\"revoke-card\"]''"

definition creditCardPage_orderIdDisplay :: selector where
  "creditCardPage_orderIdDisplay =
     XpathSelector ''order-id-view'' ''//p[@id=\"order-id\"]''"

lemmas selector_defs =
  XpathSelector_def
  common_currentBalance_def
  loginPage_username_def
  loginPage_password_def
  loginPage_loginButton_def
  navigation_sidebarToggler_def
  navigation_depositPage_def
  navigation_homePage_def
  navigation_withdrawPage_def
  navigation_instrumentsPage_def
  navigation_dropdownToggler_def
  navigation_creditCardPage_def
  navigation_logout_def
  depositPage_submit_def
  depositPage_cardholderName_def
  depositPage_cardType_def
  depositPage_cardType_provider_def
  depositPage_address_def
  depositPage_email_def
  depositPage_cardNumber_def
  depositPage_cardCvv_def
  depositPage_amount_def
  depositPage_acceptTerms_def
  instrumentsPage_instrumentCard_def
  instrumentsPage_ownedInstrument_def
  instrumentPage_quickBuyForm_def
  instrumentPage_quickSellForm_def
  instrumentPage_buyForm_def
  instrumentPage_sellForm_def
  instrumentPage_instrumentPrice_def
  instrumentPage_instrumentName_def
  instrumentPage_amountInput_def
  instrumentPage_possessedAmount_def
  instrumentPage_priceInput_def
  instrumentPage_timeInput_def
  instrumentPage_submitButton_def
  creditCardPage_nameInput_def
  creditCardPage_addressInput_def
  creditCardPage_emailInput_def
  creditCardPage_cardTypeInput_def
  creditCardPage_cardType_type_def
  creditCardPage_orderCardButton_def
  creditCardPage_acceptTerms_def
  creditCardPage_revokeCard_def
  creditCardPage_orderIdDisplay_def

end
