(* ===== verification/Loadgen_Page.thy ===== *)
theory Loadgen_Page
  imports Loadgen_Selectors JS_Value "HOL-Library.Sublist"
begin

text \<open>
  Programs that drive a browser page. The page object (\<open>IPageActions\<close> of the load generator library,
  and puppeteer behind it) is the argument \<open>browser\<close>: one function per method, which sees the calls
  made so far and answers or throws. A program is a function of the browser and of the session, the
  log of the calls made and the number of random numbers drawn; it returns its result, or the error
  that stopped it, with the session it leaves.
\<close>

type_synonym handle = nat

datatype cookie = Cookie (cookie_name: string) (cookie_value: string) (cookie_domain: string) (cookie_path: string)

datatype page_action =
    GotoPage string
  | Input selector string
  | Click selector
  | Navigate selector
  | ClickHandle handle
  | NavigateHandle handle
  | GetHandle selector
  | GetAllHandles selector
  | IsSelectorPresent selector
  | GetInnerText selector
  | GetProperty selector string
  | ShortDelay
  | StandardDelay
  | EndDtSession
  | SetUserAgent string
  | SetExtraHTTPHeaders "(string \<times> string) list"
  | SetCookie cookie

type_synonym page_log = "page_action list"

record browser =
  br_do :: "page_log \<Rightarrow> page_action \<Rightarrow> (js_error, unit) result"
  br_present :: "page_log \<Rightarrow> selector \<Rightarrow> (js_error, bool) result"
  br_handle :: "page_log \<Rightarrow> selector \<Rightarrow> (js_error, handle) result"
  br_handles :: "page_log \<Rightarrow> selector \<Rightarrow> (js_error, handle list) result"
  br_text :: "page_log \<Rightarrow> selector \<Rightarrow> (js_error, string) result"
  br_property :: "page_log \<Rightarrow> selector \<Rightarrow> string \<Rightarrow> (js_error, string) result"
  br_random :: "nat \<Rightarrow> jsnum"
  br_randomBetween :: "nat \<Rightarrow> jsnum \<Rightarrow> jsnum \<Rightarrow> jsnum"

record session =
  se_log :: page_log
  se_draws :: nat

type_synonym 'a page = "browser \<Rightarrow> session \<Rightarrow> (js_error, 'a) result \<times> session"

section \<open>Building programs\<close>

definition preturn :: "'a \<Rightarrow> 'a page" where
  "preturn x = (\<lambda>b s. (Inr x, s))"

definition pthrow :: "js_error \<Rightarrow> 'a page" where
  "pthrow e = (\<lambda>b s. (Inl e, s))"

definition pbind :: "'a page \<Rightarrow> ('a \<Rightarrow> 'b page) \<Rightarrow> 'b page" where
  "pbind m f = (\<lambda>b s. case m b s of (Inl e, s') \<Rightarrow> (Inl e, s') | (Inr x, s') \<Rightarrow> f x b s')"

definition pseq :: "unit page \<Rightarrow> 'a page \<Rightarrow> 'a page" where
  "pseq m k = pbind m (\<lambda>_. k)"

fun steps :: "unit page list \<Rightarrow> unit page" where
  "steps [] = preturn ()"
| "steps (m # ms) = pseq m (steps ms)"

text \<open>One call of the page object: logged, then answered.\<close>

definition pcall ::
  "page_action \<Rightarrow> (browser \<Rightarrow> page_log \<Rightarrow> (js_error, 'a) result) \<Rightarrow> 'a page" where
  "pcall a f = (\<lambda>b s. (f b (se_log s), s\<lparr>se_log := se_log s @ [a]\<rparr>))"

definition pdo :: "page_action \<Rightarrow> unit page" where
  "pdo a = pcall a (\<lambda>b l. br_do b l a)"

definition gotoPage :: "string \<Rightarrow> unit page" where "gotoPage url = pdo (GotoPage url)"
definition input :: "selector \<Rightarrow> string \<Rightarrow> unit page" where "input sel v = pdo (Input sel v)"
definition click :: "selector \<Rightarrow> unit page" where "click sel = pdo (Click sel)"
definition navigate :: "selector \<Rightarrow> unit page" where "navigate sel = pdo (Navigate sel)"
definition clickHandle :: "handle \<Rightarrow> unit page" where "clickHandle h = pdo (ClickHandle h)"
definition navigateHandle :: "handle \<Rightarrow> unit page" where "navigateHandle h = pdo (NavigateHandle h)"
definition shortDelay :: "unit page" where "shortDelay = pdo ShortDelay"
definition standardDelay :: "unit page" where "standardDelay = pdo StandardDelay"
definition endDtSession :: "unit page" where "endDtSession = pdo EndDtSession"

definition isSelectorPresent :: "selector \<Rightarrow> bool page" where
  "isSelectorPresent sel = pcall (IsSelectorPresent sel) (\<lambda>b l. br_present b l sel)"

definition getHandle :: "selector \<Rightarrow> handle page" where
  "getHandle sel = pcall (GetHandle sel) (\<lambda>b l. br_handle b l sel)"

definition getAllHandles :: "selector \<Rightarrow> handle list page" where
  "getAllHandles sel = pcall (GetAllHandles sel) (\<lambda>b l. br_handles b l sel)"

definition getInnerText :: "selector \<Rightarrow> string page" where
  "getInnerText sel = pcall (GetInnerText sel) (\<lambda>b l. br_text b l sel)"

definition getProperty :: "selector \<Rightarrow> string \<Rightarrow> string page" where
  "getProperty sel p = pcall (GetProperty sel p) (\<lambda>b l. br_property b l sel p)"

text \<open>The two sources of randomness, one draw each.\<close>

definition draw :: "(browser \<Rightarrow> nat \<Rightarrow> 'a) \<Rightarrow> 'a page" where
  "draw f = (\<lambda>b s. (Inr (f b (se_draws s)), s\<lparr>se_draws := Suc (se_draws s)\<rparr>))"

definition math_random :: "jsnum page" where
  "math_random = draw (\<lambda>b k. br_random b k)"

definition randomBetween :: "jsnum \<Rightarrow> jsnum \<Rightarrow> jsnum page" where
  "randomBetween lo hi = draw (\<lambda>b k. br_randomBetween b k lo hi)"

text \<open>\<open>arrayRandom\<close> of \<open>utils.ts\<close>: no draw for the empty array.\<close>

definition nth_js :: "'a list \<Rightarrow> jsnum \<Rightarrow> 'a option" where
  "nth_js xs x =
     (case x of Fin r \<Rightarrow> if 0 \<le> r \<and> of_int \<lfloor>r\<rfloor> = r \<and> nat \<lfloor>r\<rfloor> < length xs then Some (xs ! nat \<lfloor>r\<rfloor>) else None
      | _ \<Rightarrow> None)"

definition arrayRandom :: "'a list \<Rightarrow> 'a option page" where
  "arrayRandom array =
     (if array = [] then preturn None
      else pbind math_random (\<lambda>r.
        preturn (nth_js array (jfloor (jmul r (jint (int (length array))))))))"

text \<open>A page on which everything works, for concrete runs.\<close>

definition quiet_browser :: browser where
  "quiet_browser =
     \<lparr>br_do = \<lambda>l a. Inr (), br_present = \<lambda>l sel. Inr False, br_handle = \<lambda>l sel. Inr 0,
      br_handles = \<lambda>l sel. Inr [0], br_text = \<lambda>l sel. Inr [], br_property = \<lambda>l sel p. Inr ''1'',
      br_random = \<lambda>k. Fin 0, br_randomBetween = \<lambda>k lo hi. lo\<rparr>"

section \<open>Reasoning about programs\<close>

text \<open>
  \<open>ok_run m b s x s'\<close>: from session \<open>s\<close> the program returns \<open>x\<close> and leaves \<open>s'\<close>. The rules below
  take a successful run apart along the structure of the program.
\<close>

definition ok_run :: "'a page \<Rightarrow> browser \<Rightarrow> session \<Rightarrow> 'a \<Rightarrow> session \<Rightarrow> bool" where
  "ok_run m b s x s' \<longleftrightarrow> m b s = (Inr x, s')"

lemma ok_return [simp]: "ok_run (preturn x) b s y s' \<longleftrightarrow> y = x \<and> s' = s"
  by (auto simp: ok_run_def preturn_def)

lemma ok_throw [simp]: "\<not> ok_run (pthrow e) b s y s'"
  by (simp add: ok_run_def pthrow_def)

lemma ok_bind: "ok_run (pbind m f) b s y s' \<longleftrightarrow> (\<exists>x s1. ok_run m b s x s1 \<and> ok_run (f x) b s1 y s')"
  by (auto simp: ok_run_def pbind_def split: prod.splits sum.splits)

lemma ok_seq: "ok_run (pseq m k) b s y s' \<longleftrightarrow> (\<exists>s1. ok_run m b s () s1 \<and> ok_run k b s1 y s')"
  by (simp add: pseq_def ok_bind)

lemma ok_call:
  "ok_run (pcall a f) b s x s' \<longleftrightarrow> f b (se_log s) = Inr x \<and> s' = s\<lparr>se_log := se_log s @ [a]\<rparr>"
  by (auto simp: ok_run_def pcall_def)

lemma ok_draw: "ok_run (draw f) b s x s' \<longleftrightarrow> x = f b (se_draws s) \<and> s' = s\<lparr>se_draws := Suc (se_draws s)\<rparr>"
  by (auto simp: ok_run_def draw_def)

lemma ok_math_random:
  "ok_run math_random b s x s' \<longleftrightarrow> x = br_random b (se_draws s) \<and> s' = s\<lparr>se_draws := Suc (se_draws s)\<rparr>"
  by (simp add: math_random_def ok_draw)

lemma ok_randomBetween:
  "ok_run (randomBetween lo hi) b s x s' \<longleftrightarrow>
     x = br_randomBetween b (se_draws s) lo hi \<and> s' = s\<lparr>se_draws := Suc (se_draws s)\<rparr>"
  by (simp add: randomBetween_def ok_draw)

lemmas page_prims = gotoPage_def input_def click_def navigate_def clickHandle_def navigateHandle_def
  shortDelay_def standardDelay_def endDtSession_def pdo_def isSelectorPresent_def getHandle_def
  getAllHandles_def getInnerText_def getProperty_def

text \<open>Everything a program that succeeds went through.\<close>

lemmas ok_simps = ok_bind ok_seq ok_call ok_draw ok_math_random ok_randomBetween page_prims

lemma arrayRandom_elem:
  assumes "ok_run (arrayRandom xs) b s r s'"
  shows "se_log s' = se_log s \<and> (case r of None \<Rightarrow> True | Some x \<Rightarrow> x \<in> set xs)"
  using assms
  by (auto simp: arrayRandom_def ok_bind ok_math_random nth_js_def split: if_splits option.splits jsnum.splits)

text \<open>With the standard's promise on \<open>Math.random\<close> the choice is \<open>undefined\<close> only for the empty array.\<close>

lemma arrayRandom_some:
  assumes "\<And>k. \<exists>r. br_random b k = Fin r \<and> is_double r \<and> 0 \<le> r \<and> r < 1"
    and "xs \<noteq> []" "length xs \<le> 2 ^ 53" "ok_run (arrayRandom xs) b s r s'"
  shows "r \<noteq> None"
proof -
  obtain q where q: "br_random b (se_draws s) = Fin q" "is_double q" "0 \<le> q" "q < 1"
    using assms(1) by blast
  have "int (length xs) \<le> int (2 ^ 53)" using assms(3) by (simp only: of_nat_le_iff)
  then have "int (length xs) \<le> 2 ^ 53" by simp
  moreover have "0 < int (length xs)" using assms(2) by simp
  ultimately obtain j where "jfloor (jmul (Fin q) (jint (int (length xs)))) = jint j" "0 \<le> j" "j < int (length xs)"
    using jfloor_scale [OF q(2-4)] by blast
  with assms(2,4) q(1) show ?thesis
    by (auto simp: arrayRandom_def ok_bind ok_math_random nth_js_def jint_def split: if_splits)
qed

section \<open>The shape of a program's log\<close>

text \<open>
  \<open>shape m T\<close>: whatever the browser answers, the calls \<open>m\<close> appends to the log are a member of \<open>T\<close> when
  it returns, and a prefix of a member of \<open>T\<close> when it throws. So a program of a known shape never
  makes a call out of order and makes none after the one that failed. The rules follow the
  constructors of programs; each helper states its shape, declared as an introduction rule.
\<close>

definition shape :: "'a page \<Rightarrow> page_log set \<Rightarrow> bool" where
  "shape m T \<longleftrightarrow> T \<noteq> {} \<and>
     (\<forall>b s. \<exists>t. se_log (snd (m b s)) = se_log s @ t \<and>
        (case fst (m b s) of Inr x \<Rightarrow> t \<in> T | Inl e \<Rightarrow> \<exists>u \<in> T. prefix t u))"

definition conc :: "page_log set \<Rightarrow> page_log set \<Rightarrow> page_log set" where
  "conc A B = {x @ y |x y. x \<in> A \<and> y \<in> B}"

lemma conc_single [simp]: "conc {x} {y} = {x @ y}" "conc {[]} B = B" "conc A {[]} = A"
  by (auto simp: conc_def)

lemma conc_assoc: "conc (conc A B) C = conc A (conc B C)"
  by (auto simp: conc_def) (metis append.assoc)+

lemma in_conc: "x @ y \<in> conc A B" if "x \<in> A" "y \<in> B"
  using that by (auto simp: conc_def)

lemma shape_return [intro]: "shape (preturn x) {[]}"
  by (simp add: shape_def preturn_def)

lemma shape_throw [intro]: "T \<noteq> {} \<Longrightarrow> shape (pthrow e) T"
  by (auto simp: shape_def pthrow_def)

lemma shape_call [intro]: "shape (pcall a f) {[a]}"
  by (auto simp: shape_def pcall_def split: sum.splits)

lemma shape_draw [intro]: "shape (draw f) {[]}"
  by (simp add: shape_def draw_def)

lemma shape_mono: "shape m T \<Longrightarrow> T \<subseteq> U \<Longrightarrow> shape m U"
  unfolding shape_def by (fastforce split: sum.splits)

lemma shape_bind [intro]:
  assumes m: "shape m A" and f: "\<And>x. shape (f x) B"
  shows "shape (pbind m f) (conc A B)"
proof -
  have "B \<noteq> {}" using f unfolding shape_def by blast
  then obtain v where v: "v \<in> B" by blast
  have ne: "conc A B \<noteq> {}" using m v by (auto simp: shape_def conc_def)
  have "\<exists>t. se_log (snd (pbind m f b s)) = se_log s @ t \<and>
        (case fst (pbind m f b s) of Inr x \<Rightarrow> t \<in> conc A B | Inl e \<Rightarrow> \<exists>u \<in> conc A B. prefix t u)" for b s
  proof -
    obtain r s1 where r: "m b s = (r, s1)" by (cases "m b s")
    from m have "\<exists>t. se_log (snd (m b s)) = se_log s @ t \<and>
        (case fst (m b s) of Inr x \<Rightarrow> t \<in> A | Inl e \<Rightarrow> \<exists>u \<in> A. prefix t u)"
      unfolding shape_def by blast
    with r obtain t1 where t1: "se_log s1 = se_log s @ t1"
        "case r of Inr x \<Rightarrow> t1 \<in> A | Inl e \<Rightarrow> \<exists>u \<in> A. prefix t1 u" by auto
    show ?thesis
    proof (cases r)
      case (Inl e)
      with t1(2) obtain u where "u \<in> A" "prefix t1 u" by auto
      then have "u @ v \<in> conc A B" "prefix t1 (u @ v)" using v by (auto intro: in_conc)
      then show ?thesis using Inl r t1(1) by (auto simp: pbind_def)
    next
      case (Inr x)
      from f have "\<exists>t. se_log (snd (f x b s1)) = se_log s1 @ t \<and>
          (case fst (f x b s1) of Inr y \<Rightarrow> t \<in> B | Inl e \<Rightarrow> \<exists>u \<in> B. prefix t u)"
        unfolding shape_def by blast
      then obtain t2 where t2: "se_log (snd (f x b s1)) = se_log s1 @ t2"
          "case fst (f x b s1) of Inr y \<Rightarrow> t2 \<in> B | Inl e \<Rightarrow> \<exists>u \<in> B. prefix t2 u" by blast
      have "t1 \<in> A" using t1(2) Inr by simp
      have run: "pbind m f b s = f x b s1" using Inr r by (simp add: pbind_def)
      show ?thesis
      proof (cases "fst (f x b s1)")
        case (Inl e)
        with t2(2) obtain u where "u \<in> B" "prefix t2 u" by auto
        then have "t1 @ u \<in> conc A B" "prefix (t1 @ t2) (t1 @ u)"
          using \<open>t1 \<in> A\<close> by (auto intro: in_conc)
        then have "\<exists>w \<in> conc A B. prefix (t1 @ t2) w" by blast
        then show ?thesis unfolding run using Inl t1(1) t2(1)
          by (intro exI [of _ "t1 @ t2"]) simp
      next
        case (Inr y)
        then show ?thesis using run t1(1) t2 \<open>t1 \<in> A\<close>
          by (intro exI [of _ "t1 @ t2"]) (auto intro: in_conc)
      qed
    qed
  qed
  with ne show ?thesis unfolding shape_def by blast
qed

lemma shape_seq [intro]: "shape m A \<Longrightarrow> shape k B \<Longrightarrow> shape (pseq m k) (conc A B)"
  unfolding pseq_def by (rule shape_bind)

text \<open>A fixed list of calls.\<close>

lemma shape_pdo: "shape (pdo a) {[a]}"
  unfolding pdo_def by (rule shape_call)

lemma shape_steps_pdo: "shape (steps (map pdo acts)) {acts}"
proof (induction acts)
  case Nil
  then show ?case by auto
next
  case (Cons a acts)
  then have "shape (pseq (pdo a) (steps (map pdo acts))) (conc {[a]} {acts})"
    by (intro shape_seq shape_pdo)
  then show ?case by simp
qed

lemma shape_ok:
  assumes "shape m T" "m b s = (Inr x, s')"
  shows "\<exists>t \<in> T. se_log s' = se_log s @ t"
proof -
  from assms(1) have "\<exists>t. se_log (snd (m b s)) = se_log s @ t \<and>
        (case fst (m b s) of Inr x \<Rightarrow> t \<in> T | Inl e \<Rightarrow> \<exists>u \<in> T. prefix t u)"
    unfolding shape_def by blast
  then show ?thesis unfolding assms(2) by simp blast
qed

lemma shape_fail:
  assumes "shape m T" "m b s = (Inl e, s')"
  shows "\<exists>t. (\<exists>u \<in> T. prefix t u) \<and> se_log s' = se_log s @ t"
proof -
  from assms(1) have "\<exists>t. se_log (snd (m b s)) = se_log s @ t \<and>
        (case fst (m b s) of Inr x \<Rightarrow> t \<in> T | Inl e \<Rightarrow> \<exists>u \<in> T. prefix t u)"
    unfolding shape_def by blast
  then show ?thesis unfolding assms(2) by simp blast
qed

lemma shape_any:
  "shape m T \<Longrightarrow> \<exists>t. (\<exists>u \<in> T. prefix t u) \<and> se_log (snd (m b s)) = se_log s @ t"
proof -
  assume sh: "shape m T"
  obtain r s' where r: "m b s = (r, s')" by (cases "m b s")
  then have snd: "snd (m b s) = s'" by simp
  show ?thesis
  proof (cases r)
    case (Inl e)
    show ?thesis unfolding snd using shape_fail [OF sh r [unfolded Inl]] by blast
  next
    case (Inr x)
    show ?thesis unfolding snd using shape_ok [OF sh r [unfolded Inr]] prefix_order.refl by blast
  qed
qed

text \<open>The rules a shape proof applies backwards; what is left is an inclusion of explicit sets.\<close>

lemma shape_bindU:
  assumes "shape m A" "\<And>x. shape (f x) (B x)"
  shows "shape (pbind m f) (conc A (\<Union>x. B x))"
proof (rule shape_bind [OF assms(1)])
  show "shape (f x) (\<Union>x. B x)" for x by (rule shape_mono [OF assms(2)]) blast
qed

lemma shape_if: "shape m A \<Longrightarrow> shape k B \<Longrightarrow> shape (if c then m else k) (A \<union> B)"
  by (auto intro: shape_mono)

lemma shape_option_throw:
  assumes "\<And>x. shape (f x) (B x)"
  shows "shape (case r of None \<Rightarrow> pthrow e | Some x \<Rightarrow> f x) (\<Union>x. B x)"
proof (cases r)
  case None
  have "B x \<noteq> {}" for x using assms unfolding shape_def by blast
  then have "(\<Union>x. B x) \<noteq> {}" by blast
  with None show ?thesis by (simp add: shape_throw)
next
  case (Some x)
  then show ?thesis using shape_mono [OF assms [of x]] by auto
qed

lemma shape_arrayRandom: "shape (arrayRandom xs) {[]}"
proof -
  have "shape (if xs = [] then preturn None
      else pbind math_random (\<lambda>r. preturn (nth_js xs (jfloor (jmul r (jint (int (length xs))))))))
      ({[]} \<union> conc {[]} {[]})"
    unfolding math_random_def by (intro shape_if shape_bind shape_return shape_draw)
  then show ?thesis by (simp add: arrayRandom_def)
qed

lemma shape_randomBetween: "shape (randomBetween lo hi) {[]}"
  unfolding randomBetween_def by (rule shape_draw)

lemma conc_UN [simp]: "conc A (\<Union>x. B x) = (\<Union>x. conc A (B x))" "conc (\<Union>x. B x) A = (\<Union>x. conc (B x) A)"
  by (auto simp: conc_def)

lemma conc_Un [simp]: "conc A (B \<union> C) = conc A B \<union> conc A C" "conc (B \<union> C) A = conc B A \<union> conc C A"
  by (auto simp: conc_def)

lemma conc_insert [simp]: "conc {} B = {}" "conc (insert x A) B = (\<lambda>y. x @ y) ` B \<union> conc A B"
  by (auto simp: conc_def)

lemmas shape_intros = shape_return shape_call shape_pdo shape_seq shape_bindU shape_if
  shape_option_throw shape_arrayRandom shape_randomBetween

end
