(* ===== verification/Loadgen_Helpers.thy ===== *)
theory Loadgen_Helpers
  imports Loadgen_Page
begin

text \<open>
  The page helpers of the load generator (\<open>src/loadgen/src/helpers\<close>, \<open>user\<close>, \<open>const.ts\<close>): programs in
  the order of their awaits. Each comes with the list of calls it makes (\<open>..._acts\<close>), and its shape
  lemma says that it makes these calls, in this order, and stops at the first that fails.
\<close>

datatype card_provider = visaDebit | visaCredit | mastercard | americanExpress

fun CREDIT_CARD_MAPPING :: "card_provider \<Rightarrow> string" where
  "CREDIT_CARD_MAPPING visaDebit = ''Visa Debit''"
| "CREDIT_CARD_MAPPING visaCredit = ''Visa Credit''"
| "CREDIT_CARD_MAPPING mastercard = ''Mastercard''"
| "CREDIT_CARD_MAPPING americanExpress = ''American Express''"

definition EASYTRADE_CREDIT_CARD_TYPES :: "string list" where
  "EASYTRADE_CREDIT_CARD_TYPES = [''Silver'', ''Gold'', ''Platinum'']"

record User =
  first_name :: string
  last_name :: string
  username :: string
  email :: string
  password :: string
  user_agent :: string
  ip4 :: string
  address :: string
  credit_card_number :: string
  credit_card_cvv :: string
  credit_card_provider :: card_provider
  visitor_id :: string

text \<open>What the code reads of a \<open>URL\<close> object.\<close>

record url =
  url_string :: string
  url_hostname :: string

section \<open>Common helpers\<close>

definition selectCardProvider :: "selector \<Rightarrow> string \<Rightarrow> unit page" where
  "selectCardProvider cardProviderSelector cardProvider =
     pseq (click cardProviderSelector)
       (pbind (getHandle (depositPage_cardType_provider cardProvider)) (\<lambda>providerHandle.
          steps [shortDelay, clickHandle providerHandle]))"

definition showNavbar :: "unit page" where
  "showNavbar =
     pseq standardDelay
       (pbind (isSelectorPresent navigation_homePage) (\<lambda>navBarOpen.
          if navBarOpen then preturn ()
          else steps [click navigation_sidebarToggler, shortDelay]))"

definition hideNavbar :: "unit page" where
  "hideNavbar =
     pseq standardDelay
       (pbind (isSelectorPresent navigation_homePage) (\<lambda>navBarOpen.
          if \<not> navBarOpen then preturn ()
          else steps [click navigation_sidebarToggler, shortDelay]))"

definition gotoPageWithNavBar :: "selector \<Rightarrow> unit page" where
  "gotoPageWithNavBar navBarSelector = steps [showNavbar, navigate navBarSelector, standardDelay]"

definition pageSetup :: "User \<Rightarrow> url \<Rightarrow> unit page" where
  "pageSetup user appUrl = steps
     [pdo (SetUserAgent (user_agent user)),
      pdo (SetExtraHTTPHeaders [(''x-forwarded-for'', ip4 user)]),
      pdo (SetCookie (Cookie ''rxVisitor'' (visitor_id user) (url_hostname appUrl) ''/''))]"

section \<open>Login and logout\<close>

definition login :: "User \<Rightarrow> unit page" where
  "login user = steps
     [input loginPage_username (username user), shortDelay,
      input loginPage_password (password user), shortDelay,
      navigate loginPage_loginButton]"

definition logout :: "unit page" where
  "logout = steps [click navigation_dropdownToggler, shortDelay, navigate navigation_logout]"

section \<open>Deposit and withdraw\<close>

definition full_name :: "User \<Rightarrow> string" where
  "full_name user = first_name user @ '' '' @ last_name user"

definition fillUserDepositData :: "User \<Rightarrow> unit page" where
  "fillUserDepositData user = steps
     [input depositPage_cardholderName (full_name user), standardDelay,
      input depositPage_address (address user), standardDelay,
      input depositPage_email (email user), standardDelay,
      input depositPage_cardNumber (credit_card_number user), standardDelay,
      selectCardProvider depositPage_cardType (CREDIT_CARD_MAPPING (credit_card_provider user)),
      shortDelay,
      input depositPage_cardCvv (credit_card_cvv user), standardDelay]"

definition deposit :: "User \<Rightarrow> jsnum \<Rightarrow> unit page" where
  "deposit user v = steps
     [input depositPage_amount (num_to_string v), standardDelay,
      fillUserDepositData user,
      click depositPage_acceptTerms, shortDelay,
      click depositPage_submit]"

definition gotoDepositPage :: "unit page" where
  "gotoDepositPage = gotoPageWithNavBar navigation_depositPage"

definition fillUserWithdrawData :: "User \<Rightarrow> unit page" where
  "fillUserWithdrawData user = steps
     [input depositPage_cardholderName (full_name user), standardDelay,
      input depositPage_address (address user), standardDelay,
      input depositPage_email (email user), standardDelay,
      input depositPage_cardNumber (credit_card_number user), standardDelay,
      selectCardProvider depositPage_cardType (CREDIT_CARD_MAPPING (credit_card_provider user)),
      standardDelay]"

definition withdraw :: "User \<Rightarrow> jsnum \<Rightarrow> unit page" where
  "withdraw user v = steps
     [input depositPage_amount (num_to_string v), standardDelay,
      fillUserWithdrawData user,
      click depositPage_acceptTerms, shortDelay,
      click depositPage_submit]"

definition gotoWithdrawPage :: "unit page" where
  "gotoWithdrawPage = gotoPageWithNavBar navigation_withdrawPage"

section \<open>Credit card\<close>

definition gotoCreditCardPage :: "unit page" where
  "gotoCreditCardPage = gotoPageWithNavBar navigation_creditCardPage"

definition orderCard :: "User \<Rightarrow> string \<Rightarrow> unit page" where
  "orderCard user cardType =
     pseq (steps
       [input creditCardPage_nameInput (full_name user), standardDelay,
        input creditCardPage_addressInput (address user), standardDelay,
        input creditCardPage_emailInput (email user), standardDelay,
        click creditCardPage_cardTypeInput])
       (pbind (getHandle (creditCardPage_cardType_type cardType)) (\<lambda>typeHandle.
          steps
            [shortDelay, clickHandle typeHandle, standardDelay,
             click creditCardPage_acceptTerms, standardDelay,
             click creditCardPage_orderCardButton]))"

definition revokeCard :: "unit page" where
  "revokeCard = navigate creditCardPage_revokeCard"

definition checkIfCardActive :: "bool page" where
  "checkIfCardActive = isSelectorPresent creditCardPage_revokeCard"

definition checkIfOrderPending :: "bool page" where
  "checkIfOrderPending = isSelectorPresent creditCardPage_orderIdDisplay"

section \<open>Instruments\<close>

definition gotoInstrumentsPage :: "unit page" where
  "gotoInstrumentsPage = gotoPageWithNavBar navigation_instrumentsPage"

definition gotoInstrumentPage :: "handle \<Rightarrow> unit page" where
  "gotoInstrumentPage instrumentHandle = navigateHandle instrumentHandle"

definition waitForInstruments :: "unit page" where
  "waitForInstruments = pbind (getHandle instrumentsPage_instrumentCard) (\<lambda>_. preturn ())"

definition getRandomInstrument :: "handle option page" where
  "getRandomInstrument =
     pseq waitForInstruments
       (pbind (getAllHandles instrumentsPage_instrumentCard) (\<lambda>instrumentCards. arrayRandom instrumentCards))"

definition getRandomOwnedInstrument :: "handle option page" where
  "getRandomOwnedInstrument =
     pseq waitForInstruments
       (pbind (getAllHandles instrumentsPage_ownedInstrument) (\<lambda>instrumentCards. arrayRandom instrumentCards))"

definition gotoRandomInstrument :: "unit page" where
  "gotoRandomInstrument =
     pseq gotoInstrumentsPage
       (pbind getRandomInstrument (\<lambda>instrumentCard.
          case instrumentCard of
            None \<Rightarrow> pthrow (ErrorMsg ''No instruments available'')
          | Some h \<Rightarrow> gotoInstrumentPage h))"

definition gotoRandomOwnedInstrument :: "unit page" where
  "gotoRandomOwnedInstrument =
     pseq gotoInstrumentsPage
       (pbind getRandomOwnedInstrument (\<lambda>instrumentCard.
          case instrumentCard of
            None \<Rightarrow> pthrow (ErrorMsg ''No owned instruments available'')
          | Some h \<Rightarrow> gotoInstrumentPage h))"

definition selectQuickBuy :: "unit page" where "selectQuickBuy = click instrumentPage_quickBuyForm"
definition selectQuickSell :: "unit page" where "selectQuickSell = click instrumentPage_quickSellForm"
definition selectBuy :: "unit page" where "selectBuy = click instrumentPage_buyForm"
definition selectSell :: "unit page" where "selectSell = click instrumentPage_sellForm"

definition getInstrumentName :: "string page" where
  "getInstrumentName = getInnerText instrumentPage_instrumentName"

definition getInstrumentPrice :: "jsnum page" where
  "getInstrumentPrice =
     pbind (getProperty instrumentPage_priceInput ''value'') (\<lambda>priceString. preturn (parseFloat priceString))"

definition getCurrentBalance :: "jsnum page" where
  "getCurrentBalance =
     pbind (getProperty common_currentBalance ''value'') (\<lambda>balanceString. preturn (parseFloat balanceString))"

definition getInstrumentPossessedAmount :: "jsnum page" where
  "getInstrumentPossessedAmount =
     pbind (getProperty instrumentPage_possessedAmount ''value'') (\<lambda>amountString. preturn (parseInt amountString))"

definition scheduleTransaction :: "jsnum \<Rightarrow> jsnum \<Rightarrow> jsnum \<Rightarrow> unit page" where
  "scheduleTransaction price duration amount = steps
     [input instrumentPage_amountInput (num_to_string amount), standardDelay,
      input instrumentPage_priceInput (num_to_string price), standardDelay,
      input instrumentPage_timeInput (num_to_string duration), standardDelay,
      click instrumentPage_submitButton]"

definition trade :: "jsnum \<Rightarrow> unit page" where
  "trade amount = steps
     [input instrumentPage_amountInput (num_to_string amount), standardDelay,
      click instrumentPage_submitButton]"

section \<open>The calls each helper makes\<close>

definition nav_acts :: "bool \<Rightarrow> selector \<Rightarrow> page_log" where
  "nav_acts navBarOpen sel =
     [StandardDelay, IsSelectorPresent navigation_homePage]
     @ (if navBarOpen then [] else [Click navigation_sidebarToggler, ShortDelay])
     @ [Navigate sel, StandardDelay]"

definition login_acts :: "User \<Rightarrow> page_log" where
  "login_acts user =
     [Input loginPage_username (username user), ShortDelay,
      Input loginPage_password (password user), ShortDelay, Navigate loginPage_loginButton]"

definition logout_acts :: page_log where
  "logout_acts = [Click navigation_dropdownToggler, ShortDelay, Navigate navigation_logout]"

definition card_acts :: "User \<Rightarrow> handle \<Rightarrow> page_log" where
  "card_acts user h =
     [Input depositPage_cardholderName (full_name user), StandardDelay,
      Input depositPage_address (address user), StandardDelay,
      Input depositPage_email (email user), StandardDelay,
      Input depositPage_cardNumber (credit_card_number user), StandardDelay,
      Click depositPage_cardType,
      GetHandle (depositPage_cardType_provider (CREDIT_CARD_MAPPING (credit_card_provider user))),
      ShortDelay, ClickHandle h]"

definition deposit_acts :: "User \<Rightarrow> jsnum \<Rightarrow> handle \<Rightarrow> page_log" where
  "deposit_acts user v h =
     [Input depositPage_amount (num_to_string v), StandardDelay] @ card_acts user h
     @ [ShortDelay, Input depositPage_cardCvv (credit_card_cvv user), StandardDelay,
        Click depositPage_acceptTerms, ShortDelay, Click depositPage_submit]"

definition withdraw_acts :: "User \<Rightarrow> jsnum \<Rightarrow> handle \<Rightarrow> page_log" where
  "withdraw_acts user v h =
     [Input depositPage_amount (num_to_string v), StandardDelay] @ card_acts user h
     @ [StandardDelay, Click depositPage_acceptTerms, ShortDelay, Click depositPage_submit]"

definition order_acts :: "User \<Rightarrow> string \<Rightarrow> handle \<Rightarrow> page_log" where
  "order_acts user cardType h =
     [Input creditCardPage_nameInput (full_name user), StandardDelay,
      Input creditCardPage_addressInput (address user), StandardDelay,
      Input creditCardPage_emailInput (email user), StandardDelay,
      Click creditCardPage_cardTypeInput, GetHandle (creditCardPage_cardType_type cardType),
      ShortDelay, ClickHandle h, StandardDelay, Click creditCardPage_acceptTerms, StandardDelay,
      Click creditCardPage_orderCardButton]"

definition pick_acts :: "bool \<Rightarrow> selector \<Rightarrow> handle \<Rightarrow> page_log" where
  "pick_acts navBarOpen sel h =
     nav_acts navBarOpen navigation_instrumentsPage
     @ [GetHandle instrumentsPage_instrumentCard, GetAllHandles sel, NavigateHandle h]"

definition trade_acts :: "jsnum \<Rightarrow> page_log" where
  "trade_acts amount =
     [Input instrumentPage_amountInput (num_to_string amount), StandardDelay,
      Click instrumentPage_submitButton]"

definition schedule_acts :: "jsnum \<Rightarrow> jsnum \<Rightarrow> jsnum \<Rightarrow> page_log" where
  "schedule_acts price duration amount =
     [Input instrumentPage_amountInput (num_to_string amount), StandardDelay,
      Input instrumentPage_priceInput (num_to_string price), StandardDelay,
      Input instrumentPage_timeInput (num_to_string duration), StandardDelay,
      Click instrumentPage_submitButton]"

lemma shape_showNavbar:
  "shape showNavbar {[StandardDelay, IsSelectorPresent navigation_homePage],
     [StandardDelay, IsSelectorPresent navigation_homePage, Click navigation_sidebarToggler, ShortDelay]}"
  unfolding showNavbar_def page_prims steps.simps
  by (rule shape_mono, (rule shape_intros)+) auto

lemma shape_nav: "shape (gotoPageWithNavBar sel) (\<Union>n. {nav_acts n sel})"
  unfolding gotoPageWithNavBar_def page_prims steps.simps
  by (rule shape_mono, (rule shape_intros shape_showNavbar)+) (auto simp: nav_acts_def UNIV_bool)

lemma shape_login: "shape (login user) {login_acts user}"
  unfolding login_def page_prims steps.simps
  by (rule shape_mono, (rule shape_intros)+) (auto simp: login_acts_def)

lemma shape_logout: "shape logout {logout_acts}"
  unfolding logout_def page_prims steps.simps
  by (rule shape_mono, (rule shape_intros)+) (auto simp: logout_acts_def)

lemma shape_deposit: "shape (deposit user v) (\<Union>h. {deposit_acts user v h})"
  unfolding deposit_def fillUserDepositData_def selectCardProvider_def page_prims steps.simps
  by (rule shape_mono, (rule shape_intros)+) (auto simp: deposit_acts_def card_acts_def)

lemma shape_withdraw: "shape (withdraw user v) (\<Union>h. {withdraw_acts user v h})"
  unfolding withdraw_def fillUserWithdrawData_def selectCardProvider_def page_prims steps.simps
  by (rule shape_mono, (rule shape_intros)+) (auto simp: withdraw_acts_def card_acts_def)

lemma shape_orderCard: "shape (orderCard user cardType) (\<Union>h. {order_acts user cardType h})"
  unfolding orderCard_def page_prims steps.simps
  by (rule shape_mono, (rule shape_intros)+) (auto simp: order_acts_def)

lemma shape_gotoRandomInstrument:
  "shape gotoRandomInstrument (\<Union>n h. {pick_acts n instrumentsPage_instrumentCard h})"
  unfolding gotoRandomInstrument_def getRandomInstrument_def waitForInstruments_def
    gotoInstrumentsPage_def gotoInstrumentPage_def page_prims
  by (rule shape_mono, (rule shape_intros shape_nav)+) (auto simp: pick_acts_def)

lemma shape_gotoRandomOwnedInstrument:
  "shape gotoRandomOwnedInstrument (\<Union>n h. {pick_acts n instrumentsPage_ownedInstrument h})"
  unfolding gotoRandomOwnedInstrument_def getRandomOwnedInstrument_def waitForInstruments_def
    gotoInstrumentsPage_def gotoInstrumentPage_def page_prims
  by (rule shape_mono, (rule shape_intros shape_nav)+) (auto simp: pick_acts_def)

lemma shape_trade: "shape (trade amount) {trade_acts amount}"
  unfolding trade_def page_prims steps.simps
  by (rule shape_mono, (rule shape_intros)+) (auto simp: trade_acts_def)

lemma shape_schedule: "shape (scheduleTransaction price duration amount) {schedule_acts price duration amount}"
  unfolding scheduleTransaction_def page_prims steps.simps
  by (rule shape_mono, (rule shape_intros)+) (auto simp: schedule_acts_def)

end
