(* ===== verification/Loadgen_Visits.thy ===== *)
theory Loadgen_Visits
  imports Loadgen_Helpers
begin

text \<open>
  The visits of the load generator (\<open>src/loadgen/src/visits\<close>): the price and amount calculators, the
  five visit classes as one datatype with the fields of each class, and their \<open>setup\<close> and \<open>run\<close>.
  \<open>visit_log\<close> is the specification of a run: the logs a visit may leave. The messages a visit writes
  for its operator are those of \<open>Loadgen_Log\<close>.
\<close>

datatype VisitName =
    deposit_and_long_buy_success
  | deposit_and_long_buy_timeout
  | deposit_and_long_buy_error
  | long_sell_success
  | long_sell_timeout
  | long_sell_error
  | deposit_and_buy_success
  | sell_and_withdraw_success
  | order_credit_card

section \<open>Calculators\<close>

record BuyOptions =
  bo_balance :: jsnum
  bo_askPrice :: jsnum
  bo_maxCost :: jsnum

record SellOptions =
  so_askPrice :: jsnum
  so_ownedAmount :: jsnum
  so_ratio :: jsnum

record TradeResult =
  tr_price :: jsnum
  tr_amount :: jsnum

type_synonym BuyCalculator = "BuyOptions \<Rightarrow> TradeResult page"
type_synonym SellCalculator = "SellOptions \<Rightarrow> TradeResult page"

text \<open>The literals of the calculators, as the doubles they denote.\<close>

definition lit :: "rat \<Rightarrow> jsnum" where "lit q = fl q"

definition successBuyCalculator :: BuyCalculator where
  "successBuyCalculator opt =
     (let price = jmul (bo_askPrice opt) (lit (11 / 10)) in
      pbind (randomBetween (jint 1) (jdiv (bo_maxCost opt) price)) (\<lambda>r.
        preturn \<lparr>tr_price = price, tr_amount = jfloor r\<rparr>))"

definition timeoutBuyCalculator :: BuyCalculator where
  "timeoutBuyCalculator opt =
     (let price = jmul (bo_askPrice opt) (lit (1 / 100)) in
      pbind (randomBetween (jint 1) (jdiv (bo_maxCost opt) price)) (\<lambda>r.
        preturn \<lparr>tr_price = price, tr_amount = jfloor r\<rparr>))"

definition errorBuyCalculator :: BuyCalculator where
  "errorBuyCalculator opt =
     (let proportion = lit (3 / 10);
          price = jmul (jmax (bo_balance opt) (bo_askPrice opt)) proportion;
          amount = jceil (jdiv (jint 2) proportion)
      in preturn \<lparr>tr_price = price, tr_amount = amount\<rparr>)"

definition successSellCalculator :: SellCalculator where
  "successSellCalculator opt =
     pbind (randomBetween (jint 1) (jmul (so_ownedAmount opt) (so_ratio opt))) (\<lambda>r.
       preturn \<lparr>tr_price = jmul (so_askPrice opt) (lit (9 / 10)), tr_amount = jfloor r\<rparr>)"

definition timeoutSellCalculator :: SellCalculator where
  "timeoutSellCalculator opt =
     pbind (randomBetween (jint 1) (jmul (so_ownedAmount opt) (so_ratio opt))) (\<lambda>r.
       preturn \<lparr>tr_price = jmul (so_askPrice opt) (jint 100), tr_amount = jfloor r\<rparr>)"

definition errorSellCalculator :: SellCalculator where
  "errorSellCalculator opt =
     preturn \<lparr>tr_price = jmul (so_askPrice opt) (lit (9 / 10)),
              tr_amount = jmul (so_ownedAmount opt) (jint 10)\<rparr>"

section \<open>The visit classes\<close>

datatype visit =
    DepositAndBuyVisit VisitName url User jsnum
  | DepositAndLongBuyVisit VisitName BuyCalculator url User jsnum jsnum
  | LongSellVisit VisitName SellCalculator url User jsnum jsnum
  | OrderCreditCardVisit VisitName url User string
  | SellAndWithdrawVisit VisitName url User jsnum jsnum

fun getName :: "visit \<Rightarrow> VisitName" where
  "getName (DepositAndBuyVisit visitName url user depositValue) = visitName"
| "getName (DepositAndLongBuyVisit visitName buyCalculator url user depositValue transactionDuration) = visitName"
| "getName (LongSellVisit visitName sellCalculator url user sellRatio transactionDuration) = visitName"
| "getName (OrderCreditCardVisit visitName url user cardType) = visitName"
| "getName (SellAndWithdrawVisit visitName url user sellRatio withdrawMinValue) = visitName"

fun visit_url :: "visit \<Rightarrow> url" where
  "visit_url (DepositAndBuyVisit nm url user dv) = url"
| "visit_url (DepositAndLongBuyVisit nm c url user dv td) = url"
| "visit_url (LongSellVisit nm c url user sr td) = url"
| "visit_url (OrderCreditCardVisit nm url user ct) = url"
| "visit_url (SellAndWithdrawVisit nm url user sr wm) = url"

fun visit_user :: "visit \<Rightarrow> User" where
  "visit_user (DepositAndBuyVisit nm url user dv) = user"
| "visit_user (DepositAndLongBuyVisit nm c url user dv td) = user"
| "visit_user (LongSellVisit nm c url user sr td) = user"
| "visit_user (OrderCreditCardVisit nm url user ct) = user"
| "visit_user (SellAndWithdrawVisit nm url user sr wm) = user"

text \<open>\<open>setup\<close> is the same in the five classes; \<open>setupPage\<close>, which hands the page to a callback, is the
  library's.\<close>

definition visit_setup :: "(unit page \<Rightarrow> unit page) \<Rightarrow> visit \<Rightarrow> unit page" where
  "visit_setup setupPage v = setupPage (pageSetup (visit_user v) (visit_url v))"

definition DepositAndBuyVisit_run :: "url \<Rightarrow> User \<Rightarrow> jsnum \<Rightarrow> unit page" where
  "DepositAndBuyVisit_run url user depositValue =
     pseq (gotoPage (url_string url))
    (pseq (login user)
    (pseq gotoDepositPage
    (pseq (deposit user depositValue)
    (pseq gotoRandomInstrument
    (pseq selectQuickBuy
    (pbind getInstrumentPrice (\<lambda>instrumentPrice.
     pbind getCurrentBalance (\<lambda>currentBalance.
     pbind getInstrumentName (\<lambda>instrumentName.
     pbind (randomBetween (jint 1) (jdiv depositValue instrumentPrice)) (\<lambda>r.
     let buyAmount = jfloor r in
     pseq (trade buyAmount)
    (pseq gotoCreditCardPage
    (pseq logout endDtSession))))))))))))"

definition DepositAndLongBuyVisit_run ::
  "BuyCalculator \<Rightarrow> url \<Rightarrow> User \<Rightarrow> jsnum \<Rightarrow> jsnum \<Rightarrow> unit page" where
  "DepositAndLongBuyVisit_run buyCalculator url user depositValue transactionDuration =
     pseq (gotoPage (url_string url))
    (pseq (login user)
    (pseq gotoDepositPage
    (pseq (deposit user depositValue)
    (pseq gotoRandomInstrument
    (pbind getCurrentBalance (\<lambda>currentBalance.
     pseq selectBuy
    (pbind getInstrumentPrice (\<lambda>instrumentPrice.
     pbind getInstrumentName (\<lambda>instrumentName.
     pbind (buyCalculator \<lparr>bo_balance = currentBalance, bo_askPrice = instrumentPrice,
                            bo_maxCost = depositValue\<rparr>) (\<lambda>r.
     pseq (scheduleTransaction (tr_price r) transactionDuration (tr_amount r))
    (pseq gotoCreditCardPage
    (pseq logout endDtSession))))))))))))"

definition LongSellVisit_run ::
  "SellCalculator \<Rightarrow> url \<Rightarrow> User \<Rightarrow> jsnum \<Rightarrow> jsnum \<Rightarrow> unit page" where
  "LongSellVisit_run sellCalculator url user sellRatio transactionDuration =
     pseq (gotoPage (url_string url))
    (pseq (login user)
    (pseq gotoRandomOwnedInstrument
    (pseq selectQuickSell
    (pbind getInstrumentPossessedAmount (\<lambda>instrumentAmount.
     pseq selectSell
    (pbind getInstrumentPrice (\<lambda>instrumentPrice.
     pbind getInstrumentName (\<lambda>instrumentName.
     pbind (sellCalculator \<lparr>so_askPrice = instrumentPrice, so_ownedAmount = instrumentAmount,
                             so_ratio = sellRatio\<rparr>) (\<lambda>r.
     pseq (scheduleTransaction (tr_price r) transactionDuration (tr_amount r))
    (pseq gotoCreditCardPage
    (pseq logout endDtSession)))))))))))"

definition visit_orderCard :: "User \<Rightarrow> string \<Rightarrow> unit page" where
  "visit_orderCard user cardType =
     pbind checkIfOrderPending (\<lambda>orderPending.
       if orderPending then preturn ()
       else pbind checkIfCardActive (\<lambda>cardRevoked.
         pseq (if cardRevoked then revokeCard else preturn ()) (orderCard user cardType)))"

definition OrderCreditCardVisit_run :: "url \<Rightarrow> User \<Rightarrow> string \<Rightarrow> unit page" where
  "OrderCreditCardVisit_run url user cardType =
     pseq (gotoPage (url_string url))
    (pseq (login user)
    (pseq gotoCreditCardPage
    (pseq (visit_orderCard user cardType)
    (pseq logout endDtSession))))"

definition SellAndWithdrawVisit_run :: "url \<Rightarrow> User \<Rightarrow> jsnum \<Rightarrow> jsnum \<Rightarrow> unit page" where
  "SellAndWithdrawVisit_run url user sellRatio withdrawMinValue =
     pseq (gotoPage (url_string url))
    (pseq (login user)
    (pseq gotoRandomOwnedInstrument
    (pseq selectQuickSell
    (pbind getInstrumentPossessedAmount (\<lambda>instrumentAmount.
     pbind getInstrumentPrice (\<lambda>instrumentPrice.
     pbind getInstrumentName (\<lambda>instrumentName.
     pbind (randomBetween (jint 1) (jmul instrumentAmount sellRatio)) (\<lambda>r.
     let sellAmount = jfloor r in
     pseq (trade sellAmount)
    (let withdrawAmount = jmax withdrawMinValue (jmul instrumentPrice sellAmount) in
     pseq gotoWithdrawPage
    (pseq (withdraw user withdrawAmount)
    (pseq gotoCreditCardPage
    (pseq logout endDtSession))))))))))))"

fun run_visit :: "visit \<Rightarrow> unit page" where
  "run_visit (DepositAndBuyVisit visitName url user depositValue)
     = DepositAndBuyVisit_run url user depositValue"
| "run_visit (DepositAndLongBuyVisit visitName buyCalculator url user depositValue transactionDuration)
     = DepositAndLongBuyVisit_run buyCalculator url user depositValue transactionDuration"
| "run_visit (LongSellVisit visitName sellCalculator url user sellRatio transactionDuration)
     = LongSellVisit_run sellCalculator url user sellRatio transactionDuration"
| "run_visit (OrderCreditCardVisit visitName url user cardType)
     = OrderCreditCardVisit_run url user cardType"
| "run_visit (SellAndWithdrawVisit visitName url user sellRatio withdrawMinValue)
     = SellAndWithdrawVisit_run url user sellRatio withdrawMinValue"

section \<open>The specification of a run\<close>

definition open_acts :: "url \<Rightarrow> User \<Rightarrow> page_log" where
  "open_acts u user = GotoPage (url_string u) # login_acts user"

definition close_acts :: page_log where
  "close_acts = logout_acts @ [EndDtSession]"

definition read_value :: "selector \<Rightarrow> page_action" where
  "read_value sel = GetProperty sel ''value''"

text \<open>What the visits of each class do between login and logout; \<open>n1\<close> to \<open>n3\<close> say whether the navigation
  bar was open, \<open>h\<close> and \<open>g\<close> are the handles chosen, \<open>q\<close>, \<open>p\<close> the amounts and prices.\<close>

fun visit_body :: "visit \<Rightarrow> page_log set" where
  "visit_body (DepositAndBuyVisit nm u user depositValue) =
     {nav_acts n1 navigation_depositPage @ deposit_acts user depositValue h
      @ pick_acts n2 instrumentsPage_instrumentCard g
      @ [Click instrumentPage_quickBuyForm, read_value instrumentPage_priceInput,
         read_value common_currentBalance, GetInnerText instrumentPage_instrumentName]
      @ trade_acts q @ nav_acts n3 navigation_creditCardPage |n1 n2 n3 h g q. True}"
| "visit_body (DepositAndLongBuyVisit nm c u user depositValue duration) =
     {nav_acts n1 navigation_depositPage @ deposit_acts user depositValue h
      @ pick_acts n2 instrumentsPage_instrumentCard g
      @ [read_value common_currentBalance, Click instrumentPage_buyForm,
         read_value instrumentPage_priceInput, GetInnerText instrumentPage_instrumentName]
      @ schedule_acts p duration q @ nav_acts n3 navigation_creditCardPage |n1 n2 n3 h g p q. True}"
| "visit_body (LongSellVisit nm c u user sellRatio duration) =
     {pick_acts n2 instrumentsPage_ownedInstrument g
      @ [Click instrumentPage_quickSellForm, read_value instrumentPage_possessedAmount,
         Click instrumentPage_sellForm, read_value instrumentPage_priceInput,
         GetInnerText instrumentPage_instrumentName]
      @ schedule_acts p duration q @ nav_acts n3 navigation_creditCardPage |n2 n3 g p q. True}"
| "visit_body (OrderCreditCardVisit nm u user cardType) =
     {nav_acts n1 navigation_creditCardPage @ [IsSelectorPresent creditCardPage_orderIdDisplay] @ t |n1 t.
        t = [] \<or> (\<exists>h. t = [IsSelectorPresent creditCardPage_revokeCard] @ order_acts user cardType h) \<or>
        (\<exists>h. t = [IsSelectorPresent creditCardPage_revokeCard, Navigate creditCardPage_revokeCard]
                 @ order_acts user cardType h)}"
| "visit_body (SellAndWithdrawVisit nm u user sellRatio withdrawMinValue) =
     {pick_acts n1 instrumentsPage_ownedInstrument g
      @ [Click instrumentPage_quickSellForm, read_value instrumentPage_possessedAmount,
         read_value instrumentPage_priceInput, GetInnerText instrumentPage_instrumentName]
      @ trade_acts q @ nav_acts n2 navigation_withdrawPage @ withdraw_acts user p h
      @ nav_acts n3 navigation_creditCardPage |n1 n2 n3 g h p q. True}"

definition visit_log :: "visit \<Rightarrow> page_log set" where
  "visit_log v = {open_acts (visit_url v) (visit_user v) @ t @ close_acts |t. t \<in> visit_body v}"

text \<open>A calculator computes: it makes no call of the page.\<close>

definition silent :: "'a page \<Rightarrow> bool" where
  "silent m \<longleftrightarrow> shape m {[]}"

fun visit_wf :: "visit \<Rightarrow> bool" where
  "visit_wf (DepositAndLongBuyVisit nm c u user dv td) \<longleftrightarrow> (\<forall>opt. silent (c opt))"
| "visit_wf (LongSellVisit nm c u user sr td) \<longleftrightarrow> (\<forall>opt. silent (c opt))"
| "visit_wf v \<longleftrightarrow> True"

lemma silent_calculators:
  "silent (successBuyCalculator b)" "silent (timeoutBuyCalculator b)" "silent (errorBuyCalculator b)"
  "silent (successSellCalculator s)" "silent (timeoutSellCalculator s)" "silent (errorSellCalculator s)"
  unfolding silent_def successBuyCalculator_def timeoutBuyCalculator_def errorBuyCalculator_def
    successSellCalculator_def timeoutSellCalculator_def errorSellCalculator_def Let_def
  by (rule shape_mono, (rule shape_intros)+, simp)+

lemmas helper_shapes = shape_nav shape_login shape_logout shape_deposit shape_withdraw shape_orderCard
  shape_gotoRandomInstrument shape_gotoRandomOwnedInstrument shape_trade shape_schedule

lemmas visit_helpers = gotoDepositPage_def gotoWithdrawPage_def gotoCreditCardPage_def selectQuickBuy_def
  selectQuickSell_def selectBuy_def selectSell_def getInstrumentPrice_def getCurrentBalance_def
  getInstrumentName_def getInstrumentPossessedAmount_def checkIfOrderPending_def checkIfCardActive_def
  revokeCard_def

lemmas log_defs = visit_log_def open_acts_def close_acts_def read_value_def

lemma shape_DepositAndBuy:
  "shape (DepositAndBuyVisit_run u user dv) (visit_log (DepositAndBuyVisit nm u user dv))"
  unfolding DepositAndBuyVisit_run_def visit_helpers page_prims Let_def
  by (rule shape_mono, (rule shape_intros helper_shapes)+, auto simp: log_defs) blast

lemma shape_DepositAndLongBuy:
  assumes "\<And>opt. silent (c opt)"
  shows "shape (DepositAndLongBuyVisit_run c u user dv td)
           (visit_log (DepositAndLongBuyVisit nm c u user dv td))"
  unfolding DepositAndLongBuyVisit_run_def visit_helpers page_prims Let_def
  by (rule shape_mono, (rule shape_intros helper_shapes assms [unfolded silent_def])+, auto simp: log_defs)
    blast

lemma shape_LongSell:
  assumes "\<And>opt. silent (c opt)"
  shows "shape (LongSellVisit_run c u user sr td) (visit_log (LongSellVisit nm c u user sr td))"
  unfolding LongSellVisit_run_def visit_helpers page_prims Let_def
  by (rule shape_mono, (rule shape_intros helper_shapes assms [unfolded silent_def])+, auto simp: log_defs)
    blast

lemma shape_visit_orderCard:
  "shape (visit_orderCard user cardType)
     ({[IsSelectorPresent creditCardPage_orderIdDisplay]}
      \<union> (\<Union>h. {[IsSelectorPresent creditCardPage_orderIdDisplay, IsSelectorPresent creditCardPage_revokeCard]
             @ order_acts user cardType h})
      \<union> (\<Union>h. {[IsSelectorPresent creditCardPage_orderIdDisplay, IsSelectorPresent creditCardPage_revokeCard,
              Navigate creditCardPage_revokeCard] @ order_acts user cardType h}))"
  unfolding visit_orderCard_def visit_helpers page_prims
  by (rule shape_mono, (rule shape_intros helper_shapes)+) auto

lemma shape_OrderCreditCard:
  "shape (OrderCreditCardVisit_run u user ct) (visit_log (OrderCreditCardVisit nm u user ct))"
  unfolding OrderCreditCardVisit_run_def visit_helpers page_prims
  by (rule shape_mono, (rule shape_intros helper_shapes shape_visit_orderCard)+, auto simp: log_defs) blast+

lemma shape_SellAndWithdraw:
  "shape (SellAndWithdrawVisit_run u user sr wm) (visit_log (SellAndWithdrawVisit nm u user sr wm))"
  unfolding SellAndWithdrawVisit_run_def visit_helpers page_prims Let_def
  by (rule shape_mono, (rule shape_intros helper_shapes)+, auto simp: log_defs) blast

lemma shape_run_visit: "visit_wf v \<Longrightarrow> shape (run_visit v) (visit_log v)"
  by (cases v)
    (auto intro: shape_DepositAndBuy shape_DepositAndLongBuy shape_LongSell shape_OrderCreditCard
      shape_SellAndWithdraw)

section \<open>The contract of a visit\<close>

text \<open>
  What the runner and the session recording rely on: a run is an opening, a body and a closing, cut
  off at the first call that fails; the recording is ended by the last call of the closing and
  nowhere else.
\<close>

locale visit_contract =
  fixes valid :: "'v \<Rightarrow> bool"
    and run :: "'v \<Rightarrow> unit page"
    and first_acts :: "'v \<Rightarrow> page_log"
    and body :: "'v \<Rightarrow> page_log set"
    and last_acts :: page_log
  assumes shaped: "valid v \<Longrightarrow> shape (run v) {first_acts v @ t @ last_acts @ [EndDtSession] |t. t \<in> body v}"
    and recording: "t \<in> body v \<Longrightarrow> EndDtSession \<notin> set (first_acts v @ t @ last_acts)"
begin

lemma run_log:
  assumes "valid v"
  shows "\<exists>t. se_log (snd (run v b s)) = se_log s @ t \<and>
           (\<exists>u \<in> body v. prefix t (first_acts v @ u @ last_acts @ [EndDtSession]))"
  using shape_any [OF shaped [OF assms], of b s] by blast

text \<open>If the recording was ended then everything before it was done.\<close>

lemma ended_complete:
  assumes "valid v" "se_log (snd (run v b s)) = se_log s @ t" "EndDtSession \<in> set t"
  shows "\<exists>u \<in> body v. t = first_acts v @ u @ last_acts @ [EndDtSession]"
proof -
  obtain u where u: "u \<in> body v" "prefix t (first_acts v @ u @ last_acts @ [EndDtSession])"
    using run_log [OF assms(1), of b s] assms(2) by auto
  have "t = (first_acts v @ u @ last_acts) @ [EndDtSession] \<or> prefix t (first_acts v @ u @ last_acts)"
    using u(2) by (metis append.assoc prefix_snoc)
  with assms(3) recording [OF u(1)] have "t = (first_acts v @ u @ last_acts) @ [EndDtSession]"
    by (meson set_mono_prefix subsetD)
  with u(1) show ?thesis by auto
qed

lemma success_complete:
  assumes "valid v" "ok_run (run v) b s () s'"
  shows "\<exists>u \<in> body v. se_log s' = se_log s @ first_acts v @ u @ last_acts @ [EndDtSession]"
  using shape_ok [OF shaped [OF assms(1)] assms(2) [unfolded ok_run_def]] by auto

lemma opened_first:
  assumes "valid v" "se_log (snd (run v b s)) = se_log s @ t"
  shows "prefix t (first_acts v) \<or> prefix (first_acts v) t"
proof -
  obtain u where "prefix t (first_acts v @ u @ last_acts @ [EndDtSession])"
    using run_log [OF assms(1), of b s] assms(2) by auto
  then show ?thesis by (metis prefixI prefix_same_cases)
qed

end

lemma no_end [simp]:
  "EndDtSession \<notin> set (login_acts u)" "EndDtSession \<notin> set logout_acts"
  "EndDtSession \<notin> set (nav_acts n sel)" "EndDtSession \<notin> set (deposit_acts u q h)"
  "EndDtSession \<notin> set (withdraw_acts u q h)" "EndDtSession \<notin> set (pick_acts n sel h)"
  "EndDtSession \<notin> set (order_acts u ct h)" "EndDtSession \<notin> set (trade_acts q)"
  "EndDtSession \<notin> set (schedule_acts p d q)"
  by (auto simp: login_acts_def logout_acts_def nav_acts_def deposit_acts_def card_acts_def
      withdraw_acts_def pick_acts_def order_acts_def trade_acts_def schedule_acts_def)

interpretation visits: visit_contract visit_wf run_visit
  "\<lambda>v. open_acts (visit_url v) (visit_user v)" visit_body logout_acts
proof unfold_locales
  show "shape (run_visit v) {open_acts (visit_url v) (visit_user v) @ t @ logout_acts @ [EndDtSession] |t.
          t \<in> visit_body v}" if "visit_wf v" for v
    using shape_run_visit [OF that] by (simp add: visit_log_def close_acts_def)
  show "EndDtSession \<notin> set (open_acts (visit_url v) (visit_user v) @ t @ logout_acts)"
    if "t \<in> visit_body v" for t v
    using that by (cases v) (auto simp: open_acts_def read_value_def)
qed

lemma orderCard_log:
  "\<exists>t. se_log (snd (orderCard user cardType b s)) = se_log s @ t \<and> (\<forall>sel. Navigate sel \<notin> set t)"
proof -
  obtain t h where t: "se_log (snd (orderCard user cardType b s)) = se_log s @ t"
      "prefix t (order_acts user cardType h)"
    using shape_any [OF shape_orderCard [of user cardType], of b s] by auto
  have "Navigate sel \<notin> set (order_acts user cardType h)" for sel by (simp add: order_acts_def)
  with t show ?thesis by (meson set_mono_prefix subsetD)
qed

section \<open>Properties\<close>

text \<open>C9 (visits). A run of any of the five visits, on any browser: the calls it makes are the ones of the
  specification \<open>visit_log\<close>, in order, cut off at the first call that fails, and all of them when it
  succeeds. So nothing is done before the login, no order is sent after a failed step, and the
  recording of the session is ended only by a visit that was completed and logged out.\<close>

theorem visits_follow_their_log:
  assumes "visit_wf v"
  shows "\<exists>t. se_log (snd (run_visit v b s)) = se_log s @ t \<and>
           (\<exists>u \<in> visit_log v. prefix t u) \<and>
           (fst (run_visit v b s) = Inr () \<longrightarrow> t \<in> visit_log v) \<and>
           (EndDtSession \<in> set t \<longrightarrow> t \<in> visit_log v)"
proof -
  obtain t u where t: "se_log (snd (run_visit v b s)) = se_log s @ t" "u \<in> visit_log v" "prefix t u"
    using shape_any [OF shape_run_visit [OF assms], of b s] by blast
  have "t \<in> visit_log v" if "fst (run_visit v b s) = Inr ()"
  proof -
    have "ok_run (run_visit v) b s () (snd (run_visit v b s))"
      using that by (simp add: ok_run_def prod_eq_iff)
    from visits.success_complete [OF assms this] t(1) show ?thesis
      by (auto simp: visit_log_def close_acts_def)
  qed
  moreover have "t \<in> visit_log v" if "EndDtSession \<in> set t"
    using visits.ended_complete [OF assms t(1) that] by (auto simp: visit_log_def close_acts_def)
  ultimately show ?thesis using t by blast
qed

definition sample_user :: User where
  "sample_user =
     \<lparr>first_name = ''James'', last_name = ''Norton'', username = ''james_norton'',
      email = ''james.norton@yahoo.com'', password = ''pass_james_123'', user_agent = ''Mozilla/5.0'',
      ip4 = ''53.150.32.160'', address = ''Kochweg 4 01510 Kronach'',
      credit_card_number = ''2293562484488276'', credit_card_cvv = ''661'',
      credit_card_provider = mastercard, visitor_id = ''1648628500705OM0N''\<rparr>"

definition sample_url :: url where
  "sample_url = \<lparr>url_string = ''http://easytrade/'', url_hostname = ''easytrade''\<rparr>"

lemma visits_follow_their_log_witness:
  "\<exists>t. se_log (snd (run_visit (OrderCreditCardVisit order_credit_card sample_url sample_user ''Gold'')
          quiet_browser \<lparr>se_log = [], se_draws = 0\<rparr>)) = t \<and>
       (\<exists>u \<in> visit_log (OrderCreditCardVisit order_credit_card sample_url sample_user ''Gold''). prefix t u)"
  using visits_follow_their_log [of "OrderCreditCardVisit order_credit_card sample_url sample_user ''Gold''"
      quiet_browser "\<lparr>se_log = [], se_draws = 0\<rparr>"]
  by auto

text \<open>C15 (credit card visit). With a pending order the visit's ordering step does nothing else than look.
  The order button is clicked only after the page showed no pending order and, if it showed an
  active card, after that card was revoked; a card is revoked only if it is active.\<close>

theorem orderCard_guarded:
  "(br_present b (se_log s) creditCardPage_orderIdDisplay = Inr True \<longrightarrow>
      visit_orderCard user cardType b s
        = (Inr (), s\<lparr>se_log := se_log s @ [IsSelectorPresent creditCardPage_orderIdDisplay]\<rparr>)) \<and>
   (\<exists>t. se_log (snd (visit_orderCard user cardType b s)) = se_log s @ t \<and>
      (Click creditCardPage_orderCardButton \<in> set t \<longrightarrow>
         br_present b (se_log s) creditCardPage_orderIdDisplay = Inr False \<and>
         (\<exists>active. br_present b (se_log s @ [IsSelectorPresent creditCardPage_orderIdDisplay])
                      creditCardPage_revokeCard = Inr active \<and>
            (Navigate creditCardPage_revokeCard \<in> set t \<longleftrightarrow> active))))"
proof -
  let ?a1 = "br_present b (se_log s) creditCardPage_orderIdDisplay"
  let ?s1 = "s\<lparr>se_log := se_log s @ [IsSelectorPresent creditCardPage_orderIdDisplay]\<rparr>"
  let ?a2 = "br_present b (se_log ?s1) creditCardPage_revokeCard"
  let ?s2 = "?s1\<lparr>se_log := se_log ?s1 @ [IsSelectorPresent creditCardPage_revokeCard]\<rparr>"
  let ?s3 = "?s2\<lparr>se_log := se_log ?s2 @ [Navigate creditCardPage_revokeCard]\<rparr>"
  let ?rest = "orderCard user cardType b"
  have run: "visit_orderCard user cardType b s =
      (case ?a1 of
         Inl e \<Rightarrow> (Inl e, ?s1)
       | Inr pending \<Rightarrow> if pending then (Inr (), ?s1) else
           (case ?a2 of
              Inl e \<Rightarrow> (Inl e, ?s2)
            | Inr active \<Rightarrow> if \<not> active then ?rest ?s2 else
                (case br_do b (se_log ?s2) (Navigate creditCardPage_revokeCard) of
                   Inl e \<Rightarrow> (Inl e, ?s3)
                 | Inr u \<Rightarrow> ?rest ?s3)))"
    by (auto simp: visit_orderCard_def visit_helpers page_prims pbind_def pseq_def pcall_def preturn_def
        split: sum.splits)
  obtain t2 where t2: "se_log (snd (?rest ?s2)) = se_log ?s2 @ t2" "\<And>sel. Navigate sel \<notin> set t2"
    using orderCard_log [of user cardType b ?s2] by blast
  obtain t3 where t3: "se_log (snd (?rest ?s3)) = se_log ?s3 @ t3"
    using orderCard_log [of user cardType b ?s3] by blast
  show ?thesis
  proof (cases "?a1 = Inr False")
    case a1: True
    consider e where "?a2 = Inl e" | "?a2 = Inr False" | "?a2 = Inr True" by (cases ?a2) auto
    then show ?thesis
    proof cases
      case 1
      with run a1 show ?thesis by simp
    next
      case 2
      with run a1 have "visit_orderCard user cardType b s = ?rest ?s2" by simp
      with 2 t2 a1 show ?thesis by simp
    next
      case 3
      show ?thesis
        using run a1 3 t3
        by (cases "br_do b (se_log ?s2) (Navigate creditCardPage_revokeCard)") simp_all
    qed
  next
    case False
    then show ?thesis using run by (cases ?a1) auto
  qed
qed

lemma orderCard_guarded_witness:
  "visit_orderCard sample_user ''Gold'' (quiet_browser\<lparr>br_present := \<lambda>l sel. Inr True\<rparr>) \<lparr>se_log = [], se_draws = 0\<rparr>
     = (Inr (), \<lparr>se_log = [IsSelectorPresent creditCardPage_orderIdDisplay], se_draws = 0\<rparr>)"
  using orderCard_guarded [of "quiet_browser\<lparr>br_present := \<lambda>l sel. Inr True\<rparr>" "\<lparr>se_log = [], se_draws = 0\<rparr>"
      sample_user "''Gold''"]
  by simp

end
