(* ===== verification/Loadgen_Amounts.thy ===== *)
theory Loadgen_Amounts
  imports Loadgen_Visits
begin

text \<open>
  What the calculators and the trading visits compute, over the doubles JavaScript computes with: the
  prices against the price asked, the amounts against the budget and the holdings.
\<close>

text \<open>What the library documents of \<open>randomBetween\<close>: a number between its two arguments.\<close>

definition between_ok :: "browser \<Rightarrow> bool" where
  "between_ok b \<longleftrightarrow>
     (\<forall>k lo hi. \<exists>r. br_randomBetween b k (Fin lo) (Fin hi) = Fin r \<and> min lo hi \<le> r \<and> r \<le> max lo hi)"

lemma between_floor:
  assumes "between_ok b" "min lo hi \<ge> of_int m"
  shows "\<exists>n. jfloor (br_randomBetween b k (Fin lo) (Fin hi)) = jint n \<and> m \<le> n \<and> of_int n \<le> max lo hi"
proof -
  obtain r where r: "br_randomBetween b k (Fin lo) (Fin hi) = Fin r" "min lo hi \<le> r" "r \<le> max lo hi"
    using assms(1) unfolding between_ok_def by blast
  have "of_int m \<le> r" using r(2) assms(2) by linarith
  then have "m \<le> \<lfloor>r\<rfloor>" by (simp add: le_floor_iff)
  moreover have "of_int \<lfloor>r\<rfloor> \<le> max lo hi" using r(3) of_int_floor_le [of r] by linarith
  ultimately show ?thesis using r(1) by (intro exI [of _ "\<lfloor>r\<rfloor>"]) (simp add: jint_def)
qed

text \<open>A literal, and the product of a price and a literal factor, both rounded.\<close>

lemma lit_near:
  "1 / 1000 \<le> q \<Longrightarrow> q \<le> 1000 \<Longrightarrow>
     \<exists>t. lit q = Fin t \<and> q * (1 - 1 / 2 ^ 53) \<le> t \<and> t \<le> q * (1 + 1 / 2 ^ 53)"
  unfolding lit_def by (rule fl_lit_near)

lemma scaled_near:
  "1 / 1000 \<le> a \<Longrightarrow> a \<le> 10 ^ 9 \<Longrightarrow> 1 / 1000 \<le> q \<Longrightarrow> q \<le> 1000 \<Longrightarrow>
     \<exists>p. jmul (Fin a) (lit q) = Fin p \<and> 0 < p \<and>
       a * q * (1 - 1 / 2 ^ 53) * (1 - 1 / 2 ^ 53) \<le> p \<and> p \<le> a * q * (1 + 1 / 2 ^ 53) * (1 + 1 / 2 ^ 53)"
  unfolding lit_def by (rule fl_scaled_near)

text \<open>The amount both budgeted calculators draw.\<close>

lemma budget_amount:
  assumes "between_ok b" "1 / 1000000 \<le> p" "p \<le> m" "m \<le> 10 ^ 9"
  shows "\<exists>n. jfloor (br_randomBetween b k (jint 1) (jdiv (Fin m) (Fin p))) = jint n \<and> 1 \<le> n \<and>
           of_int n * p \<le> m * (1 + 1 / 2 ^ 53)"
proof -
  have "0 < p" using assms(2) by (rule less_le_trans [rotated]) simp
  then obtain q where q: "jdiv (Fin m) (Fin p) = Fin q" "1 \<le> q" "q * p \<le> m * (1 + 1 / 2 ^ 53)"
    using budget_quotient assms by blast
  obtain n where n: "jfloor (br_randomBetween b k (Fin 1) (Fin q)) = jint n" "1 \<le> n" "of_int n \<le> max 1 q"
    using between_floor [OF assms(1), of 1 1 q k] q(2) by auto
  have "of_int n * p \<le> q * p" using n(3) q(2) \<open>0 < p\<close> by (intro mult_right_mono) auto
  with n q show ?thesis by (intro exI [of _ n]) (simp add: jint_def)
qed

lemma error_amount: "jceil (jdiv (jint 2) (lit (3 / 10))) = jint 7"
proof -
  obtain t where t: "lit (3 / 10) = Fin t" "3 / 10 * (1 - 1 / 2 ^ 53) \<le> t" "t \<le> 3 / 10 * (1 + 1 / 2 ^ 53)"
    using lit_near [of "3 / 10"] by auto
  have t0: "0 < t" using t(2) by (rule less_le_trans [rotated]) simp
  have q: "13 / 2 \<le> 2 / t" "2 / t \<le> 34 / 5"
    using t t0 by (simp_all add: le_divide_eq divide_le_eq)
  have "1 / 2 ^ 100 \<le> (13 / 2 :: rat)" "(34 / 5 :: rat) \<le> 2 ^ 52" by simp_all
  with q have "1 / 2 ^ 100 \<le> 2 / t" "2 / t \<le> 2 ^ 52" by linarith+
  then obtain p where p: "fl (2 / t) = Fin p" "2 / t * (1 - 1 / 2 ^ 53) \<le> p" "p \<le> 2 / t * (1 + 1 / 2 ^ 53)"
    using fl_near [of "2 / t"] by blast
  have "13 / 2 * (1 - 1 / 2 ^ 53) \<le> 2 / t * (1 - 1 / 2 ^ 53)" using q by (intro mult_right_mono) auto
  moreover have "2 / t * (1 + 1 / 2 ^ 53) \<le> 34 / 5 * (1 + 1 / 2 ^ 53)" using q by (intro mult_right_mono) auto
  ultimately have "6 < p" "p \<le> 7" using p by simp_all
  then have "\<lceil>p\<rceil> = 7" by (simp add: ceiling_eq_iff)
  then show ?thesis using t(1) t0 p(1) by (simp add: jint_def)
qed

text \<open>The amount both sell calculators and the quick sale draw: a share of what is owned.\<close>

lemma sell_amount:
  assumes rb: "between_ok b" and k: "1 \<le> k" "k \<le> 10 ^ 9" and \<rho>: "0 \<le> \<rho>" "\<rho> \<le> 1"
  shows "\<exists>n. jfloor (br_randomBetween b d (jint 1) (jmul (jint k) (Fin \<rho>))) = jint n \<and>
      0 \<le> n \<and> n \<le> k \<and> (1 \<le> of_int k * \<rho> \<longrightarrow> 1 \<le> n)"
proof -
  have rk: "0 \<le> (of_int k :: rat)" "1 \<le> (of_int k :: rat)" using k(1) by simp_all
  have share: "0 \<le> of_int k * \<rho>" "of_int k * \<rho> \<le> of_int k"
    using rk \<rho> by (simp_all add: mult_left_le)
  have flk: "fl (of_int k) = jint k" using k by (intro fl_of_int) auto
  have fl0: "fl 0 = Fin 0" using fl_of_int [of 0] by (simp add: jint_def)
  have fl1: "fl 1 = Fin 1" using fl_of_int [of 1] by (simp add: jint_def)
  have up: "jle (fl (of_int k * \<rho>)) (jint k)" using fl_mono [OF share(2)] flk by simp
  have lo: "jle (Fin 0) (fl (of_int k * \<rho>))" using fl_mono [OF share(1)] fl0 by simp
  from up lo obtain q where q: "fl (of_int k * \<rho>) = Fin q" "0 \<le> q" "q \<le> of_int k"
    by (cases "fl (of_int k * \<rho>)") (auto simp: jint_def jle_def jeq_def)
  have q1: "1 \<le> q" if "1 \<le> of_int k * \<rho>" using fl_mono [OF that] fl1 q(1) by simp
  show ?thesis
  proof (cases "1 \<le> of_int k * \<rho>")
    case True
    have "min 1 q \<ge> of_int 1" using q1 [OF True] by simp
    from between_floor [OF rb this, of d] obtain n where
      n: "jfloor (br_randomBetween b d (Fin 1) (Fin q)) = jint n" "1 \<le> n" "of_int n \<le> max 1 q" by blast
    have "(of_int n :: rat) \<le> of_int k" using n(3) q(3) rk by linarith
    then have "n \<le> k" by simp
    with n q(1) show ?thesis by (intro exI [of _ n]) (simp add: jint_def)
  next
    case False
    have "min 1 q \<ge> of_int 0" using q by simp
    from between_floor [OF rb this, of d] obtain n where
      n: "jfloor (br_randomBetween b d (Fin 1) (Fin q)) = jint n" "0 \<le> n" "of_int n \<le> max 1 q" by blast
    have "(of_int n :: rat) \<le> of_int k" using n(3) q(3) rk by linarith
    then have "n \<le> k" by simp
    with n q(1) False show ?thesis by (intro exI [of _ n]) (simp add: jint_def)
  qed
qed

section \<open>Properties\<close>

text \<open>C18 (buy calculators). For everyday prices and a budget that pays for one unit, the success
  calculator offers more than the asked price and the timeout calculator less than a fiftieth of it;
  both choose a whole amount of at least one unit whose total does not exceed the budget, up to the
  rounding of one division. The error calculator always chooses 7 units at a price whose total is
  more than twice the balance.\<close>

theorem buy_calculators_bounds:
  assumes rb: "between_ok b" and a: "1 / 100 \<le> a" "a \<le> 10 ^ 6" and m: "2 * a \<le> m" "m \<le> 10 ^ 9"
    and bal: "1 / 100 \<le> bal" "bal \<le> 10 ^ 9"
    and opt: "opt = \<lparr>bo_balance = Fin bal, bo_askPrice = Fin a, bo_maxCost = Fin m\<rparr>"
  shows "(\<exists>p n s'. ok_run (successBuyCalculator opt) b s \<lparr>tr_price = Fin p, tr_amount = jint n\<rparr> s' \<and>
            a < p \<and> 1 \<le> n \<and> of_int n * p \<le> m * (1 + 1 / 2 ^ 53)) \<and>
         (\<exists>p n s'. ok_run (timeoutBuyCalculator opt) b s \<lparr>tr_price = Fin p, tr_amount = jint n\<rparr> s' \<and>
            0 < p \<and> p < a / 50 \<and> 1 \<le> n \<and> of_int n * p \<le> m * (1 + 1 / 2 ^ 53)) \<and>
         (\<exists>p s'. ok_run (errorBuyCalculator opt) b s \<lparr>tr_price = Fin p, tr_amount = jint 7\<rparr> s' \<and>
            2 * bal < 7 * p)"
proof (intro conjI)
  have a': "1 / 1000 \<le> a" "a \<le> 10 ^ 9" "0 < a" using a by (auto intro: order_trans)
  have budget: "\<exists>p n s'. ok_run (pbind (randomBetween (jint 1) (jdiv (Fin m) (jmul (Fin a) (lit f)))) (\<lambda>r.
        preturn \<lparr>tr_price = jmul (Fin a) (lit f), tr_amount = jfloor r\<rparr>)) b s
        \<lparr>tr_price = Fin p, tr_amount = jint n\<rparr> s' \<and> P p \<and> 1 \<le> n \<and> of_int n * p \<le> m * (1 + 1 / 2 ^ 53)"
    if p: "jmul (Fin a) (lit f) = Fin p" "P p" "1 / 1000000 \<le> p" "p \<le> m" for f p P
    using budget_amount [OF rb p(3,4) m(2), of "se_draws s"] p(1,2)
    by (auto simp: ok_simps)
  obtain p1 where p1: "jmul (Fin a) (lit (11 / 10)) = Fin p1"
      "a * (11 / 10) * (1 - 1 / 2 ^ 53) * (1 - 1 / 2 ^ 53) \<le> p1"
      "p1 \<le> a * (11 / 10) * (1 + 1 / 2 ^ 53) * (1 + 1 / 2 ^ 53)"
    using scaled_near [OF a'(1,2), of "11 / 10"] by auto
  have "a < a * (11 / 10) * (1 - 1 / 2 ^ 53) * (1 - 1 / 2 ^ 53)"
    "a * (11 / 10) * (1 + 1 / 2 ^ 53) * (1 + 1 / 2 ^ 53) < 2 * a" using a'(3) by simp_all
  with p1 have "a < p1" "p1 \<le> m" using m by linarith+
  moreover then have "1 / 1000000 \<le> p1" using a by linarith
  ultimately show "\<exists>p n s'. ok_run (successBuyCalculator opt) b s \<lparr>tr_price = Fin p, tr_amount = jint n\<rparr> s' \<and>
      a < p \<and> 1 \<le> n \<and> of_int n * p \<le> m * (1 + 1 / 2 ^ 53)"
    using budget [OF p1(1), of "\<lambda>p. a < p"] by (simp add: successBuyCalculator_def opt Let_def)
  obtain p2 where p2: "jmul (Fin a) (lit (1 / 100)) = Fin p2" "0 < p2"
      "a * (1 / 100) * (1 - 1 / 2 ^ 53) * (1 - 1 / 2 ^ 53) \<le> p2"
      "p2 \<le> a * (1 / 100) * (1 + 1 / 2 ^ 53) * (1 + 1 / 2 ^ 53)"
    using scaled_near [OF a'(1,2), of "1 / 100"] by auto
  have "a * (1 / 200) < a * (1 / 100) * (1 - 1 / 2 ^ 53) * (1 - 1 / 2 ^ 53)"
    "a * (1 / 100) * (1 + 1 / 2 ^ 53) * (1 + 1 / 2 ^ 53) < a / 50" using a'(3) by simp_all
  with p2 have "p2 < a / 50" "a * (1 / 200) < p2" by linarith+
  moreover then have "1 / 1000000 \<le> p2" "p2 \<le> m" using a m by linarith+
  ultimately show "\<exists>p n s'. ok_run (timeoutBuyCalculator opt) b s \<lparr>tr_price = Fin p, tr_amount = jint n\<rparr> s' \<and>
      0 < p \<and> p < a / 50 \<and> 1 \<le> n \<and> of_int n * p \<le> m * (1 + 1 / 2 ^ 53)"
    using budget [OF p2(1), of "\<lambda>p. 0 < p \<and> p < a / 50"] p2(2) by (simp add: timeoutBuyCalculator_def opt Let_def)
  define x where "x = max bal a"
  have x: "jmax (Fin bal) (Fin a) = Fin x" "1 / 1000 \<le> x" "x \<le> 10 ^ 9" "bal \<le> x" "0 < x"
    using a' bal by (auto simp: jmax_def x_def)
  obtain p3 where p3: "jmul (Fin x) (lit (3 / 10)) = Fin p3"
      "x * (3 / 10) * (1 - 1 / 2 ^ 53) * (1 - 1 / 2 ^ 53) \<le> p3"
    using scaled_near [OF x(2,3), of "3 / 10"] by auto
  have "2 * x < 7 * (x * (3 / 10) * (1 - 1 / 2 ^ 53) * (1 - 1 / 2 ^ 53))" using x(5) by simp
  with p3 x(4) have "2 * bal < 7 * p3" by linarith
  then show "\<exists>p s'. ok_run (errorBuyCalculator opt) b s \<lparr>tr_price = Fin p, tr_amount = jint 7\<rparr> s' \<and>
      2 * bal < 7 * p"
    using x(1) p3(1) error_amount by (simp add: errorBuyCalculator_def opt Let_def)
qed

lemma quiet_between: "between_ok quiet_browser"
  by (simp add: between_ok_def quiet_browser_def)

lemma buy_calculators_bounds_witness:
  "\<exists>p s'. ok_run (errorBuyCalculator \<lparr>bo_balance = Fin 100, bo_askPrice = Fin 10, bo_maxCost = Fin 500\<rparr>)
     quiet_browser \<lparr>se_log = [], se_draws = 0\<rparr> \<lparr>tr_price = Fin p, tr_amount = jint 7\<rparr> s' \<and> 2 * 100 < 7 * p"
  using buy_calculators_bounds [OF quiet_between, of 10 500 100
      "\<lparr>bo_balance = Fin 100, bo_askPrice = Fin 10, bo_maxCost = Fin 500\<rparr>"]
  by simp

text \<open>C19 (sell calculators). For a whole number of units owned and a ratio between 0 and 1, the success and
  timeout calculators never offer more units than are owned, and at least one when the ratio of the
  holding is at least one; the success price is below the asked one, the timeout price 50 times
  above. The error calculator always offers ten times what is owned.\<close>

theorem sell_calculators_bounds:
  assumes rb: "between_ok b" and a: "1 / 100 \<le> a" "a \<le> 10 ^ 6" and k: "1 \<le> k" "k \<le> 10 ^ 9"
    and \<rho>: "0 \<le> \<rho>" "\<rho> \<le> 1"
    and opt: "opt = \<lparr>so_askPrice = Fin a, so_ownedAmount = jint k, so_ratio = Fin \<rho>\<rparr>"
  shows "(\<exists>p n s'. ok_run (successSellCalculator opt) b s \<lparr>tr_price = Fin p, tr_amount = jint n\<rparr> s' \<and>
            0 < p \<and> p < a \<and> 0 \<le> n \<and> n \<le> k \<and> (1 \<le> of_int k * \<rho> \<longrightarrow> 1 \<le> n)) \<and>
         (\<exists>p n s'. ok_run (timeoutSellCalculator opt) b s \<lparr>tr_price = Fin p, tr_amount = jint n\<rparr> s' \<and>
            50 * a < p \<and> 0 \<le> n \<and> n \<le> k \<and> (1 \<le> of_int k * \<rho> \<longrightarrow> 1 \<le> n)) \<and>
         (\<exists>p s'. ok_run (errorSellCalculator opt) b s \<lparr>tr_price = Fin p, tr_amount = jint (10 * k)\<rparr> s' \<and>
            0 < p \<and> p < a)"
proof (intro conjI)
  have a': "1 / 1000 \<le> a" "a \<le> 10 ^ 9" "0 < a" using a by (auto intro: order_trans)
  have amount: "\<exists>n. jfloor (br_randomBetween b d (jint 1) (jmul (jint k) (Fin \<rho>))) = jint n \<and>
      0 \<le> n \<and> n \<le> k \<and> (1 \<le> of_int k * \<rho> \<longrightarrow> 1 \<le> n)" for d
    by (rule sell_amount [OF rb k \<rho>])
  obtain p where p: "jmul (Fin a) (lit (9 / 10)) = Fin p" "0 < p"
      "p \<le> a * (9 / 10) * (1 + 1 / 2 ^ 53) * (1 + 1 / 2 ^ 53)"
    using scaled_near [OF a'(1,2), of "9 / 10"] by auto
  have "a * (9 / 10) * (1 + 1 / 2 ^ 53) * (1 + 1 / 2 ^ 53) < a" using a'(3) by simp
  with p have pa: "0 < p \<and> p < a" by linarith
  show "\<exists>p n s'. ok_run (successSellCalculator opt) b s \<lparr>tr_price = Fin p, tr_amount = jint n\<rparr> s' \<and>
            0 < p \<and> p < a \<and> 0 \<le> n \<and> n \<le> k \<and> (1 \<le> of_int k * \<rho> \<longrightarrow> 1 \<le> n)"
    using amount [of "se_draws s"] p(1) pa by (auto simp: successSellCalculator_def opt ok_simps)
  have "lit 100 = jint 100" using fl_of_int [of 100] by (simp add: lit_def)
  then obtain p2 where p2: "jmul (Fin a) (jint 100) = Fin p2"
      "a * 100 * (1 - 1 / 2 ^ 53) * (1 - 1 / 2 ^ 53) \<le> p2"
    using scaled_near [OF a'(1,2), of 100] by auto
  have "50 * a < a * 100 * (1 - 1 / 2 ^ 53) * (1 - 1 / 2 ^ 53)" using a'(3) by simp
  with p2 have "50 * a < p2" by linarith
  then show "\<exists>p n s'. ok_run (timeoutSellCalculator opt) b s \<lparr>tr_price = Fin p, tr_amount = jint n\<rparr> s' \<and>
            50 * a < p \<and> 0 \<le> n \<and> n \<le> k \<and> (1 \<le> of_int k * \<rho> \<longrightarrow> 1 \<le> n)"
    using amount [of "se_draws s"] p2(1) by (auto simp: timeoutSellCalculator_def opt ok_simps)
  have "jmul (jint k) (jint 10) = fl (of_int (10 * k))" by (simp add: jint_def mult.commute)
  also have "\<dots> = jint (10 * k)" using k by (intro fl_of_int) auto
  finally show "\<exists>p s'. ok_run (errorSellCalculator opt) b s \<lparr>tr_price = Fin p, tr_amount = jint (10 * k)\<rparr> s' \<and>
            0 < p \<and> p < a"
    using p(1) pa by (simp add: errorSellCalculator_def opt)
qed

lemma sell_calculators_bounds_witness:
  "\<exists>p s'. ok_run (errorSellCalculator \<lparr>so_askPrice = Fin 10, so_ownedAmount = jint 3, so_ratio = Fin 1\<rparr>)
     quiet_browser \<lparr>se_log = [], se_draws = 0\<rparr> \<lparr>tr_price = Fin p, tr_amount = jint (10 * 3)\<rparr> s' \<and> 0 < p \<and> p < 10"
  using sell_calculators_bounds [OF quiet_between, of 10 3 1
      "\<lparr>so_askPrice = Fin 10, so_ownedAmount = jint 3, so_ratio = Fin 1\<rparr>"]
  by simp

end
