(* ===== verification/Loadgen_Provider.thy ===== *)
theory Loadgen_Provider
  imports Loadgen_Amounts
begin

text \<open>
  The configuration of the load generator and the choice of visits (\<open>src/loadgen/src/config\<close>,
  \<open>provider\<close>, \<open>user\<close>, \<open>main.ts\<close>). The readers of environment variables (\<open>EnvConfig\<close>) and the provider
  classes belong to the load generator library: the readers are the argument \<open>env\<close>, and the
  providers are the constructors of a datatype, the tree of objects the code builds.
\<close>

section \<open>Configuration\<close>

record EnvConfig =
  ensureNumber :: "string \<Rightarrow> jsnum \<Rightarrow> (js_error, jsnum) result"
  ensureEnum :: "string \<Rightarrow> string list \<Rightarrow> string \<Rightarrow> (js_error, string) result"
  ensureUrl :: "string \<Rightarrow> (js_error, url) result"

definition HEADLESS_MODES :: "string list" where
  "HEADLESS_MODES = [''headless'', ''headfull'']"

record VisitsConfig =
  depositMinValue :: jsnum
  depositMaxValue :: jsnum
  assetSellRatio :: jsnum
  withdrawMinValue :: jsnum
  transactionMinDuration :: jsnum
  transactionMaxDuration :: jsnum
  easytradeUrl :: url

text \<open>\<open>NYSE offHoursLoadFactor timeframeMinutes learnTimeFactor\<close>\<close>

datatype ProviderConfig =
    Constant
  | NYSE (offHoursLoadFactor: jsnum) (timeframeMinutes: jsnum) (learnTimeFactor: jsnum)

record Config =
  concurrent_visits :: jsnum
  concurrent_browsers :: jsnum
  browserTimeToLiveMinutes :: jsnum
  logLevel :: string
  rareVisitsIntervalMinutes :: jsnum
  headlessMode :: string
  visitsConfig :: VisitsConfig
  providerConfig :: "ProviderConfig option"
  regularVisitsWeights :: "(VisitName \<times> jsnum) list"

text \<open>A switch without a default: \<open>None\<close> (\<open>undefined\<close>) for a type that is neither.\<close>

definition getProviderConfig :: "EnvConfig \<Rightarrow> (js_error, ProviderConfig option) result" where
  "getProviderConfig env =
     rbind (ensureEnum env ''LOAD_TYPE'' [''constant'', ''NYSE''] ''NYSE'') (\<lambda>providerType.
       if providerType = ''constant'' then Inr (Some Constant)
       else if providerType = ''NYSE'' then
         rbind (ensureNumber env ''RATE_LIMIT_LEARN_TIME_FACTOR'' (jint 2)) (\<lambda>learn.
         rbind (ensureNumber env ''NYSE_OFFHOURS_LOAD_FACTOR'' (lit (7 / 10))) (\<lambda>off.
         rbind (ensureNumber env ''RATE_LIMIT_TIMEFRAME_MINUTES'' (jint 5)) (\<lambda>frame.
           Inr (Some (NYSE off frame learn)))))
       else Inr None)"

definition visit_weights :: "(VisitName \<times> string) list" where
  "visit_weights =
     [(deposit_and_buy_success, ''DEPOSIT_AND_BUY_SUCCESS_WEIGHT''),
      (deposit_and_long_buy_error, ''DEPOSIT_AND_LONG_BUY_ERROR_WEIGHT''),
      (deposit_and_long_buy_success, ''DEPOSIT_AND_LONG_BUY_SUCCESS_WEIGHT''),
      (deposit_and_long_buy_timeout, ''DEPOSIT_AND_LONG_BUY_TIMEOUT_WEIGHT''),
      (long_sell_error, ''LONG_SELL_ERROR_WEIGHT''),
      (long_sell_success, ''LONG_SELL_SUCCESS_WEIGHT''),
      (long_sell_timeout, ''LONG_SELL_TIMEOUT_WEIGHT''),
      (sell_and_withdraw_success, ''SELL_AND_WITHDRAW_SUCCESS_WEIGHT'')]"

definition getVisitsConfig :: "EnvConfig \<Rightarrow> (js_error, VisitsConfig) result" where
  "getVisitsConfig env =
     rbind (ensureNumber env ''DEPOSIT_MIN_VALUE'' (jint 500)) (\<lambda>dmin.
     rbind (ensureNumber env ''DEPOSIT_MAX_VALUE'' (jint 1500)) (\<lambda>dmax.
     rbind (ensureNumber env ''ASSET_SELL_RATIO'' (lit (1 / 10))) (\<lambda>ratio.
     rbind (ensureNumber env ''WITHDRAW_MIN_VALUE'' (jint 500)) (\<lambda>wmin.
     rbind (ensureNumber env ''TRANSACTION_MIN_DURATION'' (jint 1)) (\<lambda>tmin.
     rbind (ensureNumber env ''TRANSACTION_MAX_DURATION'' (jint 24)) (\<lambda>tmax.
     rbind (ensureUrl env ''EASYTRADE_URL'') (\<lambda>u.
       Inr \<lparr>depositMinValue = dmin, depositMaxValue = dmax, assetSellRatio = ratio,
            withdrawMinValue = wmin, transactionMinDuration = tmin, transactionMaxDuration = tmax,
            easytradeUrl = u\<rparr>)))))))"

definition getConfig :: "EnvConfig \<Rightarrow> (js_error, Config) result" where
  "getConfig env =
     rbind (ensureNumber env ''CONCURRENCY'' (jint 5)) (\<lambda>visits.
     rbind (ensureNumber env ''BROWSERS'' (jint 1)) (\<lambda>browsers.
     rbind (ensureNumber env ''BROWSER_TTL_MINUTES'' (jint 60)) (\<lambda>ttl.
     rbind (ensureEnum env ''LOG_LEVEL''
              [''silly'', ''debug'', ''verbose'', ''http'', ''info'', ''warn'', ''error''] ''info'') (\<lambda>level.
     rbind (ensureNumber env ''RARE_VISITS_INTERVAL_MINUTES'' (jint 30)) (\<lambda>rare.
     rbind (ensureEnum env ''HEADLESS_MODE'' HEADLESS_MODES ''headless'') (\<lambda>mode.
     rbind (getVisitsConfig env) (\<lambda>visitsCfg.
     rbind (getProviderConfig env) (\<lambda>provider.
     rbind (rmapM (\<lambda>(nm, var). rmap (Pair nm) (ensureNumber env var (jint 1))) visit_weights) (\<lambda>weights.
       Inr \<lparr>concurrent_visits = visits, concurrent_browsers = browsers, browserTimeToLiveMinutes = ttl,
            logLevel = level, rareVisitsIntervalMinutes = rare, headlessMode = mode,
            visitsConfig = visitsCfg, providerConfig = provider, regularVisitsWeights = weights\<rparr>)))))))))"

section \<open>Choosing visits\<close>

text \<open>The users are read from \<open>resources/users.json\<close>; \<open>None\<close> is the \<open>undefined\<close> of an empty list, which the
  code passes on as a user.\<close>

definition getRandomUser :: "User list \<Rightarrow> User option page" where
  "getRandomUser users = arrayRandom users"

definition getDepositValue :: "Config \<Rightarrow> jsnum page" where
  "getDepositValue config =
     randomBetween (depositMinValue (visitsConfig config)) (depositMaxValue (visitsConfig config))"

definition getTransactionDuration :: "Config \<Rightarrow> jsnum page" where
  "getTransactionDuration config =
     pbind (randomBetween (transactionMinDuration (visitsConfig config))
              (transactionMaxDuration (visitsConfig config))) (\<lambda>r. preturn (jfloor r))"

text \<open>Building a visit around a user that may be missing.\<close>

definition with_user :: "User option \<Rightarrow> (User \<Rightarrow> visit) \<Rightarrow> visit option" where
  "with_user user mk = map_option mk user"

definition long_buy_visit :: "Config \<Rightarrow> VisitName \<Rightarrow> BuyCalculator \<Rightarrow> User option \<Rightarrow> visit option page" where
  "long_buy_visit config nm calculator user =
     pbind (getDepositValue config) (\<lambda>depositValue.
     pbind (getTransactionDuration config) (\<lambda>duration.
       preturn (with_user user (\<lambda>u. DepositAndLongBuyVisit nm calculator
         (easytradeUrl (visitsConfig config)) u depositValue duration))))"

definition long_sell_visit :: "Config \<Rightarrow> VisitName \<Rightarrow> SellCalculator \<Rightarrow> User option \<Rightarrow> visit option page" where
  "long_sell_visit config nm calculator user =
     pbind (getTransactionDuration config) (\<lambda>duration.
       preturn (with_user user (\<lambda>u. LongSellVisit nm calculator
         (easytradeUrl (visitsConfig config)) u (assetSellRatio (visitsConfig config)) duration)))"

text \<open>The switch over the name; a name of another kind falls through.\<close>

fun regular_visit :: "Config \<Rightarrow> User option \<Rightarrow> VisitName \<Rightarrow> visit option page" where
  "regular_visit config user deposit_and_long_buy_success =
     long_buy_visit config deposit_and_long_buy_success successBuyCalculator user"
| "regular_visit config user deposit_and_long_buy_timeout =
     long_buy_visit config deposit_and_long_buy_timeout timeoutBuyCalculator user"
| "regular_visit config user deposit_and_long_buy_error =
     long_buy_visit config deposit_and_long_buy_error errorBuyCalculator user"
| "regular_visit config user long_sell_success =
     long_sell_visit config long_sell_success successSellCalculator user"
| "regular_visit config user long_sell_timeout =
     long_sell_visit config long_sell_timeout timeoutSellCalculator user"
| "regular_visit config user long_sell_error =
     long_sell_visit config long_sell_error errorSellCalculator user"
| "regular_visit config user deposit_and_buy_success =
     pbind (getDepositValue config) (\<lambda>depositValue.
       preturn (with_user user (\<lambda>u. DepositAndBuyVisit deposit_and_buy_success
         (easytradeUrl (visitsConfig config)) u depositValue)))"
| "regular_visit config user sell_and_withdraw_success =
     preturn (with_user user (\<lambda>u. SellAndWithdrawVisit sell_and_withdraw_success
       (easytradeUrl (visitsConfig config)) u (assetSellRatio (visitsConfig config))
       (withdrawMinValue (visitsConfig config))))"
| "regular_visit config user order_credit_card = preturn None"

definition getRegularProviderFunction :: "User list \<Rightarrow> Config \<Rightarrow> VisitName \<Rightarrow> visit option page" where
  "getRegularProviderFunction users config nm =
     pbind (getRandomUser users) (\<lambda>user. regular_visit config user nm)"

definition getRareVisitInterval :: "Config \<Rightarrow> jsnum" where
  "getRareVisitInterval config = jmul (jmul (rareVisitsIntervalMinutes config) (jint 60)) (jint 1000)"

definition getRareProviderFunction :: "User list \<Rightarrow> Config \<Rightarrow> visit option page" where
  "getRareProviderFunction users config =
     pbind (getRandomUser users) (\<lambda>user.
     pbind (arrayRandom EASYTRADE_CREDIT_CARD_TYPES) (\<lambda>cardType.
       preturn (case cardType of
           None \<Rightarrow> None
         | Some ct \<Rightarrow> with_user user (\<lambda>u.
             OrderCreditCardVisit order_credit_card (easytradeUrl (visitsConfig config)) u ct))))"

section \<open>The provider\<close>

record utc_time =
  utc_hours :: int
  utc_minutes :: int

definition isNYSEOpenHours :: "utc_time \<Rightarrow> bool" where
  "isNYSEOpenHours now \<longleftrightarrow>
     ((utc_hours now = 14 \<and> utc_minutes now > 30) \<or> utc_hours now \<ge> 15) \<and> utc_hours now < 21"

datatype provider =
    WeightedProvider "(VisitName \<times> jsnum) list" "VisitName \<Rightarrow> visit option page"
  | FunctionProviderWrapper "visit option page"
  | IntervalProviderWrapper provider jsnum
  | PriorityProviderWrapper "provider list"
  | RateLimitedProviderWrapper provider jsnum "utc_time \<Rightarrow> jsnum" jsnum string

text \<open>Reading the type of an \<open>undefined\<close> provider configuration throws.\<close>

definition getProvider :: "User list \<Rightarrow> Config \<Rightarrow> (js_error, provider) result" where
  "getProvider users config =
     (let regularVisitProvider =
            WeightedProvider (regularVisitsWeights config) (getRegularProviderFunction users config);
          rareVisitsProvider =
            IntervalProviderWrapper (FunctionProviderWrapper (getRareProviderFunction users config))
              (getRareVisitInterval config);
          priorityProvider = PriorityProviderWrapper [rareVisitsProvider, regularVisitProvider]
      in case providerConfig config of
           None \<Rightarrow> Inl (TypeError ''Cannot read properties of undefined (reading type)'')
         | Some Constant \<Rightarrow> Inr priorityProvider
         | Some (NYSE off frame learn) \<Rightarrow>
             Inr (RateLimitedProviderWrapper priorityProvider frame
               (\<lambda>now. if isNYSEOpenHours now then jint 1 else off) learn (logLevel config)))"

section \<open>The main program\<close>

text \<open>What \<open>main.ts\<close> passes to the library: the browser pool, the generator, the delays of the page
  object and the periods of the statistics, whose aggregator starts at the time \<open>now\<close>.\<close>

datatype time_unit = MINUTE | HOUR

record stats_options =
  st_collect :: "time_unit \<times> int"
  st_keep :: "time_unit \<times> int"
  st_aggregator_start :: int
  st_tick :: time_unit
  st_reports :: "(time_unit \<times> int) list"
  st_logger :: string

record loadgen_options =
  lo_poolName :: string
  lo_product :: string
  lo_headless :: bool
  lo_browserTimeToLiveMs :: jsnum
  lo_concurrentBrowsers :: jsnum
  lo_concurrency :: jsnum
  lo_provider :: provider
  lo_logLevel :: string
  lo_viewport :: "int \<times> int"
  lo_longDelayMs :: int
  lo_shortDelayMs :: int
  lo_standDelayMs :: int
  lo_loggers :: "(string \<times> string) list"
  lo_stats :: stats_options

definition main_stats :: "int \<Rightarrow> stats_options" where
  "main_stats now =
     \<lparr>st_collect = (MINUTE, 5), st_keep = (HOUR, 24), st_aggregator_start = now, st_tick = MINUTE,
      st_reports = [(MINUTE, 5), (HOUR, 1)], st_logger = ''stats''\<rparr>"

definition main_options :: "User list \<Rightarrow> EnvConfig \<Rightarrow> int \<Rightarrow> (js_error, loadgen_options) result" where
  "main_options users env now =
     rbind (getConfig env) (\<lambda>config.
     rbind (getProvider users config) (\<lambda>provider.
       Inr \<lparr>lo_poolName = ''main'', lo_product = ''chrome'',
            lo_headless = (headlessMode config = ''headless''),
            lo_browserTimeToLiveMs = jmul (browserTimeToLiveMinutes config) (jint 60000),
            lo_concurrentBrowsers = concurrent_browsers config,
            lo_concurrency = concurrent_visits config,
            lo_provider = provider, lo_logLevel = logLevel config, lo_viewport = (1920, 1080),
            lo_longDelayMs = 3000, lo_shortDelayMs = 500, lo_standDelayMs = 1500,
            lo_loggers = [(''browser'', logLevel config), (''visit'', logLevel config)],
            lo_stats = main_stats now\<rparr>))"

section \<open>Lemmas\<close>

definition browser_ok :: "browser \<Rightarrow> bool" where
  "browser_ok b \<longleftrightarrow> between_ok b \<and> (\<forall>k. \<exists>r. br_random b k = Fin r \<and> is_double r \<and> 0 \<le> r \<and> r < 1)"

lemma getRandomUser_ok:
  assumes "browser_ok b" "users \<noteq> []" "length users \<le> 2 ^ 53"
  shows "\<exists>u. ok_run (getRandomUser users) b s (Some u) (s\<lparr>se_draws := Suc (se_draws s)\<rparr>) \<and> u \<in> set users"
proof -
  have run: "ok_run (getRandomUser users) b s
      (nth_js users (jfloor (jmul (br_random b (se_draws s)) (jint (int (length users))))))
      (s\<lparr>se_draws := Suc (se_draws s)\<rparr>)" (is "ok_run _ _ _ ?r ?s'")
    using assms(2) by (simp add: getRandomUser_def arrayRandom_def ok_bind ok_math_random)
  have "?r \<noteq> None"
    using arrayRandom_some [OF _ assms(2,3) run [unfolded getRandomUser_def]] assms(1)
    unfolding browser_ok_def by blast
  then obtain u where u: "?r = Some u" by blast
  then have "u \<in> set users" using arrayRandom_elem [OF run [unfolded getRandomUser_def]] by simp
  with run u show ?thesis by auto
qed

fun visit_duration :: "visit \<Rightarrow> jsnum option" where
  "visit_duration (DepositAndLongBuyVisit nm c u user dv td) = Some td"
| "visit_duration (LongSellVisit nm c u user sr td) = Some td"
| "visit_duration v = None"

lemma getTransactionDuration_ok:
  assumes "between_ok b" "transactionMinDuration (visitsConfig config) = jint lo"
    "transactionMaxDuration (visitsConfig config) = jint hi" "lo \<le> hi"
  shows "\<exists>d. ok_run (getTransactionDuration config) b s (jint d) (s\<lparr>se_draws := Suc (se_draws s)\<rparr>) \<and>
           lo \<le> d \<and> d \<le> hi"
proof -
  obtain d where "jfloor (br_randomBetween b (se_draws s) (jint lo) (jint hi)) = jint d" "lo \<le> d"
      "of_int d \<le> max (of_int lo) (of_int hi :: rat)"
    using between_floor [OF assms(1), of lo "of_int lo" "of_int hi" "se_draws s"] assms(4)
    by (auto simp: jint_def)
  then show ?thesis using assms(2-4)
    by (intro exI [of _ d]) (auto simp: getTransactionDuration_def ok_simps max_def split: if_splits)
qed

lemma getDepositValue_ok:
  "ok_run (getDepositValue config) b s
     (br_randomBetween b (se_draws s) (depositMinValue (visitsConfig config)) (depositMaxValue (visitsConfig config)))
     (s\<lparr>se_draws := Suc (se_draws s)\<rparr>)"
  by (simp add: getDepositValue_def ok_simps)

text \<open>What a visit chosen for a user must be.\<close>

definition suits :: "Config \<Rightarrow> int \<Rightarrow> int \<Rightarrow> VisitName \<Rightarrow> User \<Rightarrow> visit \<Rightarrow> bool" where
  "suits config lo hi nm u v \<longleftrightarrow>
     getName v = nm \<and> visit_wf v \<and> visit_url v = easytradeUrl (visitsConfig config) \<and> visit_user v = u \<and>
     (\<forall>d. visit_duration v = Some d \<longrightarrow> (\<exists>n. d = jint n \<and> lo \<le> n \<and> n \<le> hi))"

lemma long_buy_visit_ok:
  assumes "between_ok b" "transactionMinDuration (visitsConfig config) = jint lo"
    "transactionMaxDuration (visitsConfig config) = jint hi" "lo \<le> hi" "\<And>opt. silent (c opt)"
  shows "\<exists>v s'. ok_run (long_buy_visit config nm c (Some u)) b s (Some v) s' \<and> se_log s' = se_log s \<and>
           suits config lo hi nm u v"
proof -
  let ?s1 = "s\<lparr>se_draws := Suc (se_draws s)\<rparr>"
  obtain dv where dv: "ok_run (getDepositValue config) b s dv ?s1" using getDepositValue_ok by blast
  obtain d where d: "ok_run (getTransactionDuration config) b ?s1 (jint d)
      (?s1\<lparr>se_draws := Suc (se_draws ?s1)\<rparr>)" "lo \<le> d" "d \<le> hi"
    using getTransactionDuration_ok [OF assms(1-4)] by blast
  have "ok_run (long_buy_visit config nm c (Some u)) b s
      (Some (DepositAndLongBuyVisit nm c (easytradeUrl (visitsConfig config)) u dv (jint d)))
      (?s1\<lparr>se_draws := Suc (se_draws ?s1)\<rparr>)"
    unfolding long_buy_visit_def ok_bind using dv d(1) by (auto simp: with_user_def)
  with d assms(5) show ?thesis
    by (intro exI [of _ "DepositAndLongBuyVisit nm c (easytradeUrl (visitsConfig config)) u dv (jint d)"]
        exI [of _ "?s1\<lparr>se_draws := Suc (se_draws ?s1)\<rparr>"]) (auto simp: suits_def)
qed

lemma long_sell_visit_ok:
  assumes "between_ok b" "transactionMinDuration (visitsConfig config) = jint lo"
    "transactionMaxDuration (visitsConfig config) = jint hi" "lo \<le> hi" "\<And>opt. silent (c opt)"
  shows "\<exists>v s'. ok_run (long_sell_visit config nm c (Some u)) b s (Some v) s' \<and> se_log s' = se_log s \<and>
           suits config lo hi nm u v"
proof -
  let ?s1 = "s\<lparr>se_draws := Suc (se_draws s)\<rparr>"
  let ?v = "\<lambda>d. LongSellVisit nm c (easytradeUrl (visitsConfig config)) u
      (assetSellRatio (visitsConfig config)) (jint d)"
  obtain d where d: "ok_run (getTransactionDuration config) b s (jint d) ?s1" "lo \<le> d" "d \<le> hi"
    using getTransactionDuration_ok [OF assms(1-4)] by blast
  have "ok_run (long_sell_visit config nm c (Some u)) b s (Some (?v d)) ?s1"
    unfolding long_sell_visit_def ok_bind using d(1) by (auto simp: with_user_def)
  with d assms(5) show ?thesis
    by (intro exI [of _ "?v d"] exI [of _ ?s1]) (auto simp: suits_def)
qed

lemma regular_visit_ok:
  assumes "between_ok b" "transactionMinDuration (visitsConfig config) = jint lo"
    "transactionMaxDuration (visitsConfig config) = jint hi" "lo \<le> hi" "nm \<noteq> order_credit_card"
  shows "\<exists>v s'. ok_run (regular_visit config (Some u) nm) b s (Some v) s' \<and> se_log s' = se_log s \<and>
           suits config lo hi nm u v"
proof (cases nm)
  case deposit_and_buy_success
  let ?s1 = "s\<lparr>se_draws := Suc (se_draws s)\<rparr>"
  obtain dv where dv: "ok_run (getDepositValue config) b s dv ?s1" using getDepositValue_ok by blast
  let ?v = "DepositAndBuyVisit nm (easytradeUrl (visitsConfig config)) u dv"
  have "ok_run (regular_visit config (Some u) nm) b s (Some ?v) ?s1"
    unfolding deposit_and_buy_success regular_visit.simps ok_bind using dv by (auto simp: with_user_def)
  then show ?thesis by (intro exI [of _ ?v] exI [of _ ?s1]) (simp add: suits_def)
qed (use assms long_buy_visit_ok [OF assms(1-4)] long_sell_visit_ok [OF assms(1-4)] silent_calculators
    in \<open>auto simp: with_user_def suits_def\<close>)

section \<open>Properties\<close>

text \<open>Choice of visits. For a user list that is not empty and whole bounds on the duration, the regular
  provider's function returns, for each of the eight regular names, a visit of that name for the
  configured site and one of the users, without a call of the page; the visit satisfies the
  precondition of the log specification, and the duration of its transaction, if it has one, is a
  whole number within the configured bounds.\<close>

lemma regular_provider_visit:
  assumes b: "browser_ok b" and users: "users \<noteq> []" "length users \<le> 2 ^ 53"
    and dur: "transactionMinDuration (visitsConfig config) = jint lo"
      "transactionMaxDuration (visitsConfig config) = jint hi" "lo \<le> hi"
    and nm: "nm \<noteq> order_credit_card"
  shows "\<exists>v s'. ok_run (getRegularProviderFunction users config nm) b s (Some v) s' \<and>
           se_log s' = se_log s \<and> getName v = nm \<and> visit_wf v \<and>
           visit_url v = easytradeUrl (visitsConfig config) \<and> visit_user v \<in> set users \<and>
           (\<forall>d. visit_duration v = Some d \<longrightarrow> (\<exists>n. d = jint n \<and> lo \<le> n \<and> n \<le> hi))"
proof -
  let ?s1 = "s\<lparr>se_draws := Suc (se_draws s)\<rparr>"
  obtain u where u: "ok_run (getRandomUser users) b s (Some u) ?s1" "u \<in> set users"
    using getRandomUser_ok [OF b users] by blast
  obtain v s' where v: "ok_run (regular_visit config (Some u) nm) b ?s1 (Some v) s'"
      "se_log s' = se_log ?s1" "suits config lo hi nm u v"
    using regular_visit_ok [OF _ dur nm] b unfolding browser_ok_def by blast
  have "ok_run (getRegularProviderFunction users config nm) b s (Some v) s'"
    unfolding getRegularProviderFunction_def ok_bind using u(1) v(1) by blast
  with v u(2) show ?thesis
    by (intro exI [of _ v] exI [of _ s']) (simp add: suits_def)
qed

definition sample_config :: Config where
  "sample_config =
     \<lparr>concurrent_visits = jint 5, concurrent_browsers = jint 1, browserTimeToLiveMinutes = jint 60,
      logLevel = ''info'', rareVisitsIntervalMinutes = jint 30, headlessMode = ''headless'',
      visitsConfig = \<lparr>depositMinValue = jint 500, depositMaxValue = jint 1500, assetSellRatio = lit (1 / 10),
        withdrawMinValue = jint 500, transactionMinDuration = jint 1, transactionMaxDuration = jint 24,
        easytradeUrl = sample_url\<rparr>,
      providerConfig = Some (NYSE (lit (7 / 10)) (jint 5) (jint 2)),
      regularVisitsWeights = map (\<lambda>(nm, var). (nm, jint 1)) visit_weights\<rparr>"

lemma quiet_browser_ok: "browser_ok quiet_browser"
  using fl_of_int [of 0] quiet_between
  by (simp add: browser_ok_def quiet_browser_def is_double_def jint_def)

lemma regular_provider_visit_witness:
  "\<exists>v s'. ok_run (getRegularProviderFunction [sample_user] sample_config long_sell_error)
     quiet_browser \<lparr>se_log = [], se_draws = 0\<rparr> (Some v) s' \<and> getName v = long_sell_error \<and> visit_user v = sample_user"
  using regular_provider_visit [OF quiet_browser_ok, of "[sample_user]" sample_config 1 24 long_sell_error
      "\<lparr>se_log = [], se_draws = 0\<rparr>"]
  by (auto simp: sample_config_def)

text \<open>Trading hours. With the NYSE load type the rate the limiter is given is 1 exactly in the minutes
  after 14:30 and before 21:00 UTC (14:30 itself is off hours) and the configured factor otherwise;
  with the constant type there is no limiter. In both cases the rare visits come first.\<close>

lemma provider_rate:
  assumes "providerConfig config = Some pc"
  shows "\<exists>p rate. getProvider users config = Inr p \<and>
    (case pc of
       Constant \<Rightarrow> p = PriorityProviderWrapper
           [IntervalProviderWrapper (FunctionProviderWrapper (getRareProviderFunction users config))
              (getRareVisitInterval config),
            WeightedProvider (regularVisitsWeights config) (getRegularProviderFunction users config)]
     | NYSE off frame learn \<Rightarrow> p = RateLimitedProviderWrapper (PriorityProviderWrapper
           [IntervalProviderWrapper (FunctionProviderWrapper (getRareProviderFunction users config))
              (getRareVisitInterval config),
            WeightedProvider (regularVisitsWeights config) (getRegularProviderFunction users config)])
           frame rate learn (logLevel config) \<and>
         (\<forall>h m. 0 \<le> h \<and> h < 24 \<and> 0 \<le> m \<and> m < 60 \<longrightarrow>
            rate \<lparr>utc_hours = h, utc_minutes = m\<rparr>
              = (if 14 * 60 + 30 < h * 60 + m \<and> h * 60 + m < 21 * 60 then jint 1 else off)))"
  using assms
  by (cases pc) (auto simp: getProvider_def isNYSEOpenHours_def)

lemma provider_rate_witness:
  "\<exists>p. getProvider [] sample_config = Inr p"
  using provider_rate [of sample_config "NYSE (lit (7 / 10)) (jint 5) (jint 2)" "[]"]
  by (auto simp: sample_config_def)

text \<open>With no variable set but the address of the site, the generator is started headless with
  five concurrent visits on one browser that lives an hour, a rare visit at most every 30 minutes,
  the eight regular visits with equal weights, and the NYSE limiter over 5 minutes.\<close>

lemma main_defaults:
  assumes "\<And>n d. ensureNumber env n d = Inr d" "\<And>n ms d. ensureEnum env n ms d = Inr d"
    and "\<And>n. ensureUrl env n = Inr u"
  shows "\<exists>lo p rate rare regular. main_options users env now = Inr lo \<and>
    lo_headless lo \<and> lo_concurrency lo = jint 5 \<and> lo_concurrentBrowsers lo = jint 1 \<and>
    lo_browserTimeToLiveMs lo = jint 3600000 \<and> lo_logLevel lo = ''info'' \<and> lo_stats lo = main_stats now \<and>
    lo_provider lo = RateLimitedProviderWrapper (PriorityProviderWrapper
       [IntervalProviderWrapper (FunctionProviderWrapper rare) (jint 1800000),
        WeightedProvider (map (\<lambda>(nm, var). (nm, jint 1)) visit_weights) regular])
       (jint 5) rate (jint 2) ''info''"
proof -
  have mul: "jmul (jint a) (jint b) = jint (a * b)" if "\<bar>a * b\<bar> \<le> 2 ^ 53" for a b
    using fl_of_int [OF that] by (simp add: jint_def)
  have "rmapM (\<lambda>(nm, var). rmap (Pair nm) (ensureNumber env var (jint 1))) visit_weights
      = Inr (map (\<lambda>(nm, var). (nm, jint 1)) visit_weights)"
    by (rule rmapM_pure) (auto simp: assms(1))
  then show ?thesis
    by (simp add: main_options_def getConfig_def getVisitsConfig_def getProviderConfig_def getProvider_def
        getRareVisitInterval_def assms mul Let_def)
qed

lemma main_defaults_witness:
  "\<exists>lo. main_options [] \<lparr>ensureNumber = \<lambda>n d. Inr d, ensureEnum = \<lambda>n ms d. Inr d, ensureUrl = \<lambda>n. Inr sample_url\<rparr> 0
      = Inr lo \<and> lo_concurrency lo = jint 5"
  using main_defaults [of "\<lparr>ensureNumber = \<lambda>n d. Inr d, ensureEnum = \<lambda>n ms d. Inr d, ensureUrl = \<lambda>n. Inr sample_url\<rparr>"
      sample_url "[]" 0]
  by auto

end
