(* ===== verification/Loadgen_Log.thy ===== *)
theory Loadgen_Log
  imports Loadgen_Visits
begin

text \<open>
  What a visit tells its operator (\<open>src/loadgen/src/visits\<close>, the calls of \<open>logger\<close>): \<open>run\<close> and \<open>setup\<close> of each
  class with their messages in their places. A program that tells is related to the program without its messages:
  \<open>tells m p T\<close>. The formatter of currencies, an object of the runtime's \<open>Intl\<close>, is the argument \<open>fmt\<close>.
\<close>

section \<open>Programs that tell\<close>

datatype log_level = LogInfo | LogWarn

datatype visit_event = Did page_action | Said log_level string

type_synonym trace = "visit_event list"

type_synonym 'a telling = "browser \<Rightarrow> session \<times> trace \<Rightarrow> (js_error, 'a) result \<times> session \<times> trace"

text \<open>The calls a program makes come after the messages told before it.\<close>

definition page_then :: "'a page \<Rightarrow> ('a \<Rightarrow> 'b telling) \<Rightarrow> 'b telling" where
  "page_then p f = (\<lambda>b (s, l).
     case p b s of (r, s') \<Rightarrow>
       (let l' = l @ map Did (drop (length (se_log s)) (se_log s'))
        in case r of Inl e \<Rightarrow> (Inl e, s', l') | Inr x \<Rightarrow> f x b (s', l')))"

definition say :: "log_level \<Rightarrow> string \<Rightarrow> 'a telling \<Rightarrow> 'a telling" where
  "say level message m = (\<lambda>b (s, l). m b (s, l @ [Said level message]))"

definition fin :: "'a \<Rightarrow> 'a telling" where
  "fin x = (\<lambda>b sl. (Inr x, sl))"

definition tbind :: "'a telling \<Rightarrow> ('a \<Rightarrow> 'b telling) \<Rightarrow> 'b telling" where
  "tbind m f = (\<lambda>b sl. case m b sl of (Inl e, sl') \<Rightarrow> (Inl e, sl') | (Inr x, sl') \<Rightarrow> f x b sl')"

definition info :: "string \<Rightarrow> 'a telling \<Rightarrow> 'a telling" where "info = say LogInfo"
definition warn :: "string \<Rightarrow> 'a telling \<Rightarrow> 'a telling" where "warn = say LogWarn"

section \<open>The messages of the visits\<close>

definition buy_getPurchaseDetails ::
  "(jsnum \<Rightarrow> string) \<Rightarrow> jsnum \<Rightarrow> jsnum \<Rightarrow> jsnum \<Rightarrow> string \<Rightarrow> string" where
  "buy_getPurchaseDetails fmt buyAmount buyPrice currentBalance instrumentName =
     (let totalPrice = jmul buyAmount buyPrice
      in ''Buying ['' @ num_to_string buyAmount @ ''] of asset ['' @ instrumentName @ ''] for ['' @ fmt buyPrice @
         ''] each, total ['' @ fmt totalPrice @ '' | '' @ fmt currentBalance @ '']'')"

definition long_getPurchaseDetails ::
  "(jsnum \<Rightarrow> string) \<Rightarrow> jsnum \<Rightarrow> string \<Rightarrow> jsnum \<Rightarrow> jsnum \<Rightarrow> jsnum \<Rightarrow> string" where
  "long_getPurchaseDetails fmt currentBalance instrumentName price amount duration =
     (let totalPrice = jmul price amount
      in ''Scheduling transaction for ['' @ num_to_string duration @ ''h] buying ['' @ num_to_string amount @
         ''] of asset ['' @ instrumentName @ ''] for ['' @ fmt price @ ''] each, total ['' @ fmt totalPrice @ '' | '' @
         fmt currentBalance @ '']'')"

definition long_getSellDetails ::
  "(jsnum \<Rightarrow> string) \<Rightarrow> string \<Rightarrow> jsnum \<Rightarrow> jsnum \<Rightarrow> jsnum \<Rightarrow> jsnum \<Rightarrow> string" where
  "long_getSellDetails fmt instrumentName instrumentAmount sellAmount sellPrice duration =
     (let totalPrice = jmul sellAmount sellPrice
      in ''Scheduling transaction for ['' @ num_to_string duration @ ''h] selling ['' @ num_to_string sellAmount @ '' | '' @
         num_to_string instrumentAmount @ ''] of asset ['' @ instrumentName @ ''] for ['' @ fmt sellPrice @
         ''] each, total ['' @ fmt totalPrice @ '']'')"

definition withdraw_getSellDetails ::
  "(jsnum \<Rightarrow> string) \<Rightarrow> jsnum \<Rightarrow> jsnum \<Rightarrow> jsnum \<Rightarrow> string \<Rightarrow> string" where
  "withdraw_getSellDetails fmt sellAmount instrumentAmount instrumentPrice instrumentName =
     (let totalPrice = jmul sellAmount instrumentPrice
      in ''Selling ['' @ num_to_string sellAmount @ '' | '' @ num_to_string instrumentAmount @ ''] of asset ['' @
         instrumentName @ ''] for ['' @ fmt instrumentPrice @ ''] each, total ['' @ fmt totalPrice @ '']'')"

text \<open>The fixed messages; \<open>verb\<close> is the first word, which some of the classes write in lower case.\<close>

definition going_at :: "url \<Rightarrow> string" where
  "going_at u = ''Going to EasyTrade frontend at ['' @ url_string u @ '']''"

definition going_url :: "url \<Rightarrow> string" where
  "going_url u = ''Going to EasyTrade frontend url ['' @ url_string u @ '']''"

definition as_user :: "string \<Rightarrow> User \<Rightarrow> string" where
  "as_user verb user = verb @ '' user ['' @ username user @ '']''"

definition depositing :: "(jsnum \<Rightarrow> string) \<Rightarrow> jsnum \<Rightarrow> User \<Rightarrow> string" where
  "depositing fmt depositValue user = ''Depositing ['' @ fmt depositValue @ ''] for user ['' @ username user @ '']''"

definition withdrawing :: "jsnum \<Rightarrow> string" where
  "withdrawing withdrawAmount = ''withdrawing ['' @ num_to_string withdrawAmount @ ''$]''"

definition ending :: string where
  "ending = ''Attempting to end dynatrace session''"

definition order_pending :: "User \<Rightarrow> string" where
  "order_pending user =
     ''user ['' @ username user @ ''] has a pending credit card order, ending visit early''"

definition card_active :: "User \<Rightarrow> string" where
  "card_active user =
     ''User ['' @ username user @ ''] has active card, revoking it so new one can be ordered.''"

definition ordering_card :: "User \<Rightarrow> string \<Rightarrow> string" where
  "ordering_card user cardType =
     ''Ordering card [type::'' @ cardType @ ''] for user ['' @ username user @ '']''"

section \<open>The runs with their messages\<close>

definition telling_setup :: "(unit page \<Rightarrow> unit page) \<Rightarrow> visit \<Rightarrow> unit telling" where
  "telling_setup setupPage v =
     info (''Setting up page for user ['' @ username (visit_user v) @ ''|'' @ ip4 (visit_user v) @ '']'')
       (page_then (setupPage (pageSetup (visit_user v) (visit_url v))) fin)"

definition then_do :: "unit page \<Rightarrow> 'a telling \<Rightarrow> 'a telling" where
  "then_do p m = page_then p (\<lambda>_. m)"

definition DepositAndBuyVisit_telling :: "(jsnum \<Rightarrow> string) \<Rightarrow> url \<Rightarrow> User \<Rightarrow> jsnum \<Rightarrow> unit telling" where
  "DepositAndBuyVisit_telling fmt url user depositValue =
     info (going_at url)
    (then_do (gotoPage (url_string url))
    (info (as_user ''Logging in as'' user)
    (then_do (login user)
    (info (depositing fmt depositValue user)
    (then_do gotoDepositPage
    (then_do (deposit user depositValue)
    (info ''Choosing which instrument to buy''
    (then_do gotoRandomInstrument
    (then_do selectQuickBuy
    (page_then getInstrumentPrice (\<lambda>instrumentPrice.
     page_then getCurrentBalance (\<lambda>currentBalance.
     page_then getInstrumentName (\<lambda>instrumentName.
     page_then (randomBetween (jint 1) (jdiv depositValue instrumentPrice)) (\<lambda>r.
     let buyAmount = jfloor r in
     info (buy_getPurchaseDetails fmt buyAmount instrumentPrice currentBalance instrumentName)
    (then_do (trade buyAmount)
    (info ''Visiting the credit card page''
    (then_do gotoCreditCardPage
    (info (as_user ''Logging out'' user)
    (then_do logout
    (info ending
    (page_then endDtSession fin)))))))))))))))))))))"

definition DepositAndLongBuyVisit_telling ::
  "(jsnum \<Rightarrow> string) \<Rightarrow> BuyCalculator \<Rightarrow> url \<Rightarrow> User \<Rightarrow> jsnum \<Rightarrow> jsnum \<Rightarrow> unit telling" where
  "DepositAndLongBuyVisit_telling fmt buyCalculator url user depositValue transactionDuration =
     info (going_at url)
    (then_do (gotoPage (url_string url))
    (info (as_user ''Logging in as'' user)
    (then_do (login user)
    (info (depositing fmt depositValue user)
    (then_do gotoDepositPage
    (then_do (deposit user depositValue)
    (info ''Choosing which instrument to buy''
    (then_do gotoRandomInstrument
    (page_then getCurrentBalance (\<lambda>currentBalance.
     then_do selectBuy
    (page_then getInstrumentPrice (\<lambda>instrumentPrice.
     page_then getInstrumentName (\<lambda>instrumentName.
     page_then (buyCalculator \<lparr>bo_balance = currentBalance, bo_askPrice = instrumentPrice,
                            bo_maxCost = depositValue\<rparr>) (\<lambda>r.
     info (long_getPurchaseDetails fmt currentBalance instrumentName (tr_price r) (tr_amount r) transactionDuration)
    (then_do (scheduleTransaction (tr_price r) transactionDuration (tr_amount r))
    (info ''Visiting the credit card page''
    (then_do gotoCreditCardPage
    (info (as_user ''Logging out'' user)
    (then_do logout
    (info ending
    (page_then endDtSession fin)))))))))))))))))))))"

definition LongSellVisit_telling ::
  "(jsnum \<Rightarrow> string) \<Rightarrow> SellCalculator \<Rightarrow> url \<Rightarrow> User \<Rightarrow> jsnum \<Rightarrow> jsnum \<Rightarrow> unit telling" where
  "LongSellVisit_telling fmt sellCalculator url user sellRatio transactionDuration =
     info (going_url url)
    (then_do (gotoPage (url_string url))
    (info (as_user ''Logging in as'' user)
    (then_do (login user)
    (info ''Choosing which instrument to sell''
    (then_do gotoRandomOwnedInstrument
    (then_do selectQuickSell
    (page_then getInstrumentPossessedAmount (\<lambda>instrumentAmount.
     then_do selectSell
    (page_then getInstrumentPrice (\<lambda>instrumentPrice.
     page_then getInstrumentName (\<lambda>instrumentName.
     page_then (sellCalculator \<lparr>so_askPrice = instrumentPrice, so_ownedAmount = instrumentAmount,
                             so_ratio = sellRatio\<rparr>) (\<lambda>r.
     info (long_getSellDetails fmt instrumentName instrumentAmount (tr_amount r) (tr_price r) transactionDuration)
    (then_do (scheduleTransaction (tr_price r) transactionDuration (tr_amount r))
    (info ''visiting the credit card page''
    (then_do gotoCreditCardPage
    (info (as_user ''logging out'' user)
    (then_do logout
    (info ending
    (page_then endDtSession fin)))))))))))))))))))"

definition telling_orderCard :: "User \<Rightarrow> string \<Rightarrow> unit telling" where
  "telling_orderCard user cardType =
     page_then checkIfOrderPending (\<lambda>orderPending.
       if orderPending then warn (order_pending user) (fin ())
       else page_then checkIfCardActive (\<lambda>cardRevoked.
         tbind (if cardRevoked then info (card_active user) (page_then revokeCard fin) else fin ()) (\<lambda>_.
         info (ordering_card user cardType)
        (page_then (orderCard user cardType) fin))))"

definition OrderCreditCardVisit_telling :: "url \<Rightarrow> User \<Rightarrow> string \<Rightarrow> unit telling" where
  "OrderCreditCardVisit_telling url user cardType =
     info (going_url url)
    (then_do (gotoPage (url_string url))
    (info (as_user ''Logging in as'' user)
    (then_do (login user)
    (then_do gotoCreditCardPage
    (tbind (telling_orderCard user cardType) (\<lambda>_.
     info (as_user ''Logging out'' user)
    (then_do logout
    (page_then endDtSession fin))))))))"

definition SellAndWithdrawVisit_telling ::
  "(jsnum \<Rightarrow> string) \<Rightarrow> url \<Rightarrow> User \<Rightarrow> jsnum \<Rightarrow> jsnum \<Rightarrow> unit telling" where
  "SellAndWithdrawVisit_telling fmt url user sellRatio withdrawMinValue =
     info (going_url url)
    (then_do (gotoPage (url_string url))
    (info (as_user ''logging in as'' user)
    (then_do (login user)
    (then_do gotoRandomOwnedInstrument
    (then_do selectQuickSell
    (page_then getInstrumentPossessedAmount (\<lambda>instrumentAmount.
     page_then getInstrumentPrice (\<lambda>instrumentPrice.
     page_then getInstrumentName (\<lambda>instrumentName.
     page_then (randomBetween (jint 1) (jmul instrumentAmount sellRatio)) (\<lambda>r.
     let sellAmount = jfloor r in
     info (withdraw_getSellDetails fmt sellAmount instrumentAmount instrumentPrice instrumentName)
    (then_do (trade sellAmount)
    (let withdrawAmount = jmax withdrawMinValue (jmul instrumentPrice sellAmount) in
     then_do gotoWithdrawPage
    (info (withdrawing withdrawAmount)
    (then_do (withdraw user withdrawAmount)
    (info ''visiting the credit card page''
    (then_do gotoCreditCardPage
    (info (as_user ''logging out'' user)
    (then_do logout
    (page_then endDtSession fin)))))))))))))))))))"

fun telling_run :: "(jsnum \<Rightarrow> string) \<Rightarrow> visit \<Rightarrow> unit telling" where
  "telling_run fmt (DepositAndBuyVisit nm url user depositValue)
     = DepositAndBuyVisit_telling fmt url user depositValue"
| "telling_run fmt (DepositAndLongBuyVisit nm buyCalculator url user depositValue transactionDuration)
     = DepositAndLongBuyVisit_telling fmt buyCalculator url user depositValue transactionDuration"
| "telling_run fmt (LongSellVisit nm sellCalculator url user sellRatio transactionDuration)
     = LongSellVisit_telling fmt sellCalculator url user sellRatio transactionDuration"
| "telling_run fmt (OrderCreditCardVisit nm url user cardType)
     = OrderCreditCardVisit_telling url user cardType"
| "telling_run fmt (SellAndWithdrawVisit nm url user sellRatio withdrawMinValue)
     = SellAndWithdrawVisit_telling fmt url user sellRatio withdrawMinValue"

section \<open>Telling does not change a run\<close>

fun calls :: "trace \<Rightarrow> page_log" where
  "calls [] = []"
| "calls (Did a # t) = a # calls t"
| "calls (Said level message # t) = calls t"

fun messages :: "trace \<Rightarrow> (log_level \<times> string) list" where
  "messages [] = []"
| "messages (Did a # t) = messages t"
| "messages (Said level message # t) = (level, message) # messages t"

abbreviation did :: "page_log \<Rightarrow> trace" where "did \<equiv> map Did"
abbreviation told_info :: "string \<Rightarrow> visit_event" where "told_info \<equiv> Said LogInfo"

lemma calls_append [simp]: "calls (t @ u) = calls t @ calls u"
  by (induction t rule: calls.induct) auto

lemma calls_did [simp]: "calls (did acts) = acts"
  by (induction acts) auto

lemma messages_append [simp]: "messages (t @ u) = messages t @ messages u"
  by (induction t rule: messages.induct) auto

lemma messages_did [simp]: "messages (did acts) = []"
  by (induction acts) auto

text \<open>\<open>tells m p T\<close>: whatever the browser does, \<open>m\<close> returns or throws what \<open>p\<close> does and leaves the session \<open>p\<close> leaves;
  what it adds to the trace are the calls of \<open>p\<close> with the messages between them, a member of \<open>T\<close> when it returns and
  a prefix of one when it throws.\<close>

definition tells :: "'a telling \<Rightarrow> 'a page \<Rightarrow> trace set \<Rightarrow> bool" where
  "tells m p T \<longleftrightarrow> T \<noteq> {} \<and>
     (\<forall>b s l. \<exists>t. m b (s, l) = (fst (p b s), snd (p b s), l @ t) \<and> se_log (snd (p b s)) = se_log s @ calls t \<and>
        (case fst (p b s) of Inr x \<Rightarrow> t \<in> T | Inl e \<Rightarrow> \<exists>u \<in> T. prefix t u))"

lemma tellsE:
  assumes "tells m p T"
  obtains t where "m b (s, l) = (fst (p b s), snd (p b s), l @ t)" "se_log (snd (p b s)) = se_log s @ calls t"
    "case fst (p b s) of Inr x \<Rightarrow> t \<in> T | Inl e \<Rightarrow> \<exists>u \<in> T. prefix t u"
  using assms unfolding tells_def by blast

lemma sum_case_mono:
  assumes "case r of Inr x \<Rightarrow> t \<in> T | Inl e \<Rightarrow> \<exists>u \<in> T. prefix t u" "T \<subseteq> U"
  shows "case r of Inr x \<Rightarrow> t \<in> U | Inl e \<Rightarrow> \<exists>u \<in> U. prefix t u"
  using assms by (cases r) auto

lemma tells_mono:
  assumes "tells m p T" "T \<subseteq> U"
  shows "tells m p U"
  unfolding tells_def
proof (intro conjI allI)
  show "U \<noteq> {}" using assms by (auto simp: tells_def)
  fix b s l
  obtain t where t: "m b (s, l) = (fst (p b s), snd (p b s), l @ t)" "se_log (snd (p b s)) = se_log s @ calls t"
    "case fst (p b s) of Inr x \<Rightarrow> t \<in> T | Inl e \<Rightarrow> \<exists>u \<in> T. prefix t u" using tellsE [OF assms(1)] by blast
  with sum_case_mono [OF t(3) assms(2)]
  show "\<exists>t. m b (s, l) = (fst (p b s), snd (p b s), l @ t) \<and> se_log (snd (p b s)) = se_log s @ calls t \<and>
      (case fst (p b s) of Inr x \<Rightarrow> t \<in> U | Inl e \<Rightarrow> \<exists>u \<in> U. prefix t u)" by blast
qed

lemma tells_fin: "tells (fin x) (preturn x) {[]}"
  by (simp add: tells_def fin_def preturn_def)

lemma tells_say:
  assumes "tells m p T"
  shows "tells (say level message m) p {Said level message # t |t. t \<in> T}"
proof -
  have "\<exists>t. say level message m b (s, l) = (fst (p b s), snd (p b s), l @ t) \<and>
      se_log (snd (p b s)) = se_log s @ calls t \<and>
      (case fst (p b s) of Inr x \<Rightarrow> t \<in> {Said level message # t |t. t \<in> T}
       | Inl e \<Rightarrow> \<exists>u \<in> {Said level message # t |t. t \<in> T}. prefix t u)" for b s l
  proof -
    obtain t where t: "m b (s, l @ [Said level message]) = (fst (p b s), snd (p b s), (l @ [Said level message]) @ t)"
      "se_log (snd (p b s)) = se_log s @ calls t" "case fst (p b s) of Inr x \<Rightarrow> t \<in> T | Inl e \<Rightarrow> \<exists>u \<in> T. prefix t u"
      using tellsE [OF assms, of b s "l @ [Said level message]"] by blast
    then show ?thesis
      by (intro exI [of _ "Said level message # t"]) (auto simp: say_def split: sum.splits)
  qed
  moreover have "T \<noteq> {}" using assms by (simp add: tells_def)
  ultimately show ?thesis unfolding tells_def by blast
qed

text \<open>The trace of a program run in sequence: the part before and the part page_then the first result.\<close>

lemma tells_bind:
  assumes m: "tells m p A" and f: "\<And>x. tells (f x) (g x) (B x)"
  shows "tells (tbind m f) (pbind p g) {t @ u |t u x. t \<in> A \<and> u \<in> B x}"
proof -
  let ?T = "{t @ u |t u x. t \<in> A \<and> u \<in> B x}"
  obtain x0 v where v: "v \<in> B x0" using f unfolding tells_def by blast
  have "\<exists>t. tbind m f b (s, l) = (fst (pbind p g b s), snd (pbind p g b s), l @ t) \<and>
      se_log (snd (pbind p g b s)) = se_log s @ calls t \<and>
      (case fst (pbind p g b s) of Inr x \<Rightarrow> t \<in> ?T | Inl e \<Rightarrow> \<exists>u \<in> ?T. prefix t u)" for b s l
  proof -
    obtain t where t: "m b (s, l) = (fst (p b s), snd (p b s), l @ t)" "se_log (snd (p b s)) = se_log s @ calls t"
      "case fst (p b s) of Inr x \<Rightarrow> t \<in> A | Inl e \<Rightarrow> \<exists>u \<in> A. prefix t u" using tellsE [OF m] by blast
    obtain r s1 where r: "p b s = (r, s1)" by (cases "p b s")
    show ?thesis
    proof (cases r)
      case (Inl e)
      with t(3) r obtain u where "u \<in> A" "prefix t u" by auto
      then have "u @ v \<in> ?T" "prefix t (u @ v)" using v by auto
      then show ?thesis using Inl r t(1,2) by (auto simp: tbind_def pbind_def)
    next
      case (Inr x)
      obtain t2 where t2: "f x b (s1, l @ t) = (fst (g x b s1), snd (g x b s1), (l @ t) @ t2)"
        "se_log (snd (g x b s1)) = se_log s1 @ calls t2"
        "case fst (g x b s1) of Inr y \<Rightarrow> t2 \<in> B x | Inl e \<Rightarrow> \<exists>u \<in> B x. prefix t2 u"
        using tellsE [OF f, of x b s1 "l @ t"] by blast
      have A: "t \<in> A" using t(3) r Inr by simp
      have runs: "pbind p g b s = g x b s1" "tbind m f b (s, l) = f x b (s1, l @ t)"
        using r Inr t(1) by (simp_all add: pbind_def tbind_def)
      have "case fst (g x b s1) of Inr y \<Rightarrow> t @ t2 \<in> ?T | Inl e \<Rightarrow> \<exists>u \<in> ?T. prefix (t @ t2) u"
        using t2(3) A by (fastforce split: sum.splits)
      then show ?thesis unfolding runs using t2(1,2) t(2) r by (intro exI [of _ "t @ t2"]) simp
    qed
  qed
  moreover have "?T \<noteq> {}" using m v by (auto simp: tells_def)
  ultimately show ?thesis unfolding tells_def by blast
qed

lemma tells_did:
  assumes "shape p A"
  shows "tells (page_then p fin) p {did acts |acts. acts \<in> A}"
proof -
  have "\<exists>t. page_then p fin b (s, l) = (fst (p b s), snd (p b s), l @ t) \<and> se_log (snd (p b s)) = se_log s @ calls t \<and>
      (case fst (p b s) of Inr x \<Rightarrow> t \<in> {did acts |acts. acts \<in> A} | Inl e \<Rightarrow> \<exists>u \<in> {did acts |acts. acts \<in> A}. prefix t u)" for b s l
  proof -
    obtain r s1 where r: "p b s = (r, s1)" by (cases "p b s")
    from assms have "\<exists>t. se_log (snd (p b s)) = se_log s @ t \<and>
        (case fst (p b s) of Inr x \<Rightarrow> t \<in> A | Inl e \<Rightarrow> \<exists>u \<in> A. prefix t u)" unfolding shape_def by blast
    with r obtain t where t: "se_log s1 = se_log s @ t" "case r of Inr x \<Rightarrow> t \<in> A | Inl e \<Rightarrow> \<exists>u \<in> A. prefix t u"
      by auto
    have "case r of Inr x \<Rightarrow> did t \<in> {did acts |acts. acts \<in> A} | Inl e \<Rightarrow> \<exists>u \<in> {did acts |acts. acts \<in> A}. prefix (did t) u"
      using t(2) by (cases r) (auto intro: map_mono_prefix)
    then show ?thesis
      using r t(1) by (intro exI [of _ "did t"]) (simp add: page_then_def fin_def Let_def split: sum.splits)
  qed
  moreover have "A \<noteq> {}" using assms by (simp add: shape_def)
  ultimately show ?thesis unfolding tells_def by blast
qed

lemma page_then_bind: "page_then p f = tbind (page_then p fin) f"
  by (intro ext) (auto simp: page_then_def tbind_def fin_def Let_def split: prod.splits sum.splits)

lemma tells_page_then:
  assumes "shape p A" "\<And>x. tells (f x) (g x) (B x)"
  shows "tells (page_then p f) (pbind p g) {did acts @ u |acts u x. acts \<in> A \<and> u \<in> B x}"
  unfolding page_then_bind [of p f] by (rule tells_mono [OF tells_bind [OF tells_did [OF assms(1)] assms(2)]]) auto

lemma tells_then_do:
  assumes "shape p A" "tells m k B"
  shows "tells (then_do p m) (pseq p k) {did acts @ u |acts u. acts \<in> A \<and> u \<in> B}"
  unfolding then_do_def pseq_def by (rule tells_mono [OF tells_page_then [OF assms(1) assms(2)]]) auto

lemma tells_info: "tells m p T \<Longrightarrow> tells (info message m) p {told_info message # t |t. t \<in> T}"
  unfolding info_def by (rule tells_say)

lemma tells_warn: "tells m p T \<Longrightarrow> tells (warn message m) p {Said LogWarn message # t |t. t \<in> T}"
  unfolding warn_def by (rule tells_say)

lemmas tells_intros = tells_info tells_warn tells_fin

section \<open>The traces of the visits\<close>

text \<open>What a visit that returns has called and told, in order. The amounts and prices it tells are the ones it enters;
  the other values are those it has read of the page.\<close>

definition opening_trace :: "string \<Rightarrow> string \<Rightarrow> visit \<Rightarrow> trace" where
  "opening_trace going verb v =
     [told_info going, Did (GotoPage (url_string (visit_url v))), told_info (as_user verb (visit_user v))] @ did (login_acts (visit_user v))"

definition closing_trace :: "string \<Rightarrow> string list \<Rightarrow> visit \<Rightarrow> trace" where
  "closing_trace verb told v =
     [told_info (as_user verb (visit_user v))] @ did logout_acts @ map told_info told @ [Did EndDtSession]"

text \<open>The ordering step, with the branches of the pending order and of the active card.\<close>

definition order_trace :: "User \<Rightarrow> string \<Rightarrow> trace set" where
  "order_trace user cardType =
     {did [IsSelectorPresent creditCardPage_orderIdDisplay] @ t |t. t = [Said LogWarn (order_pending user)] \<or>
        (\<exists>h r. t = did [IsSelectorPresent creditCardPage_revokeCard] @ r
           @ [told_info (ordering_card user cardType)] @ did (order_acts user cardType h) \<and>
           (r = [] \<or> r = [told_info (card_active user), Did (Navigate creditCardPage_revokeCard)]))}"

definition buy_trace ::
  "(jsnum \<Rightarrow> string) \<Rightarrow> visit \<Rightarrow> url \<Rightarrow> User \<Rightarrow> jsnum \<Rightarrow> bool \<times> bool \<times> bool \<Rightarrow> handle \<Rightarrow> handle
   \<Rightarrow> jsnum \<Rightarrow> jsnum \<Rightarrow> jsnum \<Rightarrow> string \<Rightarrow> trace" where
  "buy_trace fmt v u user depositValue ns h g q p w nm =
     opening_trace (going_at u) ''Logging in as'' v
      @ [told_info (depositing fmt depositValue user)]
      @ did (nav_acts (fst ns) navigation_depositPage @ deposit_acts user depositValue h)
      @ [told_info ''Choosing which instrument to buy'']
      @ did (pick_acts (fst (snd ns)) instrumentsPage_instrumentCard g
        @ [Click instrumentPage_quickBuyForm, read_value instrumentPage_priceInput,
           read_value common_currentBalance, GetInnerText instrumentPage_instrumentName])
      @ [told_info (buy_getPurchaseDetails fmt q p w nm)] @ did (trade_acts q)
      @ [told_info ''Visiting the credit card page''] @ did (nav_acts (snd (snd ns)) navigation_creditCardPage)
      @ closing_trace ''Logging out'' [ending] v"

definition long_buy_trace ::
  "(jsnum \<Rightarrow> string) \<Rightarrow> visit \<Rightarrow> url \<Rightarrow> User \<Rightarrow> jsnum \<Rightarrow> jsnum \<Rightarrow> bool \<times> bool \<times> bool \<Rightarrow> handle \<Rightarrow> handle
   \<Rightarrow> jsnum \<Rightarrow> jsnum \<Rightarrow> jsnum \<Rightarrow> string \<Rightarrow> trace" where
  "long_buy_trace fmt v u user depositValue duration ns h g q p w nm =
     opening_trace (going_at u) ''Logging in as'' v
      @ [told_info (depositing fmt depositValue user)]
      @ did (nav_acts (fst ns) navigation_depositPage @ deposit_acts user depositValue h)
      @ [told_info ''Choosing which instrument to buy'']
      @ did (pick_acts (fst (snd ns)) instrumentsPage_instrumentCard g
        @ [read_value common_currentBalance, Click instrumentPage_buyForm,
           read_value instrumentPage_priceInput, GetInnerText instrumentPage_instrumentName])
      @ [told_info (long_getPurchaseDetails fmt w nm p q duration)] @ did (schedule_acts p duration q)
      @ [told_info ''Visiting the credit card page''] @ did (nav_acts (snd (snd ns)) navigation_creditCardPage)
      @ closing_trace ''Logging out'' [ending] v"

definition long_sell_trace ::
  "(jsnum \<Rightarrow> string) \<Rightarrow> visit \<Rightarrow> url \<Rightarrow> jsnum \<Rightarrow> bool \<times> bool \<Rightarrow> handle
   \<Rightarrow> jsnum \<Rightarrow> jsnum \<Rightarrow> jsnum \<Rightarrow> string \<Rightarrow> trace" where
  "long_sell_trace fmt v u duration ns g q p w nm =
     opening_trace (going_url u) ''Logging in as'' v
      @ [told_info ''Choosing which instrument to sell'']
      @ did (pick_acts (fst ns) instrumentsPage_ownedInstrument g
        @ [Click instrumentPage_quickSellForm, read_value instrumentPage_possessedAmount,
           Click instrumentPage_sellForm, read_value instrumentPage_priceInput,
           GetInnerText instrumentPage_instrumentName])
      @ [told_info (long_getSellDetails fmt nm w q p duration)] @ did (schedule_acts p duration q)
      @ [told_info ''visiting the credit card page''] @ did (nav_acts (snd ns) navigation_creditCardPage)
      @ closing_trace ''logging out'' [ending] v"

definition withdraw_trace ::
  "(jsnum \<Rightarrow> string) \<Rightarrow> visit \<Rightarrow> url \<Rightarrow> User \<Rightarrow> bool \<times> bool \<times> bool \<Rightarrow> handle \<Rightarrow> handle
   \<Rightarrow> jsnum \<Rightarrow> jsnum \<Rightarrow> jsnum \<Rightarrow> jsnum \<Rightarrow> string \<Rightarrow> trace" where
  "withdraw_trace fmt v u user ns h g q p a w nm =
     opening_trace (going_url u) ''logging in as'' v
      @ did (pick_acts (fst ns) instrumentsPage_ownedInstrument g
        @ [Click instrumentPage_quickSellForm, read_value instrumentPage_possessedAmount,
           read_value instrumentPage_priceInput, GetInnerText instrumentPage_instrumentName])
      @ [told_info (withdraw_getSellDetails fmt q w p nm)]
      @ did (trade_acts q @ nav_acts (fst (snd ns)) navigation_withdrawPage)
      @ [told_info (withdrawing a)] @ did (withdraw_acts user a h)
      @ [told_info ''visiting the credit card page''] @ did (nav_acts (snd (snd ns)) navigation_creditCardPage)
      @ closing_trace ''logging out'' [] v"

fun visit_trace :: "(jsnum \<Rightarrow> string) \<Rightarrow> visit \<Rightarrow> trace set" where
  "visit_trace fmt (DepositAndBuyVisit nm u user depositValue) =
     {buy_trace fmt (DepositAndBuyVisit nm u user depositValue) u user depositValue ns h g q p w i
      |ns h g q p w i. True}"
| "visit_trace fmt (DepositAndLongBuyVisit nm c u user depositValue duration) =
     {long_buy_trace fmt (DepositAndLongBuyVisit nm c u user depositValue duration) u user depositValue duration ns h g q p w i
      |ns h g q p w i. True}"
| "visit_trace fmt (LongSellVisit nm c u user sellRatio duration) =
     {long_sell_trace fmt (LongSellVisit nm c u user sellRatio duration) u duration ns g q p w i |ns g q p w i. True}"
| "visit_trace fmt (OrderCreditCardVisit nm u user cardType) =
     {opening_trace (going_url u) ''Logging in as'' (OrderCreditCardVisit nm u user cardType)
      @ did (nav_acts n1 navigation_creditCardPage) @ t
      @ closing_trace ''Logging out'' [] (OrderCreditCardVisit nm u user cardType)
      |n1 t. t \<in> order_trace user cardType}"
| "visit_trace fmt (SellAndWithdrawVisit nm u user sellRatio withdrawMinValue) =
     {withdraw_trace fmt (SellAndWithdrawVisit nm u user sellRatio withdrawMinValue) u user ns h g q p
        (jmax withdrawMinValue (jmul p q)) w i |ns h g q p w i. True}"

lemmas trace_defs = opening_trace_def closing_trace_def read_value_def

lemmas class_traces = buy_trace_def long_buy_trace_def long_sell_trace_def withdraw_trace_def

lemmas tells_rules = tells_info tells_warn tells_then_do tells_page_then tells_did

lemma tells_DepositAndBuy:
  "tells (DepositAndBuyVisit_telling fmt u user dv) (DepositAndBuyVisit_run u user dv)
     (visit_trace fmt (DepositAndBuyVisit nm u user dv))"
  unfolding DepositAndBuyVisit_telling_def DepositAndBuyVisit_run_def visit_helpers page_prims Let_def
  by (rule tells_mono, (rule tells_rules shape_intros helper_shapes)+, auto simp: trace_defs class_traces) blast

lemma tells_DepositAndLongBuy:
  assumes "\<And>opt. silent (c opt)"
  shows "tells (DepositAndLongBuyVisit_telling fmt c u user dv td) (DepositAndLongBuyVisit_run c u user dv td)
     (visit_trace fmt (DepositAndLongBuyVisit nm c u user dv td))"
  unfolding DepositAndLongBuyVisit_telling_def DepositAndLongBuyVisit_run_def visit_helpers page_prims Let_def
  by (rule tells_mono, (rule tells_rules shape_intros helper_shapes assms [unfolded silent_def])+, auto simp: trace_defs class_traces) blast

lemma tells_LongSell:
  assumes "\<And>opt. silent (c opt)"
  shows "tells (LongSellVisit_telling fmt c u user sr td) (LongSellVisit_run c u user sr td)
     (visit_trace fmt (LongSellVisit nm c u user sr td))"
  unfolding LongSellVisit_telling_def LongSellVisit_run_def visit_helpers page_prims Let_def
  by (rule tells_mono, (rule tells_rules shape_intros helper_shapes assms [unfolded silent_def])+, auto simp: trace_defs class_traces) blast

lemma tells_SellAndWithdraw:
  "tells (SellAndWithdrawVisit_telling fmt u user sr wm) (SellAndWithdrawVisit_run u user sr wm)
     (visit_trace fmt (SellAndWithdrawVisit nm u user sr wm))"
  unfolding SellAndWithdrawVisit_telling_def SellAndWithdrawVisit_run_def visit_helpers page_prims Let_def
  by (rule tells_mono, (rule tells_rules shape_intros helper_shapes)+, auto simp: trace_defs class_traces) blast

lemma tells_orderCard:
  "tells (telling_orderCard user cardType) (visit_orderCard user cardType) (order_trace user cardType)"
proof -
  let ?r = "{[], [told_info (card_active user), Did (Navigate creditCardPage_revokeCard)]}"
  have revoke: "tells (if cardRevoked then info (card_active user) (page_then revokeCard fin) else fin ())
      (if cardRevoked then revokeCard else preturn ()) ?r" for cardRevoked
  proof (cases cardRevoked)
    case True
    have "tells (info (card_active user) (page_then revokeCard fin)) revokeCard ?r"
      unfolding revokeCard_def page_prims
      by (rule tells_mono, (rule tells_rules shape_intros)+) auto
    with True show ?thesis by simp
  qed (use tells_mono [OF tells_fin, of ?r "()"] in simp)
  have order: "tells (info (ordering_card user cardType) (page_then (orderCard user cardType) fin)) (orderCard user cardType)
      {[told_info (ordering_card user cardType)] @ did (order_acts user cardType h) |h. True}"
    by (rule tells_mono, (rule tells_rules shape_orderCard)+) auto
  have card: "tells (page_then checkIfCardActive (\<lambda>cardRevoked.
        tbind (if cardRevoked then info (card_active user) (page_then revokeCard fin) else fin ()) (\<lambda>_.
        info (ordering_card user cardType) (page_then (orderCard user cardType) fin))))
      (pbind checkIfCardActive (\<lambda>cardRevoked.
        pseq (if cardRevoked then revokeCard else preturn ()) (orderCard user cardType)))
      {did [IsSelectorPresent creditCardPage_revokeCard] @ r @ [told_info (ordering_card user cardType)] @
        did (order_acts user cardType h) |r h. r \<in> ?r}"
    unfolding checkIfCardActive_def page_prims pseq_def
    by (rule tells_mono, rule tells_page_then [OF shape_call tells_bind [OF revoke order]]) auto
  have step: "tells (if pending then warn (order_pending user) (fin ()) else page_then checkIfCardActive (\<lambda>cardRevoked.
        tbind (if cardRevoked then info (card_active user) (page_then revokeCard fin) else fin ()) (\<lambda>_.
        info (ordering_card user cardType) (page_then (orderCard user cardType) fin))))
      (if pending then preturn () else pbind checkIfCardActive (\<lambda>cardRevoked.
        pseq (if cardRevoked then revokeCard else preturn ()) (orderCard user cardType)))
      ({[Said LogWarn (order_pending user)]} \<union> {did [IsSelectorPresent creditCardPage_revokeCard] @ r
        @ [told_info (ordering_card user cardType)] @ did (order_acts user cardType h) |r h. r \<in> ?r})" for pending
  proof (cases pending)
    case True
    have "tells (warn (order_pending user) (fin ())) (preturn ()) {Said LogWarn (order_pending user) # t |t. t \<in> {[]}}"
      by (rule tells_warn [OF tells_fin])
    then show ?thesis unfolding if_P [OF True] by (rule tells_mono) auto
  next
    case False
    show ?thesis unfolding if_not_P [OF False] by (rule tells_mono [OF card]) blast
  qed
  show ?thesis
    unfolding telling_orderCard_def visit_orderCard_def checkIfOrderPending_def isSelectorPresent_def order_trace_def
    by (rule tells_mono [OF tells_page_then [OF shape_call step]]) auto
qed

lemma tells_OrderCreditCard:
  "tells (OrderCreditCardVisit_telling u user ct) (OrderCreditCardVisit_run u user ct)
     (visit_trace fmt (OrderCreditCardVisit nm u user ct))"
proof -
  have closing: "tells (tbind (telling_orderCard user ct) (\<lambda>_. info (as_user ''Logging out'' user) (then_do logout (page_then endDtSession fin))))
      (pseq (visit_orderCard user ct) (pseq logout endDtSession))
      {t @ closing_trace ''Logging out'' [] (OrderCreditCardVisit nm u user ct) |t. t \<in> order_trace user ct}"
    unfolding pseq_def [of "visit_orderCard user ct"] endDtSession_def pdo_def
    by (rule tells_mono, rule tells_bind [OF tells_orderCard], (rule tells_rules shape_intros helper_shapes)+)
      (auto simp: trace_defs)
  show ?thesis
    unfolding OrderCreditCardVisit_telling_def OrderCreditCardVisit_run_def gotoCreditCardPage_def page_prims
    by (rule tells_mono, (rule tells_rules shape_intros helper_shapes closing [unfolded endDtSession_def pdo_def])+)
      (auto simp: trace_defs)
qed

lemma tells_visit: "visit_wf v \<Longrightarrow> tells (telling_run fmt v) (run_visit v) (visit_trace fmt v)"
  by (cases v) (simp_all only: telling_run.simps run_visit.simps visit_wf.simps tells_DepositAndBuy tells_DepositAndLongBuy
      tells_LongSell tells_OrderCreditCard tells_SellAndWithdraw)

section \<open>What the messages may say\<close>

text \<open>The same visit of another user.\<close>

fun of_user :: "User \<Rightarrow> visit \<Rightarrow> visit" where
  "of_user w (DepositAndBuyVisit nm u user dv) = DepositAndBuyVisit nm u w dv"
| "of_user w (DepositAndLongBuyVisit nm c u user dv td) = DepositAndLongBuyVisit nm c u w dv td"
| "of_user w (LongSellVisit nm c u user sr td) = LongSellVisit nm c u w sr td"
| "of_user w (OrderCreditCardVisit nm u user ct) = OrderCreditCardVisit nm u w ct"
| "of_user w (SellAndWithdrawVisit nm u user sr wm) = SellAndWithdrawVisit nm u w sr wm"

lemma of_user_simps [simp]:
  "visit_user (of_user w v) = w" "visit_url (of_user w v) = visit_url v" "of_user (visit_user v) v = v"
  "of_user w (of_user w' v) = of_user w v"
  by (cases v; simp)+

lemma user_messages:
  assumes "username w = username user"
  shows "as_user verb w = as_user verb user" "depositing fmt x w = depositing fmt x user"
    "order_pending w = order_pending user" "card_active w = card_active user" "ordering_card w ct = ordering_card user ct"
  using assms by (simp_all add: as_user_def depositing_def order_pending_def card_active_def ordering_card_def)

lemma messages_traces [simp]:
  "messages (opening_trace going verb v) = [(LogInfo, going), (LogInfo, as_user verb (visit_user v))]"
  "messages (closing_trace verb told v) = (LogInfo, as_user verb (visit_user v)) # map (Pair LogInfo) told"
proof -
  have "messages (map told_info told) = map (Pair LogInfo) told" by (induction told) auto
  then show "messages (closing_trace verb told v) = (LogInfo, as_user verb (visit_user v)) # map (Pair LogInfo) told"
    by (simp add: closing_trace_def)
qed (simp add: opening_trace_def)

lemma messages_order_trace:
  assumes "username w = username user" "t \<in> order_trace user ct"
  shows "\<exists>t' \<in> order_trace w ct. messages t' = messages t"
proof -
  let ?look = "did [IsSelectorPresent creditCardPage_orderIdDisplay]"
  let ?order = "\<lambda>user r h. ?look @ did [IsSelectorPresent creditCardPage_revokeCard] @ r
      @ [told_info (ordering_card user ct)] @ did (order_acts user ct h)"
  let ?revoke = "\<lambda>user. [told_info (card_active user), Did (Navigate creditCardPage_revokeCard)]"
  from assms(2) consider "t = ?look @ [Said LogWarn (order_pending user)]"
    | h where "t = ?order user [] h" | h where "t = ?order user (?revoke user) h"
    unfolding order_trace_def by blast
  then show ?thesis
  proof cases
    case 1
    have "?look @ [Said LogWarn (order_pending w)] \<in> order_trace w ct" unfolding order_trace_def by blast
    then show ?thesis by (rule bexI [rotated]) (simp add: 1 user_messages [OF assms(1)])
  next
    case (2 h)
    have "?order w [] h \<in> order_trace w ct" unfolding order_trace_def by blast
    then show ?thesis by (rule bexI [rotated]) (simp add: 2 user_messages [OF assms(1)])
  next
    case (3 h)
    have "?order w (?revoke w) h \<in> order_trace w ct" unfolding order_trace_def by blast
    then show ?thesis by (rule bexI [rotated]) (simp add: 3 user_messages [OF assms(1)])
  qed
qed

lemma messages_prefix: "prefix t u \<Longrightarrow> prefix (messages t) (messages u)"
  by (auto simp: prefix_def)

lemma prefix_messages: "prefix ms (messages u) \<Longrightarrow> \<exists>t. prefix t u \<and> messages t = ms"
proof (induction u arbitrary: ms rule: messages.induct)
  case (2 a t)
  then obtain t' where "prefix t' t" "messages t' = ms" by auto
  then show ?case by (intro exI [of _ "Did a # t'"]) simp
next
  case (3 level message t)
  show ?case
  proof (cases ms)
    case (Cons m ms')
    with 3(2) have m: "m = (level, message)" "prefix ms' (messages t)" by auto
    obtain t' where "prefix t' t" "messages t' = ms'" using 3(1) [OF m(2)] by blast
    with Cons m(1) show ?thesis by (intro exI [of _ "Said level message # t'"]) simp
  qed (auto intro: exI [of _ "[]"])
qed auto

lemma messages_of_name:
  assumes "username w = username (visit_user v)" "t \<in> visit_trace fmt v"
  shows "\<exists>t' \<in> visit_trace fmt (of_user w v). messages t' = messages t"
proof -
  note names = user_messages [OF assms(1)]
  show ?thesis
  proof (cases v)
  case (DepositAndBuyVisit nm u user dv)
  with assms(2) obtain ns h g q p a i where "t = buy_trace fmt v u user dv ns h g q p a i" by auto
  then have "messages (buy_trace fmt (of_user w v) u w dv ns h g q p a i) = messages t"
    using names by (simp add: buy_trace_def DepositAndBuyVisit)
  moreover have "buy_trace fmt (of_user w v) u w dv ns h g q p a i \<in> visit_trace fmt (of_user w v)"
    unfolding DepositAndBuyVisit by (simp only: of_user.simps visit_trace.simps) blast
  ultimately show ?thesis by blast
next
  case (DepositAndLongBuyVisit nm c u user dv td)
  with assms(2) obtain ns h g q p a i where "t = long_buy_trace fmt v u user dv td ns h g q p a i" by auto
  then have "messages (long_buy_trace fmt (of_user w v) u w dv td ns h g q p a i) = messages t"
    using names by (simp add: long_buy_trace_def DepositAndLongBuyVisit)
  moreover have "long_buy_trace fmt (of_user w v) u w dv td ns h g q p a i \<in> visit_trace fmt (of_user w v)"
    unfolding DepositAndLongBuyVisit by (simp only: of_user.simps visit_trace.simps) blast
  ultimately show ?thesis by blast
next
  case (LongSellVisit nm c u user sr td)
  with assms(2) obtain ns g q p a i where "t = long_sell_trace fmt v u td ns g q p a i" by auto
  then have "messages (long_sell_trace fmt (of_user w v) u td ns g q p a i) = messages t"
    using names by (simp add: long_sell_trace_def LongSellVisit)
  moreover have "long_sell_trace fmt (of_user w v) u td ns g q p a i \<in> visit_trace fmt (of_user w v)"
    unfolding LongSellVisit by (simp only: of_user.simps visit_trace.simps) blast
  ultimately show ?thesis by blast
next
  case (OrderCreditCardVisit nm u user ct)
  with assms(2) obtain n t1 where t: "t = opening_trace (going_url u) ''Logging in as'' v
      @ did (nav_acts n navigation_creditCardPage) @ t1 @ closing_trace ''Logging out'' [] v" "t1 \<in> order_trace user ct" by auto
  from messages_order_trace [OF _ t(2)] assms(1) OrderCreditCardVisit
  obtain t2 where t2: "t2 \<in> order_trace w ct" "messages t2 = messages t1" by auto
  let ?t = "opening_trace (going_url u) ''Logging in as'' (of_user w v)
      @ did (nav_acts n navigation_creditCardPage) @ t2 @ closing_trace ''Logging out'' [] (of_user w v)"
  have "?t \<in> visit_trace fmt (of_user w v)" using t2(1) unfolding OrderCreditCardVisit by auto
  moreover have "messages ?t = messages t" using t(1) t2(2) names OrderCreditCardVisit by simp
  ultimately show ?thesis by blast
next
  case (SellAndWithdrawVisit nm u user sr wm)
  with assms(2) obtain ns h g q p a i where
    "t = withdraw_trace fmt v u user ns h g q p (jmax wm (jmul p q)) a i" by auto
  then have "messages (withdraw_trace fmt (of_user w v) u w ns h g q p (jmax wm (jmul p q)) a i) = messages t"
    using names by (simp add: withdraw_trace_def SellAndWithdrawVisit)
  moreover have "withdraw_trace fmt (of_user w v) u w ns h g q p (jmax wm (jmul p q)) a i \<in> visit_trace fmt (of_user w v)"
    unfolding SellAndWithdrawVisit by (simp only: of_user.simps visit_trace.simps) blast
  ultimately show ?thesis by blast
  qed
qed

section \<open>Properties\<close>



end
