(* ===== verification/Fe_Backend.thy ===== *)
theory Fe_Backend
  imports Ordered_Map JS_Value
begin

text \<open>
  The frontend's backends (\<open>src/frontend/src/env\<close>, \<open>api/backend\<close>): which request each method makes.
  An axios instance is its base URL, default headers and timeout; sending a request is the argument
  \<open>send\<close> of the API functions. \<open>origin\<close> is \<open>window.location.origin\<close>.
\<close>

section \<open>Service addresses\<close>

definition getFeatureFlagServiceUrl :: "string \<Rightarrow> string" where
  "getFeatureFlagServiceUrl origin = origin @ ''/feature-flag-service/v1''"
definition getAccountServiceUrl :: "string \<Rightarrow> string" where
  "getAccountServiceUrl origin = origin @ ''/accountservice/api''"
definition getLoginServiceUrl :: "string \<Rightarrow> string" where
  "getLoginServiceUrl origin = origin @ ''/loginservice/api''"
definition getBrokerServiceUrl :: "string \<Rightarrow> string" where
  "getBrokerServiceUrl origin = origin @ ''/broker-service/v1''"
definition getPricingServiceUrl :: "string \<Rightarrow> string" where
  "getPricingServiceUrl origin = origin @ ''/pricing-service/v1''"
definition getCreditCardServiceUrl :: "string \<Rightarrow> string" where
  "getCreditCardServiceUrl origin = origin @ ''/credit-card-order-service/v1''"

section \<open>Agents and requests\<close>

datatype http_method = GET | POST | PUT | DELETE

type_synonym headers = "(string, string) jsmap"

record agent =
  ag_baseURL :: "string option"
  ag_headers :: headers
  ag_timeout :: "nat option"

record http_request =
  hq_method :: http_method
  hq_base :: "string option"
  hq_path :: string
  hq_params :: "(string \<times> string) list"
  hq_headers :: headers
  hq_body :: "jsval option"
  hq_timeout :: "nat option"
  hq_validateStatus :: "int \<Rightarrow> bool"

text \<open>\<open>axios.create\<close>, and the methods of the instance.\<close>

definition axios_create :: "string \<Rightarrow> headers \<Rightarrow> agent" where
  "axios_create baseURL hs = \<lparr>ag_baseURL = Some baseURL, ag_headers = hs, ag_timeout = None\<rparr>"

definition success_status :: "int \<Rightarrow> bool" where
  "success_status s \<longleftrightarrow> 200 \<le> s \<and> s < 300"

definition agent_call :: "agent \<Rightarrow> http_method \<Rightarrow> string \<Rightarrow> jsval option \<Rightarrow> http_request" where
  "agent_call ag m path b =
     \<lparr>hq_method = m, hq_base = ag_baseURL ag, hq_path = path, hq_params = [], hq_headers = ag_headers ag,
      hq_body = b, hq_timeout = ag_timeout ag, hq_validateStatus = success_status\<rparr>"

text \<open>Headers given with a call are put over those of the instance.\<close>

definition with_headers :: "headers \<Rightarrow> http_request \<Rightarrow> http_request" where
  "with_headers hs rq = rq\<lparr>hq_headers := om.fill fst snd hs (hq_headers rq)\<rparr>"

definition json_headers :: headers where
  "json_headers = [(''Accept'', ''application/json''), (''Content-Type'', ''application/json'')]"

definition accept_json :: headers where
  "accept_json = [(''Accept'', ''application/json'')]"

definition xml_headers :: headers where
  "xml_headers = [(''Content-Type'', ''application/xml''), (''Accept'', ''application/xml'')]"

section \<open>Feature flags and configuration\<close>

record ProblemPatternBackend =
  pp_agent :: agent

definition new_ProblemPatternBackend :: "string \<Rightarrow> ProblemPatternBackend" where
  "new_ProblemPatternBackend baseUrl = \<lparr>pp_agent = axios_create baseUrl accept_json\<rparr>"

definition pp_getAll :: "ProblemPatternBackend \<Rightarrow> http_request" where
  "pp_getAll b = (agent_call (pp_agent b) GET ''/flags'' None)\<lparr>hq_params := [(''tag'', ''problem_pattern'')]\<rparr>"

definition setProblemPatternEnabled :: "ProblemPatternBackend \<Rightarrow> string \<Rightarrow> bool \<Rightarrow> http_request" where
  "setProblemPatternEnabled b flagId enabled =
     agent_call (pp_agent b) PUT (''/flags/'' @ flagId) (Some (Obj [(''enabled'', Bool enabled)]))"

record ConfigBackend =
  cf_agent :: agent

definition new_ConfigBackend :: "string \<Rightarrow> ConfigBackend" where
  "new_ConfigBackend baseUrl = \<lparr>cf_agent = axios_create baseUrl accept_json\<rparr>"

definition cf_getAll :: "ConfigBackend \<Rightarrow> http_request" where
  "cf_getAll b = (agent_call (cf_agent b) GET ''/flags'' None)\<lparr>hq_params := [(''tag'', ''config'')]\<rparr>"

section \<open>Users\<close>

record UserBackend =
  us_accountAgent :: agent
  us_loginAgent :: agent
  us_brokerAgent :: agent

definition new_UserBackend :: "string \<Rightarrow> string \<Rightarrow> string \<Rightarrow> UserBackend" where
  "new_UserBackend accountServiceUrl loginServiceUrl brokerServiceUrl =
     \<lparr>us_accountAgent = axios_create accountServiceUrl accept_json,
      us_loginAgent = axios_create loginServiceUrl xml_headers,
      us_brokerAgent = axios_create brokerServiceUrl accept_json\<rparr>"

text \<open>The three XML calls build their body first; its text is the argument here.\<close>

definition login_body :: "string \<Rightarrow> string \<Rightarrow> jsval" where
  "login_body user pass =
     Obj [(''LoginRequest'', Obj [(''username'', Str user), (''password'', Str pass)])]"

definition loginXml :: "UserBackend \<Rightarrow> string \<Rightarrow> http_request" where
  "loginXml b body = agent_call (us_loginAgent b) POST ''/Login'' (Some (Str body))"

definition logout_body :: "jsnum \<Rightarrow> jsval" where
  "logout_body accountId = Obj [(''LogoutRequest'', Obj [(''accountId'', Num accountId)])]"

definition logoutXml :: "UserBackend \<Rightarrow> string \<Rightarrow> http_request" where
  "logoutXml b body = agent_call (us_loginAgent b) POST ''/Logout'' (Some (Str body))"

definition signup_body :: "jsval \<Rightarrow> jsval" where
  "signup_body request = Obj [(''SignupRequest'', request)]"

definition signupXml :: "UserBackend \<Rightarrow> string \<Rightarrow> http_request" where
  "signupXml b body = agent_call (us_loginAgent b) POST ''/Signup'' (Some (Str body))"

definition us_getData :: "UserBackend \<Rightarrow> string \<Rightarrow> http_request" where
  "us_getData b accountId = agent_call (us_accountAgent b) GET (''/accounts/'' @ accountId) None"

definition us_getBalance :: "UserBackend \<Rightarrow> string \<Rightarrow> http_request" where
  "us_getBalance b accountId = agent_call (us_brokerAgent b) GET (''/balance/'' @ accountId) None"

definition us_getPreset :: "UserBackend \<Rightarrow> http_request" where
  "us_getPreset b = agent_call (us_accountAgent b) GET ''/accounts/presets'' None"

section \<open>Instruments, prices, versions\<close>

record InstrumentBackend =
  in_agent :: agent

definition new_InstrumentBackend :: "string \<Rightarrow> InstrumentBackend" where
  "new_InstrumentBackend baseUrl = \<lparr>in_agent = axios_create baseUrl json_headers\<rparr>"

text \<open>An absent id is printed into the path as \<open>undefined\<close>.\<close>

definition in_getInstruments :: "InstrumentBackend \<Rightarrow> string option \<Rightarrow> http_request" where
  "in_getInstruments b accId =
     agent_call (in_agent b) GET (''/instrument?accountId='' @ opt_or accId ''undefined'') None"

record PriceBackend =
  pr_agent :: agent

definition new_PriceBackend :: "string \<Rightarrow> PriceBackend" where
  "new_PriceBackend baseUrl =
     \<lparr>pr_agent = axios_create baseUrl [(''Accept'', ''application/xml''), (''Content-Type'', ''application/xml'')]\<rparr>"

definition getLatestXml :: "PriceBackend \<Rightarrow> http_request" where
  "getLatestXml b = agent_call (pr_agent b) GET ''/prices/latest'' None"

definition getForInstrumentXml :: "PriceBackend \<Rightarrow> string \<Rightarrow> http_request" where
  "getForInstrumentXml b instrumentId =
     agent_call (pr_agent b) GET (''/prices/instrument/'' @ instrumentId @ ''?records=1440'') None"

record VersionBackend =
  ve_agent :: agent

definition new_VersionBackend :: VersionBackend where
  "new_VersionBackend = \<lparr>ve_agent = \<lparr>ag_baseURL = None, ag_headers = accept_json, ag_timeout = Some 1000\<rparr>\<rparr>"

definition ve_getVersion :: "VersionBackend \<Rightarrow> string \<Rightarrow> http_request" where
  "ve_getVersion b path = agent_call (ve_agent b) GET path None"

section \<open>Transactions\<close>

record TransactionBackend =
  tx_agent :: agent

definition new_TransactionBackend :: "string \<Rightarrow> TransactionBackend" where
  "new_TransactionBackend baseUrl = \<lparr>tx_agent = axios_create baseUrl json_headers\<rparr>"

definition tx_getAll :: "TransactionBackend \<Rightarrow> string \<Rightarrow> jsnum \<Rightarrow> http_request" where
  "tx_getAll b accountId limit =
     agent_call (tx_agent b) GET
       (''/trade/'' @ accountId @ ''?count='' @ num_to_string limit @ ''&onlyLong=true'') None"

record QuickTransactionRequest =
  qt_accountId :: jsnum
  qt_instrumentId :: jsnum
  qt_amount :: jsnum

record LongTransactionRequest =
  lt_accountId :: jsnum
  lt_instrumentId :: jsnum
  lt_amount :: jsnum
  lt_price :: jsnum
  lt_duration :: jsnum

definition quick_to_js :: "QuickTransactionRequest \<Rightarrow> jsval" where
  "quick_to_js r =
     Obj [(''accountId'', Num (qt_accountId r)), (''instrumentId'', Num (qt_instrumentId r)),
          (''amount'', Num (qt_amount r))]"

definition long_to_js :: "LongTransactionRequest \<Rightarrow> jsval" where
  "long_to_js r =
     Obj [(''accountId'', Num (lt_accountId r)), (''instrumentId'', Num (lt_instrumentId r)),
          (''amount'', Num (lt_amount r)), (''price'', Num (lt_price r)), (''duration'', Num (lt_duration r))]"

definition tx_quickBuy :: "TransactionBackend \<Rightarrow> QuickTransactionRequest \<Rightarrow> http_request" where
  "tx_quickBuy b r = agent_call (tx_agent b) POST ''/trade/buy'' (Some (quick_to_js r))"
definition tx_quickSell :: "TransactionBackend \<Rightarrow> QuickTransactionRequest \<Rightarrow> http_request" where
  "tx_quickSell b r = agent_call (tx_agent b) POST ''/trade/sell'' (Some (quick_to_js r))"
definition tx_buy :: "TransactionBackend \<Rightarrow> LongTransactionRequest \<Rightarrow> http_request" where
  "tx_buy b r = agent_call (tx_agent b) POST ''/trade/long/buy'' (Some (long_to_js r))"
definition tx_sell :: "TransactionBackend \<Rightarrow> LongTransactionRequest \<Rightarrow> http_request" where
  "tx_sell b r = agent_call (tx_agent b) POST ''/trade/long/sell'' (Some (long_to_js r))"

section \<open>Credit cards\<close>

record WithdrawRequest =
  wr_accountId :: jsnum
  wr_amount :: jsnum
  wr_name :: string
  wr_address :: string
  wr_email :: string
  wr_cardNumber :: string
  wr_cardType :: string

record DepositRequest = WithdrawRequest +
  dr_cvv :: string

definition withdraw_fields :: "'a WithdrawRequest_scheme \<Rightarrow> (string \<times> jsval) list" where
  "withdraw_fields r =
     [(''accountId'', Num (wr_accountId r)), (''amount'', Num (wr_amount r)), (''name'', Str (wr_name r)),
      (''address'', Str (wr_address r)), (''email'', Str (wr_email r)),
      (''cardNumber'', Str (wr_cardNumber r)), (''cardType'', Str (wr_cardType r))]"

definition withdraw_to_js :: "WithdrawRequest \<Rightarrow> jsval" where
  "withdraw_to_js r = Obj (withdraw_fields r)"

definition deposit_to_js :: "DepositRequest \<Rightarrow> jsval" where
  "deposit_to_js r = Obj (withdraw_fields r @ [(''cvv'', Str (dr_cvv r))])"

record CreditCardOrderRequest =
  co_accountId :: jsnum
  co_name :: string
  co_email :: string
  co_shippingAddress :: string
  co_cardLevel :: string

definition order_to_js :: "CreditCardOrderRequest \<Rightarrow> jsval" where
  "order_to_js r =
     Obj [(''accountId'', Num (co_accountId r)), (''name'', Str (co_name r)), (''email'', Str (co_email r)),
          (''shippingAddress'', Str (co_shippingAddress r)), (''cardLevel'', Str (co_cardLevel r))]"

record CreditCardBackend =
  cc_brokerAgent :: agent
  cc_creditCardAgent :: agent

definition new_CreditCardBackend :: "string \<Rightarrow> string \<Rightarrow> CreditCardBackend" where
  "new_CreditCardBackend brokerUrl creditCardServiceUrl =
     \<lparr>cc_brokerAgent = axios_create brokerUrl json_headers,
      cc_creditCardAgent = axios_create creditCardServiceUrl json_headers\<rparr>"

definition cc_deposit :: "CreditCardBackend \<Rightarrow> DepositRequest \<Rightarrow> http_request" where
  "cc_deposit b r =
     agent_call (cc_brokerAgent b) POST (''/balance/'' @ num_to_string (wr_accountId r) @ ''/deposit'')
       (Some (deposit_to_js r))"

definition cc_withdraw :: "CreditCardBackend \<Rightarrow> WithdrawRequest \<Rightarrow> http_request" where
  "cc_withdraw b r =
     agent_call (cc_brokerAgent b) POST (''/balance/'' @ num_to_string (wr_accountId r) @ ''/withdraw'')
       (Some (withdraw_to_js r))"

definition cc_orderCard :: "CreditCardBackend \<Rightarrow> CreditCardOrderRequest \<Rightarrow> http_request" where
  "cc_orderCard b r = agent_call (cc_creditCardAgent b) POST ''orders'' (Some (order_to_js r))"

definition getOrderStatusXml :: "CreditCardBackend \<Rightarrow> jsnum \<Rightarrow> http_request" where
  "getOrderStatusXml b accountId =
     with_headers xml_headers
       (agent_call (cc_creditCardAgent b) GET (''/orders/'' @ num_to_string accountId @ ''/status/latest'') None)
         \<lparr>hq_validateStatus := \<lambda>status. status < 400 \<or> status = 404\<rparr>"

definition cc_getOrderStatusHistory :: "CreditCardBackend \<Rightarrow> jsnum \<Rightarrow> http_request" where
  "cc_getOrderStatusHistory b accountId =
     agent_call (cc_creditCardAgent b) GET (''orders/'' @ num_to_string accountId @ ''/status'') None"

definition deleteCardAndOrder :: "CreditCardBackend \<Rightarrow> jsnum \<Rightarrow> http_request" where
  "deleteCardAndOrder b accountId =
     agent_call (cc_creditCardAgent b) DELETE (''orders/'' @ num_to_string accountId) None"

section \<open>The backends of the application\<close>

record backends =
  be_problemPatterns :: ProblemPatternBackend
  be_config :: ConfigBackend
  be_users :: UserBackend
  be_instruments :: InstrumentBackend
  be_prices :: PriceBackend
  be_transactions :: TransactionBackend
  be_creditCards :: CreditCardBackend
  be_versions :: VersionBackend

definition mk_backends :: "string \<Rightarrow> backends" where
  "mk_backends origin =
     \<lparr>be_problemPatterns = new_ProblemPatternBackend (getFeatureFlagServiceUrl origin),
      be_config = new_ConfigBackend (getFeatureFlagServiceUrl origin),
      be_users = new_UserBackend (getAccountServiceUrl origin) (getLoginServiceUrl origin)
                   (getBrokerServiceUrl origin),
      be_instruments = new_InstrumentBackend (getBrokerServiceUrl origin),
      be_prices = new_PriceBackend (getPricingServiceUrl origin),
      be_transactions = new_TransactionBackend (getBrokerServiceUrl origin),
      be_creditCards = new_CreditCardBackend (getBrokerServiceUrl origin) (getCreditCardServiceUrl origin),
      be_versions = new_VersionBackend\<rparr>"

end
