(* ===== verification/Fe_Api.thy ===== *)
theory Fe_Api
  imports Fe_Backend
begin

text \<open>
  The API functions of the frontend (\<open>src/frontend/src/api\<close>, without the mocks): what they send, what
  they report to the monitoring agent, and what they return when anything on the way throws.

  A call has a result and a list of effects: the requests sent and the business events handed to the
  agent. The browser's globals are the argument \<open>win\<close>, axios is \<open>send\<close>, the XML library is
  \<open>build_xml\<close> and \<open>parse_xml\<close>, luxon's ISO printer is \<open>luxon_iso\<close>.
\<close>

datatype effect = Sent http_request | BizEvent string jsval

type_synonym 'a call = "(js_error, 'a) result \<times> effect list"
type_synonym send = "http_request \<Rightarrow> (js_error, http_response) result"
type_synonym xml_builder = "jsval \<Rightarrow> (js_error, string) result"
type_synonym xml_parser = "jsval \<Rightarrow> (js_error, jsval) result"

section \<open>Calls with effects\<close>

definition creturn :: "'a \<Rightarrow> 'a call" where
  "creturn x = (Inr x, [])"

definition lift_result :: "(js_error, 'a) result \<Rightarrow> 'a call" where
  "lift_result r = (r, [])"

definition cbind :: "'a call \<Rightarrow> ('a \<Rightarrow> 'b call) \<Rightarrow> 'b call" where
  "cbind m f =
     (case m of
        (Inl e, es) \<Rightarrow> (Inl e, es)
      | (Inr x, es) \<Rightarrow> (case f x of (r, fs) \<Rightarrow> (r, es @ fs)))"

definition ccatch :: "'a call \<Rightarrow> (js_error \<Rightarrow> 'a call) \<Rightarrow> 'a call" where
  "ccatch m h =
     (case m of
        (Inl e, es) \<Rightarrow> (case h e of (r, fs) \<Rightarrow> (r, es @ fs))
      | (Inr x, es) \<Rightarrow> (Inr x, es))"

definition csend :: "send \<Rightarrow> http_request \<Rightarrow> http_response call" where
  "csend send rq = (send rq, [Sent rq])"

lemma call_simps [simp]:
  "cbind (Inl e, es) f = (Inl e, es)"
  "cbind (Inr x, es) f = (fst (f x), es @ snd (f x))"
  "ccatch (Inl e, es) h = (fst (h e), es @ snd (h e))"
  "ccatch (Inr x, es) h = (Inr x, es)"
  "fst (creturn x) = Inr x" "snd (creturn x) = []"
  "fst (lift_result r) = r" "snd (lift_result r) = []"
  "fst (csend send rq) = send rq" "snd (csend send rq) = [Sent rq]"
  by (simp_all add: cbind_def ccatch_def creturn_def lift_result_def csend_def split_beta)

lemma cbind_creturn [simp]: "cbind (creturn x) f = f x"
  by (cases "f x") (simp add: creturn_def cbind_def)

lemma cbind_csend: "cbind (csend send rq) f =
    (case send rq of Inl e \<Rightarrow> (Inl e, [Sent rq]) | Inr x \<Rightarrow> (fst (f x), Sent rq # snd (f x)))"
  by (cases "send rq") (simp_all add: csend_def)

lemma cbind_lift: "cbind (lift_result r) f = (case r of Inl e \<Rightarrow> (Inl e, []) | Inr x \<Rightarrow> f x)"
  by (cases r) (simp_all add: lift_result_def)

section \<open>Business events\<close>

record window =
  win_dynatrace :: "(string \<Rightarrow> jsval \<Rightarrow> (js_error, unit) result) option"
  win_reportError :: "(js_error \<Rightarrow> (js_error, unit) result) option"

definition sendBizEvent :: "window \<Rightarrow> string \<Rightarrow> jsval \<Rightarrow> unit call" where
  "sendBizEvent win ty body =
     (case win_dynatrace win of
        None \<Rightarrow> creturn ()
      | Some agent \<Rightarrow>
          ccatch (agent ty body, [BizEvent ty body])
            (\<lambda>err. case win_reportError win of
               None \<Rightarrow> creturn ()
             | Some report \<Rightarrow> lift_result (report err)))"

definition finished_body :: jsval where
  "finished_body = Obj [(''status'', Str ''finished'')]"

definition error_body :: "string \<Rightarrow> jsval" where
  "error_body msg = Obj [(''status'', Str ''error''), (''message'', Str msg)]"

definition depositStart :: "window \<Rightarrow> DepositRequest \<Rightarrow> unit call" where
  "depositStart win body = sendBizEvent win ''com.easytrade.deposit.start'' (deposit_to_js body)"
definition depositFinish :: "window \<Rightarrow> unit call" where
  "depositFinish win = sendBizEvent win ''com.easytrade.deposit.finish'' finished_body"
definition depositError :: "window \<Rightarrow> string \<Rightarrow> unit call" where
  "depositError win msg = sendBizEvent win ''com.easytrade.deposit.error'' (error_body msg)"
definition withdrawStart :: "window \<Rightarrow> WithdrawRequest \<Rightarrow> unit call" where
  "withdrawStart win body = sendBizEvent win ''com.easytrade.withdraw.start'' (withdraw_to_js body)"
definition withdrawFinish :: "window \<Rightarrow> unit call" where
  "withdrawFinish win = sendBizEvent win ''com.easytrade.withdraw.finish'' finished_body"
definition withdrawError :: "window \<Rightarrow> string \<Rightarrow> unit call" where
  "withdrawError win msg = sendBizEvent win ''com.easytrade.withdraw.error'' (error_body msg)"
definition sellStart :: "window \<Rightarrow> QuickTransactionRequest \<Rightarrow> unit call" where
  "sellStart win body = sendBizEvent win ''com.easytrade.sell.start'' (quick_to_js body)"
definition sellFinish :: "window \<Rightarrow> unit call" where
  "sellFinish win = sendBizEvent win ''com.easytrade.sell.finish'' finished_body"
definition sellError :: "window \<Rightarrow> string \<Rightarrow> unit call" where
  "sellError win msg = sendBizEvent win ''com.easytrade.sell.error'' (error_body msg)"
definition buyStart :: "window \<Rightarrow> QuickTransactionRequest \<Rightarrow> unit call" where
  "buyStart win body = sendBizEvent win ''com.easytrade.buy.start'' (quick_to_js body)"
definition buyFinish :: "window \<Rightarrow> unit call" where
  "buyFinish win = sendBizEvent win ''com.easytrade.buy.finish'' finished_body"
definition buyError :: "window \<Rightarrow> string \<Rightarrow> unit call" where
  "buyError win msg = sendBizEvent win ''com.easytrade.buy.error'' (error_body msg)"

section \<open>Trades, deposit and withdrawal\<close>

text \<open>\<open>HandlerResponse\<close>: an object with an optional error message.\<close>

type_synonym HandlerResponse = "string option"

definition trade_msg :: string where
  "trade_msg = ''There was an error when creating transaction.''"

definition quickBuy :: "backends \<Rightarrow> send \<Rightarrow> window \<Rightarrow> string \<Rightarrow> string \<Rightarrow> jsnum \<Rightarrow> HandlerResponse call" where
  "quickBuy be send win userId instrumentId amount =
     ccatch
       (let body = \<lparr>qt_accountId = Number_of_string userId, qt_instrumentId = Number_of_string instrumentId,
                    qt_amount = amount\<rparr>
        in cbind (buyStart win body) (\<lambda>_.
           cbind (csend send (tx_quickBuy (be_transactions be) body)) (\<lambda>_.
           cbind (buyFinish win) (\<lambda>_. creturn None))))
       (\<lambda>error. let msg = trade_msg in cbind (buyError win msg) (\<lambda>_. creturn (Some msg)))"

definition quickSell :: "backends \<Rightarrow> send \<Rightarrow> window \<Rightarrow> string \<Rightarrow> string \<Rightarrow> jsnum \<Rightarrow> HandlerResponse call" where
  "quickSell be send win userId instrumentId amount =
     ccatch
       (let body = \<lparr>qt_accountId = Number_of_string userId, qt_instrumentId = Number_of_string instrumentId,
                    qt_amount = amount\<rparr>
        in cbind (sellStart win body) (\<lambda>_.
           cbind (csend send (tx_quickSell (be_transactions be) body)) (\<lambda>_.
           cbind (sellFinish win) (\<lambda>_. creturn None))))
       (\<lambda>error. let msg = trade_msg in cbind (sellError win msg) (\<lambda>_. creturn (Some msg)))"

definition long_request :: "string \<Rightarrow> string \<Rightarrow> jsnum \<Rightarrow> jsnum \<Rightarrow> jsnum \<Rightarrow> LongTransactionRequest" where
  "long_request userId instrumentId amount price time =
     \<lparr>lt_accountId = Number_of_string userId, lt_instrumentId = Number_of_string instrumentId,
      lt_amount = amount, lt_price = price, lt_duration = time\<rparr>"

definition buy :: "backends \<Rightarrow> send \<Rightarrow> string \<Rightarrow> string \<Rightarrow> jsnum \<Rightarrow> jsnum \<Rightarrow> jsnum \<Rightarrow> HandlerResponse call" where
  "buy be send userId instrumentId amount price time =
     ccatch
       (cbind (csend send (tx_buy (be_transactions be) (long_request userId instrumentId amount price time)))
          (\<lambda>_. creturn None))
       (\<lambda>error. creturn (Some trade_msg))"

definition sell :: "backends \<Rightarrow> send \<Rightarrow> string \<Rightarrow> string \<Rightarrow> jsnum \<Rightarrow> jsnum \<Rightarrow> jsnum \<Rightarrow> HandlerResponse call" where
  "sell be send userId instrumentId amount price time =
     ccatch
       (cbind (csend send (tx_sell (be_transactions be) (long_request userId instrumentId amount price time)))
          (\<lambda>_. creturn None))
       (\<lambda>error. creturn (Some trade_msg))"

definition api_deposit :: "backends \<Rightarrow> send \<Rightarrow> window \<Rightarrow> DepositRequest \<Rightarrow> HandlerResponse call" where
  "api_deposit be send win requestData =
     ccatch
       (cbind (depositStart win requestData) (\<lambda>_.
        cbind (csend send (cc_deposit (be_creditCards be) requestData)) (\<lambda>_.
        cbind (depositFinish win) (\<lambda>_. creturn None))))
       (\<lambda>error. let msg = ''There was an error processing the deposit''
                in cbind (depositError win msg) (\<lambda>_. creturn (Some msg)))"

definition api_withdraw :: "backends \<Rightarrow> send \<Rightarrow> window \<Rightarrow> WithdrawRequest \<Rightarrow> HandlerResponse call" where
  "api_withdraw be send win requestData =
     ccatch
       (cbind (withdrawStart win requestData) (\<lambda>_.
        cbind (csend send (cc_withdraw (be_creditCards be) requestData)) (\<lambda>_.
        cbind (withdrawFinish win) (\<lambda>_. creturn None))))
       (\<lambda>error. let msg = ''There was an error processing the withdraw''
                in cbind (withdrawError win msg) (\<lambda>_. creturn (Some msg)))"

section \<open>Login, logout, sign-up\<close>

definition api_login :: "backends \<Rightarrow> send \<Rightarrow> xml_builder \<Rightarrow> xml_parser \<Rightarrow> string \<Rightarrow> string \<Rightarrow> jsval call" where
  "api_login be send build_xml parse_xml user pass =
     ccatch
       (cbind (lift_result (build_xml (login_body user pass))) (\<lambda>body.
        cbind (csend send (loginXml (be_users be) body)) (\<lambda>response.
        cbind (lift_result (parse_xml (rs_data response))) (\<lambda>data.
          lift_result (get_prop data ''IdResponse'')))))
       (\<lambda>error. creturn (Obj [(''error'', Str ''Login or password invalid'')]))"

definition api_logout :: "backends \<Rightarrow> send \<Rightarrow> xml_builder \<Rightarrow> xml_parser \<Rightarrow> string \<Rightarrow> jsval call" where
  "api_logout be send build_xml parse_xml userId =
     ccatch
       (cbind (lift_result (build_xml (logout_body (Number_of_string userId)))) (\<lambda>body.
        cbind (csend send (logoutXml (be_users be) body)) (\<lambda>response.
        cbind (lift_result (parse_xml (rs_data response))) (\<lambda>data.
          lift_result (get_prop data ''MessageResponse'')))))
       (\<lambda>error. creturn (Obj [(''error'', Str ''There was a problem with logging out'')]))"

record SignupRequest =
  sg_firstName :: string
  sg_lastName :: string
  sg_login :: string
  sg_email :: string
  sg_address :: string
  sg_password :: string

definition signup_to_js :: "SignupRequest \<Rightarrow> jsval" where
  "signup_to_js r =
     Obj [(''packageId'', Num (jint 1)), (''origin'', Str ''easyTrade''), (''firstName'', Str (sg_firstName r)),
          (''lastName'', Str (sg_lastName r)), (''username'', Str (sg_login r)), (''email'', Str (sg_email r)),
          (''address'', Str (sg_address r)), (''password'', Str (sg_password r))]"

definition api_signup :: "backends \<Rightarrow> send \<Rightarrow> xml_builder \<Rightarrow> xml_parser \<Rightarrow> SignupRequest \<Rightarrow> jsval call" where
  "api_signup be send build_xml parse_xml request =
     ccatch
       (cbind (lift_result (build_xml (signup_body (signup_to_js request)))) (\<lambda>body.
        cbind (csend send (signupXml (be_users be) body)) (\<lambda>response.
        cbind (lift_result (parse_xml (rs_data response))) (\<lambda>data.
          lift_result (get_prop data ''IdResponse'')))))
       (\<lambda>error. creturn (Obj [(''error'', Str ''There was an error processing the signup request.'')]))"

section \<open>Lemmas\<close>

text \<open>The monitoring agent cannot make a handler fail, if its error reporter does not itself throw.\<close>

definition reporter_ok :: "window \<Rightarrow> bool" where
  "reporter_ok win \<longleftrightarrow>
     (case win_reportError win of None \<Rightarrow> True | Some report \<Rightarrow> \<forall>e. report e = Inr ())"

definition biz :: "window \<Rightarrow> string \<Rightarrow> jsval \<Rightarrow> effect list" where
  "biz win ty b = (if win_dynatrace win = None then [] else [BizEvent ty b])"

lemma sendBizEvent_ok: "reporter_ok win \<Longrightarrow> sendBizEvent win ty b = (Inr (), biz win ty b)"
proof (cases "win_dynatrace win")
  case None
  then show ?thesis by (simp add: sendBizEvent_def biz_def creturn_def)
next
  case (Some agent)
  assume "reporter_ok win"
  with Some show ?thesis
    by (cases "agent ty b"; cases "win_reportError win")
      (simp_all add: sendBizEvent_def biz_def creturn_def lift_result_def reporter_ok_def)
qed

lemmas biz_calls = depositStart_def depositFinish_def depositError_def withdrawStart_def
  withdrawFinish_def withdrawError_def sellStart_def sellFinish_def sellError_def buyStart_def
  buyFinish_def buyError_def

text \<open>A reported request: start, the request, then finish or error.\<close>

definition reported :: "window \<Rightarrow> send \<Rightarrow> string \<Rightarrow> jsval \<Rightarrow> http_request \<Rightarrow> string \<Rightarrow> HandlerResponse call" where
  "reported win send prefix body rq msg =
     (case send rq of
        Inr x \<Rightarrow> (Inr None, biz win (prefix @ ''.start'') body @ [Sent rq] @ biz win (prefix @ ''.finish'') finished_body)
      | Inl e \<Rightarrow> (Inr (Some msg),
          biz win (prefix @ ''.start'') body @ [Sent rq] @ biz win (prefix @ ''.error'') (error_body msg)))"

lemma reported_request:
  "ccatch (cbind (Inr (), start) (\<lambda>_. cbind (csend send rq) (\<lambda>_. cbind (Inr (), finish) (\<lambda>_. creturn None))))
     (\<lambda>e. cbind (Inr (), err) (\<lambda>_. creturn (Some msg)))
   = (case send rq of Inr x \<Rightarrow> (Inr None, start @ [Sent rq] @ finish)
      | Inl e \<Rightarrow> (Inr (Some msg), start @ [Sent rq] @ err))"
  by (cases "send rq") (simp_all add: cbind_csend)

lemma reported_sent: "Sent rq' \<in> set (snd (reported win send prefix body rq msg)) \<longleftrightarrow> rq' = rq"
  by (auto simp: reported_def biz_def split: sum.splits)

lemma reported_result: "fst (reported win send prefix body rq msg) = Inr (case send rq of Inl e \<Rightarrow> Some msg | Inr r \<Rightarrow> None)"
  by (simp add: reported_def split: sum.splits)

lemma quickBuy_reported:
  "reporter_ok win \<Longrightarrow>
   quickBuy be send win userId instrumentId amount =
     reported win send ''com.easytrade.buy''
       (quick_to_js \<lparr>qt_accountId = Number_of_string userId, qt_instrumentId = Number_of_string instrumentId, qt_amount = amount\<rparr>)
       (tx_quickBuy (be_transactions be)
         \<lparr>qt_accountId = Number_of_string userId, qt_instrumentId = Number_of_string instrumentId, qt_amount = amount\<rparr>) trade_msg"
  by (simp only: quickBuy_def biz_calls sendBizEvent_ok Let_def reported_request reported_def append_Cons append_Nil)

lemma quickSell_reported:
  "reporter_ok win \<Longrightarrow>
   quickSell be send win userId instrumentId amount =
     reported win send ''com.easytrade.sell''
       (quick_to_js \<lparr>qt_accountId = Number_of_string userId, qt_instrumentId = Number_of_string instrumentId, qt_amount = amount\<rparr>)
       (tx_quickSell (be_transactions be)
         \<lparr>qt_accountId = Number_of_string userId, qt_instrumentId = Number_of_string instrumentId, qt_amount = amount\<rparr>) trade_msg"
  by (simp only: quickSell_def biz_calls sendBizEvent_ok Let_def reported_request reported_def append_Cons append_Nil)

lemma deposit_reported:
  "reporter_ok win \<Longrightarrow>
   api_deposit be send win d =
     reported win send ''com.easytrade.deposit'' (deposit_to_js d) (cc_deposit (be_creditCards be) d)
       ''There was an error processing the deposit''"
  by (simp only: api_deposit_def biz_calls sendBizEvent_ok Let_def reported_request reported_def append_Cons append_Nil)

lemma withdraw_reported:
  "reporter_ok win \<Longrightarrow>
   api_withdraw be send win w =
     reported win send ''com.easytrade.withdraw'' (withdraw_to_js w) (cc_withdraw (be_creditCards be) w)
       ''There was an error processing the withdraw''"
  by (simp only: api_withdraw_def biz_calls sendBizEvent_ok Let_def reported_request reported_def append_Cons append_Nil)

text \<open>A caught request: sent once, never rejecting, or rejecting with the error of the handler only.\<close>

lemma caught_total:
  "\<exists>x. ccatch (cbind (csend send rq) (\<lambda>r. lift_result (f r))) (\<lambda>e. creturn (h e)) = (Inr x, [Sent rq])"
proof (cases "send rq")
  case (Inl e)
  then show ?thesis by (simp add: cbind_csend)
next
  case (Inr r)
  then show ?thesis by (cases "f r") (simp_all add: cbind_csend)
qed

lemma caught_parts:
  "\<exists>x. fst (ccatch (cbind (csend send rq) (\<lambda>r. lift_result (f r))) (\<lambda>e. creturn (h e))) = Inr x"
  "snd (ccatch (cbind (csend send rq) (\<lambda>r. lift_result (f r))) (\<lambda>e. creturn (h e))) = [Sent rq]"
  using caught_total [of send rq f h] by fastforce+

lemma caught_total_unit:
  "\<exists>x. ccatch (cbind (csend send rq) (\<lambda>r. creturn (g r))) (\<lambda>e. creturn (h e)) = (Inr x, [Sent rq])"
  by (cases "send rq") (simp_all add: cbind_csend)

lemma caught_rethrow: "fst (ccatch m (\<lambda>e. lift_result (Inl e'))) = Inl e \<Longrightarrow> e = e'"
  by (cases m; cases "fst m") auto

section \<open>Properties\<close>



end
