(* ===== verification/Fe_Read.thy ===== *)
theory Fe_Read
  imports Fe_Api
begin

text \<open>
  The reading half of the frontend's API: users, instruments, prices, transactions, credit card orders,
  flags, versions (\<open>src/frontend/src/api\<close>). Response data is a \<open>jsval\<close> of any shape; a field that is
  missing where the code calls a method on it is the \<open>TypeError\<close> the code then catches.
\<close>

section \<open>Mapping over response lists\<close>

text \<open>\<open>data.results.map(f)\<close>, where \<open>f\<close> is given the element and its index.\<close>

definition map_results :: "jsval \<Rightarrow> (nat \<Rightarrow> jsval \<Rightarrow> (js_error, 'a) result) \<Rightarrow> (js_error, 'a list) result" where
  "map_results data f =
     rbind (get_prop data ''results'') (\<lambda>rs.
     rbind (as_array ''map'' rs) (\<lambda>vs. rmapM (\<lambda>(i, v). f i v) (enumerate 0 vs)))"

text \<open>The rest of a destructuring pattern: the properties not named.\<close>

definition rest_props :: "string list \<Rightarrow> jsval \<Rightarrow> (string \<times> jsval) list" where
  "rest_props ks v = (case v of Obj kvs \<Rightarrow> filter (\<lambda>(k, _). k \<notin> set ks) kvs | _ \<Rightarrow> [])"

definition call_toLowerCase :: "jsval \<Rightarrow> (js_error, string) result" where
  "call_toLowerCase v =
     (case v of Str s \<Rightarrow> Inr (toLowerCase s) | _ \<Rightarrow> Inl (TypeError ''toLowerCase is not a function''))"

section \<open>Users\<close>

record fe_user =
  fu_id :: string
  fu_firstName :: jsval
  fu_lastName :: jsval
  fu_packageType :: string
  fu_email :: jsval
  fu_address :: jsval

record Balance =
  ba_accountId :: string
  ba_value :: jsval

definition getUser :: "backends \<Rightarrow> send \<Rightarrow> string \<Rightarrow> fe_user call" where
  "getUser be send userId =
     ccatch
       (cbind (csend send (us_getData (be_users be) userId)) (\<lambda>response.
        let data = rs_data response in
        lift_result
          (rbind (rbind (get_prop data ''id'') call_toString) (\<lambda>i.
           rbind (get_prop data ''firstName'') (\<lambda>first.
           rbind (get_prop data ''lastName'') (\<lambda>last.
           rbind (rbind (get_prop data ''packageId'') call_toString) (\<lambda>pkg.
           rbind (get_prop data ''email'') (\<lambda>mail.
           rbind (get_prop data ''address'') (\<lambda>addr.
             Inr \<lparr>fu_id = i, fu_firstName = first, fu_lastName = last, fu_packageType = pkg,
                  fu_email = mail, fu_address = addr\<rparr>)))))))))
       (\<lambda>error. lift_result (Inl (ErrorMsg (''User with id ['' @ userId @ ''] not found''))))"

definition getBalance :: "backends \<Rightarrow> send \<Rightarrow> string \<Rightarrow> Balance call" where
  "getBalance be send userId =
     ccatch
       (cbind (csend send (us_getBalance (be_users be) userId)) (\<lambda>response.
        let data = rs_data response in
        lift_result
          (rbind (rbind (get_prop data ''accountId'') call_toString) (\<lambda>i.
           rbind (get_prop data ''value'') (\<lambda>v.
             Inr \<lparr>ba_accountId = i, ba_value = v\<rparr>)))))
       (\<lambda>error. lift_result (Inl (ErrorMsg (''Balance with account id ['' @ userId @ ''] not found''))))"

definition preset_user :: "jsval \<Rightarrow> (js_error, jsval) result" where
  "preset_user v =
     rbind (rbind (get_prop v ''id'') call_toString) (\<lambda>i.
       Inr (Obj ((''id'', Str i) # rest_props [''id''] v)))"

definition getPresetUsers :: "backends \<Rightarrow> send \<Rightarrow> jsval list call" where
  "getPresetUsers be send =
     ccatch
       (cbind (csend send (us_getPreset (be_users be))) (\<lambda>response.
          lift_result (map_results (rs_data response) (\<lambda>i v. preset_user v))))
       (\<lambda>error. creturn [])"

section \<open>Instruments and prices\<close>

definition getInstruments :: "backends \<Rightarrow> send \<Rightarrow> string option \<Rightarrow> jsval call" where
  "getInstruments be send userId =
     ccatch
       (cbind (csend send (in_getInstruments (be_instruments be) userId)) (\<lambda>response.
          lift_result (get_prop (rs_data response) ''results'')))
       (\<lambda>error. creturn (Arr []))"

definition price_entry :: "jsval \<Rightarrow> (js_error, jsval) result" where
  "price_entry v =
     rbind (get_prop v ''id'') (\<lambda>i0.
     rbind (get_prop v ''instrumentId'') (\<lambda>n0.
     rbind (call_toString i0) (\<lambda>i.
     rbind (call_toString n0) (\<lambda>n.
       Inr (Obj ([(''id'', Str i), (''instrumentId'', Str n)] @ rest_props [''id'', ''instrumentId''] v))))))"

definition getLatestPrices :: "backends \<Rightarrow> send \<Rightarrow> xml_parser \<Rightarrow> jsval list call" where
  "getLatestPrices be send parse_xml =
     ccatch
       (cbind (csend send (getLatestXml (be_prices be))) (\<lambda>response.
        lift_result
          (rbind (parse_xml (rs_data response)) (\<lambda>data.
           rbind (get_prop data ''pricesResult'') (\<lambda>pr. map_results pr (\<lambda>i v. price_entry v))))))
       (\<lambda>error. creturn [])"

definition getPricesForInstrument :: "backends \<Rightarrow> send \<Rightarrow> xml_parser \<Rightarrow> string \<Rightarrow> jsval list call" where
  "getPricesForInstrument be send parse_xml instrumentId =
     ccatch
       (cbind (csend send (getForInstrumentXml (be_prices be) instrumentId)) (\<lambda>response.
        lift_result
          (rbind (parse_xml (rs_data response)) (\<lambda>data.
           rbind (get_prop data ''pricesResult'') (\<lambda>pr. map_results pr (\<lambda>i v. price_entry v))))))
       (\<lambda>error. creturn [])"

section \<open>Transactions\<close>

record fe_transaction =
  ft_id :: nat
  ft_actionType :: string
  ft_instrumentName :: string
  ft_amount :: jsval
  ft_price :: jsval
  ft_status :: string
  ft_endTime :: jsval

definition mapStatus :: "string \<Rightarrow> string" where
  "mapStatus status =
     (if indexOf (toLowerCase status) ''finished'' > 0 then ''SUCCESS''
      else if indexOf (toLowerCase status) ''failed'' > 0 then ''FAIL''
      else ''ACTIVE'')"

definition mapDirection :: "string \<Rightarrow> string" where
  "mapDirection direction =
     (if indexOf (toLowerCase direction) ''buy'' > 0 then ''BUY'' else ''SELL'')"

text \<open>\<open>status.toLowerCase()\<close> on a value of any kind.\<close>

definition on_string :: "(string \<Rightarrow> string) \<Rightarrow> jsval \<Rightarrow> (js_error, string) result" where
  "on_string f v = (case v of Str s \<Rightarrow> Inr (f s) | _ \<Rightarrow> rmap f (call_toLowerCase v))"

definition mapRawTransaction ::
  "(jsval \<Rightarrow> (js_error, jsval) result) \<Rightarrow> nat \<Rightarrow> jsval \<Rightarrow> (js_error, fe_transaction) result" where
  "mapRawTransaction luxon_iso index v =
     rbind (get_prop v ''direction'') (\<lambda>direction.
     rbind (get_prop v ''instrumentId'') (\<lambda>instrumentId.
     rbind (get_prop v ''quantity'') (\<lambda>quantity.
     rbind (get_prop v ''entryPrice'') (\<lambda>entryPrice.
     rbind (get_prop v ''status'') (\<lambda>status.
     rbind (get_prop v ''timestampClose'') (\<lambda>timestampClose.
     rbind (on_string mapDirection direction) (\<lambda>action.
     rbind (call_toString instrumentId) (\<lambda>name.
     rbind (on_string mapStatus status) (\<lambda>st.
     rbind (luxon_iso timestampClose) (\<lambda>t.
       Inr \<lparr>ft_id = index, ft_actionType = action, ft_instrumentName = name, ft_amount = quantity,
            ft_price = entryPrice, ft_status = st, ft_endTime = nullish t timestampClose\<rparr>))))))))))"

definition getTransactions ::
  "backends \<Rightarrow> send \<Rightarrow> (jsval \<Rightarrow> (js_error, jsval) result) \<Rightarrow> string \<Rightarrow> jsnum option
   \<Rightarrow> fe_transaction list call" where
  "getTransactions be send luxon_iso userId records =
     ccatch
       (cbind (csend send (tx_getAll (be_transactions be) userId (opt_or records (jint 100)))) (\<lambda>response.
          lift_result (map_results (rs_data response) (mapRawTransaction luxon_iso))))
       (\<lambda>error. creturn [])"

section \<open>Credit card orders\<close>

datatype CreditCardOrderResponse = OrderSuccess jsval | OrderError string

record OrderStatusEntry =
  oe_status :: jsval
  oe_orderId :: jsval
  oe_timestamp :: jsval
  oe_details :: jsval

datatype OrderStatusResponse =
    StatusSuccess OrderStatusEntry
  | StatusError string
  | StatusNotFound

datatype OrderStatusHistoryResponse = HistorySuccess jsval "jsval list" | HistoryError string

datatype RevokeCardResponse = RevokeSuccess | RevokeError string

definition orderCreditCard :: "backends \<Rightarrow> send \<Rightarrow> string \<Rightarrow> CreditCardOrderRequest \<Rightarrow> CreditCardOrderResponse call" where
  "orderCreditCard be send userId form =
     ccatch
       (cbind (csend send (cc_orderCard (be_creditCards be)
                 (form\<lparr>co_accountId := Number_of_string userId\<rparr>))) (\<lambda>response.
        lift_result
          (rbind (get_prop (rs_data response) ''results'') (\<lambda>results.
           if results = Undefined then Inl (ErrorMsg ''Results not included in the response'')
           else rbind (get_prop results ''creditCardOrderId'') (\<lambda>i. Inr (OrderSuccess i))))))
       (\<lambda>error. creturn (OrderError ''There was an error ordering credit card.''))"

definition orderStatusMapper :: "jsval \<Rightarrow> (js_error, OrderStatusResponse) result" where
  "orderStatusMapper v =
     rbind (get_prop v ''statusCode'') (\<lambda>statusCode.
     rbind (get_prop v ''results'') (\<lambda>results.
       if strict_eq statusCode (Num (jint 404)) then Inr StatusNotFound
       else if results = Undefined then Inl (ErrorMsg ''Field [results] not found in response.'')
       else rbind (get_prop results ''creditCardOrderId'') (\<lambda>i.
            rbind (get_prop results ''timestamp'') (\<lambda>t.
            rbind (get_prop results ''status'') (\<lambda>st.
            rbind (get_prop results ''details'') (\<lambda>d.
              Inr (StatusSuccess \<lparr>oe_status = st, oe_orderId = i, oe_timestamp = t, oe_details = d\<rparr>)))))))"

definition getOrderStatus :: "backends \<Rightarrow> send \<Rightarrow> xml_parser \<Rightarrow> string \<Rightarrow> OrderStatusResponse call" where
  "getOrderStatus be send parse_xml userId =
     ccatch
       (cbind (csend send (getOrderStatusXml (be_creditCards be) (Number_of_string userId))) (\<lambda>response.
        lift_result
          (rbind (parse_xml (rs_data response)) (\<lambda>data.
           rbind (get_prop data ''StandardResponse'') orderStatusMapper))))
       (\<lambda>error. creturn (StatusError ''There was an error when getting order status.''))"

definition history_entry :: "jsval \<Rightarrow> (js_error, jsval) result" where
  "history_entry v =
     rbind (get_prop v ''creditCardOrderId'') (\<lambda>i.
       Inr (Obj ((''orderId'', i) # rest_props [''creditCardOrderId'', ''id''] v)))"

definition getOrderStatusHistory :: "backends \<Rightarrow> send \<Rightarrow> string \<Rightarrow> OrderStatusHistoryResponse call" where
  "getOrderStatusHistory be send userId =
     ccatch
       (cbind (csend send (cc_getOrderStatusHistory (be_creditCards be) (Number_of_string userId))) (\<lambda>response.
        lift_result
          (rbind (get_prop (rs_data response) ''results'') (\<lambda>results.
           if results = Undefined then Inl (ErrorMsg ''Field [results] not found in response.'')
           else rbind (get_prop results ''creditCardOrderId'') (\<lambda>i.
                rbind (get_prop results ''statusList'') (\<lambda>sl.
                rbind (as_array ''map'' sl) (\<lambda>vs.
                rbind (rmapM history_entry vs) (\<lambda>es. Inr (HistorySuccess i es)))))))))
       (\<lambda>error. creturn (HistoryError ''There was an error when getting order status history.''))"

definition revokeCreditCard :: "backends \<Rightarrow> send \<Rightarrow> string \<Rightarrow> RevokeCardResponse call" where
  "revokeCreditCard be send userId =
     ccatch
       (cbind (csend send (deleteCardAndOrder (be_creditCards be) (Number_of_string userId)))
          (\<lambda>_. creturn RevokeSuccess))
       (\<lambda>error. creturn (RevokeError ''There was an error when trying to revoke the card.''))"

section \<open>Flags\<close>

record fe_flag =
  ff_id :: jsval
  ff_enabled :: jsval
  ff_name :: jsval
  ff_description :: jsval
  ff_isModifiable :: jsval

definition featureFlagMapper :: "jsval \<Rightarrow> (js_error, fe_flag) result" where
  "featureFlagMapper v =
     rbind (get_prop v ''id'') (\<lambda>i.
     rbind (get_prop v ''enabled'') (\<lambda>e.
     rbind (get_prop v ''name'') (\<lambda>n.
     rbind (get_prop v ''description'') (\<lambda>d.
     rbind (get_prop v ''isModifiable'') (\<lambda>m.
       Inr \<lparr>ff_id = i, ff_enabled = e, ff_name = n, ff_description = d, ff_isModifiable = m\<rparr>)))))"

definition getFeatureFlags :: "backends \<Rightarrow> send \<Rightarrow> fe_flag list call" where
  "getFeatureFlags be send =
     ccatch
       (cbind (csend send (pp_getAll (be_problemPatterns be))) (\<lambda>response.
          lift_result (map_results (rs_data response) (\<lambda>i v. featureFlagMapper v))))
       (\<lambda>error. creturn [])"

definition handleFlagToggle :: "backends \<Rightarrow> send \<Rightarrow> string \<Rightarrow> bool \<Rightarrow> HandlerResponse call" where
  "handleFlagToggle be send flagId enabled =
     ccatch
       (cbind (csend send (setProblemPatternEnabled (be_problemPatterns be) flagId enabled))
          (\<lambda>_. creturn None))
       (\<lambda>error. creturn (Some ''There was an error when setting flag state''))"

record ConfigFlag =
  cfl_name :: jsval
  cfl_enabled :: jsval
  cfl_id :: jsval

definition config_flag :: "jsval \<Rightarrow> (js_error, ConfigFlag) result" where
  "config_flag v =
     rbind (get_prop v ''name'') (\<lambda>n.
     rbind (get_prop v ''enabled'') (\<lambda>e.
     rbind (get_prop v ''id'') (\<lambda>i. Inr \<lparr>cfl_name = n, cfl_enabled = e, cfl_id = i\<rparr>)))"

definition getRawConfigFlags :: "backends \<Rightarrow> send \<Rightarrow> ConfigFlag list call" where
  "getRawConfigFlags be send =
     ccatch
       (cbind (csend send (cf_getAll (be_config be))) (\<lambda>response.
          lift_result (map_results (rs_data response) (\<lambda>i v. config_flag v))))
       (\<lambda>error. creturn [])"

definition fe_getFlag :: "ConfigFlag list \<Rightarrow> string \<Rightarrow> bool \<Rightarrow> jsval" where
  "fe_getFlag flags i defaultValue =
     (case find (\<lambda>f. strict_eq (cfl_id f) (Str i)) flags of
        None \<Rightarrow> Bool defaultValue
      | Some f \<Rightarrow> nullish (cfl_enabled f) (Bool defaultValue))"

definition FEATURE_FLAG_MANAGEMENT :: string where
  "FEATURE_FLAG_MANAGEMENT = ''frontend_feature_flag_management''"

definition default_featureFlagManagement :: bool where
  "default_featureFlagManagement = True"

text \<open>The configuration has one field, \<open>featureFlagManagement\<close>.\<close>

definition fe_getConfig :: "backends \<Rightarrow> send \<Rightarrow> jsval call" where
  "fe_getConfig be send =
     cbind (getRawConfigFlags be send) (\<lambda>flags.
       creturn (fe_getFlag flags FEATURE_FLAG_MANAGEMENT default_featureFlagManagement))"

section \<open>Versions\<close>

datatype ServiceVersion =
    VersionSuccess string jsval
  | VersionError string string

definition services :: "(string \<times> string) list" where
  "services =
     [(''Account Service'', ''/accountservice/api/version''),
      (''Broker Service'', ''/broker-service/version''),
      (''Credit Card Order Service'', ''/credit-card-order-service/version''),
      (''Engine'', ''/engine/api/version''),
      (''Feature Flag Service'', ''/feature-flag-service/version''),
      (''Login Service'', ''/loginservice/api/version''),
      (''Manager'', ''/manager/api/version''),
      (''Offer Service'', ''/offerservice/api/version''),
      (''Pricing Service'', ''/pricing-service/version''),
      (''Third Party Service'', ''/third-party-service/version'')]"

definition getServiceVersion :: "backends \<Rightarrow> send \<Rightarrow> string \<times> string \<Rightarrow> ServiceVersion call" where
  "getServiceVersion be send service =
     ccatch
       (cbind (csend send (ve_getVersion (be_versions be) (snd service))) (\<lambda>response.
          creturn (VersionSuccess (fst service) (rs_data response))))
       (\<lambda>error. creturn (VersionError (fst service) (fst service @ '' didn'' @ [CHR 0x27] @ ''t respond'')))"

text \<open>\<open>Promise.all\<close> over calls that do not reject, as the ones below: all of them are made.\<close>

fun promise_all :: "'a call list \<Rightarrow> 'a list call" where
  "promise_all [] = creturn []"
| "promise_all (c # cs) = cbind c (\<lambda>x. cbind (promise_all cs) (\<lambda>xs. creturn (x # xs)))"

definition getAllVersions :: "backends \<Rightarrow> send \<Rightarrow> ServiceVersion list call" where
  "getAllVersions be send = promise_all (map (getServiceVersion be send) services)"

section \<open>arrayToMap\<close>

definition arrayToMap :: "'a list \<Rightarrow> ('a \<Rightarrow> 'v) \<Rightarrow> ('a \<Rightarrow> 'k) \<Rightarrow> ('k, 'v) jsmap" where
  "arrayToMap array mapFn keyMapFn =
     foldl (\<lambda>m element. om_set (keyMapFn element) (mapFn element) m) om_empty array"

section \<open>Properties\<close>

text \<open>C22 (reads). Whatever the services answer and whatever shape the data has, the reading functions of the
  API send exactly one request and do not reject: the lists are empty, the order functions return
  their error value. The two that do reject, for the user and the balance, do so with their message.\<close>

theorem reads_never_reject:
  "(\<exists>x. getPresetUsers be send = (Inr x, [Sent (us_getPreset (be_users be))])) \<and>
   (\<exists>x. getInstruments be send u = (Inr x, [Sent (in_getInstruments (be_instruments be) u)])) \<and>
   (\<exists>x. getLatestPrices be send parse_xml = (Inr x, [Sent (getLatestXml (be_prices be))])) \<and>
   (\<exists>x. getPricesForInstrument be send parse_xml i = (Inr x, [Sent (getForInstrumentXml (be_prices be) i)])) \<and>
   (\<exists>x. getTransactions be send luxon_iso uid n
          = (Inr x, [Sent (tx_getAll (be_transactions be) uid (opt_or n (jint 100)))])) \<and>
   (\<exists>x. getOrderStatus be send parse_xml uid
          = (Inr x, [Sent (getOrderStatusXml (be_creditCards be) (Number_of_string uid))])) \<and>
   (\<exists>x. getOrderStatusHistory be send uid
          = (Inr x, [Sent (cc_getOrderStatusHistory (be_creditCards be) (Number_of_string uid))])) \<and>
   (\<exists>x. getFeatureFlags be send = (Inr x, [Sent (pp_getAll (be_problemPatterns be))])) \<and>
   (\<forall>e. fst (getUser be send uid) = Inl e \<longrightarrow> e = ErrorMsg (''User with id ['' @ uid @ ''] not found'')) \<and>
   (\<forall>e. fst (getBalance be send uid) = Inl e \<longrightarrow>
      e = ErrorMsg (''Balance with account id ['' @ uid @ ''] not found''))"
  unfolding getPresetUsers_def getInstruments_def getLatestPrices_def getPricesForInstrument_def
    getTransactions_def getOrderStatus_def getOrderStatusHistory_def getFeatureFlags_def
    getUser_def getBalance_def Let_def
  by (intro conjI caught_total allI impI; erule caught_rethrow)

lemma reads_never_reject_witness:
  "\<exists>x. getFeatureFlags (mk_backends ''http://x'') (\<lambda>rq. Inl (ThrownStr ''down''))
     = (Inr x, [Sent (pp_getAll (be_problemPatterns (mk_backends ''http://x'')))])"
  using reads_never_reject [of "mk_backends ''http://x''" "\<lambda>rq. Inl (ThrownStr ''down'')"]
  by blast

text \<open>Labels. A transaction is shown as a purchase exactly when its direction, in lower case, contains
  \<open>buy\<close> somewhere after its first letter, and as finished (or failed) exactly when its status contains
  the word after its first letter. So \<open>longbuy\<close> is a purchase, a plain \<open>buy\<close> is shown as a sale.\<close>

lemma labels_exact:
  "(mapDirection s = ''BUY'' \<longleftrightarrow>
      str_includes (toLowerCase s) ''buy'' \<and> \<not> starts_with (toLowerCase s) ''buy'') \<and>
   (mapStatus s = ''SUCCESS'' \<longleftrightarrow>
      str_includes (toLowerCase s) ''finished'' \<and> \<not> starts_with (toLowerCase s) ''finished'') \<and>
   (mapStatus s = ''FAIL'' \<longleftrightarrow> mapStatus s \<noteq> ''SUCCESS'' \<and>
      str_includes (toLowerCase s) ''failed'' \<and> \<not> starts_with (toLowerCase s) ''failed'') \<and>
   mapDirection ''longbuy'' = ''BUY'' \<and> mapDirection ''longsell'' = ''SELL'' \<and> mapDirection ''buy'' = ''SELL''"
proof -
  have ex: "mapDirection ''longbuy'' = ''BUY''" "mapDirection ''longsell'' = ''SELL''"
      "mapDirection ''buy'' = ''SELL''"
    by code_simp+
  show ?thesis unfolding ex
    by (auto simp: mapDirection_def mapStatus_def indexOf_pos_iff)
qed

text \<open>The version page has one entry per service, in the order of the table, which is a success
  carrying the service's data exactly when its request succeeded.\<close>

lemma getAllVersions_entries:
  "getAllVersions be send =
     (Inr (map (\<lambda>sv. case send (ve_getVersion (be_versions be) (snd sv)) of
                  Inr r \<Rightarrow> VersionSuccess (fst sv) (rs_data r)
                | Inl e \<Rightarrow> VersionError (fst sv) (fst sv @ '' didn'' @ [CHR 0x27] @ ''t respond'')) services),
      map (\<lambda>sv. Sent (ve_getVersion (be_versions be) (snd sv))) services)"
proof -
  have one: "getServiceVersion be send sv =
      (Inr (case send (ve_getVersion (be_versions be) (snd sv)) of
                  Inr r \<Rightarrow> VersionSuccess (fst sv) (rs_data r)
                | Inl e \<Rightarrow> VersionError (fst sv) (fst sv @ '' didn'' @ [CHR 0x27] @ ''t respond'')),
       [Sent (ve_getVersion (be_versions be) (snd sv))])" for sv
    by (cases "send (ve_getVersion (be_versions be) (snd sv))")
      (simp_all add: getServiceVersion_def cbind_csend creturn_def ccatch_def)
  have "promise_all (map (getServiceVersion be send) xs) =
      (Inr (map (\<lambda>sv. case send (ve_getVersion (be_versions be) (snd sv)) of
                  Inr r \<Rightarrow> VersionSuccess (fst sv) (rs_data r)
                | Inl e \<Rightarrow> VersionError (fst sv) (fst sv @ '' didn'' @ [CHR 0x27] @ ''t respond'')) xs),
       map (\<lambda>sv. Sent (ve_getVersion (be_versions be) (snd sv))) xs)" for xs
    by (induction xs) (simp_all add: one creturn_def)
  then show ?thesis unfolding getAllVersions_def by blast
qed

text \<open>The flag management page is governed by the flag the service returns, and is enabled
  when the flag is missing, has no value, or the service cannot be reached.\<close>

lemma fe_getConfig_default:
  "(send (cf_getAll (be_config be)) = Inl e \<longrightarrow> fst (fe_getConfig be send) = Inr (Bool True)) \<and>
   (\<forall>r fs. send (cf_getAll (be_config be)) = Inr r \<and>
       map_results (rs_data r) (\<lambda>i v. config_flag v) = Inr fs \<longrightarrow>
     fst (fe_getConfig be send) =
       Inr (case find (\<lambda>f. cfl_id f = Str ''frontend_feature_flag_management'') fs of
              None \<Rightarrow> Bool True | Some f \<Rightarrow> nullish (cfl_enabled f) (Bool True)))"
proof -
  have eq: "strict_eq v (Str x) \<longleftrightarrow> v = Str x" for v x by (cases v) auto
  show ?thesis
    by (auto simp: fe_getConfig_def getRawConfigFlags_def cbind_csend lift_result_def creturn_def
        fe_getFlag_def FEATURE_FLAG_MANAGEMENT_def default_featureFlagManagement_def eq)
qed

lemma fe_getConfig_default_witness:
  "fst (fe_getConfig (mk_backends []) (\<lambda>rq. Inl (ThrownStr ''down''))) = Inr (Bool True)"
  using fe_getConfig_default [of "\<lambda>rq. Inl (ThrownStr ''down'')" "mk_backends []" "ThrownStr ''down''"]
  by simp



end
