(* ===== verification/Fe_Query.thy ===== *)
theory Fe_Query
  imports Fe_Read
begin

text \<open>
  The query context of the frontend (\<open>src/frontend/src/contexts/QueryContext\<close>): the keys under which
  responses are cached, the queries, the loaders of the routes, and the functions that invalidate or
  remove cached responses. The cache is TanStack's \<open>QueryClient\<close>: the record \<open>query_client\<close> holds the
  methods the code calls, and \<open>documented_client\<close> states what their documentation says.
\<close>

section \<open>Keys and queries\<close>

type_synonym query_key = "string list"

datatype query_data =
    QUser fe_user
  | QBalance Balance
  | QPresetUsers "jsval list"
  | QTransactions "fe_transaction list"
  | QInstruments jsval
  | QPrices "jsval list"
  | QOrderStatus OrderStatusResponse
  | QOrderHistory OrderStatusHistoryResponse
  | QFlags "fe_flag list"
  | QConfig jsval
  | QVersions "ServiceVersion list"

text \<open>A query function is called without arguments when the client decides to fetch.\<close>

type_synonym query_fn = "unit \<Rightarrow> query_data call"

record QueryParams =
  queryKey :: query_key
  queryFn :: query_fn

definition transform :: "('p \<Rightarrow> query_data call) \<Rightarrow> 'p \<Rightarrow> query_fn" where
  "transform fn params = (\<lambda>_. fn params)"

definition userKeys_all :: query_key where "userKeys_all = [''users'']"
definition userKeys_preset :: query_key where "userKeys_preset = [''users'', ''preset'']"
definition userKeys_current :: query_key where "userKeys_current = [''users'', ''current'']"
definition balanceKeys_current :: query_key where "balanceKeys_current = [''balance'']"
definition transactionKeys_all :: query_key where "transactionKeys_all = [''transactions'']"
definition instrumentKeys_all :: query_key where "instrumentKeys_all = [''instruments'']"
definition creditCardKeys_all :: query_key where "creditCardKeys_all = [''credit-card'']"
definition creditCardKeys_status :: query_key where "creditCardKeys_status = [''credit-card'', ''status'']"
definition creditCardKeys_history :: query_key where
  "creditCardKeys_history = [''credit-card'', ''status'', ''history'']"
definition priceKeys_all :: query_key where "priceKeys_all = [''prices'']"
definition priceKeys_latest :: query_key where "priceKeys_latest = [''prices'', ''latest'']"
definition priceKeys_byInstrument :: "string \<Rightarrow> query_key" where
  "priceKeys_byInstrument instrumentId = [''prices'', instrumentId]"
definition featureFlagKeys_all :: query_key where "featureFlagKeys_all = [''feature-flags'']"
definition featureFlagKeys_problemPatterns :: query_key where
  "featureFlagKeys_problemPatterns = [''feature-flags'', ''problem-patterns'']"
definition featureFlagKeys_config :: query_key where
  "featureFlagKeys_config = [''feature-flags'', ''config'']"
definition versionKeys_all :: query_key where "versionKeys_all = [''versions'']"

lemmas key_defs = userKeys_all_def userKeys_preset_def userKeys_current_def balanceKeys_current_def
  transactionKeys_all_def instrumentKeys_all_def creditCardKeys_all_def creditCardKeys_status_def
  creditCardKeys_history_def priceKeys_all_def priceKeys_latest_def priceKeys_byInstrument_def
  featureFlagKeys_all_def featureFlagKeys_problemPatterns_def featureFlagKeys_config_def versionKeys_all_def

definition userQuery :: "query_fn \<Rightarrow> QueryParams" where
  "userQuery fn = \<lparr>queryKey = userKeys_current, queryFn = fn\<rparr>"
definition balanceQuery :: "query_fn \<Rightarrow> QueryParams" where
  "balanceQuery fn = \<lparr>queryKey = balanceKeys_current, queryFn = fn\<rparr>"
definition presetUsersQuery :: "query_fn \<Rightarrow> QueryParams" where
  "presetUsersQuery fn = \<lparr>queryKey = userKeys_preset, queryFn = fn\<rparr>"
definition transactionQuery :: "jsval \<Rightarrow> query_fn \<Rightarrow> QueryParams" where
  "transactionQuery userId fn = \<lparr>queryKey = transactionKeys_all, queryFn = fn\<rparr>"
definition instrumentsQuery :: "query_fn \<Rightarrow> QueryParams" where
  "instrumentsQuery fn = \<lparr>queryKey = instrumentKeys_all, queryFn = fn\<rparr>"
definition creditCardStatusQuery :: "query_fn \<Rightarrow> QueryParams" where
  "creditCardStatusQuery fn = \<lparr>queryKey = creditCardKeys_status, queryFn = fn\<rparr>"
definition creditCardStatusHistoryQuery :: "query_fn \<Rightarrow> QueryParams" where
  "creditCardStatusHistoryQuery fn = \<lparr>queryKey = creditCardKeys_history, queryFn = fn\<rparr>"
definition latestPricesQuery :: "query_fn \<Rightarrow> QueryParams" where
  "latestPricesQuery fn = \<lparr>queryKey = priceKeys_latest, queryFn = fn\<rparr>"
definition instrumentPricesQuery :: "string \<Rightarrow> query_fn \<Rightarrow> QueryParams" where
  "instrumentPricesQuery instrumentId fn = \<lparr>queryKey = priceKeys_byInstrument instrumentId, queryFn = fn\<rparr>"
definition problemFlagsQuery :: "query_fn \<Rightarrow> QueryParams" where
  "problemFlagsQuery fn = \<lparr>queryKey = featureFlagKeys_problemPatterns, queryFn = fn\<rparr>"
definition configFlagsQuery :: "query_fn \<Rightarrow> QueryParams" where
  "configFlagsQuery fn = \<lparr>queryKey = featureFlagKeys_config, queryFn = fn\<rparr>"
definition versionsQuery :: "query_fn \<Rightarrow> QueryParams" where
  "versionsQuery fn = \<lparr>queryKey = versionKeys_all, queryFn = fn\<rparr>"

lemmas query_defs = userQuery_def balanceQuery_def presetUsersQuery_def transactionQuery_def
  instrumentsQuery_def creditCardStatusQuery_def creditCardStatusHistoryQuery_def latestPricesQuery_def
  instrumentPricesQuery_def problemFlagsQuery_def configFlagsQuery_def versionsQuery_def transform_def

section \<open>The client\<close>

record 'c query_client =
  getQueryData :: "'c \<Rightarrow> query_key \<Rightarrow> query_data option"
  isInvalidated :: "'c \<Rightarrow> query_key \<Rightarrow> bool"
  ensureQueryData :: "QueryParams \<Rightarrow> 'c \<Rightarrow> query_data call \<times> 'c"
  removeQueries :: "query_key \<Rightarrow> 'c \<Rightarrow> 'c"
  invalidateQueries :: "query_key \<Rightarrow> bool \<Rightarrow> 'c \<Rightarrow> 'c"

text \<open>A key given to \<open>removeQueries\<close> or \<open>invalidateQueries\<close> matches the keys it is a prefix of, or only
  itself with \<open>exact\<close>. \<open>ensureQueryData\<close> answers from the cache and else runs the query function and
  stores what it resolves to. Invalidating marks the cached entries; the refetch of an entry that is on
  screen is a later event.\<close>

definition matches :: "query_key \<Rightarrow> bool \<Rightarrow> query_key \<Rightarrow> bool" where
  "matches p exact k \<longleftrightarrow> (if exact then k = p else take (length p) k = p)"

definition stored :: "query_data call \<Rightarrow> query_data option" where
  "stored call = (case fst call of Inl e \<Rightarrow> None | Inr d \<Rightarrow> Some d)"

definition documented_client :: "'c query_client \<Rightarrow> bool" where
  "documented_client qc \<longleftrightarrow>
     (\<forall>c q d. getQueryData qc c (queryKey q) = Some d \<longrightarrow> ensureQueryData qc q c = (creturn d, c)) \<and>
     (\<forall>c q. getQueryData qc c (queryKey q) = None \<longrightarrow> fst (ensureQueryData qc q c) = queryFn q ()) \<and>
     (\<forall>c q k. getQueryData qc c (queryKey q) = None \<longrightarrow>
        getQueryData qc (snd (ensureQueryData qc q c)) k
          = (if k = queryKey q then stored (queryFn q ()) else getQueryData qc c k)) \<and>
     (\<forall>c p k. getQueryData qc (removeQueries qc p c) k = (if matches p False k then None else getQueryData qc c k)) \<and>
     (\<forall>c p k. isInvalidated qc (removeQueries qc p c) k = (\<not> matches p False k \<and> isInvalidated qc c k)) \<and>
     (\<forall>c p ex k. getQueryData qc (invalidateQueries qc p ex c) k = getQueryData qc c k) \<and>
     (\<forall>c p ex k. isInvalidated qc (invalidateQueries qc p ex c) k
        = (isInvalidated qc c k \<or> (getQueryData qc c k \<noteq> None \<and> matches p ex k)))"

section \<open>Loaders\<close>

definition userLoader :: "'c query_client \<Rightarrow> (jsval \<Rightarrow> query_data call) \<Rightarrow> jsval \<Rightarrow> 'c \<Rightarrow> query_data call \<times> 'c" where
  "userLoader client userProvider =
     (let fn = transform userProvider in (\<lambda>userId. ensureQueryData client (userQuery (fn userId))))"

definition balanceLoader :: "'c query_client \<Rightarrow> (jsval \<Rightarrow> query_data call) \<Rightarrow> jsval \<Rightarrow> 'c \<Rightarrow> query_data call \<times> 'c" where
  "balanceLoader client balanceProvider =
     (let fn = transform balanceProvider in (\<lambda>userId. ensureQueryData client (balanceQuery (fn userId))))"

definition presetUsersLoader :: "'c query_client \<Rightarrow> query_fn \<Rightarrow> 'c \<Rightarrow> query_data call \<times> 'c" where
  "presetUsersLoader client usersProvider = ensureQueryData client (presetUsersQuery usersProvider)"

definition transactionsLoader :: "'c query_client \<Rightarrow> (jsval \<Rightarrow> query_data call) \<Rightarrow> jsval \<Rightarrow> 'c \<Rightarrow> query_data call \<times> 'c" where
  "transactionsLoader client transactionsProvider =
     (let fn = transform transactionsProvider
      in (\<lambda>userId. ensureQueryData client (transactionQuery userId (fn userId))))"

definition instrumentsLoader :: "'c query_client \<Rightarrow> (jsval \<Rightarrow> query_data call) \<Rightarrow> jsval \<Rightarrow> 'c \<Rightarrow> query_data call \<times> 'c" where
  "instrumentsLoader client instrumentsProvider =
     (let fn = transform instrumentsProvider in (\<lambda>userId. ensureQueryData client (instrumentsQuery (fn userId))))"

definition creditCardStatusLoader :: "'c query_client \<Rightarrow> (jsval \<Rightarrow> query_data call) \<Rightarrow> jsval \<Rightarrow> 'c \<Rightarrow> query_data call \<times> 'c" where
  "creditCardStatusLoader client creditCardStatusProvider =
     (let fn = transform creditCardStatusProvider
      in (\<lambda>userId. ensureQueryData client (creditCardStatusQuery (fn userId))))"

definition creditCardStatusHistoryLoader ::
  "'c query_client \<Rightarrow> (jsval \<Rightarrow> query_data call) \<Rightarrow> jsval \<Rightarrow> 'c \<Rightarrow> query_data call \<times> 'c" where
  "creditCardStatusHistoryLoader client creditCardStatusHistoryProvider =
     (let fn = transform creditCardStatusHistoryProvider
      in (\<lambda>userId. ensureQueryData client (creditCardStatusHistoryQuery (fn userId))))"

definition latestPricesLoader :: "'c query_client \<Rightarrow> query_fn \<Rightarrow> 'c \<Rightarrow> query_data call \<times> 'c" where
  "latestPricesLoader client pricesProvider = ensureQueryData client (latestPricesQuery pricesProvider)"

definition instrumentPricesLoader :: "'c query_client \<Rightarrow> (string \<Rightarrow> query_data call) \<Rightarrow> string \<Rightarrow> 'c \<Rightarrow> query_data call \<times> 'c" where
  "instrumentPricesLoader client pricesProvider =
     (let fn = transform pricesProvider
      in (\<lambda>instrumentId. ensureQueryData client (instrumentPricesQuery instrumentId (fn instrumentId))))"

definition featureFlagsLoader :: "'c query_client \<Rightarrow> query_fn \<Rightarrow> 'c \<Rightarrow> query_data call \<times> 'c" where
  "featureFlagsLoader client provider = ensureQueryData client (problemFlagsQuery provider)"

definition versionsLoader :: "'c query_client \<Rightarrow> query_fn \<Rightarrow> 'c \<Rightarrow> query_data call \<times> 'c" where
  "versionsLoader client provider = ensureQueryData client (versionsQuery provider)"

lemmas loader_defs = userLoader_def balanceLoader_def presetUsersLoader_def transactionsLoader_def
  instrumentsLoader_def creditCardStatusLoader_def creditCardStatusHistoryLoader_def latestPricesLoader_def
  instrumentPricesLoader_def featureFlagsLoader_def versionsLoader_def

text \<open>The stored user. \<open>getItem\<close> is what the session storage holds under \<open>user-id\<close>, \<open>JSON.parse\<close> an
  argument; what it returns is handed on unchecked.\<close>

definition sessionUserProvider ::
  "(string \<Rightarrow> (js_error, jsval) result) \<Rightarrow> string option \<Rightarrow> (js_error, jsval) result" where
  "sessionUserProvider json_parse stored_id =
     (case stored_id of Some userId \<Rightarrow> json_parse userId | None \<Rightarrow> Inr Null)"

datatype loaded = Redirect string | Loaded query_data

definition loadWithUser ::
  "(unit \<Rightarrow> (js_error, jsval) result) \<Rightarrow> (jsval \<Rightarrow> 'c \<Rightarrow> query_data call \<times> 'c) \<Rightarrow> 'c \<Rightarrow> loaded call \<times> 'c" where
  "loadWithUser userIdProvider loader c =
     (case userIdProvider () of
        Inl e \<Rightarrow> ((Inl e, []), c)
      | Inr userId \<Rightarrow>
          if userId = Null \<or> userId = Str [] then (creturn (Redirect ''/login''), c)
          else (case loader userId c of (call, c') \<Rightarrow> (cbind call (\<lambda>d. creturn (Loaded d)), c')))"

section \<open>Invalidation\<close>

definition transactionInvalidateQuery :: "'c query_client \<Rightarrow> 'c \<Rightarrow> 'c" where
  "transactionInvalidateQuery client c = invalidateQueries client transactionKeys_all False c"

definition logoutInvalidateQuery :: "'c query_client \<Rightarrow> 'c \<Rightarrow> 'c" where
  "logoutInvalidateQuery client c =
     (let c1 = removeQueries client transactionKeys_all c;
          c2 = removeQueries client instrumentKeys_all c1;
          c3 = removeQueries client userKeys_current c2;
          c4 = removeQueries client balanceKeys_current c3
      in removeQueries client creditCardKeys_all c4)"

definition quickTransactionInvalidateQuery :: "'c query_client \<Rightarrow> string \<Rightarrow> 'c \<Rightarrow> 'c" where
  "quickTransactionInvalidateQuery client instrumentId c =
     (let c1 = invalidateQueries client balanceKeys_current False c
      in invalidateQueries client instrumentKeys_all False c1)"

definition balanceInvalidateQuery :: "'c query_client \<Rightarrow> 'c \<Rightarrow> 'c" where
  "balanceInvalidateQuery client c = invalidateQueries client balanceKeys_current False c"

definition newCardOrderInvalidateQuery :: "'c query_client \<Rightarrow> 'c \<Rightarrow> 'c" where
  "newCardOrderInvalidateQuery client c = invalidateQueries client creditCardKeys_status False c"

definition deleteCardInvalidateQuery :: "'c query_client \<Rightarrow> 'c \<Rightarrow> 'c" where
  "deleteCardInvalidateQuery client c = invalidateQueries client creditCardKeys_status False c"

lemmas invalidation_defs = transactionInvalidateQuery_def logoutInvalidateQuery_def
  quickTransactionInvalidateQuery_def balanceInvalidateQuery_def newCardOrderInvalidateQuery_def
  deleteCardInvalidateQuery_def

section \<open>What a loader promises\<close>

text \<open>Every loader is a query under a key that does not mention the provider: a cached response is
  returned as it is, whoever asks, and else the provider is asked once.\<close>

locale cached_loader =
  fixes load :: "'c query_client \<Rightarrow> ('p \<Rightarrow> query_data call) \<Rightarrow> 'p \<Rightarrow> 'c \<Rightarrow> query_data call \<times> 'c"
    and key :: "'p \<Rightarrow> query_key"
  assumes load_query: "load qc provider p c = ensureQueryData qc \<lparr>queryKey = key p, queryFn = \<lambda>_. provider p\<rparr> c"
begin

lemma load_hit:
  "documented_client qc \<Longrightarrow> getQueryData qc c (key p) = Some d \<Longrightarrow> load qc provider p c = (creturn d, c)"
  by (simp add: load_query documented_client_def)

lemma load_miss:
  "documented_client qc \<Longrightarrow> getQueryData qc c (key p) = None \<Longrightarrow> fst (load qc provider p c) = provider p"
  by (simp add: load_query documented_client_def)

lemma load_stores:
  "documented_client qc \<Longrightarrow> getQueryData qc c (key p) = None \<Longrightarrow>
     getQueryData qc (snd (load qc provider p c)) k
       = (if k = key p then stored (provider p) else getQueryData qc c k)"
  by (simp add: load_query documented_client_def)

lemma load_again:
  assumes "documented_client qc" "fst (fst (load qc provider p c)) = Inr d"
  shows "fst (load qc provider p (snd (load qc provider p c))) = creturn d"
proof (cases "getQueryData qc c (key p)")
  case None
  then have "getQueryData qc (snd (load qc provider p c)) (key p) = Some d"
    using load_miss [OF assms(1) None, of provider] load_stores [OF assms(1) None, of provider "key p"] assms(2)
    by (simp add: stored_def)
  then show ?thesis by (simp add: load_hit [OF assms(1)])
next
  case (Some d')
  with assms(2) show ?thesis by (simp add: load_hit [OF assms(1)])
qed

end

interpretation user_loader: cached_loader userLoader "\<lambda>_. userKeys_current"
  by unfold_locales (simp add: loader_defs query_defs)
interpretation balance_loader: cached_loader balanceLoader "\<lambda>_. balanceKeys_current"
  by unfold_locales (simp add: loader_defs query_defs)
interpretation transactions_loader: cached_loader transactionsLoader "\<lambda>_. transactionKeys_all"
  by unfold_locales (simp add: loader_defs query_defs)
interpretation instruments_loader: cached_loader instrumentsLoader "\<lambda>_. instrumentKeys_all"
  by unfold_locales (simp add: loader_defs query_defs)
interpretation status_loader: cached_loader creditCardStatusLoader "\<lambda>_. creditCardKeys_status"
  by unfold_locales (simp add: loader_defs query_defs)
interpretation history_loader: cached_loader creditCardStatusHistoryLoader "\<lambda>_. creditCardKeys_history"
  by unfold_locales (simp add: loader_defs query_defs)
interpretation prices_loader: cached_loader instrumentPricesLoader priceKeys_byInstrument
  by unfold_locales (simp add: loader_defs query_defs)
interpretation latest_loader: cached_loader "\<lambda>qc provider (u::unit). latestPricesLoader qc provider" "\<lambda>_. priceKeys_latest"
  by unfold_locales (simp add: loader_defs query_defs)
interpretation presets_loader: cached_loader "\<lambda>qc provider (u::unit). presetUsersLoader qc provider" "\<lambda>_. userKeys_preset"
  by unfold_locales (simp add: loader_defs query_defs)
interpretation flags_loader: cached_loader "\<lambda>qc provider (u::unit). featureFlagsLoader qc provider"
  "\<lambda>_. featureFlagKeys_problemPatterns"
  by unfold_locales (simp add: loader_defs query_defs)
interpretation versions_loader: cached_loader "\<lambda>qc provider (u::unit). versionsLoader qc provider" "\<lambda>_. versionKeys_all"
  by unfold_locales (simp add: loader_defs query_defs)

section \<open>Lemmas\<close>

lemma getQueryData_remove:
  "documented_client qc \<Longrightarrow>
     getQueryData qc (removeQueries qc p c) k = (if matches p False k then None else getQueryData qc c k)"
  by (simp add: documented_client_def)

lemma getQueryData_invalidate:
  "documented_client qc \<Longrightarrow> getQueryData qc (invalidateQueries qc p ex c) k = getQueryData qc c k"
  by (simp add: documented_client_def)

lemma isInvalidated_invalidate:
  "documented_client qc \<Longrightarrow> isInvalidated qc (invalidateQueries qc p ex c) k
     = (isInvalidated qc c k \<or> (getQueryData qc c k \<noteq> None \<and> matches p ex k))"
  by (simp add: documented_client_def)

text \<open>The responses that belong to a user, and those that do not.\<close>

definition user_bound :: "query_key \<Rightarrow> bool" where
  "user_bound k \<longleftrightarrow> k \<in> set [userKeys_current, balanceKeys_current, transactionKeys_all, instrumentKeys_all,
     creditCardKeys_status, creditCardKeys_history]"

definition user_independent :: "query_key \<Rightarrow> bool" where
  "user_independent k \<longleftrightarrow> k \<in> set [userKeys_preset, priceKeys_latest, featureFlagKeys_problemPatterns,
     featureFlagKeys_config, versionKeys_all] \<or> (\<exists>i. k = priceKeys_byInstrument i)"

lemma logout_data:
  assumes "documented_client qc"
  shows "user_bound k \<Longrightarrow> getQueryData qc (logoutInvalidateQuery qc c) k = None"
    and "user_independent k \<Longrightarrow> getQueryData qc (logoutInvalidateQuery qc c) k = getQueryData qc c k"
  by (auto simp: logoutInvalidateQuery_def Let_def getQueryData_remove [OF assms] user_bound_def
      user_independent_def matches_def key_defs)

text \<open>A client that behaves as documented: a function from keys to an entry and its mark.\<close>

definition map_client :: "(query_key \<Rightarrow> (query_data \<times> bool) option) query_client" where
  "map_client =
     \<lparr>getQueryData = \<lambda>c k. map_option fst (c k),
      isInvalidated = \<lambda>c k. (case c k of None \<Rightarrow> False | Some e \<Rightarrow> snd e),
      ensureQueryData = \<lambda>q c. (case c (queryKey q) of
          Some e \<Rightarrow> (creturn (fst e), c)
        | None \<Rightarrow> (queryFn q (), c(queryKey q := map_option (\<lambda>d. (d, False)) (stored (queryFn q ()))))),
      removeQueries = \<lambda>p c k. (if matches p False k then None else c k),
      invalidateQueries = \<lambda>p ex c k. (if matches p ex k then map_option (\<lambda>e. (fst e, True)) (c k) else c k)\<rparr>"

lemma documented_map_client: "documented_client map_client"
  unfolding documented_client_def map_client_def
  by (auto simp: stored_def option.map_comp comp_def split: option.splits sum.splits)

section \<open>Properties\<close>

text \<open>C24 (logout forgets). After a logout has cleared the cache, whatever a next user's pages load about the
  user, the balance, the transactions, the instruments and the credit card comes from a request for that
  next user; the cached preset users, prices, flags and versions are kept.\<close>

theorem logout_forgets_user:
  assumes "documented_client qc"
  shows "let c' = logoutInvalidateQuery qc c in
    fst (userLoader qc provider u c') = provider u \<and>
    fst (balanceLoader qc provider u c') = provider u \<and>
    fst (transactionsLoader qc provider u c') = provider u \<and>
    fst (instrumentsLoader qc provider u c') = provider u \<and>
    fst (creditCardStatusLoader qc provider u c') = provider u \<and>
    fst (creditCardStatusHistoryLoader qc provider u c') = provider u \<and>
    (\<forall>k. user_independent k \<longrightarrow> getQueryData qc c' k = getQueryData qc c k)"
proof -
  note gone = logout_data(1) [OF assms, of _ c]
  show ?thesis
    unfolding Let_def
    by (intro conjI allI impI user_loader.load_miss balance_loader.load_miss transactions_loader.load_miss
        instruments_loader.load_miss status_loader.load_miss history_loader.load_miss assms gone
        logout_data(2) [OF assms]) (simp_all add: user_bound_def)
qed

lemma logout_forgets_user_witness:
  "fst (userLoader map_client (\<lambda>u. creturn (QConfig u)) (Str ''2'')
     (logoutInvalidateQuery map_client (\<lambda>k. Some (QConfig Null, False)))) = creturn (QConfig (Str ''2''))"
  using logout_forgets_user [OF documented_map_client, of "\<lambda>k. Some (QConfig Null, False)"
      "\<lambda>u. creturn (QConfig u)" "Str ''2''"]
  by (simp add: Let_def)

text \<open>Invalidation. What a change of the account outdates: a quick trade the balance and the instruments,
  but not the list of transactions; a scheduled trade the transactions; a payment the balance; ordering or
  revoking a card the order's status together with its history, which lies under the same key. No cached
  response is lost, nothing else is outdated.\<close>

lemma invalidation_scopes:
  assumes "documented_client qc" "getQueryData qc c k = Some d" "\<not> isInvalidated qc c k"
  shows "(isInvalidated qc (quickTransactionInvalidateQuery qc i c) k
            \<longleftrightarrow> take 1 k = balanceKeys_current \<or> take 1 k = instrumentKeys_all) \<and>
    (isInvalidated qc (transactionInvalidateQuery qc c) k \<longleftrightarrow> take 1 k = transactionKeys_all) \<and>
    (isInvalidated qc (balanceInvalidateQuery qc c) k \<longleftrightarrow> take 1 k = balanceKeys_current) \<and>
    (isInvalidated qc (newCardOrderInvalidateQuery qc c) k \<longleftrightarrow> take 2 k = creditCardKeys_status) \<and>
    (isInvalidated qc (deleteCardInvalidateQuery qc c) k \<longleftrightarrow> take 2 k = creditCardKeys_status) \<and>
    (\<forall>f \<in> {quickTransactionInvalidateQuery qc i, transactionInvalidateQuery qc, balanceInvalidateQuery qc,
            newCardOrderInvalidateQuery qc, deleteCardInvalidateQuery qc}. getQueryData qc (f c) k = Some d)"
  using assms(2,3)
  by (simp add: invalidation_defs Let_def getQueryData_invalidate [OF assms(1)]
      isInvalidated_invalidate [OF assms(1)] matches_def key_defs numeral_2_eq_2)

lemma invalidation_scopes_witness:
  "let c = (\<lambda>k. Some (QConfig Null, False)) in
     isInvalidated map_client (deleteCardInvalidateQuery map_client c) creditCardKeys_history \<and>
     \<not> isInvalidated map_client (quickTransactionInvalidateQuery map_client ''1'' c) transactionKeys_all"
  using invalidation_scopes [OF documented_map_client, of "\<lambda>k. Some (QConfig Null, False)"
      creditCardKeys_history "QConfig Null" "''1''"]
    invalidation_scopes [OF documented_map_client, of "\<lambda>k. Some (QConfig Null, False)"
      transactionKeys_all "QConfig Null" "''1''"]
  by (simp add: map_client_def key_defs)

text \<open>Guarded loaders. Without a stored user, or with an empty one, a guarded loader redirects to the
  login page and neither asks the client nor sends anything. With one it gives what the cache holds or
  else what its one request gives, and once it has succeeded, loading again sends nothing.\<close>

lemma loadWithUser_guard:
  assumes "documented_client qc" "sessionUserProvider json_parse item = Inr u"
  shows "let load = loadWithUser (\<lambda>_. sessionUserProvider json_parse item) (userLoader qc provider)
    in (u = Null \<or> u = Str [] \<longrightarrow> load c = ((Inr (Redirect ''/login''), []), c)) \<and>
       (u \<noteq> Null \<and> u \<noteq> Str [] \<longrightarrow>
          fst (load c) = (case getQueryData qc c userKeys_current of
              Some d \<Rightarrow> (Inr (Loaded d), [])
            | None \<Rightarrow> (rmap Loaded (fst (provider u)), snd (provider u))) \<and>
          (\<forall>l. fst (fst (load c)) = Inr l \<longrightarrow> fst (load (snd (load c))) = (Inr l, [])))"
proof -
  let ?load = "userLoader qc provider u"
  let ?full = "loadWithUser (\<lambda>_. sessionUserProvider json_parse item) (userLoader qc provider)"
  have full: "?full c' = (cbind (fst (?load c')) (\<lambda>d. creturn (Loaded d)), snd (?load c'))"
    if "u \<noteq> Null \<and> u \<noteq> Str []" for c'
    using that assms(2) by (simp add: loadWithUser_def split_beta)
  have first: "fst (?full c) = (case getQueryData qc c userKeys_current of
              Some d \<Rightarrow> (Inr (Loaded d), [])
            | None \<Rightarrow> (rmap Loaded (fst (provider u)), snd (provider u)))" if u: "u \<noteq> Null \<and> u \<noteq> Str []"
  proof (cases "getQueryData qc c userKeys_current")
    case None
    then show ?thesis
      using full [OF u] user_loader.load_miss [OF assms(1) None, of provider u]
      by (cases "provider u"; cases "fst (provider u)") simp_all
  next
    case (Some d)
    then show ?thesis
      using full [OF u] by (simp add: user_loader.load_hit [OF assms(1)] creturn_def)
  qed
  have again: "fst (?full (snd (?full c))) = (Inr l, [])"
    if u: "u \<noteq> Null \<and> u \<noteq> Str []" and l: "fst (fst (?full c)) = Inr l" for l
  proof -
    obtain d where d: "fst (fst (?load c)) = Inr d" "l = Loaded d"
      using l unfolding full [OF u] by (cases "fst (?load c)"; cases "fst (fst (?load c))") auto
    from user_loader.load_again [OF assms(1) d(1)] d(2) show ?thesis
      unfolding full [OF u] by (simp add: creturn_def)
  qed
  show ?thesis
    using first again assms(2) by (auto simp: Let_def loadWithUser_def creturn_def)
qed

lemma loadWithUser_guard_witness:
  "loadWithUser (\<lambda>_. sessionUserProvider (\<lambda>s. Inr (Str s)) None) (userLoader map_client (\<lambda>u. creturn (QConfig u)))
     (\<lambda>k. None) = ((Inr (Redirect ''/login''), []), \<lambda>k. None)"
  using loadWithUser_guard [OF documented_map_client, of "\<lambda>s. Inr (Str s)" None Null
      "\<lambda>u. creturn (QConfig u)" "\<lambda>k. None"]
  by (simp add: sessionUserProvider_def Let_def)

end
