(* ===== verification/Fe_Auth.thy ===== *)
theory Fe_Auth
  imports Fe_Query
begin

text \<open>
  The session of the frontend: \<open>contexts/AuthContext\<close>, \<open>contexts/UserContext\<close> and the logout of
  \<open>components/AppHeader/UserPanel\<close>. The id of the user is a \<open>jsval\<close>, because it is what the login
  response holds: a number or a string. \<open>Null\<close> is no user.
\<close>

section \<open>AuthProvider\<close>

record auth =
  au_userId :: jsval

definition initial_auth :: "string option \<Rightarrow> auth" where
  "initial_auth initialId = \<lparr>au_userId = (case initialId of None \<Rightarrow> Null | Some i \<Rightarrow> Str i)\<rparr>"

definition isLoggedIn :: "auth \<Rightarrow> bool" where
  "isLoggedIn s \<longleftrightarrow> au_userId s \<noteq> Null"

definition setUserId :: "jsval \<Rightarrow> auth \<Rightarrow> auth" where
  "setUserId v s = s\<lparr>au_userId := v\<rparr>"

text \<open>\<open>const { a, b } = response\<close>\<close>

definition pick2 :: "string \<Rightarrow> string \<Rightarrow> jsval \<Rightarrow> (jsval \<times> jsval) call" where
  "pick2 a b response =
     lift_result (rbind (get_prop response a) (\<lambda>x. rbind (get_prop response b) (\<lambda>y. Inr (x, y))))"

definition auth_login ::
  "(string \<Rightarrow> string \<Rightarrow> jsval call) \<Rightarrow> string \<Rightarrow> string \<Rightarrow> auth \<Rightarrow> (jsval \<times> jsval) call \<times> auth" where
  "auth_login loginHandler login password s =
     (let call = cbind (loginHandler login password) (pick2 ''id'' ''error'')
      in (call, case fst call of
                  Inl e \<Rightarrow> s
                | Inr (i, error) \<Rightarrow> if i \<noteq> Undefined then setUserId i s else s))"

definition auth_logout ::
  "(jsval \<Rightarrow> jsval call) \<Rightarrow> jsval \<Rightarrow> auth \<Rightarrow> (jsval \<times> jsval) call \<times> auth" where
  "auth_logout logoutHandler userId s =
     (let call = cbind (logoutHandler userId) (pick2 ''message'' ''error'')
      in (call, case fst call of
                  Inl e \<Rightarrow> s
                | Inr (message, error) \<Rightarrow> if message \<noteq> Undefined then setUserId Null s else s))"

definition defaultLogin :: "string \<Rightarrow> auth \<Rightarrow> auth" where
  "defaultLogin userId s = setUserId (Str userId) s"

text \<open>\<open>UserContextProvider\<close> gives its children the id, and throws without one.\<close>

definition UserContextProvider :: "jsval \<Rightarrow> (js_error, jsval) result" where
  "UserContextProvider userId =
     (if userId = Null then Inl (ErrorMsg ''Need authenticated user to use [UserContextProvider]'')
      else Inr userId)"

section \<open>The user panel\<close>

text \<open>The logout mutation of the panel: \<open>throw error\<close> is the failure the mutation logs; only a logout
  without an error clears the cache, after the session has changed.\<close>

definition thrown :: "jsval \<Rightarrow> js_error" where
  "thrown v = (case v of Str s \<Rightarrow> ThrownStr s | _ \<Rightarrow> ErrorMsg (to_str v))"

definition panel_logout ::
  "'c query_client \<Rightarrow> (jsval \<Rightarrow> jsval call) \<Rightarrow> auth \<times> 'c \<Rightarrow> unit call \<times> (auth \<times> 'c)" where
  "panel_logout client logoutHandler st =
     (let userId = nullish (au_userId (fst st)) (Str []);
          (call, s') = auth_logout logoutHandler userId (fst st);
          done = cbind call (\<lambda>(message, error).
            if error \<noteq> Undefined then lift_result (Inl (thrown error)) else creturn ())
      in (done, s', case fst done of Inl e \<Rightarrow> snd st | Inr u \<Rightarrow> logoutInvalidateQuery client (snd st)))"

section \<open>The session as a transition system\<close>

text \<open>Everything that changes the session, with any answer of the two handlers.\<close>

inductive auth_step :: "auth \<Rightarrow> auth \<Rightarrow> bool" where
  step_login: "auth_step s (snd (auth_login h l p s))"
| step_logout: "auth_step s (snd (auth_logout h u s))"
| step_default: "auth_step s (defaultLogin i s)"

inductive auth_reachable :: "auth \<Rightarrow> bool" where
  reach_start: "auth_reachable (initial_auth i)"
| reach_step: "auth_reachable s \<Longrightarrow> auth_step s s' \<Longrightarrow> auth_reachable s'"

inductive_cases auth_stepE: "auth_step s s'"

lemmas auth_defs = auth_login_def auth_logout_def defaultLogin_def setUserId_def initial_auth_def isLoggedIn_def

lemma auth_step_defined:
  "auth_step s s' \<Longrightarrow> au_userId s \<noteq> Undefined \<Longrightarrow> au_userId s' \<noteq> Undefined"
  by (erule auth_stepE) (auto simp: auth_defs Let_def split: sum.splits)

lemma cbind_pick2:
  "cbind call (pick2 a b) =
     (rbind (fst call) (\<lambda>v. rbind (get_prop v a) (\<lambda>x. rbind (get_prop v b) (\<lambda>y. Inr (x, y)))), snd call)"
  by (cases call; cases "fst call") (simp_all add: pick2_def)

text \<open>What the login service answers, through the XML on both sides.\<close>

definition login_answer ::
  "backends \<Rightarrow> send \<Rightarrow> xml_builder \<Rightarrow> xml_parser \<Rightarrow> string \<Rightarrow> string \<Rightarrow> (js_error, jsval) result" where
  "login_answer be send build_xml parse_xml l p =
     rbind (build_xml (login_body l p)) (\<lambda>body.
     rbind (send (loginXml (be_users be) body)) (\<lambda>response.
     rbind (parse_xml (rs_data response)) (\<lambda>data. get_prop data ''IdResponse'')))"

lemma api_login_answer:
  "fst (api_login be send build_xml parse_xml l p) = (case login_answer be send build_xml parse_xml l p of
     Inl e \<Rightarrow> Inr (Obj [(''error'', Str ''Login or password invalid'')]) | Inr v \<Rightarrow> Inr v)"
  unfolding api_login_def login_answer_def
  by (auto simp: cbind_lift cbind_csend ccatch_def lift_result_def creturn_def rbind_def split: sum.splits)

lemma auth_login_answer:
  "login_answer be send build_xml parse_xml l p = Inl e \<Longrightarrow>
     fst (fst (auth_login (api_login be send build_xml parse_xml) l p s)) = Inr (Undefined, Str ''Login or password invalid'') \<and>
     snd (auth_login (api_login be send build_xml parse_xml) l p s) = s"
  "login_answer be send build_xml parse_xml l p = Inr (Obj kvs) \<Longrightarrow>
     fst (fst (auth_login (api_login be send build_xml parse_xml) l p s))
       = Inr (opt_prop (Obj kvs) ''id'', opt_prop (Obj kvs) ''error'') \<and>
     au_userId (snd (auth_login (api_login be send build_xml parse_xml) l p s))
       = (if opt_prop (Obj kvs) ''id'' = Undefined then au_userId s else opt_prop (Obj kvs) ''id'')"
  unfolding Let_def auth_login_def cbind_pick2
  by (auto simp: api_login_answer setUserId_def opt_prop_def split: option.splits)

section \<open>Properties\<close>

text \<open>C25 (session). In every reachable session the user is either absent or has an id that is defined: a
  response without an id does not log anybody in, so the pages of a logged-in user always have an id to
  load with and \<open>UserContextProvider\<close> does not throw below the guard.\<close>

theorem session_has_id:
  assumes "auth_reachable s"
  shows "au_userId s \<noteq> Undefined \<and> (isLoggedIn s \<longrightarrow> UserContextProvider (au_userId s) = Inr (au_userId s))"
  using assms
proof (induction rule: auth_reachable.induct)
  case (reach_start i)
  then show ?case by (simp add: auth_defs UserContextProvider_def split: option.splits)
next
  case (reach_step s s')
  then show ?case using auth_step_defined [of s s'] by (simp add: isLoggedIn_def UserContextProvider_def)
qed

lemma session_has_id_witness:
  "au_userId (snd (auth_login (\<lambda>l p. creturn (Obj [])) ''u'' ''p'' (initial_auth None))) \<noteq> Undefined"
  using session_has_id [OF auth_reachable.reach_step [OF auth_reachable.reach_start auth_step.step_login]]
  by blast



text \<open>Logout. The panel's logout, for an answer that is an object: without an error every response
  cached for the user is gone; with one the cache is kept. The session ends exactly when the answer
  carries a message, so a failed request, which the API answers with an error alone, changes nothing.\<close>

lemma panel_logout_clears:
  assumes "documented_client qc" "fst (h (nullish (au_userId s) (Str []))) = Inr (Obj kvs)"
    and "panel_logout qc h (s, c) = (call, s', c')"
  shows "au_userId s' = (if opt_prop (Obj kvs) ''message'' = Undefined then au_userId s else Null) \<and>
    (opt_prop (Obj kvs) ''error'' = Undefined \<longrightarrow> fst call = Inr () \<and>
       (\<forall>k. (user_bound k \<longrightarrow> getQueryData qc c' k = None) \<and>
            (user_independent k \<longrightarrow> getQueryData qc c' k = getQueryData qc c k))) \<and>
    (opt_prop (Obj kvs) ''error'' \<noteq> Undefined \<longrightarrow> c' = c \<and> (\<exists>e. fst call = Inl e))"
  using assms(2,3) logout_data [OF assms(1)]
  by (auto simp: panel_logout_def auth_logout_def cbind_pick2 setUserId_def opt_prop_def Let_def
      split: if_splits)

lemma panel_logout_clears_witness:
  "let r = panel_logout map_client (\<lambda>u. creturn (Obj [(''message'', Str ''bye'')]))
        (\<lparr>au_userId = Str ''7''\<rparr>, \<lambda>k. Some (QConfig Null, False))
   in au_userId (fst (snd r)) = Null \<and> getQueryData map_client (snd (snd r)) balanceKeys_current = None"
proof -
  let ?r = "panel_logout map_client (\<lambda>u. creturn (Obj [(''message'', Str ''bye'')]))
        (\<lparr>au_userId = Str ''7''\<rparr>, \<lambda>k. Some (QConfig Null, False))"
  obtain call s' c' where r: "?r = (call, s', c')" by (cases ?r) auto
  from panel_logout_clears [OF documented_map_client _ r, of "[(''message'', Str ''bye'')]"] r
  show ?thesis by (simp add: opt_prop_def user_bound_def)
qed

end
