(* ===== verification/Fe_Router.thy ===== *)
theory Fe_Router
  imports Fe_Auth
begin

text \<open>
  The routes of the frontend (\<open>src/frontend/src/router.tsx\<close>) with their loaders, and what the layouts
  (\<open>layouts\<close>, \<open>pages/BaseNavigation.tsx\<close>, \<open>pages/protected/creditCard\<close>) render: a redirect, an error
  or the page below. React Router is an argument: \<open>select\<close> gives the route a URL matches.
\<close>

section \<open>Layouts\<close>

text \<open>What a component renders, as far as the navigation is concerned: the outlet stands for whatever the
  route below renders.\<close>

datatype rendered =
    RenderError string
  | NavigateTo string
  | ShowOutlet
  | ShowPage string

definition BaseNavigation :: "bool \<Rightarrow> rendered" where
  "BaseNavigation loggedIn = (let path = if loggedIn then ''/home'' else ''/login'' in NavigateTo path)"

definition PublicLayout :: "bool \<Rightarrow> rendered" where
  "PublicLayout loggedIn = (if loggedIn then NavigateTo ''/home'' else ShowOutlet)"

definition ProtectedLayout :: "jsval \<Rightarrow> bool \<Rightarrow> rendered" where
  "ProtectedLayout userId loggedIn =
     (if \<not> loggedIn then NavigateTo ''/login''
      else case UserContextProvider userId of Inl e \<Rightarrow> RenderError (error_to_string e) | Inr u \<Rightarrow> ShowOutlet)"

definition CreditCardLayout :: "OrderStatusResponse option \<Rightarrow> string \<Rightarrow> rendered" where
  "CreditCardLayout data pathname =
     (case data of
        None \<Rightarrow> RenderError (''Couldn'' @ [CHR 0x27] @ ''t get data for credit card order status.'')
      | Some (StatusError e) \<Rightarrow> RenderError e
      | Some StatusNotFound \<Rightarrow>
          if \<not> str_includes pathname ''order'' then NavigateTo ''/credit-card/order'' else ShowOutlet
      | Some (StatusSuccess entry) \<Rightarrow>
          if oe_status entry = Str ''card_delivered'' \<and> \<not> str_includes pathname ''active''
          then NavigateTo ''/credit-card/active''
          else if oe_status entry \<noteq> Str ''card_delivered'' \<and> \<not> str_includes pathname ''status''
          then NavigateTo ''/credit-card/status''
          else ShowOutlet)"

text \<open>The status page needs the history.\<close>

definition CreditCardStatus :: "OrderStatusHistoryResponse option \<Rightarrow> rendered" where
  "CreditCardStatus data =
     (case data of
        None \<Rightarrow> RenderError ''There was an error getting order history [Response was empty]''
      | Some (HistoryError e) \<Rightarrow> RenderError (''There was an error getting order history ['' @ e @ '']'')
      | Some (HistorySuccess i es) \<Rightarrow> ShowPage ''CreditCardStatus'')"

section \<open>Routes\<close>

datatype component =
    AppLayout_c | BaseNavigation_c | PublicLayout_c | ProtectedLayout_c | CreditCardLayout_c
  | PageC string

text \<open>The loaders of the tree: what they fetch, and whether through \<open>loadWithUser\<close>.\<close>

datatype route_loader =
    PresetUsers | UserThunks | GuardedCardStatus | GuardedCardHistory | GuardedInstruments
  | GuardedTransactions | InstrumentPrices

datatype route =
  Route (rt_path: "string option") (rt_index: bool) (rt_element: "component option")
    (rt_loader: "route_loader option") (rt_children: "route list")

definition elementRoutes :: route where
  "elementRoutes =
     Route (Some ''/'') False (Some AppLayout_c) None
       [Route None True (Some BaseNavigation_c) None [],
        Route (Some ''*'') False (Some BaseNavigation_c) None [],
        Route (Some ''feature-flags'') False (Some (PageC ''FeatureFlags'')) None [],
        Route (Some ''version'') False (Some (PageC ''Version'')) None [],
        Route None False (Some PublicLayout_c) None
          [Route (Some ''login'') False (Some (PageC ''Login'')) (Some PresetUsers) [],
           Route (Some ''signup'') False (Some (PageC ''Signup'')) None []],
        Route None False (Some ProtectedLayout_c) (Some UserThunks)
          [Route (Some ''withdraw'') False (Some (PageC ''Withdraw'')) None [],
           Route (Some ''deposit'') False (Some (PageC ''Deposit'')) None [],
           Route (Some ''credit-card'') False (Some CreditCardLayout_c) (Some GuardedCardStatus)
             [Route (Some ''order'') False (Some (PageC ''CreditCardOrder'')) None [],
              Route (Some ''status'') False (Some (PageC ''CreditCardStatus'')) (Some GuardedCardHistory) [],
              Route (Some ''active'') False (Some (PageC ''CreditCardActive'')) None []],
           Route None False None (Some GuardedInstruments)
             [Route (Some ''home'') False (Some (PageC ''Home'')) (Some GuardedTransactions) [],
              Route (Some ''instruments'') False None None
                [Route None True (Some (PageC ''Instruments'')) None [],
                 Route (Some '':id'') False (Some (PageC ''Instrument'')) (Some InstrumentPrices) []]]]]"

text \<open>A branch is what a URL can match: the path from the root, the elements from the outside in, and the
  loaders. A route with a path is a branch itself unless an index route below takes its URL.\<close>

record branch =
  br_path :: string
  br_elements :: "component list"
  br_loaders :: "route_loader list"

definition extend_branch :: "branch \<Rightarrow> route \<Rightarrow> branch" where
  "extend_branch b r =
     \<lparr>br_path = (case rt_path r of
          None \<Rightarrow> br_path b
        | Some p \<Rightarrow> if p = ''/'' then ''/''
                    else if br_path b = ''/'' then ''/'' @ p else br_path b @ ''/'' @ p),
      br_elements = br_elements b @ (case rt_element r of None \<Rightarrow> [] | Some e \<Rightarrow> [e]),
      br_loaders = br_loaders b @ (case rt_loader r of None \<Rightarrow> [] | Some l \<Rightarrow> [l])\<rparr>"

fun branches_from :: "branch \<Rightarrow> route \<Rightarrow> branch list" where
  "branches_from b (Route p idx el ld cs) =
     (let b' = extend_branch b (Route p idx el ld cs)
      in concat (map (branches_from b') cs) @
         (if idx \<or> (p \<noteq> None \<and> \<not> list_ex rt_index cs) then [b'] else []))"

definition branches :: "branch list" where
  "branches = branches_from \<lparr>br_path = [], br_elements = [], br_loaders = []\<rparr> elementRoutes"

section \<open>Navigation\<close>

text \<open>What the two credit card queries hold: the status and the history of the order.\<close>

type_synonym card_data = "OrderStatusResponse option \<times> OrderStatusHistoryResponse option"

definition render_component :: "jsval \<Rightarrow> card_data \<Rightarrow> string \<Rightarrow> component \<Rightarrow> rendered" where
  "render_component userId cards pathname element =
     (let loggedIn = isLoggedIn \<lparr>au_userId = userId\<rparr> in
      case element of
        AppLayout_c \<Rightarrow> ShowOutlet
      | BaseNavigation_c \<Rightarrow> BaseNavigation loggedIn
      | PublicLayout_c \<Rightarrow> PublicLayout loggedIn
      | ProtectedLayout_c \<Rightarrow> ProtectedLayout userId loggedIn
      | CreditCardLayout_c \<Rightarrow> CreditCardLayout (fst cards) pathname
      | PageC name \<Rightarrow> if name = ''CreditCardStatus'' then CreditCardStatus (snd cards) else ShowPage name)"

fun render_elements :: "jsval \<Rightarrow> card_data \<Rightarrow> string \<Rightarrow> component list \<Rightarrow> rendered" where
  "render_elements u st p [] = ShowOutlet"
| "render_elements u st p (el # rest) =
     (case render_component u st p el of ShowOutlet \<Rightarrow> render_elements u st p rest | r \<Rightarrow> r)"

text \<open>The loaders run before anything is rendered, and a redirect of one of them wins. Only those wrapped
  in \<open>loadWithUser\<close> look at the stored user; \<open>UserThunks\<close> does not call what it wraps.\<close>

definition guarded :: "route_loader \<Rightarrow> bool" where
  "guarded l \<longleftrightarrow> l \<in> set [GuardedCardStatus, GuardedCardHistory, GuardedInstruments, GuardedTransactions]"

definition visit_branch :: "jsval \<Rightarrow> card_data \<Rightarrow> string \<Rightarrow> branch \<Rightarrow> rendered" where
  "visit_branch u st url b =
     (if list_ex guarded (br_loaders b) \<and> (u = Null \<or> u = Str []) then NavigateTo ''/login''
      else render_elements u st url (br_elements b))"

definition go :: "(string \<Rightarrow> branch) \<Rightarrow> jsval \<Rightarrow> card_data \<Rightarrow> string \<Rightarrow> rendered" where
  "go select u st url = visit_branch u st url (select url)"

text \<open>Following redirects, at most \<open>n\<close> of them.\<close>

fun follow :: "(string \<Rightarrow> rendered) \<Rightarrow> nat \<Rightarrow> string \<Rightarrow> rendered" where
  "follow view 0 url = view url"
| "follow view (Suc n) url = (case view url of NavigateTo url' \<Rightarrow> follow view n url' | r \<Rightarrow> r)"

text \<open>What React Router documents: a URL selects one of the branches, and one that is spelt like the path of
  a branch selects that branch.\<close>

definition router_documented :: "(string \<Rightarrow> branch) \<Rightarrow> bool" where
  "router_documented select \<longleftrightarrow>
     (\<forall>url. select url \<in> set branches) \<and> (\<forall>b \<in> set branches. select (br_path b) = b)"

section \<open>The branches\<close>

lemma branches_eq:
  "branches =
     [\<lparr>br_path = ''/'', br_elements = [AppLayout_c, BaseNavigation_c], br_loaders = []\<rparr>,
      \<lparr>br_path = ''/*'', br_elements = [AppLayout_c, BaseNavigation_c], br_loaders = []\<rparr>,
      \<lparr>br_path = ''/feature-flags'', br_elements = [AppLayout_c, PageC ''FeatureFlags''], br_loaders = []\<rparr>,
      \<lparr>br_path = ''/version'', br_elements = [AppLayout_c, PageC ''Version''], br_loaders = []\<rparr>,
      \<lparr>br_path = ''/login'', br_elements = [AppLayout_c, PublicLayout_c, PageC ''Login''],
       br_loaders = [PresetUsers]\<rparr>,
      \<lparr>br_path = ''/signup'', br_elements = [AppLayout_c, PublicLayout_c, PageC ''Signup''], br_loaders = []\<rparr>,
      \<lparr>br_path = ''/withdraw'', br_elements = [AppLayout_c, ProtectedLayout_c, PageC ''Withdraw''],
       br_loaders = [UserThunks]\<rparr>,
      \<lparr>br_path = ''/deposit'', br_elements = [AppLayout_c, ProtectedLayout_c, PageC ''Deposit''],
       br_loaders = [UserThunks]\<rparr>,
      \<lparr>br_path = ''/credit-card/order'',
       br_elements = [AppLayout_c, ProtectedLayout_c, CreditCardLayout_c, PageC ''CreditCardOrder''],
       br_loaders = [UserThunks, GuardedCardStatus]\<rparr>,
      \<lparr>br_path = ''/credit-card/status'',
       br_elements = [AppLayout_c, ProtectedLayout_c, CreditCardLayout_c, PageC ''CreditCardStatus''],
       br_loaders = [UserThunks, GuardedCardStatus, GuardedCardHistory]\<rparr>,
      \<lparr>br_path = ''/credit-card/active'',
       br_elements = [AppLayout_c, ProtectedLayout_c, CreditCardLayout_c, PageC ''CreditCardActive''],
       br_loaders = [UserThunks, GuardedCardStatus]\<rparr>,
      \<lparr>br_path = ''/credit-card'', br_elements = [AppLayout_c, ProtectedLayout_c, CreditCardLayout_c],
       br_loaders = [UserThunks, GuardedCardStatus]\<rparr>,
      \<lparr>br_path = ''/home'', br_elements = [AppLayout_c, ProtectedLayout_c, PageC ''Home''],
       br_loaders = [UserThunks, GuardedInstruments, GuardedTransactions]\<rparr>,
      \<lparr>br_path = ''/instruments'', br_elements = [AppLayout_c, ProtectedLayout_c, PageC ''Instruments''],
       br_loaders = [UserThunks, GuardedInstruments]\<rparr>,
      \<lparr>br_path = ''/instruments/:id'', br_elements = [AppLayout_c, ProtectedLayout_c, PageC ''Instrument''],
       br_loaders = [UserThunks, GuardedInstruments, InstrumentPrices]\<rparr>]"
  by (simp add: branches_def elementRoutes_def extend_branch_def Let_def)

section \<open>Redirects\<close>

definition is_redirect :: "rendered \<Rightarrow> bool" where
  "is_redirect r = (case r of NavigateTo p \<Rightarrow> True | _ \<Rightarrow> False)"

lemma is_redirect_simps [simp]:
  "is_redirect (NavigateTo p)" "\<not> is_redirect (RenderError e)" "\<not> is_redirect ShowOutlet"
  "\<not> is_redirect (ShowPage n)"
  by (simp_all add: is_redirect_def)

text \<open>The card layout sends a user to the page of the status, and is content there.\<close>

definition card_page :: "OrderStatusResponse option \<Rightarrow> string option" where
  "card_page status =
     (case status of
        Some StatusNotFound \<Rightarrow> Some ''order''
      | Some (StatusSuccess entry) \<Rightarrow>
          if oe_status entry = Str ''card_delivered'' then Some ''active'' else Some ''status''
      | _ \<Rightarrow> None)"

lemma CreditCardLayout_cases:
  "CreditCardLayout st p =
     (case card_page st of
        None \<Rightarrow> RenderError (case st of Some (StatusError e) \<Rightarrow> e
                  | _ \<Rightarrow> ''Couldn'' @ [CHR 0x27] @ ''t get data for credit card order status.'')
      | Some w \<Rightarrow> if str_includes p w then ShowOutlet else NavigateTo (''/credit-card/'' @ w))"
  by (auto simp: CreditCardLayout_def card_page_def split: option.splits OrderStatusResponse.splits)

lemma card_page_included: "str_includes (''/credit-card/'' @ w) w"
  unfolding str_includes_iff by (intro exI [of _ "''/credit-card/''"] exI [of _ "[]"]) simp

lemma card_page_values: "card_page st = Some w \<Longrightarrow> w \<in> {''order'', ''status'', ''active''}"
  by (auto simp: card_page_def split: option.splits OrderStatusResponse.splits if_splits)

lemma go_path: "router_documented sel \<Longrightarrow> b \<in> set branches \<Longrightarrow>
    go sel u cd (br_path b) = visit_branch u cd (br_path b) b"
  by (simp add: router_documented_def go_def)

lemmas visit_simps = visit_branch_def render_component_def isLoggedIn_def guarded_def BaseNavigation_def
  PublicLayout_def ProtectedLayout_def UserContextProvider_def Let_def

lemma go_login: "router_documented sel \<Longrightarrow>
    go sel u cd ''/login'' = (if u = Null then ShowPage ''Login'' else NavigateTo ''/home'')"
  using go_path [of sel "branches ! 4" u cd] by (simp add: branches_eq visit_simps)

lemma go_home: "router_documented sel \<Longrightarrow>
    go sel u cd ''/home'' = (if u = Null \<or> u = Str [] then NavigateTo ''/login'' else ShowPage ''Home'')"
  using go_path [of sel "branches ! 12" u cd] by (simp add: branches_eq visit_simps)

lemma card_pages_included:
  "str_includes ''/credit-card/order'' ''order''" "str_includes ''/credit-card/status'' ''status''"
  "str_includes ''/credit-card/active'' ''active''"
  by (simp_all add: str_includes_def indexOf_def starts_with_def)

lemma go_card_order:
  "router_documented sel \<Longrightarrow> card_page (fst cd) = Some ''order'' \<Longrightarrow> u \<noteq> Null \<Longrightarrow> u \<noteq> Str [] \<Longrightarrow>
     go sel u cd ''/credit-card/order'' = ShowPage ''CreditCardOrder''"
  using go_path [of sel "branches ! 8" u cd]
  by (simp add: branches_eq visit_simps CreditCardLayout_cases card_pages_included)

lemma go_card_status:
  "router_documented sel \<Longrightarrow> card_page (fst cd) = Some ''status'' \<Longrightarrow> u \<noteq> Null \<Longrightarrow> u \<noteq> Str [] \<Longrightarrow>
     go sel u cd ''/credit-card/status'' = CreditCardStatus (snd cd)"
  using go_path [of sel "branches ! 9" u cd]
  by (simp add: branches_eq visit_simps CreditCardLayout_cases card_pages_included CreditCardStatus_def
      split: option.splits OrderStatusHistoryResponse.splits)

lemma go_card_active:
  "router_documented sel \<Longrightarrow> card_page (fst cd) = Some ''active'' \<Longrightarrow> u \<noteq> Null \<Longrightarrow> u \<noteq> Str [] \<Longrightarrow>
     go sel u cd ''/credit-card/active'' = ShowPage ''CreditCardActive''"
  using go_path [of sel "branches ! 10" u cd]
  by (simp add: branches_eq visit_simps CreditCardLayout_cases card_pages_included)

lemma go_card:
  assumes "router_documented sel" "card_page (fst cd) = Some w" "u \<noteq> Null" "u \<noteq> Str []"
  shows "go sel u cd (''/credit-card/'' @ w) =
    (if w = ''order'' then ShowPage ''CreditCardOrder''
     else if w = ''active'' then ShowPage ''CreditCardActive'' else CreditCardStatus (snd cd))"
proof -
  consider "w = ''order''" | "w = ''status''" | "w = ''active''" using card_page_values [OF assms(2)] by blast
  then show ?thesis
    by cases (use assms in \<open>simp_all add: go_card_order go_card_status go_card_active\<close>)
qed

lemma CreditCardStatus_settled [simp]: "\<not> is_redirect (CreditCardStatus h)"
  by (simp add: CreditCardStatus_def split: option.splits OrderStatusHistoryResponse.splits)

text \<open>Where a branch can redirect to.\<close>

lemma render_redirect:
  "render_elements u cd url els = NavigateTo p \<Longrightarrow> \<exists>el \<in> set els. render_component u cd url el = NavigateTo p"
  by (induction els) (auto split: rendered.splits)

lemma component_redirect:
  assumes "render_component u cd url el = NavigateTo p"
  shows "(p = ''/login'' \<and> u = Null) \<or> (p = ''/home'' \<and> u \<noteq> Null) \<or>
    (el = CreditCardLayout_c \<and> (\<exists>w. card_page (fst cd) = Some w \<and> p = ''/credit-card/'' @ w))"
proof (cases el)
  case CreditCardLayout_c
  with assms show ?thesis
    by (simp add: render_component_def CreditCardLayout_cases Let_def split: option.splits if_splits)
next
  case (PageC n)
  with assms show ?thesis
    using CreditCardStatus_settled [of "snd cd"] assms
    by (auto simp del: CreditCardStatus_settled simp: render_component_def Let_def split: if_splits)
qed (use assms in \<open>auto simp: visit_simps split: if_splits\<close>)

lemma card_guarded: "b \<in> set branches \<Longrightarrow> CreditCardLayout_c \<in> set (br_elements b) \<Longrightarrow> list_ex guarded (br_loaders b)"
  by (auto simp: branches_eq guarded_def)

lemma visit_redirects:
  assumes "b \<in> set branches" "u \<noteq> Str []" "visit_branch u cd url b = NavigateTo p"
  shows "(p = ''/login'' \<and> u = Null) \<or> (p = ''/home'' \<and> u \<noteq> Null) \<or>
    (\<exists>w. u \<noteq> Null \<and> card_page (fst cd) = Some w \<and> p = ''/credit-card/'' @ w)"
proof (cases "list_ex guarded (br_loaders b) \<and> u = Null")
  case True
  with assms(3) show ?thesis by (simp add: visit_branch_def)
next
  case False
  with assms(2,3) have "render_elements u cd url (br_elements b) = NavigateTo p"
    by (auto simp: visit_branch_def split: if_splits)
  from render_redirect [OF this] obtain el where
    el: "el \<in> set (br_elements b)" "render_component u cd url el = NavigateTo p" by blast
  from component_redirect [OF el(2)] card_guarded [OF assms(1)] el(1) False show ?thesis by blast
qed

section \<open>Properties\<close>

text \<open>C27 (navigation settles). Whatever URL is opened, by whomever but a user with the empty id, at most one
  redirect is followed: its target renders a page or an error. A user with the empty id counts as
  logged in for the layouts and as logged out for the loaders, and is sent back and forth between the
  home and the login page without end.\<close>

theorem navigation_settles:
  assumes "router_documented select"
  shows "(u \<noteq> Str [] \<longrightarrow> \<not> is_redirect (follow (go select u cards) 1 url)) \<and>
    (u = Str [] \<longrightarrow> (\<forall>n. is_redirect (follow (go select u cards) n ''/home'')))"
proof (intro conjI impI)
  assume u: "u \<noteq> Str []"
  show "\<not> is_redirect (follow (go select u cards) 1 url)"
  proof (cases "go select u cards url")
    case (NavigateTo p)
    have "select url \<in> set branches" using assms by (simp add: router_documented_def)
    from visit_redirects [OF this u] NavigateTo have
      "(p = ''/login'' \<and> u = Null) \<or> (p = ''/home'' \<and> u \<noteq> Null) \<or>
       (\<exists>w. u \<noteq> Null \<and> card_page (fst cards) = Some w \<and> p = ''/credit-card/'' @ w)"
      by (simp add: go_def)
    then have "\<not> is_redirect (go select u cards p)"
      using u go_card [OF assms, of cards _ u] by (elim disjE exE conjE) (simp_all add: go_login [OF assms] go_home [OF assms] del: append.simps)
    with NavigateTo show ?thesis by simp
  qed simp_all
next
  assume u: "u = Str []"
  have "is_redirect (follow (go select u cards) n ''/home'') \<and> is_redirect (follow (go select u cards) n ''/login'')" for n
    by (induction n) (simp_all add: u go_login [OF assms] go_home [OF assms])
  then show "\<forall>n. is_redirect (follow (go select u cards) n ''/home'')" by blast
qed

text \<open>A selection that behaves as documented.\<close>

definition exact_select :: "string \<Rightarrow> branch" where
  "exact_select url = (case find (\<lambda>b. br_path b = url) branches of Some b \<Rightarrow> b | None \<Rightarrow> branches ! 1)"

lemma exact_select_documented: "router_documented exact_select"
proof -
  have "distinct (map br_path branches)" by (simp add: branches_eq)
  then have "exact_select (br_path b) = b" if "b \<in> set branches" for b
    using that by (simp add: exact_select_def find_distinct)
  moreover have "branches ! 1 \<in> set branches" by (simp add: branches_eq)
  then have "exact_select url \<in> set branches" for url
    by (auto simp: exact_select_def dest: find_Some_mem split: option.splits)
  ultimately show ?thesis by (simp add: router_documented_def)
qed

lemma navigation_settles_witness:
  "\<not> is_redirect (follow (go exact_select Null (None, None)) 1 ''/credit-card'')"
  using navigation_settles [OF exact_select_documented, of Null "(None, None)" "''/credit-card''"]
  by simp

definition account_pages :: "string list" where
  "account_pages = [''Withdraw'', ''Deposit'', ''CreditCardOrder'', ''CreditCardStatus'', ''CreditCardActive'',
     ''Home'', ''Instruments'', ''Instrument'']"

text \<open>A page is shown by its own element, after every layout around it has given its outlet.\<close>

lemma render_page:
  "render_elements u cd url els = ShowPage n \<Longrightarrow> PageC n \<in> set els \<and> render_component u cd url (PageC n) = ShowPage n \<and>
     (\<forall>el \<in> set (takeWhile (\<lambda>e. e \<noteq> PageC n) els). render_component u cd url el = ShowOutlet)"
proof (induction els)
  case Nil
  then show ?case by simp
next
  case (Cons el els)
  show ?case
  proof (cases "render_component u cd url el")
    case (ShowPage m)
    with Cons.prems have m: "m = n" by simp
    with ShowPage have "el = PageC n"
      by (cases el) (auto simp: visit_simps CreditCardLayout_def CreditCardStatus_def
          split: if_splits option.splits OrderStatusResponse.splits OrderStatusHistoryResponse.splits)
    with ShowPage m show ?thesis by simp
  qed (use Cons in auto)
qed

lemma account_layouts:
  "\<forall>b \<in> set branches. \<forall>n \<in> set account_pages. PageC n \<in> set (br_elements b) \<longrightarrow>
     ProtectedLayout_c \<in> set (takeWhile (\<lambda>e. e \<noteq> PageC n) (br_elements b))"
  by (simp add: branches_eq account_pages_def)

lemma public_layouts:
  "\<forall>b \<in> set branches. \<forall>n \<in> set [''Login'', ''Signup'']. PageC n \<in> set (br_elements b) \<longrightarrow>
     PublicLayout_c \<in> set (takeWhile (\<lambda>e. e \<noteq> PageC n) (br_elements b))"
  by (simp add: branches_eq)

lemma card_layouts:
  "\<forall>b \<in> set branches. \<forall>(n, p) \<in> set [(''CreditCardOrder'', ''/credit-card/order''),
       (''CreditCardStatus'', ''/credit-card/status''), (''CreditCardActive'', ''/credit-card/active'')].
     PageC n \<in> set (br_elements b) \<longrightarrow> br_path b = p \<and>
     CreditCardLayout_c \<in> set (takeWhile (\<lambda>e. e \<noteq> PageC n) (br_elements b))"
  by (simp add: branches_eq)

lemma card_outlet:
  assumes "CreditCardLayout st (''/credit-card/'' @ w) = ShowOutlet" "w \<in> {''order'', ''status'', ''active''}"
  shows "card_page st = Some w"
proof -
  obtain v where v: "card_page st = Some v" "str_includes (''/credit-card/'' @ w) v"
    using assms(1) by (simp add: CreditCardLayout_cases split: option.splits if_splits)
  have "v = w" using card_page_values [OF v(1)] v(2) assms(2)
    by (elim insertE emptyE; simp add: str_includes_def indexOf_def starts_with_def)
  with v(1) show ?thesis by simp
qed



end
