(* ===== verification/Fe_Loaders.thy ===== *)
theory Fe_Loaders
  imports Fe_Router
begin

text \<open>
  How the queries are wired to the API: the provider of the query context with the functions the
  application passes to it (\<open>contexts/QueryContext/QueryContext.tsx\<close>, \<open>layouts/AppLayout.tsx\<close>), the hooks
  the pages read with (\<open>contexts/QueryContext/*/hooks.ts\<close>), and the loaders of the route tree
  (\<open>router.tsx\<close>) run on the client.
\<close>

section \<open>The provider\<close>

record QueryProviderProps =
  qp_getUser :: "jsval \<Rightarrow> query_data call"
  qp_getBalance :: "jsval \<Rightarrow> query_data call"
  qp_getPresetUsers :: "unit \<Rightarrow> query_data call"
  qp_getTransactions :: "jsval \<Rightarrow> query_data call"
  qp_getInstruments :: "jsval \<Rightarrow> query_data call"
  qp_getLatestPrices :: "unit \<Rightarrow> query_data call"
  qp_getInstrumentPrices :: "string \<Rightarrow> query_data call"
  qp_getFeatureFlags :: "unit \<Rightarrow> query_data call"
  qp_getConfig :: "unit \<Rightarrow> query_data call"
  qp_getCreditCardStatus :: "jsval \<Rightarrow> query_data call"
  qp_getCreditCardStatusHistory :: "jsval \<Rightarrow> query_data call"
  qp_getVersions :: "unit \<Rightarrow> query_data call"

record IQueryContext =
  qx_getUser :: "jsval \<Rightarrow> query_fn"
  qx_getBalance :: "jsval \<Rightarrow> query_fn"
  qx_getPresetUsers :: query_fn
  qx_getTransactions :: "jsval \<Rightarrow> query_fn"
  qx_getInstruments :: "jsval \<Rightarrow> query_fn"
  qx_getLatestPrices :: query_fn
  qx_getInstrumentPrices :: "string \<Rightarrow> query_fn"
  qx_getFeatureFlags :: query_fn
  qx_getConfig :: query_fn
  qx_getCreditCardStatus :: "jsval \<Rightarrow> query_fn"
  qx_getCreditCardStatusHistory :: "jsval \<Rightarrow> query_fn"
  qx_getVersions :: query_fn

definition QueryClientProvider :: "QueryProviderProps \<Rightarrow> IQueryContext" where
  "QueryClientProvider props =
     \<lparr>qx_getUser = transform (qp_getUser props),
      qx_getBalance = transform (qp_getBalance props),
      qx_getPresetUsers = qp_getPresetUsers props,
      qx_getTransactions = transform (qp_getTransactions props),
      qx_getInstruments = transform (qp_getInstruments props),
      qx_getLatestPrices = qp_getLatestPrices props,
      qx_getInstrumentPrices = transform (qp_getInstrumentPrices props),
      qx_getFeatureFlags = qp_getFeatureFlags props,
      qx_getConfig = qp_getConfig props,
      qx_getCreditCardStatus = transform (qp_getCreditCardStatus props),
      qx_getCreditCardStatusHistory = transform (qp_getCreditCardStatusHistory props),
      qx_getVersions = qp_getVersions props\<rparr>"

text \<open>The functions \<open>AppLayout\<close> passes, each with the tag of its data. A user id is put into paths and
  bodies through its string.\<close>

definition as_query :: "('a \<Rightarrow> query_data) \<Rightarrow> 'a call \<Rightarrow> query_data call" where
  "as_query tag call = cbind call (\<lambda>x. creturn (tag x))"

definition app_providers ::
  "backends \<Rightarrow> send \<Rightarrow> xml_parser \<Rightarrow> (jsval \<Rightarrow> (js_error, jsval) result) \<Rightarrow> QueryProviderProps" where
  "app_providers be send parse_xml luxon_iso =
     \<lparr>qp_getUser = (\<lambda>u. as_query QUser (getUser be send (to_str u))),
      qp_getBalance = (\<lambda>u. as_query QBalance (getBalance be send (to_str u))),
      qp_getPresetUsers = (\<lambda>_. as_query QPresetUsers (getPresetUsers be send)),
      qp_getTransactions = (\<lambda>u. as_query QTransactions (getTransactions be send luxon_iso (to_str u) None)),
      qp_getInstruments = (\<lambda>u. as_query QInstruments
         (getInstruments be send (if u = Undefined then None else Some (to_str u)))),
      qp_getLatestPrices = (\<lambda>_. as_query QPrices (getLatestPrices be send parse_xml)),
      qp_getInstrumentPrices = (\<lambda>i. as_query QPrices (getPricesForInstrument be send parse_xml i)),
      qp_getFeatureFlags = (\<lambda>_. as_query QFlags (getFeatureFlags be send)),
      qp_getConfig = (\<lambda>_. as_query QConfig (fe_getConfig be send)),
      qp_getCreditCardStatus = (\<lambda>u. as_query QOrderStatus (getOrderStatus be send parse_xml (to_str u))),
      qp_getCreditCardStatusHistory = (\<lambda>u. as_query QOrderHistory (getOrderStatusHistory be send (to_str u))),
      qp_getVersions = (\<lambda>_. as_query QVersions (getAllVersions be send))\<rparr>"

section \<open>Hooks\<close>

text \<open>A hook is the options it hands to \<open>useQuery\<close>.\<close>

record UseQueryOptions = QueryParams +
  initialData :: "query_data option"

definition with_initial :: "QueryParams \<Rightarrow> query_data option \<Rightarrow> UseQueryOptions" where
  "with_initial q d = \<lparr>queryKey = queryKey q, queryFn = queryFn q, initialData = d\<rparr>"

definition useUserQuery :: "IQueryContext \<Rightarrow> jsval \<Rightarrow> query_data option \<Rightarrow> UseQueryOptions" where
  "useUserQuery ctx userId d = with_initial (userQuery (qx_getUser ctx userId)) d"
definition useBalanceQuery :: "IQueryContext \<Rightarrow> jsval \<Rightarrow> query_data option \<Rightarrow> UseQueryOptions" where
  "useBalanceQuery ctx userId d = with_initial (balanceQuery (qx_getBalance ctx userId)) d"
definition usePresetUsersQuery :: "IQueryContext \<Rightarrow> query_data option \<Rightarrow> UseQueryOptions" where
  "usePresetUsersQuery ctx d = with_initial (presetUsersQuery (qx_getPresetUsers ctx)) d"
definition useTransactionQuery :: "IQueryContext \<Rightarrow> jsval \<Rightarrow> query_data option \<Rightarrow> UseQueryOptions" where
  "useTransactionQuery ctx userId d = with_initial (transactionQuery userId (qx_getTransactions ctx userId)) d"
definition useInstrumentsQuery :: "IQueryContext \<Rightarrow> jsval \<Rightarrow> query_data option \<Rightarrow> UseQueryOptions" where
  "useInstrumentsQuery ctx userId d = with_initial (instrumentsQuery (qx_getInstruments ctx userId)) d"
definition useLatestPricesQuery :: "IQueryContext \<Rightarrow> query_data option \<Rightarrow> UseQueryOptions" where
  "useLatestPricesQuery ctx d = with_initial (latestPricesQuery (qx_getLatestPrices ctx)) d"
definition useInstrumentPricesQuery :: "IQueryContext \<Rightarrow> string \<Rightarrow> query_data option \<Rightarrow> UseQueryOptions" where
  "useInstrumentPricesQuery ctx instrumentId d =
     with_initial (instrumentPricesQuery instrumentId (qx_getInstrumentPrices ctx instrumentId)) d"
definition useCreditCardOrderStatus :: "IQueryContext \<Rightarrow> jsval \<Rightarrow> query_data option \<Rightarrow> UseQueryOptions" where
  "useCreditCardOrderStatus ctx userId d = with_initial (creditCardStatusQuery (qx_getCreditCardStatus ctx userId)) d"
definition useCreditCardOrderStatusHistory :: "IQueryContext \<Rightarrow> jsval \<Rightarrow> query_data option \<Rightarrow> UseQueryOptions" where
  "useCreditCardOrderStatusHistory ctx userId d =
     with_initial (creditCardStatusHistoryQuery (qx_getCreditCardStatusHistory ctx userId)) d"
definition useProblemFlagsQuery :: "IQueryContext \<Rightarrow> query_data option \<Rightarrow> UseQueryOptions" where
  "useProblemFlagsQuery ctx d = with_initial (problemFlagsQuery (qx_getFeatureFlags ctx)) d"
definition useConfigFlagsQuery :: "IQueryContext \<Rightarrow> query_data option \<Rightarrow> UseQueryOptions" where
  "useConfigFlagsQuery ctx d = with_initial (configFlagsQuery (qx_getConfig ctx)) d"
definition useVersionsQuery :: "IQueryContext \<Rightarrow> query_data option \<Rightarrow> UseQueryOptions" where
  "useVersionsQuery ctx d = with_initial (versionsQuery (qx_getVersions ctx)) d"

lemmas hook_defs = useUserQuery_def useBalanceQuery_def usePresetUsersQuery_def useTransactionQuery_def
  useInstrumentsQuery_def useLatestPricesQuery_def useInstrumentPricesQuery_def useCreditCardOrderStatus_def
  useCreditCardOrderStatusHistory_def useProblemFlagsQuery_def useConfigFlagsQuery_def useVersionsQuery_def
  with_initial_def QueryClientProvider_def

section \<open>The loaders of the routes\<close>

text \<open>What \<open>useLoaderData\<close> gives a page. The loader of the protected layout resolves to the two functions
  that \<open>loadWithUser\<close> returns, without calling them.\<close>

datatype 'c route_data =
    RouteData loaded
  | RouteThunks "('c \<Rightarrow> loaded call \<times> 'c) list"

definition guarded_data :: "loaded call \<times> 'c \<Rightarrow> 'c route_data call \<times> 'c" where
  "guarded_data r = (cbind (fst r) (\<lambda>l. creturn (RouteData l)), snd r)"

definition plain_data :: "query_data call \<times> 'c \<Rightarrow> 'c route_data call \<times> 'c" where
  "plain_data r = (cbind (fst r) (\<lambda>d. creturn (RouteData (Loaded d))), snd r)"

definition run_route_loader ::
  "'c query_client \<Rightarrow> QueryProviderProps \<Rightarrow> (unit \<Rightarrow> (js_error, jsval) result) \<Rightarrow> string
   \<Rightarrow> route_loader \<Rightarrow> 'c \<Rightarrow> 'c route_data call \<times> 'c" where
  "run_route_loader client api session param ld c =
     (case ld of
        PresetUsers \<Rightarrow> plain_data (presetUsersLoader client (qp_getPresetUsers api) c)
      | UserThunks \<Rightarrow>
          (creturn (RouteThunks
             [loadWithUser session (userLoader client (qp_getUser api)),
              loadWithUser session (balanceLoader client (qp_getBalance api))]), c)
      | GuardedCardStatus \<Rightarrow>
          guarded_data (loadWithUser session (creditCardStatusLoader client (qp_getCreditCardStatus api)) c)
      | GuardedCardHistory \<Rightarrow>
          guarded_data (loadWithUser session
            (creditCardStatusHistoryLoader client (qp_getCreditCardStatusHistory api)) c)
      | GuardedInstruments \<Rightarrow>
          guarded_data (loadWithUser session (instrumentsLoader client (qp_getInstruments api)) c)
      | GuardedTransactions \<Rightarrow>
          guarded_data (loadWithUser session (transactionsLoader client (qp_getTransactions api)) c)
      | InstrumentPrices \<Rightarrow> plain_data (instrumentPricesLoader client (qp_getInstrumentPrices api) param c))"

section \<open>Lemmas\<close>

text \<open>The API functions behind the routes do not reject.\<close>

lemma as_query_resolves: "\<exists>x. fst call = Inr x \<Longrightarrow> \<exists>d. fst (as_query tag call) = Inr d"
  by (cases call) (auto simp: as_query_def)

lemma app_resolves:
  "\<exists>d. fst (qp_getPresetUsers (app_providers be send px lx) ()) = Inr d"
  "\<exists>d. fst (qp_getTransactions (app_providers be send px lx) u) = Inr d"
  "\<exists>d. fst (qp_getInstruments (app_providers be send px lx) u) = Inr d"
  "\<exists>d. fst (qp_getInstrumentPrices (app_providers be send px lx) i) = Inr d"
  "\<exists>d. fst (qp_getCreditCardStatus (app_providers be send px lx) u) = Inr d"
  "\<exists>d. fst (qp_getCreditCardStatusHistory (app_providers be send px lx) u) = Inr d"
  unfolding app_providers_def QueryProviderProps.simps getPresetUsers_def getTransactions_def getInstruments_def
    getPricesForInstrument_def getOrderStatus_def getOrderStatusHistory_def
  by (rule as_query_resolves, rule caught_parts(1))+

context cached_loader
begin

lemma load_resolves:
  assumes "documented_client qc" "\<exists>d. fst (provider p) = Inr d"
  shows "\<exists>d. fst (fst (load qc provider p c)) = Inr d"
proof (cases "getQueryData qc c (key p)")
  case None
  with assms show ?thesis by (simp add: load_miss)
next
  case (Some d)
  with assms(1) show ?thesis by (simp add: load_hit)
qed

lemma load_leaves:
  assumes "documented_client qc" "fst (fst (load qc provider p c)) = Inr d"
  shows "getQueryData qc (snd (load qc provider p c)) (key p) = Some d"
proof (cases "getQueryData qc c (key p)")
  case None
  with assms show ?thesis by (simp add: load_stores load_miss stored_def)
next
  case (Some d')
  with assms show ?thesis by (simp add: load_hit)
qed

end

lemma guarded_resolves:
  assumes "session () = Inr u" "\<exists>d. fst (fst (loader u c)) = Inr d"
  shows "if u = Null \<or> u = Str [] then fst (guarded_data (loadWithUser session loader c)) = creturn (RouteData (Redirect ''/login''))
    else \<exists>d. fst (fst (guarded_data (loadWithUser session loader c))) = Inr (RouteData (Loaded d))"
proof -
  obtain d es c' where "loader u c = ((Inr d, es), c')"
    using assms(2) by (cases "loader u c") (metis fst_conv prod.exhaust_sel)
  with assms(1) show ?thesis
    by (simp add: guarded_data_def loadWithUser_def)
qed

lemma plain_resolves: "\<exists>d. fst (fst r) = Inr d \<Longrightarrow> \<exists>d. fst (fst (plain_data r)) = Inr (RouteData (Loaded d))"
  by (cases r; cases "fst r") (auto simp: plain_data_def)

section \<open>Properties\<close>

text \<open>C30 (route loaders). With a readable session no loader of the application rejects, so a service that is
  down never brings up the error page of the router. The guarded loaders send a visitor without a user
  to the login page and give everybody else data; the other loaders never redirect; the loader of the
  protected layout gives two functions, having fetched nothing and looked at nobody.\<close>

theorem route_loaders_resolve:
  assumes "documented_client qc" "session () = Inr u" "api = app_providers be send parse_xml luxon_iso"
  shows "fst (run_route_loader qc api session i UserThunks c)
      = creturn (RouteThunks [loadWithUser session (userLoader qc (qp_getUser api)),
                              loadWithUser session (balanceLoader qc (qp_getBalance api))]) \<and>
    (ld \<noteq> UserThunks \<longrightarrow>
      (if guarded ld \<and> (u = Null \<or> u = Str [])
       then fst (run_route_loader qc api session i ld c) = creturn (RouteData (Redirect ''/login''))
       else \<exists>d. fst (fst (run_route_loader qc api session i ld c)) = Inr (RouteData (Loaded d))))"
proof -
  note resolves = app_resolves [of be send parse_xml luxon_iso, folded assms(3)]
  note g = guarded_resolves [of session u, OF assms(2)]
  have thunks: "fst (run_route_loader qc api session i UserThunks c)
      = creturn (RouteThunks [loadWithUser session (userLoader qc (qp_getUser api)),
                              loadWithUser session (balanceLoader qc (qp_getBalance api))])"
    by (simp add: run_route_loader_def)
  have other: "if guarded ld \<and> (u = Null \<or> u = Str [])
       then fst (run_route_loader qc api session i ld c) = creturn (RouteData (Redirect ''/login''))
       else \<exists>d. fst (fst (run_route_loader qc api session i ld c)) = Inr (RouteData (Loaded d))"
    if "ld \<noteq> UserThunks"
  proof (cases ld)
    case PresetUsers
    with presets_loader.load_resolves [OF assms(1), of "qp_getPresetUsers api"] resolves(1) show ?thesis
      by (simp add: run_route_loader_def guarded_def plain_resolves)
  next
    case InstrumentPrices
    with prices_loader.load_resolves [OF assms(1), of "qp_getInstrumentPrices api"] resolves(4) show ?thesis
      by (simp add: run_route_loader_def guarded_def plain_resolves)
  next
    case GuardedCardStatus
    with g [of "creditCardStatusLoader qc (qp_getCreditCardStatus api)" c, OF status_loader.load_resolves [OF assms(1) resolves(5)]] show ?thesis
      by (simp add: run_route_loader_def guarded_def split: if_splits)
  next
    case GuardedCardHistory
    with g [of "creditCardStatusHistoryLoader qc (qp_getCreditCardStatusHistory api)" c, OF history_loader.load_resolves [OF assms(1) resolves(6)]] show ?thesis
      by (simp add: run_route_loader_def guarded_def split: if_splits)
  next
    case GuardedInstruments
    with g [of "instrumentsLoader qc (qp_getInstruments api)" c, OF instruments_loader.load_resolves [OF assms(1) resolves(3)]] show ?thesis
      by (simp add: run_route_loader_def guarded_def split: if_splits)
  next
    case GuardedTransactions
    with g [of "transactionsLoader qc (qp_getTransactions api)" c, OF transactions_loader.load_resolves [OF assms(1) resolves(2)]] show ?thesis
      by (simp add: run_route_loader_def guarded_def split: if_splits)
  qed (use that in simp)
  show ?thesis using thunks other by blast
qed

lemma route_loaders_resolve_witness:
  "\<exists>d. fst (fst (run_route_loader map_client (app_providers (mk_backends []) (\<lambda>rq. Inl (ThrownStr ''down'')) Inr Inr)
      (\<lambda>_. Inr (Str ''7'')) [] GuardedInstruments (\<lambda>k. None))) = Inr (RouteData (Loaded d))"
  using route_loaders_resolve [OF documented_map_client, of "\<lambda>_. Inr (Str ''7'')" "Str ''7''"
      "app_providers (mk_backends []) (\<lambda>rq. Inl (ThrownStr ''down'')) Inr Inr" "mk_backends []"
      "\<lambda>rq. Inl (ThrownStr ''down'')" Inr Inr "[]" "\<lambda>k. None" GuardedInstruments]
  by simp

text \<open>A hook reads what a loader loaded: the same function under the key the loader has filled.\<close>

definition hook_reads ::
  "'c query_client \<Rightarrow> UseQueryOptions \<Rightarrow> ('c \<Rightarrow> query_data call \<times> 'c) \<Rightarrow> query_data call \<Rightarrow> 'c \<Rightarrow> bool" where
  "hook_reads qc hook load provided c \<longleftrightarrow>
     queryFn hook () = provided \<and>
     (\<forall>d. fst (fst (load c)) = Inr d \<longrightarrow> getQueryData qc (snd (load c)) (queryKey hook) = Some d)"



end
