(* ===== verification/Fe_Form.thy ===== *)
theory Fe_Form
  imports Fe_Auth
begin

text \<open>
  What the forms of the frontend share: the status line (\<open>hooks/useStatusDisplay.ts\<close>,
  \<open>components/StatusDisplay.tsx\<close>), the mutations the forms hand to TanStack's \<open>useMutation\<close>, the
  schemas they hand to zod, and the run of a submission. The libraries are arguments: \<open>mutate\<close> runs a
  mutation, \<open>submit\<close> is React Hook Form with the zod resolver, and \<open>reset_notifies\<close> says whether a reset of
  a form calls the callbacks that watch it.
\<close>

section \<open>The status line\<close>

text \<open>A message is a string, or the error object that was thrown where the code expects a string.\<close>

datatype message = Text string | Raised js_error

fun as_message :: "js_error \<Rightarrow> message" where
  "as_message (ThrownStr s) = Text s"
| "as_message e = Raised e"

record status =
  successMsg :: message
  errorMsg :: message

definition useStatusDisplay :: status where
  "useStatusDisplay = \<lparr>successMsg = Text [], errorMsg = Text []\<rparr>"

definition setSuccess :: "message \<Rightarrow> status \<Rightarrow> status" where
  "setSuccess msg s = s\<lparr>successMsg := msg, errorMsg := Text []\<rparr>"

definition setError :: "message \<Rightarrow> status \<Rightarrow> status" where
  "setError msg s = s\<lparr>successMsg := Text [], errorMsg := msg\<rparr>"

definition resetState :: "status \<Rightarrow> status" where
  "resetState s = setError (Text []) (setSuccess (Text []) s)"

definition isError :: "status \<Rightarrow> bool" where "isError s \<longleftrightarrow> errorMsg s \<noteq> Text []"
definition isSuccess :: "status \<Rightarrow> bool" where "isSuccess s \<longleftrightarrow> successMsg s \<noteq> Text []"
definition hasMsg :: "status \<Rightarrow> bool" where
  "hasMsg s \<longleftrightarrow> errorMsg s \<noteq> Text [] \<or> successMsg s \<noteq> Text []"

text \<open>The alerts on the page, with their severity.\<close>

definition StatusDisplay :: "status \<Rightarrow> (string \<times> message) list" where
  "StatusDisplay s =
     (if isError s then [(''error'', errorMsg s)] else []) @
     (if isSuccess s then [(''success'', successMsg s)] else [])"

lemmas status_defs = useStatusDisplay_def setSuccess_def setError_def resetState_def isError_def isSuccess_def
  hasMsg_def StatusDisplay_def

section \<open>Schemas\<close>

text \<open>The chains of checks the code builds with zod.\<close>

datatype str_check =
    MinLength nat string
  | Email string
  | RefineStr "string \<Rightarrow> bool" string

datatype num_check =
    Positive string
  | AtLeast int string
  | AtMost int string

datatype field =
    ZString "str_check list"
  | ZNumber bool string "num_check list" \<comment> \<open>coerced, message when missing, checks\<close>
  | ZBoolean "bool \<Rightarrow> bool" string

type_synonym form_data = "string \<Rightarrow> jsval"

record schema =
  sc_fields :: "(string \<times> field) list"
  sc_refine :: "((form_data \<Rightarrow> bool) \<times> string \<times> string) option" \<comment> \<open>condition, message, path\<close>

text \<open>What zod documents of them: \<open>is_email\<close> is its test of an email address.\<close>

fun str_passes :: "(string \<Rightarrow> bool) \<Rightarrow> string \<Rightarrow> str_check \<Rightarrow> bool" where
  "str_passes is_email s (MinLength n m) \<longleftrightarrow> n \<le> length s"
| "str_passes is_email s (Email m) \<longleftrightarrow> is_email s"
| "str_passes is_email s (RefineStr p m) \<longleftrightarrow> p s"

fun num_passes :: "jsnum \<Rightarrow> num_check \<Rightarrow> bool" where
  "num_passes x (Positive m) \<longleftrightarrow> jlt (Fin 0) x"
| "num_passes x (AtLeast n m) \<longleftrightarrow> jle (jint n) x"
| "num_passes x (AtMost n m) \<longleftrightarrow> jle x (jint n)"

fun field_parse :: "(string \<Rightarrow> bool) \<Rightarrow> field \<Rightarrow> jsval \<Rightarrow> jsval option" where
  "field_parse is_email (ZString cs) v =
     (case v of Str s \<Rightarrow> if list_all (str_passes is_email s) cs then Some v else None | _ \<Rightarrow> None)"
| "field_parse is_email (ZNumber coerce m cs) v =
     (case (if coerce then Num (to_number v) else v) of
        Num x \<Rightarrow> if x \<noteq> NaN \<and> list_all (num_passes x) cs then Some (Num x) else None
      | _ \<Rightarrow> None)"
| "field_parse is_email (ZBoolean p m) v =
     (case v of Bool b \<Rightarrow> if p b then Some v else None | _ \<Rightarrow> None)"

definition parsed_data :: "(string \<Rightarrow> bool) \<Rightarrow> schema \<Rightarrow> form_data \<Rightarrow> form_data" where
  "parsed_data is_email S vals = (\<lambda>k. case map_of (sc_fields S) k of
      None \<Rightarrow> Undefined
    | Some f \<Rightarrow> (case field_parse is_email f (vals k) of None \<Rightarrow> Undefined | Some v \<Rightarrow> v))"

definition schema_parse :: "(string \<Rightarrow> bool) \<Rightarrow> schema \<Rightarrow> form_data \<Rightarrow> form_data option" where
  "schema_parse is_email S vals =
     (if list_all (\<lambda>(k, f). field_parse is_email f (vals k) \<noteq> None) (sc_fields S) \<and>
         (case sc_refine S of None \<Rightarrow> True | Some (p, m) \<Rightarrow> p (parsed_data is_email S vals))
      then Some (parsed_data is_email S vals) else None)"

text \<open>The form hands its data to \<open>onSuccess\<close> exactly when they pass the schema.\<close>

type_synonym form_submit = "schema \<Rightarrow> form_data \<Rightarrow> form_data option"

definition submit_documented :: "(string \<Rightarrow> bool) \<Rightarrow> form_submit \<Rightarrow> bool" where
  "submit_documented is_email submit \<longleftrightarrow> (\<forall>S vals. submit S vals = schema_parse is_email S vals)"

section \<open>Mutations\<close>

record ('v, 'r, 's) mutation =
  mutationFn :: "'v \<Rightarrow> 's \<Rightarrow> (js_error, 'r) result \<times> 's"
  onMutate :: "'v \<Rightarrow> 's \<Rightarrow> 's"
  onSuccess :: "'r \<Rightarrow> 'v \<Rightarrow> 's \<Rightarrow> 's"
  onError :: "js_error \<Rightarrow> 'v \<Rightarrow> 's \<Rightarrow> 's"

definition run_mutation :: "('v, 'r, 's) mutation \<Rightarrow> 'v \<Rightarrow> 's \<Rightarrow> 's" where
  "run_mutation m v s =
     (case mutationFn m v (onMutate m v s) of
        (Inl e, s') \<Rightarrow> onError m e v s'
      | (Inr r, s') \<Rightarrow> onSuccess m r v s')"

text \<open>What TanStack documents of \<open>mutate\<close>: \<open>onMutate\<close>, then the function, then one of the two callbacks.\<close>

definition mutate_documented :: "(('v, 'r, 's) mutation \<Rightarrow> 'v \<Rightarrow> 's \<Rightarrow> 's) \<Rightarrow> bool" where
  "mutate_documented mutate \<longleftrightarrow> (\<forall>m v s. mutate m v s = run_mutation m v s)"

section \<open>The state around a form\<close>

record 'c page_state =
  pg_status :: status
  pg_values :: form_data
  pg_cache :: 'c
  pg_auth :: auth
  pg_log :: "effect list"

definition on_status :: "(status \<Rightarrow> status) \<Rightarrow> 'c page_state \<Rightarrow> 'c page_state" where
  "on_status f s = s\<lparr>pg_status := f (pg_status s)\<rparr>"

definition on_cache :: "('c \<Rightarrow> 'c) \<Rightarrow> 'c page_state \<Rightarrow> 'c page_state" where
  "on_cache f s = s\<lparr>pg_cache := f (pg_cache s)\<rparr>"

definition setValue :: "string \<Rightarrow> jsval \<Rightarrow> 'c page_state \<Rightarrow> 'c page_state" where
  "setValue k v s = s\<lparr>pg_values := (pg_values s)(k := v)\<rparr>"

text \<open>A reset of the form puts the defaults back; if the library notifies the watchers of it, the event has
  no type, whereas a change by the user has the type \<open>change\<close>.\<close>

definition reset_form :: "bool \<Rightarrow> (string option \<Rightarrow> status \<Rightarrow> status) \<Rightarrow> form_data \<Rightarrow> 'c page_state \<Rightarrow> 'c page_state" where
  "reset_form reset_notifies watcher defaults s =
     (let s1 = s\<lparr>pg_values := defaults\<rparr> in if reset_notifies then on_status (watcher None) s1 else s1)"

text \<open>The two callbacks the forms watch with.\<close>

definition watch_any :: "string option \<Rightarrow> status \<Rightarrow> status" where
  "watch_any ty = resetState"

definition watch_change :: "string option \<Rightarrow> status \<Rightarrow> status" where
  "watch_change ty = (if ty = Some ''change'' then resetState else id)"

text \<open>\<open>const { error } = await handler(...); if (error !== undefined) throw error\<close>\<close>

definition await_handler :: "HandlerResponse call \<Rightarrow> 'c page_state \<Rightarrow> (js_error, unit) result \<times> 'c page_state" where
  "await_handler call s =
     ((case fst call of Inl e \<Rightarrow> Inl e | Inr None \<Rightarrow> Inr () | Inr (Some error) \<Rightarrow> Inl (ThrownStr error)),
      s\<lparr>pg_log := pg_log s @ snd call\<rparr>)"

text \<open>The same for a response whose fields are only known as values.\<close>

definition await_response :: "jsval call \<Rightarrow> 'c page_state \<Rightarrow> (js_error, unit) result \<times> 'c page_state" where
  "await_response call s =
     (let r = cbind call (\<lambda>v. lift_result (rbind (get_prop v ''error'') (\<lambda>error.
                if error \<noteq> Undefined then Inl (thrown error) else Inr ())))
      in (fst r, s\<lparr>pg_log := pg_log s @ snd r\<rparr>))"

text \<open>Submitting a form: nothing happens unless the data pass; then the mutation runs on what the form makes
  of them.\<close>

definition submit_form ::
  "form_submit \<Rightarrow> (('v, 'r, 'c page_state) mutation \<Rightarrow> 'v \<Rightarrow> 'c page_state \<Rightarrow> 'c page_state) \<Rightarrow> schema
   \<Rightarrow> (form_data \<Rightarrow> 'v) \<Rightarrow> ('v, 'r, 'c page_state) mutation \<Rightarrow> 'c page_state \<Rightarrow> 'c page_state" where
  "submit_form submit mutate S vars m s =
     (case submit S (pg_values s) of None \<Rightarrow> s | Some data \<Rightarrow> mutate m (vars data) s)"

section \<open>Lemmas\<close>

lemma status_simps [simp]:
  "isError (setError m s) \<longleftrightarrow> m \<noteq> Text []" "isSuccess (setError m s) \<longleftrightarrow> False"
  "isSuccess (setSuccess m s) \<longleftrightarrow> m \<noteq> Text []" "isError (setSuccess m s) \<longleftrightarrow> False"
  "isError (resetState s) \<longleftrightarrow> False" "isSuccess (resetState s) \<longleftrightarrow> False"
  "successMsg (setSuccess m s) = m" "errorMsg (setError m s) = m"
  "setSuccess m (resetState s) = setSuccess m s" "setError m (resetState s) = setError m s"
  "resetState (resetState s) = resetState s" "resetState (setSuccess m s) = resetState s"
  "resetState (setError m s) = resetState s"
  by (simp_all add: status_defs)

lemma StatusDisplay_simps [simp]:
  "StatusDisplay (setError m s) = (if m = Text [] then [] else [(''error'', m)])"
  "StatusDisplay (setSuccess m s) = (if m = Text [] then [] else [(''success'', m)])"
  "StatusDisplay (resetState s) = []"
  by (simp_all add: StatusDisplay_def isError_def isSuccess_def setError_def setSuccess_def resetState_def)

lemma on_simps [simp]:
  "pg_status (on_status f s) = f (pg_status s)" "pg_values (on_status f s) = pg_values s"
  "pg_cache (on_status f s) = pg_cache s" "pg_auth (on_status f s) = pg_auth s" "pg_log (on_status f s) = pg_log s"
  "pg_status (on_cache g s) = pg_status s" "pg_values (on_cache g s) = pg_values s"
  "pg_cache (on_cache g s) = g (pg_cache s)" "pg_auth (on_cache g s) = pg_auth s" "pg_log (on_cache g s) = pg_log s"
  by (simp_all add: on_status_def on_cache_def)

lemma schema_parse_field:
  assumes "schema_parse is_email S vals = Some d" "map_of (sc_fields S) k = Some f"
  shows "field_parse is_email f (vals k) = Some (d k)"
proof -
  have "(k, f) \<in> set (sc_fields S)" using assms(2) by (rule map_of_SomeD)
  with assms(1) have "field_parse is_email f (vals k) \<noteq> None"
    by (auto simp: schema_parse_def list_all_iff split: if_splits)
  with assms show ?thesis by (auto simp: schema_parse_def parsed_data_def split: if_splits)
qed

lemma schema_parse_refine:
  "schema_parse is_email S vals = Some d \<Longrightarrow> sc_refine S = Some (p, m) \<Longrightarrow> p d"
  by (auto simp: schema_parse_def split: if_splits)

lemma string_field:
  "field_parse is_email (ZString cs) v = Some w \<Longrightarrow> \<exists>s. v = Str s \<and> w = Str s \<and> (\<forall>c \<in> set cs. str_passes is_email s c)"
  by (cases v) (auto simp: list_all_iff split: if_splits)

lemma number_field:
  "field_parse is_email (ZNumber co m cs) v = Some w \<Longrightarrow> \<exists>x. w = Num x \<and> x \<noteq> NaN \<and> (\<forall>c \<in> set cs. num_passes x c)"
  by (auto simp: list_all_iff split: if_splits jsval.splits)

text \<open>A status never shows both messages, whatever sequence of settings made it.\<close>

definition one_message :: "status \<Rightarrow> bool" where
  "one_message s \<longleftrightarrow> \<not> (isError s \<and> isSuccess s)"

lemma one_message_ops [simp, intro]:
  "one_message useStatusDisplay" "one_message (setSuccess m s)" "one_message (setError m s)"
  "one_message (resetState s)" "one_message s \<Longrightarrow> one_message (watch_any ty s)"
  "one_message s \<Longrightarrow> one_message (watch_change ty s)"
  by (simp_all add: one_message_def useStatusDisplay_def isError_def watch_any_def watch_change_def)
    (simp_all add: status_defs)

text \<open>The libraries as documented.\<close>

lemma documented_libraries: "submit_documented is_email (schema_parse is_email)" "mutate_documented run_mutation"
  by (simp_all add: submit_documented_def mutate_documented_def)

lemma documented_eqs:
  "submit_documented is_email submit \<Longrightarrow> submit = schema_parse is_email"
  "mutate_documented mutate \<Longrightarrow> mutate = run_mutation"
  by (simp_all add: submit_documented_def mutate_documented_def fun_eq_iff)

definition blank_page :: "'c \<Rightarrow> form_data \<Rightarrow> 'c page_state" where
  "blank_page c vals =
     \<lparr>pg_status = useStatusDisplay, pg_values = vals, pg_cache = c, pg_auth = initial_auth None, pg_log = []\<rparr>"

section \<open>What a handled form promises\<close>

text \<open>A form that resets its status, awaits a handler that answers with an optional error, and shows what it
  throws. Its lemmas say what a submission leaves, for every such form.\<close>

locale handled_form =
  fixes mut :: "('v, unit, 'c page_state) mutation"
    and handler :: "'v \<Rightarrow> HandlerResponse call"
  assumes mutate_resets: "onMutate mut v s = on_status resetState s"
    and function_awaits: "mutationFn mut v s = await_handler (handler v) s"
    and error_shown: "onError mut e v s = on_status (setError (as_message e)) s"
    and success_sends_nothing: "pg_log (onSuccess mut r v s) = pg_log s"
begin

lemma run_log: "pg_log (run_mutation mut v s) = pg_log s @ snd (handler v)"
  by (auto simp: run_mutation_def mutate_resets function_awaits error_shown await_handler_def
      success_sends_nothing split: sum.splits option.splits)

lemma run_failure:
  "fst (handler v) = Inr (Some msg) \<Longrightarrow>
     run_mutation mut v s = s\<lparr>pg_status := setError (Text msg) (pg_status s), pg_log := pg_log s @ snd (handler v)\<rparr>"
  by (simp add: run_mutation_def mutate_resets function_awaits error_shown await_handler_def on_status_def)

lemma run_success:
  "fst (handler v) = Inr None \<Longrightarrow>
     run_mutation mut v s
       = onSuccess mut () v (s\<lparr>pg_status := resetState (pg_status s), pg_log := pg_log s @ snd (handler v)\<rparr>)"
  by (simp add: run_mutation_def mutate_resets function_awaits await_handler_def on_status_def)

lemma submit_rejected:
  "submit_documented is_email submit \<Longrightarrow> schema_parse is_email S (pg_values s) = None \<Longrightarrow>
     submit_form submit mutate S vars mut s = s"
  by (simp add: submit_form_def submit_documented_def)

lemma submit_log:
  assumes "submit_documented is_email submit" "mutate_documented mutate"
  shows "pg_log (submit_form submit mutate S vars mut s) = pg_log s @
    (case schema_parse is_email S (pg_values s) of None \<Rightarrow> [] | Some d \<Rightarrow> snd (handler (vars d)))"
  using assms by (simp add: submit_form_def submit_documented_def mutate_documented_def run_log split: option.splits)

lemma submit_sent:
  assumes "submit_documented is_email submit" "mutate_documented mutate"
    and "e \<in> set (pg_log (submit_form submit mutate S vars mut s))" "e \<notin> set (pg_log s)"
  obtains d where "schema_parse is_email S (pg_values s) = Some d" "e \<in> set (snd (handler (vars d)))"
  using assms(3,4) that unfolding submit_log [OF assms(1,2)] by (cases "schema_parse is_email S (pg_values s)") auto

lemma submit_accepted:
  "submit_documented is_email submit \<Longrightarrow> mutate_documented mutate \<Longrightarrow>
     schema_parse is_email S (pg_values s) = Some d \<Longrightarrow>
     submit_form submit mutate S vars mut s = run_mutation mut (vars d) s"
  by (simp add: submit_form_def submit_documented_def mutate_documented_def)

end

text \<open>How a submission can end, and what the page then is: unchanged, showing the refusal with the form as it
  was, or with the form emptied, some of the cache outdated and what the form shows of a success.\<close>

datatype submission = Rejected | Refused string | Crashed js_error | Done

definition submission_of ::
  "(string \<Rightarrow> bool) \<Rightarrow> schema \<Rightarrow> (form_data \<Rightarrow> HandlerResponse call) \<Rightarrow> form_data \<Rightarrow> submission" where
  "submission_of is_email S handler vals =
     (case schema_parse is_email S vals of
        None \<Rightarrow> Rejected
      | Some d \<Rightarrow> (case fst (handler d) of
            Inl e \<Rightarrow> Crashed e | Inr (Some msg) \<Rightarrow> Refused msg | Inr None \<Rightarrow> Done))"

definition page_after ::
  "submission \<Rightarrow> form_data \<Rightarrow> ('c \<Rightarrow> 'c) \<Rightarrow> (string \<times> message) list \<Rightarrow> 'c page_state \<Rightarrow> 'c page_state \<Rightarrow> bool" where
  "page_after out defaults outdate shown s s' \<longleftrightarrow>
     (case out of
        Rejected \<Rightarrow> s' = s
      | Refused msg \<Rightarrow> StatusDisplay (pg_status s') = (if msg = [] then [] else [(''error'', Text msg)]) \<and>
          pg_values s' = pg_values s \<and> pg_cache s' = pg_cache s
      | Crashed e \<Rightarrow> pg_values s' = pg_values s \<and> pg_cache s' = pg_cache s \<and> \<not> isSuccess (pg_status s')
      | Done \<Rightarrow> StatusDisplay (pg_status s') = shown \<and> pg_values s' = defaults \<and>
          pg_cache s' = outdate (pg_cache s))"

locale settled_form = handled_form mut handler
  for mut :: "('v, unit, 'c page_state) mutation" and handler :: "'v \<Rightarrow> HandlerResponse call" +
  fixes defaults :: form_data
    and outdate :: "'c \<Rightarrow> 'c"
    and shown :: "(string \<times> message) list"
  assumes success_page: "StatusDisplay (pg_status (onSuccess mut r v s)) = shown"
    "pg_values (onSuccess mut r v s) = defaults" "pg_cache (onSuccess mut r v s) = outdate (pg_cache s)"
begin

lemma submit_page:
  assumes "submit_documented is_email submit" "mutate_documented mutate"
  shows "page_after (submission_of is_email S (\<lambda>d. handler (vars d)) (pg_values s)) defaults outdate shown s
    (submit_form submit mutate S vars mut s)"
proof (cases "schema_parse is_email S (pg_values s)")
  case None
  then show ?thesis using submit_rejected [OF assms(1) None] by (simp add: page_after_def submission_of_def)
next
  case (Some d)
  note run = submit_accepted [OF assms Some, of vars]
  show ?thesis
  proof (cases "fst (handler (vars d))")
    case (Inl e)
    then show ?thesis
      by (simp add: run Some submission_of_def page_after_def run_mutation_def mutate_resets function_awaits
          error_shown await_handler_def)
  next
    case (Inr r)
    then show ?thesis
      by (cases r) (simp_all add: run Some submission_of_def page_after_def run_failure run_success success_page)
  qed
qed

lemma submit_values:
  assumes "submit_documented is_email submit" "mutate_documented mutate"
  shows "pg_values (submit_form submit mutate S vars mut s) \<in> {pg_values s, defaults}"
  using submit_page [OF assms, of S vars s]
  by (auto simp: page_after_def split: submission.splits)

end

end
