(* ===== verification/Fe_Payment_Forms.thy ===== *)
theory Fe_Payment_Forms
  imports Fe_Form
begin

text \<open>
  The forms that pay: \<open>components/forms/DepositForm.tsx\<close>, \<open>components/forms/WithdrawForm.tsx\<close>, and the order
  and revocation of a credit card (\<open>components/creditCard/CreditCardForm.tsx\<close>,
  \<open>pages/protected/creditCard/CreditCardActive.tsx\<close>). \<open>is_credit_card\<close> is the check of the validator
  package, \<open>notifies\<close> says whether the form library calls the watchers of a form when the program, and not
  the user, changes it.
\<close>

section \<open>Deposit\<close>

definition cvvRegex :: "string \<Rightarrow> bool" where
  "cvvRegex s \<longleftrightarrow> list_all is_digit s \<and> 3 \<le> length s \<and> length s \<le> 4"

definition DepositForm_schema :: "(string \<Rightarrow> bool) \<Rightarrow> schema" where
  "DepositForm_schema isCreditCard =
     \<lparr>sc_fields =
        [(''amount'', ZNumber False ''Amount is required'' [Positive ''Amount must be greater than 0'']),
         (''cardholderName'', ZString [MinLength 1 ''Cardholder name is required'']),
         (''address'', ZString [MinLength 1 ''Address is required'']),
         (''email'', ZString [MinLength 1 ''Email is required'', Email ''Invalid email'']),
         (''cardNumber'', ZString [MinLength 1 ''Card number is required'',
            RefineStr isCreditCard ''Invalid credit card number'']),
         (''cardType'', ZString [MinLength 1 ''Must set card type'']),
         (''cvv'', ZString [MinLength 1 ''CVV is required'', RefineStr cvvRegex ''Invalid CVV'']),
         (''agreementCheck'', ZBoolean (\<lambda>checked. checked) ''Must agree to terms and conditions'')],
      sc_refine = None\<rparr>"

definition DepositForm_defaults :: form_data where
  "DepositForm_defaults =
     (\<lambda>_. Undefined)(''amount'' := Num (jint 0), ''cardholderName'' := Str [], ''address'' := Str [],
        ''email'' := Str [], ''cardNumber'' := Str [], ''cardType'' := Str [], ''cvv'' := Str [],
        ''agreementCheck'' := Bool False)"

definition deposit_request :: "jsval \<Rightarrow> form_data \<Rightarrow> DepositRequest" where
  "deposit_request userId data =
     \<lparr>wr_accountId = to_number userId, wr_amount = to_number (data ''amount''),
      wr_name = to_str (data ''cardholderName''), wr_address = to_str (data ''address''),
      wr_email = to_str (data ''email''), wr_cardNumber = to_str (data ''cardNumber''),
      wr_cardType = to_str (data ''cardType''), dr_cvv = to_str (data ''cvv'')\<rparr>"

definition DepositForm_mutation ::
  "(DepositRequest \<Rightarrow> HandlerResponse call) \<Rightarrow> 'c query_client \<Rightarrow> jsval \<Rightarrow> bool
   \<Rightarrow> (form_data, unit, 'c page_state) mutation" where
  "DepositForm_mutation submitHandler client userId notifies =
     \<lparr>mutationFn = (\<lambda>data. await_handler (submitHandler (deposit_request userId data))),
      onMutate = (\<lambda>data. on_status resetState),
      onSuccess = (\<lambda>_ data s.
        let s1 = on_status (setSuccess (Text ''Deposit successful'')) s;
            s2 = on_cache (balanceInvalidateQuery client) s1
        in reset_form notifies watch_any DepositForm_defaults s2),
      onError = (\<lambda>error data. on_status (setError (as_message error)))\<rparr>"

text \<open>The autofill button. \<open>user?.firstName + " " + user?.lastName\<close> is a string whatever the two are.\<close>

definition set_watched :: "bool \<Rightarrow> (string option \<Rightarrow> status \<Rightarrow> status) \<Rightarrow> string \<Rightarrow> jsval \<Rightarrow> 'c page_state \<Rightarrow> 'c page_state" where
  "set_watched notifies watcher k v s =
     (let s1 = setValue k v s in if notifies then on_status (watcher None) s1 else s1)"

definition user_prop :: "(fe_user \<Rightarrow> jsval) \<Rightarrow> fe_user option \<Rightarrow> jsval" where
  "user_prop f user = (case user of None \<Rightarrow> Undefined | Some u \<Rightarrow> f u)"

definition payment_autofill :: "bool \<Rightarrow> fe_user option \<Rightarrow> 'c page_state \<Rightarrow> 'c page_state" where
  "payment_autofill notifies user s =
     (let set = set_watched notifies watch_any;
          s1 = (if strict_eq (pg_values s ''amount'') (DepositForm_defaults ''amount'')
                then set ''amount'' (Num (jint 1000)) s else s);
          s2 = set ''cardholderName''
                 (Str (to_str (user_prop fu_firstName user) @ '' '' @ to_str (user_prop fu_lastName user))) s1;
          s3 = set ''address'' (nullish (user_prop fu_address user) (Str ''Kochweg 4 01510 Kronach'')) s2;
          s4 = set ''email'' (nullish (user_prop fu_email user) (Str ''mockemail@mail.com'')) s3;
          s5 = set ''cardNumber'' (Str ''2293562484488276'') s4
      in set ''cardType'' (Str ''visaDebit'') s5)"

definition DepositForm_autofill :: "bool \<Rightarrow> fe_user option \<Rightarrow> 'c page_state \<Rightarrow> 'c page_state" where
  "DepositForm_autofill notifies user s =
     (let s6 = payment_autofill notifies user s;
          s7 = set_watched notifies watch_any ''cvv'' (Str ''123'') s6
      in set_watched notifies watch_any ''agreementCheck'' (Bool True) s7)"

text \<open>The button beside the card number, of both forms.\<close>

definition autofillCardNumber :: "bool \<Rightarrow> 'c page_state \<Rightarrow> 'c page_state" where
  "autofillCardNumber notifies = set_watched notifies watch_any ''cardNumber'' (Str ''2293562484488276'')"

section \<open>Withdrawal\<close>

definition WithdrawForm_schema :: "(string \<Rightarrow> bool) \<Rightarrow> schema" where
  "WithdrawForm_schema isCreditCard =
     \<lparr>sc_fields =
        [(''amount'', ZNumber False ''Amount is required'' [Positive ''Amount must be greater than 0'']),
         (''cardholderName'', ZString [MinLength 1 ''Cardholder name is required'']),
         (''address'', ZString [MinLength 1 ''Address is required'']),
         (''email'', ZString [MinLength 1 ''Email is required'', Email ''Invalid email'']),
         (''cardNumber'', ZString [MinLength 1 ''Card number is required'',
            RefineStr isCreditCard ''Invalid credit card number'']),
         (''cardType'', ZString [MinLength 1 ''Must set card type'']),
         (''agreementCheck'', ZBoolean (\<lambda>checked. checked) ''Must agree to terms and conditions'')],
      sc_refine = None\<rparr>"

definition WithdrawForm_defaults :: form_data where
  "WithdrawForm_defaults =
     (\<lambda>_. Undefined)(''amount'' := Num (jint 0), ''cardholderName'' := Str [], ''address'' := Str [],
        ''email'' := Str [], ''cardNumber'' := Str [], ''cardType'' := Str [], ''agreementCheck'' := Bool False)"

definition withdraw_request :: "jsval \<Rightarrow> form_data \<Rightarrow> WithdrawRequest" where
  "withdraw_request userId data =
     \<lparr>wr_accountId = to_number userId, wr_amount = to_number (data ''amount''),
      wr_name = to_str (data ''cardholderName''), wr_address = to_str (data ''address''),
      wr_email = to_str (data ''email''), wr_cardNumber = to_str (data ''cardNumber''),
      wr_cardType = to_str (data ''cardType'')\<rparr>"

definition WithdrawForm_mutation ::
  "(WithdrawRequest \<Rightarrow> HandlerResponse call) \<Rightarrow> 'c query_client \<Rightarrow> jsval \<Rightarrow> bool
   \<Rightarrow> (form_data, unit, 'c page_state) mutation" where
  "WithdrawForm_mutation submitHandler client userId notifies =
     \<lparr>mutationFn = (\<lambda>data. await_handler (submitHandler (withdraw_request userId data))),
      onMutate = (\<lambda>data. on_status resetState),
      onSuccess = (\<lambda>_ data s.
        let s1 = on_status (setSuccess (Text ''Withdraw successful'')) s;
            s2 = on_cache (balanceInvalidateQuery client) s1
        in reset_form notifies watch_any WithdrawForm_defaults s2),
      onError = (\<lambda>error data. on_status (setError (as_message error)))\<rparr>"

definition WithdrawForm_autofill :: "bool \<Rightarrow> fe_user option \<Rightarrow> 'c page_state \<Rightarrow> 'c page_state" where
  "WithdrawForm_autofill notifies user s =
     set_watched notifies watch_any ''agreementCheck'' (Bool True) (payment_autofill notifies user s)"

section \<open>Credit cards\<close>

definition CreditCardForm_schema :: schema where
  "CreditCardForm_schema =
     \<lparr>sc_fields =
        [(''name'', ZString [MinLength 1 ''Cardholder name is required.'']),
         (''address'', ZString [MinLength 1 ''Cardholder address is required.'']),
         (''email'', ZString [MinLength 1 ''Email is required.'', Email ''Provide a valid email'']),
         (''type'', ZString [MinLength 1 ''Card type is required.'']),
         (''agreementCheck'', ZBoolean (\<lambda>checked. checked) ''Must agree to terms and conditions'')],
      sc_refine = None\<rparr>"

definition CreditCardForm_defaults :: form_data where
  "CreditCardForm_defaults =
     (\<lambda>_. Undefined)(''name'' := Str [], ''address'' := Str [], ''type'' := Str [], ''agreementCheck'' := Bool False)"

text \<open>\<open>orderCreditCard\<close> adds the account id to what the form sends.\<close>

definition order_request :: "form_data \<Rightarrow> CreditCardOrderRequest" where
  "order_request data =
     \<lparr>co_accountId = NaN, co_name = to_str (data ''name''), co_email = to_str (data ''email''),
      co_shippingAddress = to_str (data ''address''), co_cardLevel = to_str (data ''type'')\<rparr>"

definition CreditCardForm_mutation ::
  "(jsval \<Rightarrow> CreditCardOrderRequest \<Rightarrow> CreditCardOrderResponse call) \<Rightarrow> 'c query_client \<Rightarrow> jsval
   \<Rightarrow> (form_data, jsval, 'c page_state) mutation" where
  "CreditCardForm_mutation order client userId =
     \<lparr>mutationFn = (\<lambda>data s.
        let call = order userId (order_request data) in
        ((case fst call of
            Inl e \<Rightarrow> Inl e
          | Inr (OrderError error) \<Rightarrow> Inl (ThrownStr error)
          | Inr (OrderSuccess orderId) \<Rightarrow> Inr orderId),
         s\<lparr>pg_log := pg_log s @ snd call\<rparr>)),
      onMutate = (\<lambda>data. on_status resetState),
      onSuccess = (\<lambda>orderId data s.
        let s1 = on_status (setSuccess (Text (''Card orderred successfully. Order ID: '' @ to_str orderId))) s;
            s2 = s1\<lparr>pg_values := CreditCardForm_defaults\<rparr>
        in on_cache (newCardOrderInvalidateQuery client) s2),
      onError = (\<lambda>error data. on_status (setError (as_message error)))\<rparr>"

definition CreditCardForm_autofill :: "fe_user option \<Rightarrow> 'c page_state \<Rightarrow> 'c page_state" where
  "CreditCardForm_autofill user s =
     (case user of
        None \<Rightarrow> on_status (setError (Text (''Couldn'' @ [CHR 0x27] @ ''t get proper data to fill form.''))) s
      | Some u \<Rightarrow>
          let s1 = setValue ''name'' (Str (to_str (fu_firstName u) @ '' '' @ to_str (fu_lastName u))) s;
              s2 = setValue ''address'' (fu_address u) s1;
              s3 = setValue ''type'' (Str ''silver'') s2;
              s4 = setValue ''email'' (fu_email u) s3
          in setValue ''agreementCheck'' (Bool True) s4)"

definition CreditCardActive_mutation ::
  "(jsval \<Rightarrow> RevokeCardResponse call) \<Rightarrow> 'c query_client \<Rightarrow> jsval \<Rightarrow> (unit, unit, 'c page_state) mutation" where
  "CreditCardActive_mutation revoke client userId =
     \<lparr>mutationFn = (\<lambda>_ s.
        let call = revoke userId in
        ((case fst call of
            Inl e \<Rightarrow> Inl e
          | Inr (RevokeError error) \<Rightarrow> Inl (ThrownStr error)
          | Inr RevokeSuccess \<Rightarrow> Inr ()),
         s\<lparr>pg_log := pg_log s @ snd call\<rparr>)),
      onMutate = (\<lambda>_. on_status resetState),
      onSuccess = (\<lambda>_ _ s.
        let s1 = on_cache (deleteCardInvalidateQuery client) s
        in on_status (setSuccess (Text ''Card has been successfully revoked.'')) s1),
      onError = (\<lambda>error _. on_status (setError (as_message error)))\<rparr>"

interpretation deposit_form: settled_form "DepositForm_mutation submitHandler client userId notifies"
    "\<lambda>d. submitHandler (deposit_request userId d)" DepositForm_defaults "balanceInvalidateQuery client"
    "if notifies then [] else [(''success'', Text ''Deposit successful'')]"
    for submitHandler client userId notifies
  by unfold_locales (simp_all add: DepositForm_mutation_def reset_form_def Let_def watch_any_def)

interpretation withdraw_form: settled_form "WithdrawForm_mutation submitHandler client userId notifies"
    "\<lambda>d. submitHandler (withdraw_request userId d)" WithdrawForm_defaults "balanceInvalidateQuery client"
    "if notifies then [] else [(''success'', Text ''Withdraw successful'')]"
    for submitHandler client userId notifies
  by unfold_locales (simp_all add: WithdrawForm_mutation_def reset_form_def Let_def watch_any_def)

section \<open>Lemmas\<close>

lemmas deposit_fields = DepositForm_schema_def WithdrawForm_schema_def

text \<open>What the schema guarantees of the data the form hands on.\<close>

lemma amount_data:
  assumes "schema_parse is_email S vals = Some d"
    and "map_of (sc_fields S) ''amount'' = Some (ZNumber False m [Positive m'])"
  obtains x where "d ''amount'' = Num x" "vals ''amount'' = Num x" "jlt (Fin 0) x"
  using schema_parse_field [OF assms] that by (cases "vals ''amount''"; cases "d ''amount''") (auto split: if_splits)

lemma string_data:
  assumes "schema_parse is_email S vals = Some d" "map_of (sc_fields S) k = Some (ZString cs)"
  obtains t where "d k = Str t" "vals k = Str t" "\<forall>c \<in> set cs. str_passes is_email t c"
  using string_field [OF schema_parse_field [OF assms]] by auto

lemma agreed_data:
  assumes "schema_parse is_email S vals = Some d"
    and "map_of (sc_fields S) ''agreementCheck'' = Some (ZBoolean (\<lambda>b. b) m)"
  shows "vals ''agreementCheck'' = Bool True"
  using schema_parse_field [OF assms] by (auto split: jsval.splits if_splits)

text \<open>A payment as it may be sent: for the account of the user, with a positive amount, to a card that
  passed the check, and only after the terms were agreed to.\<close>

definition valid_payment ::
  "(string \<Rightarrow> bool) \<Rightarrow> (string \<Rightarrow> bool) \<Rightarrow> jsval \<Rightarrow> form_data \<Rightarrow> 'x WithdrawRequest_scheme \<Rightarrow> bool" where
  "valid_payment is_email isCreditCard userId vals r \<longleftrightarrow>
     wr_accountId r = to_number userId \<and> jlt (Fin 0) (wr_amount r) \<and> vals ''amount'' = Num (wr_amount r) \<and>
     vals ''cardholderName'' = Str (wr_name r) \<and> wr_name r \<noteq> [] \<and>
     vals ''address'' = Str (wr_address r) \<and> wr_address r \<noteq> [] \<and>
     vals ''email'' = Str (wr_email r) \<and> is_email (wr_email r) \<and>
     vals ''cardNumber'' = Str (wr_cardNumber r) \<and> isCreditCard (wr_cardNumber r) \<and>
     vals ''cardType'' = Str (wr_cardType r) \<and> wr_cardType r \<noteq> [] \<and>
     vals ''agreementCheck'' = Bool True"

text \<open>The two forms differ in one field; what they share is enough.\<close>

definition payment_fields :: "(string \<Rightarrow> bool) \<Rightarrow> (string \<times> field) list" where
  "payment_fields isCreditCard = filter (\<lambda>(k, f). k \<noteq> ''cvv'') (sc_fields (DepositForm_schema isCreditCard))"

lemma payment_field:
  "map_of (payment_fields isCreditCard) k = Some f \<Longrightarrow>
     map_of (sc_fields (DepositForm_schema isCreditCard)) k = Some f \<and>
     map_of (sc_fields (WithdrawForm_schema isCreditCard)) k = Some f"
  by (simp add: payment_fields_def deposit_fields split: if_splits)

lemma payment_valid:
  assumes parse: "schema_parse is_email S vals = Some d"
    and S: "\<And>k f. map_of (payment_fields isCreditCard) k = Some f \<Longrightarrow> map_of (sc_fields S) k = Some f"
    and r: "wr_accountId r = to_number userId" "wr_amount r = to_number (d ''amount'')"
      "wr_name r = to_str (d ''cardholderName'')" "wr_address r = to_str (d ''address'')"
      "wr_email r = to_str (d ''email'')" "wr_cardNumber r = to_str (d ''cardNumber'')"
      "wr_cardType r = to_str (d ''cardType'')"
  shows "valid_payment is_email isCreditCard userId vals r"
proof -
  note field = S [unfolded payment_fields_def DepositForm_schema_def, simplified]
  obtain x where "d ''amount'' = Num x" "vals ''amount'' = Num x" "jlt (Fin 0) x"
    by (rule amount_data [OF parse]) (rule field, simp)
  moreover obtain n where "d ''cardholderName'' = Str n" "vals ''cardholderName'' = Str n" "n \<noteq> []"
    by (rule string_data [OF parse, of "''cardholderName''"], rule field) (auto simp: Suc_le_eq)
  moreover obtain a where "d ''address'' = Str a" "vals ''address'' = Str a" "a \<noteq> []"
    by (rule string_data [OF parse, of "''address''"], rule field) (auto simp: Suc_le_eq)
  moreover obtain e where "d ''email'' = Str e" "vals ''email'' = Str e" "is_email e"
    by (rule string_data [OF parse, of "''email''"], rule field) auto
  moreover obtain c where "d ''cardNumber'' = Str c" "vals ''cardNumber'' = Str c" "isCreditCard c"
    by (rule string_data [OF parse, of "''cardNumber''"], rule field) auto
  moreover obtain t where "d ''cardType'' = Str t" "vals ''cardType'' = Str t" "t \<noteq> []"
    by (rule string_data [OF parse, of "''cardType''"], rule field) (auto simp: Suc_le_eq)
  moreover have "vals ''agreementCheck'' = Bool True"
    by (rule agreed_data [OF parse]) (rule field, simp)
  ultimately show ?thesis by (simp add: valid_payment_def r)
qed

lemma deposit_valid:
  assumes "schema_parse is_email (DepositForm_schema isCreditCard) vals = Some d"
  shows "valid_payment is_email isCreditCard userId vals (deposit_request userId d) \<and>
    vals ''cvv'' = Str (dr_cvv (deposit_request userId d)) \<and> cvvRegex (dr_cvv (deposit_request userId d))"
proof -
  have "valid_payment is_email isCreditCard userId vals (deposit_request userId d)"
    by (rule payment_valid [OF assms]) (use payment_field in \<open>blast | simp add: deposit_request_def\<close>)+
  moreover obtain c where "d ''cvv'' = Str c" "vals ''cvv'' = Str c" "cvvRegex c"
    by (rule string_data [OF assms, of "''cvv''"]) (auto simp: DepositForm_schema_def)
  ultimately show ?thesis by (simp add: deposit_request_def)
qed

lemma withdraw_valid:
  assumes "schema_parse is_email (WithdrawForm_schema isCreditCard) vals = Some d"
  shows "valid_payment is_email isCreditCard userId vals (withdraw_request userId d)"
  by (rule payment_valid [OF assms]) (use payment_field in \<open>blast | simp add: withdraw_request_def\<close>)+

lemma set_watched_values [simp]: "pg_values (set_watched notifies w k v s) = (pg_values s)(k := v)"
  by (simp add: set_watched_def setValue_def Let_def)

lemma setValue_values [simp]: "pg_values (setValue k v s) = (pg_values s)(k := v)"
  by (simp add: setValue_def)

text \<open>What the autofill leaves in the form; \<open>name\<close>, \<open>addr\<close> and \<open>mail\<close> are what it knows of the user.\<close>

definition autofilled :: "string \<Rightarrow> jsval \<Rightarrow> jsval \<Rightarrow> form_data \<Rightarrow> form_data" where
  "autofilled name addr mail vals =
     vals(''amount'' := (if strict_eq (vals ''amount'') (Num (jint 0)) then Num (jint 1000) else vals ''amount''),
          ''cardholderName'' := Str name, ''address'' := addr, ''email'' := mail,
          ''cardNumber'' := Str ''2293562484488276'', ''cardType'' := Str ''visaDebit'')"

lemma payment_autofill_values:
  "pg_values (payment_autofill notifies user s) =
     autofilled (to_str (user_prop fu_firstName user) @ '' '' @ to_str (user_prop fu_lastName user))
       (nullish (user_prop fu_address user) (Str ''Kochweg 4 01510 Kronach''))
       (nullish (user_prop fu_email user) (Str ''mockemail@mail.com'')) (pg_values s)"
  by (rule ext) (simp add: payment_autofill_def autofilled_def Let_def DepositForm_defaults_def)

lemma amount_zero: "strict_eq v (Num (jint 0)) \<longleftrightarrow> v = Num (Fin 0)"
  by (cases v) (auto simp: jeq_def jint_def)

lemma autofilled_passes:
  assumes "isCreditCard ''2293562484488276''" "addr = Str a" "a \<noteq> []" "mail = Str m" "m \<noteq> []" "is_email m"
    and "vals ''amount'' = Num x" "jle (Fin 0) x"
  shows "schema_parse is_email (DepositForm_schema isCreditCard)
      ((autofilled (n @ '' '' @ n') addr mail vals)(''cvv'' := Str ''123'', ''agreementCheck'' := Bool True)) \<noteq> None \<and>
    schema_parse is_email (WithdrawForm_schema isCreditCard)
      ((autofilled (n @ '' '' @ n') addr mail vals)(''agreementCheck'' := Bool True)) \<noteq> None"
proof -
  have pos: "jlt (Fin 0) x \<and> x \<noteq> NaN" if "x \<noteq> Fin 0"
    using assms(8) that by (cases x) (auto simp: jle_def jeq_def)
  have cvv: "cvvRegex ''123''" by (simp add: cvvRegex_def is_digit_def)
  have thousand: "jlt (Fin 0) (jint 1000)" "jint 1000 \<noteq> NaN" by (simp_all add: jint_def)
  show ?thesis
    using assms pos cvv thousand
    by (cases "x = Fin 0")
      (simp_all add: schema_parse_def autofilled_def deposit_fields amount_zero Suc_le_eq)
qed

section \<open>Properties\<close>

text \<open>C32 (only valid payments). Whatever the form holds when it is submitted, the only request a deposit or a
  withdrawal sends is its own POST, and it carries a payment that passed every check of the form: a
  positive amount, a card the check accepts, a valid address of mail, the agreement, and for a deposit a
  code of three or four digits, each as the form shows it, for the account of the user.\<close>

theorem only_valid_payments:
  assumes "submit_documented is_email submit" "mutate_documented mutate" "reporter_ok win"
    and "Sent rq \<notin> set (pg_log s)"
  shows "(Sent rq \<in> set (pg_log (submit_form submit mutate (DepositForm_schema isCreditCard) (\<lambda>d. d)
            (DepositForm_mutation (api_deposit be send win) client userId notifies) s)) \<longrightarrow>
        (\<exists>r. rq = cc_deposit (be_creditCards be) r \<and> valid_payment is_email isCreditCard userId (pg_values s) r \<and>
             pg_values s ''cvv'' = Str (dr_cvv r) \<and> cvvRegex (dr_cvv r))) \<and>
    (Sent rq \<in> set (pg_log (submit_form submit mutate (WithdrawForm_schema isCreditCard) (\<lambda>d. d)
            (WithdrawForm_mutation (api_withdraw be send win) client userId notifies) s)) \<longrightarrow>
        (\<exists>r. rq = cc_withdraw (be_creditCards be) r \<and> valid_payment is_email isCreditCard userId (pg_values s) r))"
  using assms(4) deposit_valid [of is_email isCreditCard "pg_values s" _ userId]
    withdraw_valid [of is_email isCreditCard "pg_values s" _ userId]
  by (auto simp: deposit_form.submit_log [OF assms(1,2)] withdraw_form.submit_log [OF assms(1,2)]
      deposit_reported [OF assms(3)] withdraw_reported [OF assms(3)] reported_sent split: option.splits)

lemma only_valid_payments_witness:
  "\<forall>rq. Sent rq \<notin> set (pg_log (submit_form (schema_parse (\<lambda>_. True)) run_mutation (WithdrawForm_schema (\<lambda>_. False)) (\<lambda>d. d)
      (WithdrawForm_mutation (api_withdraw (mk_backends []) (\<lambda>rq. Inl (ThrownStr ''down''))
          \<lparr>win_dynatrace = None, win_reportError = None\<rparr>) map_client (Str ''1'') True)
      (blank_page (\<lambda>k. None) WithdrawForm_defaults)))"
  using only_valid_payments [OF documented_libraries, of "\<lparr>win_dynatrace = None, win_reportError = None\<rparr>" _
      "blank_page (\<lambda>k. None) WithdrawForm_defaults" "\<lambda>_. True" "\<lambda>_. False" "mk_backends []"
      "\<lambda>rq. Inl (ThrownStr ''down'')" map_client "Str ''1''" True]
  by (auto simp: reporter_ok_def blank_page_def valid_payment_def)

text \<open>C33 (outcome of a payment). A deposit whose data do not pass leaves the page alone. One that the service
  refuses shows the message and keeps the form and the cached balance. One that succeeds empties the
  form and outdates the balance; the success message stays only if the form library does not call the
  form's watcher when the form is reset, because the watcher clears the status on every change and not
  only on changes by the user. The withdrawal is the same.\<close>

theorem payment_outcome:
  assumes "submit_documented is_email submit" "mutate_documented mutate"
  shows "page_after
      (submission_of is_email (DepositForm_schema isCreditCard) (\<lambda>d. handler (deposit_request userId d)) (pg_values s))
      DepositForm_defaults (balanceInvalidateQuery client)
      (if notifies then [] else [(''success'', Text ''Deposit successful'')]) s
      (submit_form submit mutate (DepositForm_schema isCreditCard) (\<lambda>d. d)
         (DepositForm_mutation handler client userId notifies) s) \<and>
    page_after
      (submission_of is_email (WithdrawForm_schema isCreditCard) (\<lambda>d. handler' (withdraw_request userId d)) (pg_values s))
      WithdrawForm_defaults (balanceInvalidateQuery client)
      (if notifies then [] else [(''success'', Text ''Withdraw successful'')]) s
      (submit_form submit mutate (WithdrawForm_schema isCreditCard) (\<lambda>d. d)
         (WithdrawForm_mutation handler' client userId notifies) s)"
  by (intro conjI deposit_form.submit_page withdraw_form.submit_page assms)

lemma payment_outcome_witness:
  "pg_values (submit_form (schema_parse (\<lambda>_. True)) run_mutation (DepositForm_schema (\<lambda>_. False)) (\<lambda>d. d)
      (DepositForm_mutation (\<lambda>r. creturn None) map_client (Str ''1'') True)
      (blank_page (\<lambda>k. None) DepositForm_defaults)) ''amount'' = Num (jint 0)"
  using payment_outcome [OF documented_libraries, of "\<lambda>_. True" "\<lambda>_. False" "\<lambda>r. creturn None" "Str ''1''"
      "blank_page (\<lambda>k. None) DepositForm_defaults" map_client True "\<lambda>r. creturn None"]
  by (auto simp: page_after_def blank_page_def DepositForm_defaults_def split: submission.splits)

text \<open>Autofill. With the user's data loaded, one press of the autofill button makes a deposit, a withdrawal
  and a card order that pass their checks, for any amount that is not negative; an amount of zero becomes
  1000. Before the user has been loaded the card order reports an error instead, while a payment is filled
  in the name of \<open>undefined undefined\<close>, and passes.\<close>

lemma autofill_passes:
  assumes "isCreditCard ''2293562484488276''" "is_email ''mockemail@mail.com''"
    and "fu_address u = Str a" "a \<noteq> []" "fu_email u = Str m" "m \<noteq> []" "is_email m"
    and "pg_values s ''amount'' = Num x" "jle (Fin 0) x"
  shows "(\<forall>user \<in> {None, Some u}.
       schema_parse is_email (DepositForm_schema isCreditCard) (pg_values (DepositForm_autofill notifies user s)) \<noteq> None \<and>
       schema_parse is_email (WithdrawForm_schema isCreditCard) (pg_values (WithdrawForm_autofill notifies user s)) \<noteq> None) \<and>
    schema_parse is_email CreditCardForm_schema (pg_values (CreditCardForm_autofill (Some u) s)) \<noteq> None \<and>
    pg_values (DepositForm_autofill notifies None s) ''cardholderName'' = Str ''undefined undefined'' \<and>
    pg_values (CreditCardForm_autofill None s) = pg_values s \<and> isError (pg_status (CreditCardForm_autofill None s))"
proof (intro conjI)
  have fill: "schema_parse is_email (DepositForm_schema isCreditCard) (pg_values (DepositForm_autofill notifies user s)) \<noteq> None \<and>
     schema_parse is_email (WithdrawForm_schema isCreditCard) (pg_values (WithdrawForm_autofill notifies user s)) \<noteq> None"
    if "nullish (user_prop fu_address user) (Str ''Kochweg 4 01510 Kronach'') = Str a'" "a' \<noteq> []"
      "nullish (user_prop fu_email user) (Str ''mockemail@mail.com'') = Str m'" "m' \<noteq> []" "is_email m'" for user a' m'
    using autofilled_passes [of isCreditCard _ a' _ m' is_email "pg_values s" x, OF assms(1) that assms(8,9)]
    by (simp add: DepositForm_autofill_def WithdrawForm_autofill_def payment_autofill_values Let_def)
  show "\<forall>user \<in> {None, Some u}.
       schema_parse is_email (DepositForm_schema isCreditCard) (pg_values (DepositForm_autofill notifies user s)) \<noteq> None \<and>
       schema_parse is_email (WithdrawForm_schema isCreditCard) (pg_values (WithdrawForm_autofill notifies user s)) \<noteq> None"
    using fill [of None "''Kochweg 4 01510 Kronach''" "''mockemail@mail.com''"] fill [of "Some u" a m] assms(2-7)
    by (simp add: user_prop_def)
qed (use assms in \<open>simp_all add: CreditCardForm_autofill_def CreditCardForm_schema_def schema_parse_def Let_def Suc_le_eq
  DepositForm_autofill_def payment_autofill_values autofilled_def user_prop_def\<close>)

lemma autofill_passes_witness:
  "let u = \<lparr>fu_id = ''1'', fu_firstName = Str ''Ann'', fu_lastName = Str ''Lee'', fu_packageType = ''1'',
            fu_email = Str ''a@b.cd'', fu_address = Str ''Street 1''\<rparr>
   in schema_parse (\<lambda>_. True) (DepositForm_schema (\<lambda>_. True))
        (pg_values (DepositForm_autofill True (Some u) (blank_page (\<lambda>k. None) DepositForm_defaults))) \<noteq> None"
proof -
  let ?u = "\<lparr>fu_id = ''1'', fu_firstName = Str ''Ann'', fu_lastName = Str ''Lee'', fu_packageType = ''1'',
            fu_email = Str ''a@b.cd'', fu_address = Str ''Street 1''\<rparr>"
  have "pg_values (blank_page (\<lambda>k. None) DepositForm_defaults) ''amount'' = Num (Fin 0)"
    by (simp add: blank_page_def DepositForm_defaults_def jint_def)
  from autofill_passes [of "\<lambda>_. True" "\<lambda>_. True" ?u "''Street 1''" "''a@b.cd''", OF _ _ _ _ _ _ _ this]
  show ?thesis unfolding Let_def by auto
qed



end
