(* ===== verification/Fe_Trade_Forms.thy ===== *)
theory Fe_Trade_Forms
  imports Fe_Payment_Forms
begin

text \<open>
  Trading from the page of an instrument: the context the page gives its parts
  (\<open>contexts/InstrumentContext/context.tsx\<close>, \<open>pages/protected/Instrument.tsx\<close>) and the four forms
  (\<open>components/instrument/forms\<close>), each with its schema, the effect that keeps the total, its mutation and its
  autofill menu. Numbers are those the types of the API declare; the id of an instrument is a \<open>jsval\<close>,
  because the page compares it loosely with the one in the URL.
\<close>

section \<open>The instrument\<close>

record InstrumentPrice =
  ip_timestamp :: string
  ip_open :: jsnum
  ip_close :: jsnum
  ip_low :: jsnum
  ip_high :: jsnum

record Instrument =
  it_id :: jsval
  it_code :: string
  it_name :: string
  it_description :: string
  it_productId :: jsnum
  it_productName :: string
  it_price :: InstrumentPrice
  it_amount :: jsnum

abbreviation close_of :: "Instrument \<Rightarrow> jsnum" where "close_of i \<equiv> ip_close (it_price i)"

record IInstrumentContext =
  ic_instrument :: Instrument
  ic_quickBuyHandler :: "jsnum \<Rightarrow> HandlerResponse call"
  ic_quickSellHandler :: "jsnum \<Rightarrow> HandlerResponse call"
  ic_buyHandler :: "jsnum \<Rightarrow> jsnum \<Rightarrow> jsnum \<Rightarrow> HandlerResponse call"
  ic_sellHandler :: "jsnum \<Rightarrow> jsnum \<Rightarrow> jsnum \<Rightarrow> HandlerResponse call"

definition InstrumentProvider ::
  "Instrument \<Rightarrow> jsval \<Rightarrow> (jsval \<Rightarrow> jsval \<Rightarrow> jsnum \<Rightarrow> HandlerResponse call)
   \<Rightarrow> (jsval \<Rightarrow> jsval \<Rightarrow> jsnum \<Rightarrow> HandlerResponse call)
   \<Rightarrow> (jsval \<Rightarrow> jsval \<Rightarrow> jsnum \<Rightarrow> jsnum \<Rightarrow> jsnum \<Rightarrow> HandlerResponse call)
   \<Rightarrow> (jsval \<Rightarrow> jsval \<Rightarrow> jsnum \<Rightarrow> jsnum \<Rightarrow> jsnum \<Rightarrow> HandlerResponse call) \<Rightarrow> IInstrumentContext" where
  "InstrumentProvider instrument userId quickBuyHandler quickSellHandler buyHandler sellHandler =
     \<lparr>ic_instrument = instrument,
      ic_quickBuyHandler = (\<lambda>amount. quickBuyHandler userId (it_id instrument) amount),
      ic_quickSellHandler = (\<lambda>amount. quickSellHandler userId (it_id instrument) amount),
      ic_buyHandler = (\<lambda>amount price time. buyHandler userId (it_id instrument) amount price time),
      ic_sellHandler = (\<lambda>amount price time. sellHandler userId (it_id instrument) amount price time)\<rparr>"

text \<open>\<open>useInstrument\<close> throws outside the provider.\<close>

definition useInstrument :: "IInstrumentContext option \<Rightarrow> (js_error, IInstrumentContext) result" where
  "useInstrument context =
     (case context of
        None \<Rightarrow> Inl (ErrorMsg ''Components using [userInstrument] hook need to be wrapped in [InstrumentProvider]'')
      | Some c \<Rightarrow> Inr c)"

text \<open>The page of an instrument: the one whose id is loosely equal to that of the URL, or the list of
  instruments if there is none.\<close>

datatype instrument_page = NavigateToInstruments | InstrumentPage IInstrumentContext

definition instrument_context :: "backends \<Rightarrow> send \<Rightarrow> window \<Rightarrow> jsval \<Rightarrow> Instrument \<Rightarrow> IInstrumentContext" where
  "instrument_context be send win userId instrument =
     InstrumentProvider instrument userId
       (\<lambda>u i. quickBuy be send win (to_str u) (to_str i))
       (\<lambda>u i. quickSell be send win (to_str u) (to_str i))
       (\<lambda>u i. buy be send (to_str u) (to_str i))
       (\<lambda>u i. sell be send (to_str u) (to_str i))"

text \<open>\<open>==\<close> of a number or a string with a string.\<close>

definition loose_eq_str :: "jsval \<Rightarrow> string \<Rightarrow> bool" where
  "loose_eq_str v s = (case v of
      Str t \<Rightarrow> t = s
    | Num x \<Rightarrow> jeq x (Number_of_string s)
    | Bool b \<Rightarrow> jeq (if b then jint 1 else jint 0) (Number_of_string s)
    | Undefined \<Rightarrow> False | Null \<Rightarrow> False
    | v' \<Rightarrow> to_str v' = s)"

definition Instrument_page ::
  "backends \<Rightarrow> send \<Rightarrow> window \<Rightarrow> jsval \<Rightarrow> Instrument list \<Rightarrow> string \<Rightarrow> instrument_page" where
  "Instrument_page be send win userId instruments urlId =
     (case find (\<lambda>x. loose_eq_str (it_id x) urlId) instruments of
        None \<Rightarrow> NavigateToInstruments
      | Some instrument \<Rightarrow> InstrumentPage (instrument_context be send win userId instrument))"

section \<open>Editing\<close>

text \<open>The user changes a field: the watchers are told of a \<open>change\<close>, then the effects that depend on the
  field run.\<close>

definition user_edits ::
  "(string option \<Rightarrow> status \<Rightarrow> status) \<Rightarrow> ('c page_state \<Rightarrow> 'c page_state) \<Rightarrow> string \<Rightarrow> jsval
   \<Rightarrow> 'c page_state \<Rightarrow> 'c page_state" where
  "user_edits watcher effects k v s = effects (on_status (watcher (Some ''change'')) (setValue k v s))"

section \<open>Quick trades\<close>

definition QuickBuyForm_schema :: schema where
  "QuickBuyForm_schema =
     \<lparr>sc_fields =
        [(''amount'', ZNumber False ''Amount is required'' [Positive ''Amount must be greater than 0'']),
         (''price'', ZNumber False ''Price is required'' [Positive ''Price must be grater than 0'']),
         (''currentBalance'', ZNumber False ''Current balance is required'' []),
         (''total'', ZNumber False ''Total price is required'' [])],
      sc_refine = Some
        (\<lambda>d. jle (jmul (to_number (d ''amount'')) (to_number (d ''price''))) (to_number (d ''currentBalance'')),
         ''Total price can'' @ [CHR 0x27] @ ''t exceed current balance'', ''total'')\<rparr>"

definition balance_value :: "Balance option \<Rightarrow> jsval" where
  "balance_value balance = (case balance of None \<Rightarrow> Undefined | Some b \<Rightarrow> ba_value b)"

definition QuickBuyForm_defaults :: "Instrument \<Rightarrow> Balance option \<Rightarrow> form_data" where
  "QuickBuyForm_defaults instrument balance =
     (\<lambda>_. Undefined)(''amount'' := Num (jint 0), ''price'' := Num (close_of instrument),
        ''currentBalance'' := nullish (balance_value balance) (Num (jint 0)), ''total'' := Num (jint 0))"

definition quick_total :: "bool \<Rightarrow> Instrument \<Rightarrow> 'c page_state \<Rightarrow> 'c page_state" where
  "quick_total notifies instrument s =
     (let amount = nullish (pg_values s ''amount'') (Num (jint 0))
      in set_watched notifies watch_change ''total'' (Num (jmul (to_number amount) (close_of instrument))) s)"

definition QuickBuyForm_mutation ::
  "IInstrumentContext \<Rightarrow> 'c query_client \<Rightarrow> jsval \<Rightarrow> Balance option \<Rightarrow> bool \<Rightarrow> (jsnum, unit, 'c page_state) mutation" where
  "QuickBuyForm_mutation ctx client userId balance notifies =
     \<lparr>mutationFn = (\<lambda>amount. await_handler (ic_quickBuyHandler ctx amount)),
      onMutate = (\<lambda>amount. on_status resetState),
      onSuccess = (\<lambda>_ amount s.
        let s1 = on_status (setSuccess (Text ''Transaction successful'')) s;
            s2 = reset_form notifies watch_change (QuickBuyForm_defaults (ic_instrument ctx) balance) s1
        in on_cache (quickTransactionInvalidateQuery client (to_str userId)) s2),
      onError = (\<lambda>error amount. on_status (setError (as_message error)))\<rparr>"

definition QuickSellForm_schema :: schema where
  "QuickSellForm_schema =
     \<lparr>sc_fields =
        [(''amount'', ZNumber False ''Amount is required'' [Positive ''Amount must be greater than 0'']),
         (''price'', ZNumber False ''Price is required'' [Positive ''Price must be grater than 0'']),
         (''possessedAmount'', ZNumber False ''Possessed amount is required'' []),
         (''total'', ZNumber False ''Total price is required'' [])],
      sc_refine = Some
        (\<lambda>d. jle (to_number (d ''amount'')) (to_number (d ''possessedAmount'')),
         ''Can'' @ [CHR 0x27] @ ''t sell more assets than possessed'', ''amount'')\<rparr>"

definition QuickSellForm_defaults :: "Instrument \<Rightarrow> form_data" where
  "QuickSellForm_defaults instrument =
     (\<lambda>_. Undefined)(''amount'' := Num (jint 0), ''price'' := Num (close_of instrument),
        ''possessedAmount'' := Num (it_amount instrument), ''total'' := Num (jint 0))"

definition QuickSellForm_mutation ::
  "IInstrumentContext \<Rightarrow> 'c query_client \<Rightarrow> bool \<Rightarrow> (jsnum, unit, 'c page_state) mutation" where
  "QuickSellForm_mutation ctx client notifies =
     \<lparr>mutationFn = (\<lambda>amount. await_handler (ic_quickSellHandler ctx amount)),
      onMutate = (\<lambda>amount. on_status resetState),
      onSuccess = (\<lambda>_ amount s.
        let s1 = on_status (setSuccess (Text ''Transaction successful'')) s;
            s2 = reset_form notifies watch_change (QuickSellForm_defaults (ic_instrument ctx)) s1
        in on_cache (quickTransactionInvalidateQuery client (to_str (it_id (ic_instrument ctx)))) s2),
      onError = (\<lambda>error amount. on_status (setError (as_message error)))\<rparr>"

text \<open>Both forms hand \<open>amount\<close> to their mutation.\<close>

definition quick_amount :: "form_data \<Rightarrow> jsnum" where
  "quick_amount data = to_number (data ''amount'')"

section \<open>Scheduled trades\<close>

definition long_schema :: schema where
  "long_schema =
     \<lparr>sc_fields =
        [(''amount'', ZNumber True ''Amount is required'' [Positive ''Amount must be greater than 0'']),
         (''price'', ZNumber True ''Price is required'' [Positive ''Price must be grater than 0'']),
         (''time'', ZNumber True ''Time range is required'' [AtLeast 1 ''Time range must be at least 1h'',
            AtMost 24 ''Time range must be at most 24h'']),
         (''total'', ZNumber False ''Total price is required'' [])],
      sc_refine = None\<rparr>"

definition BuyForm_schema :: schema where "BuyForm_schema = long_schema"
definition SellForm_schema :: schema where "SellForm_schema = long_schema"

definition long_defaults :: "Instrument \<Rightarrow> form_data" where
  "long_defaults instrument =
     (\<lambda>_. Undefined)(''price'' := Num (close_of instrument), ''time'' := Num (jint 1), ''total'' := Num (jint 0))"

definition BuyForm_defaults :: "Instrument \<Rightarrow> form_data" where "BuyForm_defaults = long_defaults"
definition SellForm_defaults :: "Instrument \<Rightarrow> form_data" where "SellForm_defaults = long_defaults"

text \<open>\<open>watch(name, 0)\<close> gives 0 for a field without a value.\<close>

definition watch_or_zero :: "string \<Rightarrow> 'c page_state \<Rightarrow> jsval" where
  "watch_or_zero k s = (if pg_values s k = Undefined then Num (jint 0) else pg_values s k)"

definition long_total :: "bool \<Rightarrow> 'c page_state \<Rightarrow> 'c page_state" where
  "long_total notifies s =
     (let amount = to_number (watch_or_zero ''amount'' s); price = to_number (watch_or_zero ''price'' s)
      in set_watched notifies watch_change ''total'' (Num (jmul amount price)) s)"

text \<open>The two mutations differ in the handler.\<close>

definition BuyForm_mutation ::
  "IInstrumentContext \<Rightarrow> 'c query_client \<Rightarrow> bool \<Rightarrow> (form_data, unit, 'c page_state) mutation" where
  "BuyForm_mutation ctx client notifies =
     \<lparr>mutationFn = (\<lambda>data. await_handler
        (ic_buyHandler ctx (to_number (data ''amount'')) (to_number (data ''price'')) (to_number (data ''time'')))),
      onMutate = (\<lambda>data. on_status resetState),
      onSuccess = (\<lambda>_ data s.
        let s1 = on_status (setSuccess (Text ''Transaction scheduled'')) s;
            s2 = reset_form notifies watch_change (BuyForm_defaults (ic_instrument ctx)) s1
        in on_cache (transactionInvalidateQuery client) s2),
      onError = (\<lambda>error data. on_status (setError (as_message error)))\<rparr>"

definition SellForm_mutation ::
  "IInstrumentContext \<Rightarrow> 'c query_client \<Rightarrow> bool \<Rightarrow> (form_data, unit, 'c page_state) mutation" where
  "SellForm_mutation ctx client notifies =
     \<lparr>mutationFn = (\<lambda>data. await_handler
        (ic_sellHandler ctx (to_number (data ''amount'')) (to_number (data ''price'')) (to_number (data ''time'')))),
      onMutate = (\<lambda>data. on_status resetState),
      onSuccess = (\<lambda>_ data s.
        let s1 = on_status (setSuccess (Text ''Transaction scheduled'')) s;
            s2 = reset_form notifies watch_change (SellForm_defaults (ic_instrument ctx)) s1
        in on_cache (transactionInvalidateQuery client) s2),
      onError = (\<lambda>error data. on_status (setError (as_message error)))\<rparr>"

section \<open>The autofill menus\<close>

definition trade_setValues :: "bool \<Rightarrow> jsnum \<Rightarrow> jsnum \<Rightarrow> jsnum \<Rightarrow> 'c page_state \<Rightarrow> 'c page_state" where
  "trade_setValues notifies amount price time s =
     (let set = set_watched notifies watch_change;
          s1 = set ''amount'' (Num amount) s;
          s2 = set ''price'' (Num price) s1
      in set ''time'' (Num time) s2)"

definition buy_setSuccessTransaction :: "bool \<Rightarrow> jsval \<Rightarrow> jsnum \<Rightarrow> 'c page_state \<Rightarrow> 'c page_state" where
  "buy_setSuccessTransaction notifies availableBalance price =
     trade_setValues notifies (jfloor (jdiv (to_number (nullish availableBalance (Num price))) price)) price (jint 1)"

definition buy_setFailTransaction :: "bool \<Rightarrow> jsval \<Rightarrow> jsnum \<Rightarrow> 'c page_state \<Rightarrow> 'c page_state" where
  "buy_setFailTransaction notifies availableBalance price =
     trade_setValues notifies
       (jadd (jceil (jdiv (to_number (nullish availableBalance (Num (jint 1000000)))) price)) (jint 1)) price (jint 1)"

definition buy_setTimeoutTransaction :: "bool \<Rightarrow> jsval \<Rightarrow> jsnum \<Rightarrow> 'c page_state \<Rightarrow> 'c page_state" where
  "buy_setTimeoutTransaction notifies availableBalance price =
     trade_setValues notifies (jfloor (jdiv (to_number (nullish availableBalance (Num price))) price))
       (jdiv price (jint 1000)) (jint 1)"

definition sell_setSuccessTransaction :: "bool \<Rightarrow> jsnum \<Rightarrow> jsnum \<Rightarrow> 'c page_state \<Rightarrow> 'c page_state" where
  "sell_setSuccessTransaction notifies amount price = trade_setValues notifies amount price (jint 1)"

definition sell_setFailTransaction :: "bool \<Rightarrow> jsnum \<Rightarrow> jsnum \<Rightarrow> 'c page_state \<Rightarrow> 'c page_state" where
  "sell_setFailTransaction notifies amount price = trade_setValues notifies (jadd amount (jint 1)) price (jint 1)"

definition sell_setTimeoutTransaction :: "bool \<Rightarrow> jsnum \<Rightarrow> jsnum \<Rightarrow> 'c page_state \<Rightarrow> 'c page_state" where
  "sell_setTimeoutTransaction notifies amount price =
     trade_setValues notifies amount (jadd price (jint 1000)) (jint 1)"

text \<open>The buttons of the two forms, with what the forms pass them; the effect that keeps the total runs
  after the values have been set.\<close>

datatype autofill_item = SuccessTransaction | FailTransaction | TimeoutTransaction

fun AutofillButton :: "('s \<Rightarrow> 's) \<Rightarrow> ('s \<Rightarrow> 's) \<Rightarrow> ('s \<Rightarrow> 's) \<Rightarrow> autofill_item \<Rightarrow> 's \<Rightarrow> 's" where
  "AutofillButton setSucc setFail setLate SuccessTransaction = setSucc"
| "AutofillButton setSucc setFail setLate FailTransaction = setFail"
| "AutofillButton setSucc setFail setLate TimeoutTransaction = setLate"

definition BuyForm_autofill ::
  "bool \<Rightarrow> Instrument \<Rightarrow> Balance option \<Rightarrow> autofill_item \<Rightarrow> 'c page_state \<Rightarrow> 'c page_state" where
  "BuyForm_autofill notifies instrument balance item s =
     (let availableBalance = nullish (balance_value balance) (Num (jint 0)); price = close_of instrument
      in long_total notifies
           (AutofillButton (buy_setSuccessTransaction notifies availableBalance price)
              (buy_setFailTransaction notifies availableBalance price)
              (buy_setTimeoutTransaction notifies availableBalance price) item s))"

definition SellForm_autofill :: "bool \<Rightarrow> Instrument \<Rightarrow> autofill_item \<Rightarrow> 'c page_state \<Rightarrow> 'c page_state" where
  "SellForm_autofill notifies instrument item s =
     (let amount = it_amount instrument; price = close_of instrument
      in long_total notifies
           (AutofillButton (sell_setSuccessTransaction notifies amount price)
              (sell_setFailTransaction notifies amount price)
              (sell_setTimeoutTransaction notifies amount price) item s))"

section \<open>The forms as settled forms\<close>

interpretation quick_buy_form: settled_form "QuickBuyForm_mutation ctx client userId balance notifies"
    "ic_quickBuyHandler ctx" "QuickBuyForm_defaults (ic_instrument ctx) balance"
    "quickTransactionInvalidateQuery client (to_str userId)" "[(''success'', Text ''Transaction successful'')]"
    for ctx client userId balance notifies
  by unfold_locales (simp_all add: QuickBuyForm_mutation_def reset_form_def Let_def watch_change_def)

interpretation quick_sell_form: settled_form "QuickSellForm_mutation ctx client notifies"
    "ic_quickSellHandler ctx" "QuickSellForm_defaults (ic_instrument ctx)"
    "quickTransactionInvalidateQuery client (to_str (it_id (ic_instrument ctx)))"
    "[(''success'', Text ''Transaction successful'')]"
    for ctx client notifies
  by unfold_locales (simp_all add: QuickSellForm_mutation_def reset_form_def Let_def watch_change_def)

interpretation buy_form: settled_form "BuyForm_mutation ctx client notifies"
    "\<lambda>d. ic_buyHandler ctx (to_number (d ''amount'')) (to_number (d ''price'')) (to_number (d ''time''))"
    "BuyForm_defaults (ic_instrument ctx)"
    "transactionInvalidateQuery client" "[(''success'', Text ''Transaction scheduled'')]"
    for ctx client notifies
  by unfold_locales (simp_all add: BuyForm_mutation_def reset_form_def Let_def watch_change_def)

interpretation sell_form: settled_form "SellForm_mutation ctx client notifies"
    "\<lambda>d. ic_sellHandler ctx (to_number (d ''amount'')) (to_number (d ''price'')) (to_number (d ''time''))"
    "SellForm_defaults (ic_instrument ctx)"
    "transactionInvalidateQuery client" "[(''success'', Text ''Transaction scheduled'')]"
    for ctx client notifies
  by unfold_locales (simp_all add: SellForm_mutation_def reset_form_def Let_def watch_change_def)

end
