(* ===== verification/Fe_Trading.thy ===== *)
theory Fe_Trading
  imports Fe_Trade_Forms
begin

text \<open>
  What the four trading forms guarantee: the life of a quick form as a transition system whose read-only
  fields never drift from what the account and the instrument are, the outcomes of a submission, and what
  the autofill menus offer.
\<close>

section \<open>The life of a quick form\<close>

text \<open>A quick form is mounted with the values its props give, edited in its one editable field, given new
  props when the cache has been refetched, and submitted. After each change its effect has run.\<close>

inductive quick_reach ::
  "('p \<Rightarrow> form_data) \<Rightarrow> ('p \<Rightarrow> 'c page_state \<Rightarrow> 'c page_state) \<Rightarrow> ('p \<Rightarrow> 'c page_state \<Rightarrow> 'c page_state)
   \<Rightarrow> 'p \<Rightarrow> 'c page_state \<Rightarrow> bool"
  for defaults effects submission where
  reach_mount: "quick_reach defaults effects submission p
     (effects p (s\<lparr>pg_status := useStatusDisplay, pg_values := defaults p\<rparr>))"
| reach_edit: "quick_reach defaults effects submission p s \<Longrightarrow>
     quick_reach defaults effects submission p (user_edits watch_change (effects p) ''amount'' v s)"
| reach_props: "quick_reach defaults effects submission p s \<Longrightarrow>
     quick_reach defaults effects submission p' (effects p' (s\<lparr>pg_values := defaults p'\<rparr>))"
| reach_submit: "quick_reach defaults effects submission p s \<Longrightarrow>
     quick_reach defaults effects submission p (effects p (submission p s))"

text \<open>What a quick form promises: its effect only writes the total, and a submission keeps the values or puts
  the defaults back.\<close>

locale quick_form =
  fixes defaults :: "'p \<Rightarrow> form_data"
    and effects submission :: "'p \<Rightarrow> 'c page_state \<Rightarrow> 'c page_state"
    and total :: "'p \<Rightarrow> jsval \<Rightarrow> jsval"
  assumes effects_values: "pg_values (effects p s) = (pg_values s)(''total'' := total p (pg_values s ''amount''))"
    and submission_values: "pg_values (submission p s) \<in> {pg_values s, defaults p}"
begin

definition settled :: "'p \<Rightarrow> form_data \<Rightarrow> jsval \<Rightarrow> form_data" where
  "settled p vals a = vals(''amount'' := a, ''total'' := total p a)"

lemma effects_settle: "pg_values (effects p s) = settled p (pg_values s) (pg_values s ''amount'')"
  by (simp add: effects_values settled_def)

lemma settled_settled: "settled p (settled p vals a) b = settled p vals b"
  by (rule ext) (simp add: settled_def)

lemma settled_edit: "settled p ((settled p vals a)(''amount'' := b)) b = settled p vals b"
  by (rule ext) (simp add: settled_def)

lemma settled_amount: "settled p vals a ''amount'' = a" by (simp add: settled_def)

lemma reach_settled:
  assumes "quick_reach defaults effects submission p s"
  shows "\<exists>a. pg_values s = settled p (defaults p) a"
  using assms
proof (induction rule: quick_reach.induct)
  case (reach_mount p s)
  show ?case by (rule exI) (subst effects_settle, simp)
next
  case (reach_edit p s v)
  from reach_edit.IH obtain a where a: "pg_values s = settled p (defaults p) a" ..
  show ?case
    unfolding user_edits_def effects_settle by (rule exI [of _ v]) (simp only: on_simps setValue_values a fun_upd_same settled_edit)
next
  case (reach_props p s p')
  show ?case by (rule exI) (subst effects_settle, simp)
next
  case (reach_submit p s)
  from reach_submit.IH obtain a where a: "pg_values s = settled p (defaults p) a" ..
  from submission_values [of p s] show ?case
  proof
    assume "pg_values (submission p s) = pg_values s"
    then have "pg_values (effects p (submission p s)) = settled p (defaults p) a"
      by (simp only: effects_settle a settled_settled settled_amount)
    then show ?thesis ..
  next
    assume "pg_values (submission p s) \<in> {defaults p}"
    then have "pg_values (effects p (submission p s)) = settled p (defaults p) (defaults p ''amount'')"
      by (simp only: effects_settle singleton_iff)
    then show ?thesis ..
  qed
qed

lemma reach_fields:
  assumes "quick_reach defaults effects submission p s"
  shows "k \<noteq> ''amount'' \<Longrightarrow> k \<noteq> ''total'' \<Longrightarrow> pg_values s k = defaults p k"
    and "pg_values s ''total'' = total p (pg_values s ''amount'')"
  using reach_settled [OF assms] by (auto simp: settled_def)

end

definition quick_buy_submission ::
  "form_submit \<Rightarrow> ((jsnum, unit, 'c page_state) mutation \<Rightarrow> jsnum \<Rightarrow> 'c page_state \<Rightarrow> 'c page_state)
   \<Rightarrow> (Instrument \<Rightarrow> IInstrumentContext) \<Rightarrow> 'c query_client \<Rightarrow> jsval \<Rightarrow> bool
   \<Rightarrow> Instrument \<times> Balance option \<Rightarrow> 'c page_state \<Rightarrow> 'c page_state" where
  "quick_buy_submission submit mutate ctx client userId notifies p =
     submit_form submit mutate QuickBuyForm_schema quick_amount
       (QuickBuyForm_mutation (ctx (fst p)) client userId (snd p) notifies)"

definition quick_sell_submission ::
  "form_submit \<Rightarrow> ((jsnum, unit, 'c page_state) mutation \<Rightarrow> jsnum \<Rightarrow> 'c page_state \<Rightarrow> 'c page_state)
   \<Rightarrow> (Instrument \<Rightarrow> IInstrumentContext) \<Rightarrow> 'c query_client \<Rightarrow> bool
   \<Rightarrow> Instrument \<Rightarrow> 'c page_state \<Rightarrow> 'c page_state" where
  "quick_sell_submission submit mutate ctx client notifies i =
     submit_form submit mutate QuickSellForm_schema quick_amount
       (QuickSellForm_mutation (ctx i) client notifies)"

definition total_of :: "jsval \<Rightarrow> jsnum \<Rightarrow> jsval" where
  "total_of amount price = Num (jmul (to_number (nullish amount (Num (jint 0)))) price)"

lemma quick_total_values: "pg_values (quick_total notifies i s)
    = (pg_values s)(''total'' := total_of (pg_values s ''amount'') (close_of i))"
  by (simp add: quick_total_def total_of_def Let_def)

lemma ctx_simps [simp]:
  "ic_instrument (instrument_context be send win userId i) = i"
  "ic_quickBuyHandler (instrument_context be send win userId i) n
     = quickBuy be send win (to_str userId) (to_str (it_id i)) n"
  "ic_quickSellHandler (instrument_context be send win userId i) n
     = quickSell be send win (to_str userId) (to_str (it_id i)) n"
  "ic_buyHandler (instrument_context be send win userId i) n p t = buy be send (to_str userId) (to_str (it_id i)) n p t"
  "ic_sellHandler (instrument_context be send win userId i) n p t = sell be send (to_str userId) (to_str (it_id i)) n p t"
  by (simp_all add: instrument_context_def InstrumentProvider_def)

interpretation quick_buying: quick_form "\<lambda>p. QuickBuyForm_defaults (fst p) (snd p)" "\<lambda>p. quick_total notifies (fst p)"
    "quick_buy_submission (schema_parse is_email) run_mutation (instrument_context be send win userId) client userId notifies"
    "\<lambda>p amount. total_of amount (close_of (fst p))"
    for is_email be send win client userId notifies
proof (unfold_locales, goal_cases)
  case (2 p s)
  then show ?case
    unfolding quick_buy_submission_def
    using quick_buy_form.submit_values [OF documented_libraries, of is_email QuickBuyForm_schema quick_amount
        "instrument_context be send win userId (fst p)" client userId "snd p" notifies s]
    by (simp only: ctx_simps)
qed (rule quick_total_values)

interpretation quick_selling: quick_form QuickSellForm_defaults "quick_total notifies"
    "quick_sell_submission (schema_parse is_email) run_mutation (instrument_context be send win userId) client notifies"
    "\<lambda>i amount. total_of amount (close_of i)"
    for is_email be send win client userId notifies
proof (unfold_locales, goal_cases)
  case (2 i s)
  then show ?case
    unfolding quick_sell_submission_def
    using quick_sell_form.submit_values [OF documented_libraries, of is_email QuickSellForm_schema quick_amount
        "instrument_context be send win userId i" client notifies s]
    by (simp only: ctx_simps)
qed (rule quick_total_values)

lemma number_data:
  assumes "schema_parse is_email S vals = Some d" "map_of (sc_fields S) k = Some (ZNumber False m cs)"
  obtains x where "d k = Num x" "vals k = Num x" "x \<noteq> NaN" "list_all (num_passes x) cs"
  using schema_parse_field [OF assms] that by (cases "vals k"; cases "d k") (auto split: if_splits)

text \<open>What a quick form that passes has checked.\<close>

lemma quick_buy_checked:
  assumes "schema_parse is_email QuickBuyForm_schema vals = Some d"
  obtains a p cap where "quick_amount d = a" "vals ''amount'' = Num a" "jlt (Fin 0) a"
    "vals ''price'' = Num p" "vals ''currentBalance'' = Num cap" "jle (jmul a p) cap"
proof -
  obtain a where a: "d ''amount'' = Num a" "vals ''amount'' = Num a" "jlt (Fin 0) a"
    by (rule amount_data [OF assms]) (auto simp: QuickBuyForm_schema_def)
  obtain p where p: "d ''price'' = Num p" "vals ''price'' = Num p"
    by (rule number_data [OF assms, of "''price''"]) (auto simp: QuickBuyForm_schema_def)
  obtain cap where c: "d ''currentBalance'' = Num cap" "vals ''currentBalance'' = Num cap"
    by (rule number_data [OF assms, of "''currentBalance''"]) (auto simp: QuickBuyForm_schema_def)
  have "jle (jmul a p) cap"
    using schema_parse_refine [OF assms] a(1) p(1) c(1) by (simp add: QuickBuyForm_schema_def)
  with a p c show ?thesis by (intro that) (simp_all add: quick_amount_def)
qed

lemma quick_sell_checked:
  assumes "schema_parse is_email QuickSellForm_schema vals = Some d"
  obtains a own where "quick_amount d = a" "vals ''amount'' = Num a" "jlt (Fin 0) a"
    "vals ''possessedAmount'' = Num own" "jle a own"
proof -
  obtain a where a: "d ''amount'' = Num a" "vals ''amount'' = Num a" "jlt (Fin 0) a"
    by (rule amount_data [OF assms]) (auto simp: QuickSellForm_schema_def)
  obtain own where o: "d ''possessedAmount'' = Num own" "vals ''possessedAmount'' = Num own"
    by (rule number_data [OF assms, of "''possessedAmount''"]) (auto simp: QuickSellForm_schema_def)
  have "jle a own"
    using schema_parse_refine [OF assms] a(1) o(1) by (simp add: QuickSellForm_schema_def)
  with a o show ?thesis by (intro that) (simp_all add: quick_amount_def)
qed

text \<open>How the submission of a trade can end.\<close>

lemma submission_kinds:
  assumes h: "\<And>d. fst (h d) = Inr None \<or> fst (h d) = Inr (Some msg)"
  shows "submission_of is_email S h vals \<in> {Rejected, Refused msg, Done}"
proof (cases "schema_parse is_email S vals")
  case (Some d)
  then show ?thesis using h [of d] by (auto simp: submission_of_def)
qed (simp add: submission_of_def)

lemma trade_ends:
  "reporter_ok win \<Longrightarrow> fst (quickBuy be send win u i n) = Inr None \<or> fst (quickBuy be send win u i n) = Inr (Some trade_msg)"
  "reporter_ok win \<Longrightarrow> fst (quickSell be send win u i n) = Inr None \<or> fst (quickSell be send win u i n) = Inr (Some trade_msg)"
  "fst (buy be send u i n p t) = Inr None \<or> fst (buy be send u i n p t) = Inr (Some trade_msg)"
  "fst (sell be send u i n p t) = Inr None \<or> fst (sell be send u i n p t) = Inr (Some trade_msg)"
  by (simp_all add: quickBuy_reported quickSell_reported reported_result buy_def sell_def cbind_csend split: sum.splits)

section \<open>Arithmetic of the autofill\<close>

lemma long_passes:
  assumes "vals ''amount'' = Num (Fin n)" "vals ''price'' = Num (Fin p)" "vals ''time'' = Num (jint 1)"
    and "vals ''total'' = Num t" "t \<noteq> NaN" "0 < p"
  shows "schema_parse is_email long_schema vals \<noteq> None \<longleftrightarrow> 0 < n"
proof -
  have "jint 1 \<noteq> NaN" by (simp add: jint_def)
  moreover have "jle (jint 1) (jint 1)" "jle (jint 1) (jint 24)" by (simp_all add: jint_def)
  ultimately show ?thesis using assms by (simp add: schema_parse_def long_schema_def)
qed

lemma fl_not_NaN: "fl q \<noteq> NaN" by (simp add: fl_def Let_def)

lemma quotient_range:
  assumes b: "0 \<le> b" "b \<le> 10 ^ 9" and c: "1 / 100 \<le> c"
  shows "\<exists>q. fl (b / c) = Fin q \<and> 0 \<le> q \<and> q \<le> 10 ^ 11 \<and>
    (c \<le> b \<longrightarrow> 1 \<le> q \<and> b * (1 - 1 / 2 ^ 53) \<le> q * c \<and> q * c \<le> b * (1 + 1 / 2 ^ 53))"
proof -
  have c0: "0 < c" using c by (rule less_le_trans [rotated]) simp
  have "b / c \<le> 10 ^ 9 / (1 / 100)" using b c by (intro frac_le) auto
  then have hi: "b / c \<le> of_int (10 ^ 11)" by simp
  have lo: "of_int 0 \<le> b / c" using b c0 by simp
  have "fl (of_int 0) = Fin 0" "fl (of_int (10 ^ 11)) = Fin (10 ^ 11)"
    using fl_of_int [of 0] fl_of_int [of "10 ^ 11"] by (simp_all add: jint_def)
  then have "jle (Fin 0) (fl (b / c))" "jle (fl (b / c)) (Fin (10 ^ 11))"
    using fl_mono [OF lo] fl_mono [OF hi] by simp_all
  then obtain q where q: "fl (b / c) = Fin q" "0 \<le> q" "q \<le> 10 ^ 11"
    by (cases "fl (b / c)") (auto simp: jle_def jeq_def)
  have "1 \<le> q \<and> b * (1 - 1 / 2 ^ 53) \<le> q * c \<and> q * c \<le> b * (1 + 1 / 2 ^ 53)" if "c \<le> b"
  proof -
    have one: "1 \<le> b / c" using that c0 by (simp add: le_divide_eq)
    have "jle (fl (of_int 1)) (fl (b / c))" using one by (intro fl_mono) simp
    then have "1 \<le> q" using q(1) fl_of_int [of 1] by (simp add: jint_def)
    have "1 / 2 ^ 100 \<le> (1 :: rat)" by simp
    then have "1 / 2 ^ 100 \<le> b / c" using one by linarith
    moreover have "b / c \<le> 2 ^ 52" using hi by (rule order_trans) simp
    ultimately have near: "b / c * (1 - 1 / 2 ^ 53) \<le> q" "q \<le> b / c * (1 + 1 / 2 ^ 53)"
      using fl_near [of "b / c"] q(1) by auto
    have cancel: "b / c * z * c = b * z" for z using c0 by simp
    show ?thesis
      using mult_right_mono [OF near(1) less_imp_le [OF c0]] mult_right_mono [OF near(2) less_imp_le [OF c0]] \<open>1 \<le> q\<close>
      unfolding cancel by simp
  qed
  with q show ?thesis by blast
qed

text \<open>The amount that is meant to succeed, and the one that is meant to fail.\<close>

lemma affordable_amount:
  assumes "0 \<le> b" "b \<le> 10 ^ 9" "1 / 100 \<le> c" "c \<le> b"
  shows "\<exists>n. jfloor (jdiv (Fin b) (Fin c)) = jint n \<and> 1 \<le> n \<and> of_int n * c \<le> b * (1 + 1 / 2 ^ 53)"
proof -
  obtain q where q: "fl (b / c) = Fin q" "1 \<le> q" "q * c \<le> b * (1 + 1 / 2 ^ 53)"
    using quotient_range [OF assms(1-3)] assms(4) by auto
  have c0: "0 < c" using assms(3) by (rule less_le_trans [rotated]) simp
  have "of_int \<lfloor>q\<rfloor> * c \<le> q * c" using c0 by (intro mult_right_mono) auto
  then have "of_int \<lfloor>q\<rfloor> * c \<le> b * (1 + 1 / 2 ^ 53)" using q(3) by (rule order_trans)
  then show ?thesis using q(1,2) c0 by (intro exI [of _ "\<lfloor>q\<rfloor>"] conjI) (simp_all add: jint_def le_floor_iff)
qed

lemma unaffordable_amount:
  assumes "0 \<le> b" "b \<le> 10 ^ 9" "1 / 100 \<le> c"
  shows "\<exists>n. jadd (jceil (jdiv (Fin b) (Fin c))) (jint 1) = jint n \<and> 1 \<le> n \<and> b < of_int n * c"
proof -
  obtain q where q: "fl (b / c) = Fin q" "0 \<le> q" "q \<le> 10 ^ 11" "c \<le> b \<longrightarrow> b * (1 - 1 / 2 ^ 53) \<le> q * c"
    using quotient_range [OF assms] by auto
  have c0: "0 < c" using assms(3) by (rule less_le_trans [rotated]) simp
  have "\<lceil>q\<rceil> \<le> 10 ^ 11" "0 \<le> \<lceil>q\<rceil>" using q(2,3) by (simp_all add: ceiling_le_iff)
  then have "fl (of_int (\<lceil>q\<rceil> + 1)) = jint (\<lceil>q\<rceil> + 1)" by (intro fl_of_int) simp
  then have amount: "jadd (jceil (jdiv (Fin b) (Fin c))) (jint 1) = jint (\<lceil>q\<rceil> + 1)"
    using q(1) c0 by (simp add: jint_def)
  have "(q + 1) * c \<le> of_int (\<lceil>q\<rceil> + 1) * c" using c0 by (intro mult_right_mono) auto
  moreover have "b < (q + 1) * c"
  proof (cases "c \<le> b")
    case True
    have "b / 2 ^ 53 < c" using assms(2,3) by simp
    moreover have "b - b / 2 ^ 53 \<le> q * c" using q(4) True by (simp add: right_diff_distrib)
    ultimately show ?thesis by (simp add: distrib_right)
  next
    case False
    have "0 \<le> q * c" using q(2) c0 by simp
    with False show ?thesis by (simp add: distrib_right)
  qed
  ultimately have "b < of_int (\<lceil>q\<rceil> + 1) * c" by linarith
  with amount \<open>0 \<le> \<lceil>q\<rceil>\<close> show ?thesis by (intro exI [of _ "\<lceil>q\<rceil> + 1"]) simp
qed

lemma thousandth:
  assumes "1 / 100 \<le> c" "c \<le> 10 ^ 6"
  shows "\<exists>p. jdiv (Fin c) (jint 1000) = Fin p \<and> 0 < p \<and> p < c / 500"
proof -
  have "1 / 2 ^ 100 \<le> (1 / 100 / 1000 :: rat)" by simp
  also have "\<dots> \<le> c / 1000" using assms(1) by simp
  finally have lo: "1 / 2 ^ 100 \<le> c / 1000" .
  have hi: "c / 1000 \<le> 2 ^ 52" using assms(2) by simp
  obtain p where "fl (c / 1000) = Fin p" "p \<le> c / 1000 * (1 + 1 / 2 ^ 53)" "0 < p"
    using fl_near [OF lo hi] by blast
  moreover have "c / 1000 * (1 + 1 / 2 ^ 53) < c / 500" using assms(1) by simp
  ultimately show ?thesis by (intro exI [of _ p]) (simp add: jint_def)
qed

lemma later_price:
  assumes "1 / 100 \<le> c" "c \<le> 10 ^ 6"
  shows "\<exists>p. jadd (Fin c) (jint 1000) = Fin p \<and> c < p"
proof -
  have "1 / 2 ^ 100 \<le> (1 / 100 :: rat)" by simp
  then have lo: "1 / 2 ^ 100 \<le> c + 1000" using assms(1) by linarith
  have hi: "c + 1000 \<le> 2 ^ 52" using assms(2) by simp
  obtain p where "fl (c + 1000) = Fin p" "(c + 1000) * (1 - 1 / 2 ^ 53) \<le> p" using fl_near [OF lo hi] by blast
  moreover have "c < (c + 1000) * (1 - 1 / 2 ^ 53)" using assms(2) by simp
  ultimately show ?thesis by (intro exI [of _ p]) (simp add: jint_def)
qed

lemma long_total_values: "pg_values (long_total notifies s) = (pg_values s)(''total'' :=
    Num (jmul (to_number (watch_or_zero ''amount'' s)) (to_number (watch_or_zero ''price'' s))))"
  by (simp add: long_total_def Let_def)

text \<open>What an autofill leaves in a form, for the amount and the price it sets.\<close>

definition filled_form :: "bool \<Rightarrow> 'c page_state \<Rightarrow> jsnum \<Rightarrow> jsnum \<Rightarrow> form_data" where
  "filled_form notifies s n p = pg_values (long_total notifies (trade_setValues notifies n p (jint 1) s))"

lemma filled_values:
  "filled_form notifies s n p ''amount'' = Num n" "filled_form notifies s n p ''price'' = Num p"
  "filled_form notifies s n p ''time'' = Num (jint 1)" "filled_form notifies s n p ''total'' = Num (jmul n p)"
  by (simp_all add: filled_form_def long_total_values trade_setValues_def watch_or_zero_def Let_def)

lemma filled_passes:
  assumes "0 < p"
  shows "schema_parse is_email long_schema (filled_form notifies s (jint n) (Fin p)) \<noteq> None \<longleftrightarrow> 1 \<le> n"
proof -
  have "schema_parse is_email long_schema (filled_form notifies s (jint n) (Fin p)) \<noteq> None \<longleftrightarrow> 0 < (of_int n :: rat)"
    by (rule long_passes [where n = "of_int n" and p = p and t = "jmul (jint n) (Fin p)"])
      (use filled_values [of notifies s "jint n" "Fin p"] assms in \<open>simp_all add: jint_def fl_not_NaN\<close>)
  then show ?thesis by (simp add: zero_less_iff_neq_zero) linarith
qed

lemma autofill_items:
  assumes "close_of i = Fin c" "nullish (balance_value bal) (Num (jint 0)) = Num (Fin b)" "it_amount i = jint k"
  shows "pg_values (BuyForm_autofill notifies i bal SuccessTransaction s)
      = filled_form notifies s (jfloor (jdiv (Fin b) (Fin c))) (Fin c)"
    "pg_values (BuyForm_autofill notifies i bal FailTransaction s)
      = filled_form notifies s (jadd (jceil (jdiv (Fin b) (Fin c))) (jint 1)) (Fin c)"
    "pg_values (BuyForm_autofill notifies i bal TimeoutTransaction s)
      = filled_form notifies s (jfloor (jdiv (Fin b) (Fin c))) (jdiv (Fin c) (jint 1000))"
    "pg_values (SellForm_autofill notifies i SuccessTransaction s) = filled_form notifies s (jint k) (Fin c)"
    "pg_values (SellForm_autofill notifies i FailTransaction s) = filled_form notifies s (jadd (jint k) (jint 1)) (Fin c)"
    "pg_values (SellForm_autofill notifies i TimeoutTransaction s)
      = filled_form notifies s (jint k) (jadd (Fin c) (jint 1000))"
  by (simp_all only: assms BuyForm_autofill_def SellForm_autofill_def AutofillButton.simps Let_def nullish_simps
      to_number.simps filled_form_def buy_setSuccessTransaction_def buy_setFailTransaction_def
      buy_setTimeoutTransaction_def sell_setSuccessTransaction_def sell_setFailTransaction_def
      sell_setTimeoutTransaction_def)

definition sample_instrument :: Instrument where
  "sample_instrument =
     \<lparr>it_id = Num (jint 4), it_code = ''EASYTRAVEL'', it_name = ''EasyTravel'', it_description = [], it_productId = jint 1,
      it_productName = ''Share'', it_price = \<lparr>ip_timestamp = [], ip_open = jint 9, ip_close = jint 10, ip_low = jint 8, ip_high = jint 12\<rparr>,
      it_amount = jint 5\<rparr>"

abbreviation quiet_window :: window where
  "quiet_window \<equiv> \<lparr>win_dynatrace = None, win_reportError = None\<rparr>"

section \<open>Properties\<close>

text \<open>C35 (quick trades are covered). However a quick form has come to be as it is, by edits, by new data or by
  earlier submissions, the only trade it sends is its own, for a positive amount the form shows: a quick
  purchase whose rounded price, the shown total, is within the balance of the account (0 if it is not
  known), a quick sale of at most what the account owns of the instrument.\<close>

theorem quick_trades_covered:
  assumes libs: "submit_documented is_email submit" "mutate_documented mutate" and win: "reporter_ok win"
    and new: "Sent rq \<notin> set (pg_log s)"
  shows "(\<forall>i bal. quick_reach (\<lambda>p. QuickBuyForm_defaults (fst p) (snd p)) (\<lambda>p. quick_total notifies (fst p))
          (quick_buy_submission submit mutate (instrument_context be send win userId) client userId notifies) (i, bal) s \<and>
        Sent rq \<in> set (pg_log (quick_buy_submission submit mutate (instrument_context be send win userId) client
          userId notifies (i, bal) s)) \<longrightarrow>
      (\<exists>a cap. rq = tx_quickBuy (be_transactions be)
           \<lparr>qt_accountId = Number_of_string (to_str userId), qt_instrumentId = Number_of_string (to_str (it_id i)), qt_amount = a\<rparr> \<and>
         jlt (Fin 0) a \<and> pg_values s ''amount'' = Num a \<and> pg_values s ''total'' = Num (jmul a (close_of i)) \<and>
         nullish (balance_value bal) (Num (jint 0)) = Num cap \<and> jle (jmul a (close_of i)) cap)) \<and>
    (\<forall>i. quick_reach QuickSellForm_defaults (quick_total notifies)
          (quick_sell_submission submit mutate (instrument_context be send win userId) client notifies) i s \<and>
        Sent rq \<in> set (pg_log (quick_sell_submission submit mutate (instrument_context be send win userId) client
          notifies i s)) \<longrightarrow>
      (\<exists>a. rq = tx_quickSell (be_transactions be)
           \<lparr>qt_accountId = Number_of_string (to_str userId), qt_instrumentId = Number_of_string (to_str (it_id i)), qt_amount = a\<rparr> \<and>
         jlt (Fin 0) a \<and> pg_values s ''amount'' = Num a \<and> jle a (it_amount i)))"
  unfolding documented_eqs(1) [OF libs(1)] documented_eqs(2) [OF libs(2)]
proof (intro conjI allI impI, goal_cases)
  case (1 i bal)
  from quick_buy_form.submit_sent [OF documented_libraries conjunct2 [OF 1, unfolded quick_buy_submission_def] new]
  obtain d where d: "schema_parse is_email QuickBuyForm_schema (pg_values s) = Some d"
    and sent: "Sent rq \<in> set (snd (ic_quickBuyHandler (instrument_context be send win userId (fst (i, bal))) (quick_amount d)))" .
  obtain a p cap where c: "quick_amount d = a" "pg_values s ''amount'' = Num a" "jlt (Fin 0) a"
      "pg_values s ''price'' = Num p" "pg_values s ''currentBalance'' = Num cap" "jle (jmul a p) cap"
    using quick_buy_checked [OF d] .
  note f = quick_buying.reach_fields [OF conjunct1 [OF 1]]
  have "p = close_of i" "nullish (balance_value bal) (Num (jint 0)) = Num cap"
    using f(1) [of "''price''"] f(1) [of "''currentBalance''"] c(4,5) by (simp_all add: QuickBuyForm_defaults_def)
  moreover have "pg_values s ''total'' = Num (jmul a (close_of i))"
    using f(2) c(2) by (simp add: total_of_def nullish_def)
  ultimately show ?case
    using sent c by (auto simp: quickBuy_reported [OF win] reported_sent)
next
  case (2 i)
  from quick_sell_form.submit_sent [OF documented_libraries conjunct2 [OF 2, unfolded quick_sell_submission_def] new]
  obtain d where d: "schema_parse is_email QuickSellForm_schema (pg_values s) = Some d"
    and sent: "Sent rq \<in> set (snd (ic_quickSellHandler (instrument_context be send win userId i) (quick_amount d)))" .
  obtain a own where c: "quick_amount d = a" "pg_values s ''amount'' = Num a" "jlt (Fin 0) a"
      "pg_values s ''possessedAmount'' = Num own" "jle a own"
    using quick_sell_checked [OF d] .
  have "own = it_amount i"
    using quick_selling.reach_fields(1) [OF conjunct1 [OF 2], of "''possessedAmount''"] c(4)
    by (simp add: QuickSellForm_defaults_def)
  then show ?case using sent c by (auto simp: quickSell_reported [OF win] reported_sent)
qed

text \<open>C36 (outcome of a trade). A trading form whose data do not pass changes nothing. Otherwise the trade is
  sent, and either the service refuses it, and the page shows the fixed message and keeps the form and the
  cache, or it accepts it: the form is reset, the success message stays (these forms only clear it on a
  change by the user), and a quick trade outdates balance and instruments, a scheduled one the
  transactions. No submission ends in an error nobody handles.\<close>

theorem trade_outcome:
  assumes "submit_documented is_email submit" "mutate_documented mutate" "mutate_documented mutate'" "reporter_ok win"
  shows "let ctx = instrument_context be send win userId;
             ends = (\<lambda>S handler. submission_of is_email S handler (pg_values s));
             quickBuyEnd = ends QuickBuyForm_schema (\<lambda>d. ic_quickBuyHandler (ctx i) (quick_amount d));
             quickSellEnd = ends QuickSellForm_schema (\<lambda>d. ic_quickSellHandler (ctx i) (quick_amount d));
             long = (\<lambda>handler d. handler (to_number (d ''amount'')) (to_number (d ''price'')) (to_number (d ''time'')));
             buyEnd = ends BuyForm_schema (long (ic_buyHandler (ctx i)));
             sellEnd = ends SellForm_schema (long (ic_sellHandler (ctx i)))
    in page_after quickBuyEnd (QuickBuyForm_defaults i bal) (quickTransactionInvalidateQuery client (to_str userId))
         [(''success'', Text ''Transaction successful'')] s
         (quick_buy_submission submit mutate ctx client userId notifies (i, bal) s) \<and>
       page_after quickSellEnd (QuickSellForm_defaults i) (quickTransactionInvalidateQuery client (to_str (it_id i)))
         [(''success'', Text ''Transaction successful'')] s
         (quick_sell_submission submit mutate ctx client notifies i s) \<and>
       page_after buyEnd (BuyForm_defaults i) (transactionInvalidateQuery client)
         [(''success'', Text ''Transaction scheduled'')] s
         (submit_form submit mutate' BuyForm_schema (\<lambda>d. d) (BuyForm_mutation (ctx i) client notifies) s) \<and>
       page_after sellEnd (SellForm_defaults i) (transactionInvalidateQuery client)
         [(''success'', Text ''Transaction scheduled'')] s
         (submit_form submit mutate' SellForm_schema (\<lambda>d. d) (SellForm_mutation (ctx i) client notifies) s) \<and>
       {quickBuyEnd, quickSellEnd, buyEnd, sellEnd} \<subseteq> {Rejected, Refused trade_msg, Done}"
proof -
  note quick = assms(1,2) and long = assms(1,3)
  have kinds: "submission_of is_email S h (pg_values s) \<in> {Rejected, Refused trade_msg, Done}"
    if "\<And>d. fst (h d) = Inr None \<or> fst (h d) = Inr (Some trade_msg)" for S h
    using that by (rule submission_kinds)
  show ?thesis
    unfolding Let_def quick_buy_submission_def quick_sell_submission_def fst_conv snd_conv
    using quick_buy_form.submit_page [OF quick, where ctx = "instrument_context be send win userId i"]
      quick_sell_form.submit_page [OF quick, where ctx = "instrument_context be send win userId i"]
      buy_form.submit_page [OF long, where ctx = "instrument_context be send win userId i" and vars = "\<lambda>d. d"]
      sell_form.submit_page [OF long, where ctx = "instrument_context be send win userId i" and vars = "\<lambda>d. d"]
    unfolding ctx_simps insert_subset
    by (intro conjI kinds trade_ends assms(4) empty_subsetI) assumption+
qed

text \<open>C37 (autofill of trades). For prices between 0.01 and a million and balances up to a billion: the success
  item of the purchase form fills in at least one unit and no more than the balance pays, up to the
  rounding of the quotient, whenever it pays for one; the fail item always fills in more than the balance
  pays; the timeout item asks for less than a five-hundredth of the price. All of them pass the form's
  checks, except that without any balance the success and timeout items fill in an amount of 0, which the
  form rejects. The items of the sale offer what is owned, one more, and 1000 above the price.\<close>

theorem trade_autofill:
  assumes price: "close_of i = Fin c" "1 / 100 \<le> c" "c \<le> 10 ^ 6"
    and balance: "nullish (balance_value bal) (Num (jint 0)) = Num (Fin b)" "0 \<le> b" "b \<le> 10 ^ 9"
    and owned: "it_amount i = jint k" "0 \<le> k" "k \<le> 10 ^ 9"
  shows "let buying = (\<lambda>item. pg_values (BuyForm_autofill notifies i bal item s));
             selling = (\<lambda>item. pg_values (SellForm_autofill notifies i item s));
             passes = (\<lambda>S vals. schema_parse is_email S vals \<noteq> None)
    in (c \<le> b \<longrightarrow> (\<exists>n p. 1 \<le> n \<and> of_int n * c \<le> b * (1 + 1 / 2 ^ 53) \<and> 0 < p \<and> p < c / 500 \<and>
          buying SuccessTransaction ''amount'' = Num (jint n) \<and> buying SuccessTransaction ''price'' = Num (Fin c) \<and>
          passes BuyForm_schema (buying SuccessTransaction) \<and>
          buying TimeoutTransaction ''amount'' = Num (jint n) \<and> buying TimeoutTransaction ''price'' = Num (Fin p) \<and>
          passes BuyForm_schema (buying TimeoutTransaction))) \<and>
       (\<exists>n. b < of_int n * c \<and> buying FailTransaction ''amount'' = Num (jint n) \<and>
          buying FailTransaction ''price'' = Num (Fin c) \<and> passes BuyForm_schema (buying FailTransaction)) \<and>
       (b = 0 \<longrightarrow> \<not> passes BuyForm_schema (buying SuccessTransaction) \<and> \<not> passes BuyForm_schema (buying TimeoutTransaction)) \<and>
       selling SuccessTransaction ''amount'' = Num (jint k) \<and>
       (passes SellForm_schema (selling SuccessTransaction) \<longleftrightarrow> 1 \<le> k) \<and>
       selling FailTransaction ''amount'' = Num (jint (k + 1)) \<and> passes SellForm_schema (selling FailTransaction) \<and>
       (\<exists>p. c < p \<and> selling TimeoutTransaction ''price'' = Num (Fin p))"
proof -
  have c0: "0 < c" using price(2) by (rule less_le_trans [rotated]) simp
  obtain p where p: "jdiv (Fin c) (jint 1000) = Fin p" "0 < p" "p < c / 500" using thousandth [OF price(2,3)] by blast
  note known = BuyForm_schema_def SellForm_schema_def p(1) filled_values filled_passes [OF c0] filled_passes [OF p(2)]
  have affordable: "\<exists>n. jfloor (jdiv (Fin b) (Fin c)) = jint n \<and> 1 \<le> n \<and> of_int n * c \<le> b * (1 + 1 / 2 ^ 53)" if "c \<le> b"
    by (rule affordable_amount [OF balance(2,3) price(2) that])
  obtain f where fail: "jadd (jceil (jdiv (Fin b) (Fin c))) (jint 1) = jint f" "1 \<le> f" "b < of_int f * c"
    using unaffordable_amount [OF balance(2,3) price(2)] by blast
  have none: "jfloor (jdiv (Fin b) (Fin c)) = jint 0" if "b = 0"
    using that c0 fl_of_int [of 0] by (simp add: jint_def)
  have one_more: "jadd (jint k) (jint 1) = jint (k + 1)"
    using fl_of_int [of "k + 1"] owned(2,3) by (simp add: jint_def)
  have late: "\<exists>p. jadd (Fin c) (jint 1000) = Fin p \<and> c < p" by (rule later_price [OF price(2,3)])
  show ?thesis
    unfolding Let_def autofill_items [OF price(1) balance(1) owned(1)] known fail(1) one_more
  proof (intro conjI impI refl, goal_cases)
    case 1
    then obtain n where n: "jfloor (jdiv (Fin b) (Fin c)) = jint n" "1 \<le> n" "of_int n * c \<le> b * (1 + 1 / 2 ^ 53)"
      using affordable by blast
    show ?case unfolding n(1) known using n(2,3) p(2,3) by (intro exI [of _ n] exI [of _ p] conjI refl)
  next
    case 2
    show ?case using fail(2,3) by (intro exI [of _ f] conjI refl)
  next
    case 3
    show ?case unfolding none [OF 3] known by simp
  next
    case 4
    show ?case unfolding none [OF 4] known by simp
  next
    case 5
    show ?case using owned(2) by simp
  next
    case 6
    then show ?case using late by auto
  qed
qed

lemma trade_autofill_witness:
  "schema_parse (\<lambda>_. True) BuyForm_schema
     (pg_values (BuyForm_autofill True sample_instrument None FailTransaction (blank_page (\<lambda>k. None) (\<lambda>_. Undefined)))) \<noteq> None \<and>
   schema_parse (\<lambda>_. True) BuyForm_schema
     (pg_values (BuyForm_autofill True sample_instrument None SuccessTransaction (blank_page (\<lambda>k. None) (\<lambda>_. Undefined)))) = None"
proof -
  have i: "close_of sample_instrument = Fin 10" "it_amount sample_instrument = jint 5"
    "nullish (balance_value None) (Num (jint 0)) = Num (Fin 0)"
    by (simp_all add: sample_instrument_def balance_value_def jint_def)
  have r: "1 / 100 \<le> (10::rat)" "(10::rat) \<le> 10 ^ 6" "(0::rat) \<le> 0" "(0::rat) \<le> 10 ^ 9" "(0::int) \<le> 5" "(5::int) \<le> 10 ^ 9"
    by simp_all
  note filled = trade_autofill [OF i(1) r(1,2) i(3) r(3,4) i(2) r(5,6), of True "blank_page (\<lambda>k. None) (\<lambda>_. Undefined)"
      "\<lambda>_. True", unfolded Let_def]
  have "schema_parse (\<lambda>_. True) BuyForm_schema (pg_values (BuyForm_autofill True sample_instrument None FailTransaction
      (blank_page (\<lambda>k. None) (\<lambda>_. Undefined)))) \<noteq> None"
    using filled [THEN conjunct2, THEN conjunct1] by (elim exE conjE)
  with filled [THEN conjunct2, THEN conjunct2, THEN conjunct1, THEN mp, OF refl] show ?thesis by blast
qed

lemma trade_outcome_witness:
  "pg_values (quick_sell_submission (schema_parse (\<lambda>_. True)) run_mutation
     (instrument_context (mk_backends []) (\<lambda>rq. Inl (ThrownStr ''down'')) quiet_window (Str ''7'')) map_client True
     sample_instrument (blank_page (\<lambda>k. None) (QuickSellForm_defaults sample_instrument))) ''amount'' = Num (jint 0)"
  using trade_outcome [OF documented_libraries(1) [of "\<lambda>_. True"] documented_libraries(2,2), where win = quiet_window
      and s = "blank_page (\<lambda>k. None) (QuickSellForm_defaults sample_instrument)" and be = "mk_backends []"
      and send = "\<lambda>rq. Inl (ThrownStr ''down'')" and userId = "Str ''7''" and i = sample_instrument and bal = None
      and client = map_client and notifies = True]
  by (auto simp: page_after_def blank_page_def QuickSellForm_defaults_def reporter_ok_def Let_def split: submission.splits)

lemma quick_trades_covered_witness:
  "let ctx = instrument_context (mk_backends []) (\<lambda>rq. Inl (ThrownStr ''down'')) quiet_window (Str ''7'');
       p = (sample_instrument, Some \<lparr>ba_accountId = ''7'', ba_value = Num (jint 100)\<rparr>);
       effects = (\<lambda>p. quick_total True (fst p));
       s0 = effects p ((blank_page (\<lambda>k. None) (\<lambda>_. Undefined))
              \<lparr>pg_status := useStatusDisplay, pg_values := QuickBuyForm_defaults (fst p) (snd p)\<rparr>);
       s = user_edits watch_change (effects p) ''amount'' (Num (jint 3)) s0
   in \<forall>rq. Sent rq \<in> set (pg_log (quick_buy_submission (schema_parse (\<lambda>_. True)) run_mutation ctx map_client (Str ''7'') True p s))
        \<longrightarrow> (\<exists>a. rq = tx_quickBuy (be_transactions (mk_backends []))
               \<lparr>qt_accountId = Number_of_string ''7'', qt_instrumentId = Number_of_string (to_str (Num (jint 4))), qt_amount = a\<rparr> \<and>
              jle (jmul a (jint 10)) (jint 100))"
proof -
  let ?send = "\<lambda>rq. Inl (ThrownStr ''down'')"
  let ?p = "(sample_instrument, Some \<lparr>ba_accountId = ''7'', ba_value = Num (jint 100)\<rparr>)"
  let ?effects = "\<lambda>p. quick_total True (fst p)"
  let ?s0 = "?effects ?p ((blank_page (\<lambda>k. None) (\<lambda>_. Undefined))
      \<lparr>pg_status := useStatusDisplay, pg_values := QuickBuyForm_defaults (fst ?p) (snd ?p)\<rparr>)"
  let ?s = "user_edits watch_change (?effects ?p) ''amount'' (Num (jint 3)) ?s0"
  let ?sub = "quick_buy_submission (schema_parse (\<lambda>_. True)) run_mutation
      (instrument_context (mk_backends []) ?send quiet_window (Str ''7'')) map_client (Str ''7'') True"
  have reach: "quick_reach (\<lambda>p. QuickBuyForm_defaults (fst p) (snd p)) ?effects ?sub ?p ?s"
    by (intro reach_edit reach_mount)
  have win: "reporter_ok quiet_window" by (simp add: reporter_ok_def)
  have log: "pg_log ?s = []"
    by (simp add: user_edits_def quick_total_def set_watched_def setValue_def Let_def blank_page_def)
  have *: "\<exists>a. rq = tx_quickBuy (be_transactions (mk_backends []))
               \<lparr>qt_accountId = Number_of_string ''7'', qt_instrumentId = Number_of_string (to_str (Num (jint 4))), qt_amount = a\<rparr> \<and>
              jle (jmul a (jint 10)) (jint 100)"
    if sent: "Sent rq \<in> set (pg_log (?sub ?p ?s))" for rq
  proof -
    have new: "Sent rq \<notin> set (pg_log ?s)" unfolding log by simp
    from quick_trades_covered [OF documented_libraries win new, THEN conjunct1, rule_format, OF conjI [OF reach sent]]
    show ?thesis by (auto simp: balance_value_def sample_instrument_def)
  qed
  then show ?thesis unfolding Let_def by blast
qed

end
