(* ===== verification/Fe_Account_Forms.thy ===== *)
theory Fe_Account_Forms
  imports Fe_Form
begin

text \<open>
  The forms before a session: login, sign-up and the choice of a preset user
  (\<open>components/forms/LoginForm.tsx\<close>, \<open>SignupForm.tsx\<close>, \<open>DefaultLoginForm.tsx\<close>, \<open>pages/public\<close>).
\<close>

section \<open>Login\<close>

definition LoginForm_schema :: schema where
  "LoginForm_schema =
     \<lparr>sc_fields =
        [(''login'', ZString [MinLength 1 ''Login is required'']),
         (''password'', ZString [MinLength 1 ''Password is required''])],
      sc_refine = None\<rparr>"

definition LoginForm_defaults :: form_data where
  "LoginForm_defaults = (\<lambda>_. Undefined)(''login'' := Str [], ''password'' := Str [])"

text \<open>The form gets the \<open>login\<close> of the session as its handler; there is no success callback.\<close>

definition LoginForm_mutation :: "(string \<Rightarrow> string \<Rightarrow> jsval call) \<Rightarrow> (form_data, unit, 'c page_state) mutation" where
  "LoginForm_mutation loginHandler =
     \<lparr>mutationFn = (\<lambda>data s.
        let (call, session) = auth_login loginHandler (to_str (data ''login'')) (to_str (data ''password'')) (pg_auth s)
        in ((case fst call of
               Inl e \<Rightarrow> Inl e
             | Inr (i, error) \<Rightarrow> if error \<noteq> Undefined then Inl (thrown error) else Inr ()),
            s\<lparr>pg_auth := session, pg_log := pg_log s @ snd call\<rparr>)),
      onMutate = (\<lambda>data. on_status resetState),
      onSuccess = (\<lambda>_ data s. s),
      onError = (\<lambda>error data. on_status (setError (as_message error)))\<rparr>"

section \<open>Preset users\<close>

definition DefaultLoginForm_schema :: schema where
  "DefaultLoginForm_schema = \<lparr>sc_fields = [(''userId'', ZString [])], sc_refine = None\<rparr>"

text \<open>\<open>users[0]?.id\<close>\<close>

definition DefaultLoginForm_defaults :: "jsval list \<Rightarrow> form_data" where
  "DefaultLoginForm_defaults users =
     (\<lambda>_. Undefined)(''userId'' := (case users of [] \<Rightarrow> Undefined | u # _ \<Rightarrow> opt_prop u ''id''))"

text \<open>The page passes the form the session's \<open>defaultLogin\<close>.\<close>

definition DefaultLoginForm_submit :: "form_data \<Rightarrow> 'c page_state \<Rightarrow> 'c page_state" where
  "DefaultLoginForm_submit data s = s\<lparr>pg_auth := defaultLogin (to_str (data ''userId'')) (pg_auth s)\<rparr>"

definition DefaultLoginForm_disabled :: "jsval list \<Rightarrow> bool" where
  "DefaultLoginForm_disabled users \<longleftrightarrow> length users = 0"

definition DefaultLoginForm_options :: "jsval list \<Rightarrow> (jsval \<times> string) list" where
  "DefaultLoginForm_options users = map (\<lambda>u. (opt_prop u ''id'',
     to_str (opt_prop u ''firstName'') @ '' '' @ to_str (opt_prop u ''lastName''))) users"

definition DefaultLoginForm_label :: "jsval list \<Rightarrow> form_data \<Rightarrow> string" where
  "DefaultLoginForm_label users vals =
     ''Log in as '' @ to_str (nullish (case find (\<lambda>u. strict_eq (opt_prop u ''id'') (vals ''userId'')) users of
         None \<Rightarrow> Undefined | Some u \<Rightarrow> opt_prop u ''firstName'') (Str ''User''))"

section \<open>Sign-up\<close>

definition SignupForm_schema :: schema where
  "SignupForm_schema =
     \<lparr>sc_fields =
        [(''firstName'', ZString [MinLength 1 ''First name is required'']),
         (''lastName'', ZString [MinLength 1 ''Last name is required'']),
         (''login'', ZString [MinLength 1 ''Login is required'']),
         (''email'', ZString [MinLength 1 ''Email is required'', Email ''Invalid email'']),
         (''address'', ZString [MinLength 1 ''Address is required'']),
         (''password'', ZString [MinLength 1 ''Password is required'']),
         (''repeatPassword'', ZString [MinLength 1 ''Password is required''])],
      sc_refine = Some
        (\<lambda>d. strict_eq (d ''password'') (d ''repeatPassword''), ''Passwords have to match'', ''repeatPassword'')\<rparr>"

definition SignupForm_defaults :: form_data where
  "SignupForm_defaults =
     (\<lambda>_. Undefined)(''firstName'' := Str [], ''lastName'' := Str [], ''login'' := Str [], ''email'' := Str [],
        ''address'' := Str [], ''password'' := Str [], ''repeatPassword'' := Str [])"

text \<open>\<open>{ repeatPassword, ...data }\<close>\<close>

definition signup_request :: "form_data \<Rightarrow> SignupRequest" where
  "signup_request data =
     \<lparr>sg_firstName = to_str (data ''firstName''), sg_lastName = to_str (data ''lastName''),
      sg_login = to_str (data ''login''), sg_email = to_str (data ''email''),
      sg_address = to_str (data ''address''), sg_password = to_str (data ''password'')\<rparr>"

definition SignupForm_mutation ::
  "(SignupRequest \<Rightarrow> jsval call) \<Rightarrow> bool \<Rightarrow> (form_data, unit, 'c page_state) mutation" where
  "SignupForm_mutation submitHandler notifies =
     \<lparr>mutationFn = (\<lambda>data. await_response (submitHandler (signup_request data))),
      onMutate = (\<lambda>data. on_status resetState),
      onSuccess = (\<lambda>_ data s.
        let s1 = on_status (setSuccess (Text ''User created successfully. You may now login.'')) s
        in reset_form notifies watch_change SignupForm_defaults s1),
      onError = (\<lambda>error data. on_status (setError (as_message error)))\<rparr>"

section \<open>Lemmas\<close>

definition signup_answer ::
  "backends \<Rightarrow> send \<Rightarrow> xml_builder \<Rightarrow> xml_parser \<Rightarrow> SignupRequest \<Rightarrow> (js_error, jsval) result" where
  "signup_answer be send build_xml parse_xml r =
     rbind (build_xml (signup_body (signup_to_js r))) (\<lambda>body.
     rbind (send (signupXml (be_users be) body)) (\<lambda>response.
     rbind (parse_xml (rs_data response)) (\<lambda>data. get_prop data ''IdResponse'')))"

definition signup_message :: string where
  "signup_message = ''There was an error processing the signup request.''"

lemma api_signup_answer:
  "fst (api_signup be send build_xml parse_xml r) = (case signup_answer be send build_xml parse_xml r of
     Inl e \<Rightarrow> Inr (Obj [(''error'', Str signup_message)]) | Inr v \<Rightarrow> Inr v)"
  unfolding api_signup_def signup_answer_def signup_message_def
  by (auto simp: cbind_lift cbind_csend ccatch_def lift_result_def creturn_def rbind_def split: sum.splits)

lemma api_signup_sends:
  "snd (api_signup be send build_xml parse_xml r) = (case build_xml (signup_body (signup_to_js r)) of
     Inl e \<Rightarrow> [] | Inr body \<Rightarrow> [Sent (signupXml (be_users be) body)])"
  unfolding api_signup_def
  by (auto simp: cbind_def csend_def ccatch_def lift_result_def creturn_def rbind_def split: sum.splits)

lemma await_response_parts:
  "fst (await_response call s) = rbind (fst call) (\<lambda>v. rbind (get_prop v ''error'') (\<lambda>error.
     if error \<noteq> Undefined then Inl (thrown error) else Inr ()))"
  "snd (await_response call s) = s\<lparr>pg_log := pg_log s @ snd call\<rparr>"
  by (cases call; cases "fst call"; simp add: await_response_def Let_def)+

lemma nonempty_string:
  assumes "schema_parse is_email S vals = Some d" "map_of (sc_fields S) k = Some (ZString (MinLength 1 m # cs))"
  obtains t where "d k = Str t" "vals k = Str t" "t \<noteq> []" "\<forall>c \<in> set cs. str_passes is_email t c"
  using string_field [OF schema_parse_field [OF assms]] by (auto simp: Suc_le_eq)

lemma login_data:
  assumes "pg_values s ''login'' = Str l" "pg_values s ''password'' = Str p"
  shows "schema_parse is_email LoginForm_schema (pg_values s) =
    (if l = [] \<or> p = [] then None else Some ((\<lambda>_. Undefined)(''login'' := Str l, ''password'' := Str p)))"
  using assms by (auto simp: schema_parse_def LoginForm_schema_def parsed_data_def Suc_le_eq fun_eq_iff)

lemma run_login:
  "run_mutation (LoginForm_mutation h) d s =
     (let (call, session) = auth_login h (to_str (d ''login'')) (to_str (d ''password'')) (pg_auth s);
          s' = on_status resetState (s\<lparr>pg_auth := session, pg_log := pg_log s @ snd call\<rparr>)
      in case fst call of
           Inl e \<Rightarrow> on_status (setError (as_message e)) s'
         | Inr (i, error) \<Rightarrow> if error \<noteq> Undefined then on_status (setError (as_message (thrown error))) s' else s')"
  by (auto simp: run_mutation_def LoginForm_mutation_def on_status_def split: prod.splits sum.splits)

text \<open>The login form with a name and a password, run to its end.\<close>

abbreviation login_run :: "(string \<Rightarrow> string \<Rightarrow> jsval call) \<Rightarrow> string \<Rightarrow> string \<Rightarrow> 'c page_state \<Rightarrow> 'c page_state" where
  "login_run h l p s \<equiv>
     run_mutation (LoginForm_mutation h) ((\<lambda>_. Undefined)(''login'' := Str l, ''password'' := Str p)) s"

lemma login_data_strings:
  "to_str (((\<lambda>_. Undefined)(''login'' := Str l, ''password'' := Str p)) ''login'') = l"
  "to_str (((\<lambda>_. Undefined)(''login'' := Str l, ''password'' := Str p)) ''password'') = p"
  by simp_all

lemma login_kept: "pg_values (login_run h l p s) = pg_values s" "pg_cache (login_run h l p s) = pg_cache s"
  unfolding run_login by (simp_all add: Let_def split: prod.splits sum.splits)

lemma login_failed:
  assumes "login_answer be send build_xml parse_xml l p = Inl e"
  shows "pg_auth (login_run (api_login be send build_xml parse_xml) l p s) = pg_auth s"
    "StatusDisplay (pg_status (login_run (api_login be send build_xml parse_xml) l p s))
       = [(''error'', Text ''Login or password invalid'')]"
  using auth_login_answer(1) [OF assms, of "pg_auth s"]
  unfolding run_login login_data_strings by (auto simp: Let_def thrown_def split: prod.splits)

lemma login_answered:
  assumes "login_answer be send build_xml parse_xml l p = Inr (Obj kvs)"
  shows "au_userId (pg_auth (login_run (api_login be send build_xml parse_xml) l p s))
      = (if opt_prop (Obj kvs) ''id'' = Undefined then au_userId (pg_auth s) else opt_prop (Obj kvs) ''id'')"
    "opt_prop (Obj kvs) ''error'' = Undefined \<Longrightarrow>
       StatusDisplay (pg_status (login_run (api_login be send build_xml parse_xml) l p s)) = []"
    "opt_prop (Obj kvs) ''error'' = Str m \<Longrightarrow> m \<noteq> [] \<Longrightarrow>
       StatusDisplay (pg_status (login_run (api_login be send build_xml parse_xml) l p s)) = [(''error'', Text m)]"
  using auth_login_answer(2) [OF assms, of "pg_auth s"]
  unfolding run_login login_data_strings by (auto simp: Let_def thrown_def split: prod.splits)

lemma rmapM_from: "rmapM f xs = Inr ys \<Longrightarrow> y \<in> set ys \<Longrightarrow> \<exists>x. f x = Inr y"
  by (induction xs arbitrary: ys) (auto simp: rbind_eq_Inr)

lemma preset_users_ids:
  assumes "fst (getPresetUsers be send) = Inr users" "u \<in> set users"
  shows "\<exists>i. opt_prop u ''id'' = Str i"
proof -
  have "\<exists>r :: http_response. map_results (rs_data r) (\<lambda>i v. preset_user v) = Inr users"
    using assms unfolding getPresetUsers_def
    by (cases "send (us_getPreset (be_users be))")
      (auto simp: cbind_csend ccatch_def lift_result_def creturn_def split: sum.splits)
  then have "\<exists>xs. rmapM (\<lambda>(i :: nat, v). preset_user v) xs = Inr users"
    unfolding map_results_def by (auto simp: rbind_eq_Inr)
  then obtain v where "preset_user v = Inr u" using rmapM_from assms(2) by fastforce
  then show ?thesis by (auto simp: preset_user_def rbind_eq_Inr opt_prop_def)
qed

text \<open>The preset user the form starts with.\<close>

lemma default_choice:
  assumes "fst (getPresetUsers be send) = Inr users" "users \<noteq> []"
  obtains i where "opt_prop (hd users) ''id'' = Str i"
    "schema_parse is_email DefaultLoginForm_schema (DefaultLoginForm_defaults users) = Some ((\<lambda>_. Undefined)(''userId'' := Str i))"
    "DefaultLoginForm_label users (DefaultLoginForm_defaults users)
       = ''Log in as '' @ to_str (nullish (opt_prop (hd users) ''firstName'') (Str ''User''))"
proof -
  obtain u us where users: "users = u # us" using assms(2) by (cases users) auto
  obtain i where i: "opt_prop u ''id'' = Str i" using preset_users_ids [OF assms(1), of u] users by auto
  show ?thesis
    by (rule that [of i])
      (simp_all add: users i schema_parse_def DefaultLoginForm_schema_def DefaultLoginForm_defaults_def parsed_data_def
        DefaultLoginForm_label_def fun_eq_iff)
qed

text \<open>A sign-up as it may be sent: every field filled in, as the form shows it, a valid address of mail, and
  the password typed twice.\<close>

definition valid_signup :: "(string \<Rightarrow> bool) \<Rightarrow> form_data \<Rightarrow> SignupRequest \<Rightarrow> bool" where
  "valid_signup is_email vals r \<longleftrightarrow>
     vals ''firstName'' = Str (sg_firstName r) \<and> sg_firstName r \<noteq> [] \<and>
     vals ''lastName'' = Str (sg_lastName r) \<and> sg_lastName r \<noteq> [] \<and>
     vals ''login'' = Str (sg_login r) \<and> sg_login r \<noteq> [] \<and>
     vals ''email'' = Str (sg_email r) \<and> is_email (sg_email r) \<and>
     vals ''address'' = Str (sg_address r) \<and> sg_address r \<noteq> [] \<and>
     vals ''password'' = Str (sg_password r) \<and> sg_password r \<noteq> [] \<and>
     vals ''repeatPassword'' = Str (sg_password r)"

lemma signup_valid:
  assumes "schema_parse is_email SignupForm_schema vals = Some d"
  shows "valid_signup is_email vals (signup_request d)"
proof -
  have f: "\<exists>t. d k = Str t \<and> vals k = Str t \<and> t \<noteq> []"
    if "map_of (sc_fields SignupForm_schema) k = Some (ZString (MinLength 1 m # cs))" for k m cs
    by (rule nonempty_string [OF assms that]) auto
  have email: "\<exists>t. d ''email'' = Str t \<and> vals ''email'' = Str t \<and> is_email t"
    by (rule nonempty_string [OF assms, of "''email''"]) (auto simp: SignupForm_schema_def)
  have fields: "\<exists>t. d ''firstName'' = Str t \<and> vals ''firstName'' = Str t \<and> t \<noteq> []"
    "\<exists>t. d ''lastName'' = Str t \<and> vals ''lastName'' = Str t \<and> t \<noteq> []"
    "\<exists>t. d ''login'' = Str t \<and> vals ''login'' = Str t \<and> t \<noteq> []"
    "\<exists>t. d ''address'' = Str t \<and> vals ''address'' = Str t \<and> t \<noteq> []"
    "\<exists>t. d ''password'' = Str t \<and> vals ''password'' = Str t \<and> t \<noteq> []"
    "\<exists>t. d ''repeatPassword'' = Str t \<and> vals ''repeatPassword'' = Str t \<and> t \<noteq> []"
    by (rule f; simp add: SignupForm_schema_def)+
  have "strict_eq (d ''password'') (d ''repeatPassword'')"
    using schema_parse_refine [OF assms] by (simp add: SignupForm_schema_def)
  with fields email show ?thesis by (elim exE conjE) (simp add: valid_signup_def signup_request_def)
qed

text \<open>The sign-up form with data that pass, run to its end.\<close>

lemma run_signup:
  "run_mutation (SignupForm_mutation h notifies) d s =
     (let s' = on_status resetState (s\<lparr>pg_log := pg_log s @ snd (h (signup_request d))\<rparr>)
      in case rbind (fst (h (signup_request d))) (\<lambda>v. rbind (get_prop v ''error'') (\<lambda>error.
             if error \<noteq> Undefined then Inl (thrown error) else Inr ())) of
           Inl e \<Rightarrow> on_status (setError (as_message e)) s'
         | Inr u \<Rightarrow> reset_form notifies watch_change SignupForm_defaults
             (on_status (setSuccess (Text ''User created successfully. You may now login.'')) s'))"
  by (simp add: run_mutation_def SignupForm_mutation_def on_status_def Let_def split_beta await_response_parts
      split: sum.splits)

lemma signup_kept: "pg_auth (run_mutation (SignupForm_mutation h notifies) d s) = pg_auth s"
  "pg_log (run_mutation (SignupForm_mutation h notifies) d s) = pg_log s @ snd (h (signup_request d))"
  unfolding run_signup by (simp_all add: Let_def reset_form_def split: sum.splits)

abbreviation signup_run ::
  "backends \<Rightarrow> send \<Rightarrow> xml_builder \<Rightarrow> xml_parser \<Rightarrow> bool \<Rightarrow> form_data \<Rightarrow> 'c page_state \<Rightarrow> 'c page_state" where
  "signup_run be send build_xml parse_xml notifies d s \<equiv>
     run_mutation (SignupForm_mutation (api_signup be send build_xml parse_xml) notifies) d s"

lemma signup_ends:
  "signup_answer be send build_xml parse_xml (signup_request d) = Inl e \<Longrightarrow>
      StatusDisplay (pg_status (signup_run be send build_xml parse_xml notifies d s)) = [(''error'', Text signup_message)] \<and> pg_values (signup_run be send build_xml parse_xml notifies d s) = pg_values s"
    "signup_answer be send build_xml parse_xml (signup_request d) = Inr (Obj kvs) \<Longrightarrow>
      opt_prop (Obj kvs) ''error'' = Undefined \<Longrightarrow>
      StatusDisplay (pg_status (signup_run be send build_xml parse_xml notifies d s)) = [(''success'', Text ''User created successfully. You may now login.'')] \<and>
      pg_values (signup_run be send build_xml parse_xml notifies d s) = SignupForm_defaults"
    "signup_answer be send build_xml parse_xml (signup_request d) = Inr (Obj kvs) \<Longrightarrow>
      opt_prop (Obj kvs) ''error'' = Str m \<Longrightarrow> m \<noteq> [] \<Longrightarrow>
      StatusDisplay (pg_status (signup_run be send build_xml parse_xml notifies d s)) = [(''error'', Text m)] \<and> pg_values (signup_run be send build_xml parse_xml notifies d s) = pg_values s"
  unfolding run_signup
  by (simp_all add: api_signup_answer opt_prop_def thrown_def Let_def reset_form_def watch_change_def signup_message_def)

section \<open>Properties\<close>

text \<open>Ways into a session. A login form with a name and a password asks the service; when the answer cannot
  be had the session stays and the page says so, when it is an object its id, if it has one, becomes the
  user and its error, if it has one, is shown; the form keeps what was typed. A form with an empty field
  does nothing. Where the choice of a preset user is enabled, its button logs in the chosen one: without
  any choice the first of the list, whose name the button shows.\<close>

lemma ways_into_session:
  assumes libs: "submit_documented is_email submit" "mutate_documented mutate"
    and typed: "pg_values s ''login'' = Str l" "pg_values s ''password'' = Str p"
  shows "let s' = submit_form submit mutate LoginForm_schema (\<lambda>d. d)
                    (LoginForm_mutation (api_login be send build_xml parse_xml)) s;
             answer = login_answer be send build_xml parse_xml l p
    in (l = [] \<or> p = [] \<longrightarrow> s' = s) \<and>
       pg_values s' = pg_values s \<and> pg_cache s' = pg_cache s \<and>
       (l \<noteq> [] \<and> p \<noteq> [] \<longrightarrow>
         (\<forall>e. answer = Inl e \<longrightarrow> pg_auth s' = pg_auth s \<and>
            StatusDisplay (pg_status s') = [(''error'', Text ''Login or password invalid'')]) \<and>
         (\<forall>kvs. answer = Inr (Obj kvs) \<longrightarrow>
            au_userId (pg_auth s') = (if opt_prop (Obj kvs) ''id'' = Undefined then au_userId (pg_auth s) else opt_prop (Obj kvs) ''id'') \<and>
            (opt_prop (Obj kvs) ''error'' = Undefined \<longrightarrow> StatusDisplay (pg_status s') = []) \<and>
            (\<forall>m. opt_prop (Obj kvs) ''error'' = Str m \<and> m \<noteq> [] \<longrightarrow> StatusDisplay (pg_status s') = [(''error'', Text m)]))) \<and>
       (\<forall>users. fst (getPresetUsers be send) = Inr users \<and> \<not> DefaultLoginForm_disabled users \<longrightarrow>
          (\<exists>data. submit DefaultLoginForm_schema (DefaultLoginForm_defaults users) = Some data \<and>
             isLoggedIn (pg_auth (DefaultLoginForm_submit data s)) \<and>
             au_userId (pg_auth (DefaultLoginForm_submit data s)) = opt_prop (hd users) ''id'') \<and>
          DefaultLoginForm_label users (DefaultLoginForm_defaults users)
             = ''Log in as '' @ to_str (nullish (opt_prop (hd users) ''firstName'') (Str ''User'')))"
proof -
  let ?h = "api_login be send build_xml parse_xml" and ?answer = "login_answer be send build_xml parse_xml l p"
  let ?d = "(\<lambda>_. Undefined)(''login'' := Str l, ''password'' := Str p)"
  let ?s' = "submit_form submit mutate LoginForm_schema (\<lambda>d. d) (LoginForm_mutation ?h) s"
  note eqs = documented_eqs(1) [OF libs(1)] documented_eqs(2) [OF libs(2)]
  have submit: "?s' = (if l = [] \<or> p = [] then s else run_mutation (LoginForm_mutation ?h) ?d s)"
    by (simp add: eqs submit_form_def login_data [OF typed])
  have preset: "(\<exists>data. submit DefaultLoginForm_schema (DefaultLoginForm_defaults users) = Some data \<and>
             isLoggedIn (pg_auth (DefaultLoginForm_submit data s)) \<and>
             au_userId (pg_auth (DefaultLoginForm_submit data s)) = opt_prop (hd users) ''id'') \<and>
          DefaultLoginForm_label users (DefaultLoginForm_defaults users)
             = ''Log in as '' @ to_str (nullish (opt_prop (hd users) ''firstName'') (Str ''User''))"
    if "fst (getPresetUsers be send) = Inr users" "\<not> DefaultLoginForm_disabled users" for users
    by (rule default_choice [OF that(1), of is_email])
      (use that(2) in \<open>auto simp: eqs DefaultLoginForm_disabled_def DefaultLoginForm_submit_def defaultLogin_def setUserId_def isLoggedIn_def\<close>)
  show ?thesis
    unfolding Let_def submit
    by (intro conjI allI impI; (elim conjE)?) (simp_all add: login_kept login_failed login_answered preset)
qed

lemma ways_into_session_witness:
  "let s = blank_page () ((\<lambda>_. Undefined)(''login'' := Str ''u'', ''password'' := Str ''p''));
       s' = submit_form (schema_parse (\<lambda>_. True)) run_mutation LoginForm_schema (\<lambda>d. d)
         (LoginForm_mutation (api_login (mk_backends []) (\<lambda>rq. Inl (ThrownStr ''down'')) (\<lambda>v. Inr []) Inr)) s
   in pg_auth s' = pg_auth s \<and> StatusDisplay (pg_status s') = [(''error'', Text ''Login or password invalid'')]"
proof -
  let ?s = "blank_page () ((\<lambda>_. Undefined)(''login'' := Str ''u'', ''password'' := Str ''p''))"
  have typed: "pg_values ?s ''login'' = Str ''u''" "pg_values ?s ''password'' = Str ''p''"
    by (simp_all add: blank_page_def)
  have "login_answer (mk_backends []) (\<lambda>rq. Inl (ThrownStr ''down'')) (\<lambda>v. Inr []) Inr ''u'' ''p'' = Inl (ThrownStr ''down'')"
    by (simp add: login_answer_def)
  with ways_into_session [OF documented_libraries(1) [of "\<lambda>_. True"] documented_libraries(2) typed, of "mk_backends []"
      "\<lambda>rq. Inl (ThrownStr ''down'')" "\<lambda>v. Inr []" Inr]
  show ?thesis by (simp add: Let_def)
qed

text \<open>Sign-up. The form only sends sign-ups with every field filled in and the password typed twice, one
  request at most, and never touches the session. When the answer cannot be had, or carries an error, the
  page shows it and the form stays; when the answer carries none the form is emptied and the page says that
  one may now log in.\<close>

lemma signup_form:
  assumes "submit_documented is_email submit" "mutate_documented mutate"
  shows "let s' = submit_form submit mutate SignupForm_schema (\<lambda>d. d)
                    (SignupForm_mutation (api_signup be send build_xml parse_xml) notifies) s;
             passed = schema_parse is_email SignupForm_schema (pg_values s)
    in pg_auth s' = pg_auth s \<and> (passed = None \<longrightarrow> s' = s) \<and>
       (\<exists>new. pg_log s' = pg_log s @ new \<and> length new \<le> 1 \<and>
          (\<forall>e \<in> set new. \<exists>r body. valid_signup is_email (pg_values s) r \<and>
             build_xml (signup_body (signup_to_js r)) = Inr body \<and> e = Sent (signupXml (be_users be) body))) \<and>
       (\<forall>d. passed = Some d \<longrightarrow> (let answer = signup_answer be send build_xml parse_xml (signup_request d)
        in (\<forall>e. answer = Inl e \<longrightarrow>
              StatusDisplay (pg_status s') = [(''error'', Text signup_message)] \<and> pg_values s' = pg_values s) \<and>
           (\<forall>kvs. answer = Inr (Obj kvs) \<and> opt_prop (Obj kvs) ''error'' = Undefined \<longrightarrow>
              StatusDisplay (pg_status s') = [(''success'', Text ''User created successfully. You may now login.'')] \<and>
              pg_values s' = SignupForm_defaults) \<and>
           (\<forall>kvs m. answer = Inr (Obj kvs) \<and> opt_prop (Obj kvs) ''error'' = Str m \<and> m \<noteq> [] \<longrightarrow>
              StatusDisplay (pg_status s') = [(''error'', Text m)] \<and> pg_values s' = pg_values s)))"
proof -
  note eqs = documented_eqs(1) [OF assms(1)] documented_eqs(2) [OF assms(2)]
  show ?thesis
  proof (cases "schema_parse is_email SignupForm_schema (pg_values s)")
    case None
    then show ?thesis by (simp add: eqs submit_form_def)
  next
    case (Some d)
    let ?h = "api_signup be send build_xml parse_xml"
    have new: "\<exists>new. pg_log (run_mutation (SignupForm_mutation ?h notifies) d s) = pg_log s @ new \<and> length new \<le> 1 \<and>
          (\<forall>e \<in> set new. \<exists>r body. valid_signup is_email (pg_values s) r \<and>
             build_xml (signup_body (signup_to_js r)) = Inr body \<and> e = Sent (signupXml (be_users be) body))"
      using signup_valid [OF Some]
      by (intro exI [of _ "snd (?h (signup_request d))"]) (auto simp: signup_kept api_signup_sends split: sum.splits)
    have run: "submit_form submit mutate SignupForm_schema (\<lambda>d. d) (SignupForm_mutation ?h notifies) s
        = run_mutation (SignupForm_mutation ?h notifies) d s"
      by (simp add: eqs submit_form_def Some)
    show ?thesis
      unfolding Let_def run
      by (intro conjI allI impI new; (elim conjE)?) (simp_all add: Some signup_kept(1) signup_ends)
  qed
qed

lemma signup_form_witness:
  "pg_auth (submit_form (schema_parse (\<lambda>_. True)) run_mutation SignupForm_schema (\<lambda>d. d)
       (SignupForm_mutation (api_signup (mk_backends []) (\<lambda>rq. Inl (ThrownStr ''down'')) (\<lambda>v. Inr []) Inr) True)
       (blank_page () SignupForm_defaults)) = initial_auth None"
  using signup_form [OF documented_libraries(1) [of "\<lambda>_. True"] documented_libraries(2), of "mk_backends []"
      "\<lambda>rq. Inl (ThrownStr ''down'')" "\<lambda>v. Inr []" Inr True "blank_page () SignupForm_defaults"]
  by (simp add: Let_def blank_page_def)

end
