(* ===== verification/Fe_Flags.thy ===== *)
theory Fe_Flags
  imports Fe_Form Fe_Loaders
begin

text \<open>
  The page of the feature flags: \<open>components/featureFlags\<close>, \<open>pages/FeatureFlags.tsx\<close> and the counter in
  the header (\<open>components/AppHeader/FeatureFlagIcon.tsx\<close>). The state of the list is a reducer; a flag's
  button runs a mutation that toggles it.
\<close>

section \<open>The reducer\<close>

datatype flag_action =
    FlagSuccess string
  | FlagError string
  | FlagReset
  | FlagExpand string
  | FlagCollapse

record feedback =
  fb_visible :: bool
  fb_variant :: string
  fb_msg :: string

record flag_state =
  fs_expand :: string
  fs_feedback :: feedback

definition initial_flag_state :: flag_state where
  "initial_flag_state =
     \<lparr>fs_expand = [], fs_feedback = \<lparr>fb_visible = False, fb_variant = ''success'', fb_msg = []\<rparr>\<rparr>"

fun feedbackReducer :: "flag_state \<Rightarrow> flag_action \<Rightarrow> flag_state" where
  "feedbackReducer state (FlagSuccess msg) =
     state\<lparr>fs_feedback := \<lparr>fb_visible = True, fb_variant = ''success'', fb_msg = msg\<rparr>\<rparr>"
| "feedbackReducer state (FlagError msg) =
     state\<lparr>fs_feedback := \<lparr>fb_visible = True, fb_variant = ''error'', fb_msg = msg\<rparr>\<rparr>"
| "feedbackReducer state FlagReset =
     state\<lparr>fs_feedback := \<lparr>fb_visible = False, fb_variant = fb_variant (fs_feedback state), fb_msg = []\<rparr>\<rparr>"
| "feedbackReducer state (FlagExpand target) =
     state\<lparr>fs_expand := (if fs_expand state = target then [] else target)\<rparr>"
| "feedbackReducer state FlagCollapse = state\<lparr>fs_expand := []\<rparr>"

text \<open>The snackbar closes with a reset, unless the reason is a click elsewhere.\<close>

definition snackbar_close :: "string \<Rightarrow> flag_state \<Rightarrow> flag_state" where
  "snackbar_close reason s = (if reason \<noteq> ''clickaway'' then feedbackReducer s FlagReset else s)"

section \<open>A flag\<close>

definition dquote :: string where "dquote = [CHR 0x22]"
definition squote :: string where "squote = [CHR 0x27]"

definition bool_text :: "bool \<Rightarrow> string" where
  "bool_text b = (if b then ''true'' else ''false'')"

definition getFeatureFlagCurl :: "string \<Rightarrow> string \<Rightarrow> bool \<Rightarrow> string" where
  "getFeatureFlagCurl origin flagId enable =
     ''curl -X PUT '' @ dquote @ origin @ ''/feature-flag-service/v1/flags/'' @ flagId @ dquote @
     '' -H '' @ dquote @ ''Content-Type: application/json'' @ dquote @
     '' -d '' @ squote @ ''{'' @ dquote @ ''enabled'' @ dquote @ '': '' @ bool_text enable @ ''}'' @ squote"

text \<open>\<open>([head, ...tail]) => ...\<close>: an empty word has no \<open>head\<close>, and the method call throws.\<close>

definition capitalised :: "string \<Rightarrow> (js_error, string) result" where
  "capitalised w = (case w of
      [] \<Rightarrow> Inl (TypeError ''Cannot read properties of undefined (reading toUpperCase)'')
    | head # tail \<Rightarrow> Inr (upper_char head # tail))"

definition displayName :: "jsval \<Rightarrow> (js_error, string) result" where
  "displayName name = (case name of
      Str s \<Rightarrow> rbind (rmapM capitalised (split_char (CHR ''_'') s)) (\<lambda>ws. Inr (join_str '' '' ws))
    | _ \<Rightarrow> Inl (TypeError ''name.split is not a function''))"

definition modifyDisabled :: "fe_flag \<Rightarrow> jsval option \<Rightarrow> bool" where
  "modifyDisabled flag config \<longleftrightarrow>
     \<not> truthy (ff_isModifiable flag) \<or> \<not> (case config of None \<Rightarrow> False | Some m \<Rightarrow> truthy m)"

record 'c flag_page =
  fp_state :: flag_state
  fp_cache :: 'c
  fp_log :: "effect list"

definition dispatch :: "flag_action \<Rightarrow> 'c flag_page \<Rightarrow> 'c flag_page" where
  "dispatch a s = s\<lparr>fp_state := feedbackReducer (fp_state s) a\<rparr>"

text \<open>\<open>onMutate\<close> returns the state the flag is to have, which the two callbacks put into their messages.\<close>

definition FeatureFlagItem_mutation ::
  "(string \<Rightarrow> bool \<Rightarrow> HandlerResponse call) \<Rightarrow> 'c query_client \<Rightarrow> fe_flag \<Rightarrow> (unit, unit, 'c flag_page) mutation" where
  "FeatureFlagItem_mutation toggle client flag =
     (let flagId = to_str (ff_id flag); name = to_str (ff_name flag); enable = \<not> truthy (ff_enabled flag)
      in \<lparr>mutationFn = (\<lambda>_ s.
            let call = toggle flagId enable in
            ((case fst call of Inl e \<Rightarrow> Inl e | Inr None \<Rightarrow> Inr () | Inr (Some error) \<Rightarrow> Inl (ThrownStr error)),
             s\<lparr>fp_log := fp_log s @ snd call\<rparr>)),
          onMutate = (\<lambda>_ s. s),
          onSuccess = (\<lambda>_ _ s.
            let s1 = s\<lparr>fp_cache := invalidateQueries client featureFlagKeys_problemPatterns True (fp_cache s)\<rparr>
            in dispatch (FlagSuccess (''Flag '' @ name @ '' '' @ (if enable then ''enabled'' else ''disabled'') @
                 '' successfully.'')) s1),
          onError = (\<lambda>error _ s.
            dispatch (FlagError (''Error while '' @ (if enable then ''enabling'' else ''disabling'') @ '' flag '' @
              name @ '': '' @ error_to_string error @ ''.'')) s)\<rparr>)"

text \<open>What an item shows, and what its parts dispatch.\<close>

record flag_item =
  fi_name :: string
  fi_modifiable_chip :: string
  fi_enabled_chip :: string
  fi_description :: jsval
  fi_curl :: string
  fi_button :: string
  fi_disabled :: bool
  fi_expanded :: bool

definition FeatureFlagItem :: "string \<Rightarrow> jsval option \<Rightarrow> bool \<Rightarrow> fe_flag \<Rightarrow> (js_error, flag_item) result" where
  "FeatureFlagItem origin config expanded flag =
     rbind (displayName (ff_name flag)) (\<lambda>shown.
       let enabled = truthy (ff_enabled flag) in
       Inr \<lparr>fi_name = shown,
            fi_modifiable_chip = (if truthy (ff_isModifiable flag) then ''modifiable'' else ''non-modifiable''),
            fi_enabled_chip = (if enabled then ''enabled'' else ''disabled''),
            fi_description = nullish (ff_description flag) (Str ''There is no description for this flag currently.''),
            fi_curl = getFeatureFlagCurl origin (to_str (ff_id flag)) (\<not> enabled),
            fi_button = (if enabled then ''Disable'' else ''Enable''),
            fi_disabled = modifyDisabled flag config,
            fi_expanded = expanded\<rparr>)"

definition expand_clicked :: "fe_flag \<Rightarrow> 'c flag_page \<Rightarrow> 'c flag_page" where
  "expand_clicked flag = dispatch (FlagExpand (to_str (ff_name flag)))"

definition copy_clicked :: "'c flag_page \<Rightarrow> 'c flag_page" where
  "copy_clicked = dispatch (FlagSuccess ''Copied to clipboard!'')"

text \<open>The list renders every flag; a part that throws takes the whole list with it.\<close>

definition FeatureFlagList ::
  "string \<Rightarrow> jsval option \<Rightarrow> flag_state \<Rightarrow> fe_flag list \<Rightarrow> (js_error, flag_item list) result" where
  "FeatureFlagList origin config s featureFlags =
     rmapM (\<lambda>flag. FeatureFlagItem origin config (strict_eq (Str (fs_expand s)) (ff_name flag)) flag) featureFlags"

section \<open>The page and the header\<close>

text \<open>The flags and the configuration as far as they have been loaded; without the configuration the page says
  that modification is off.\<close>

definition FeatureFlags ::
  "string \<Rightarrow> query_data option \<Rightarrow> query_data option \<Rightarrow> flag_state \<Rightarrow> (js_error, bool \<times> flag_item list) result" where
  "FeatureFlags origin flags config s =
     (let management = (case config of Some (QConfig m) \<Rightarrow> Some m | _ \<Rightarrow> None);
          featureFlags = (case flags of Some (QFlags fs) \<Rightarrow> fs | _ \<Rightarrow> []);
          alert = \<not> (case management of None \<Rightarrow> False | Some m \<Rightarrow> truthy m)
      in rbind (FeatureFlagList origin management s featureFlags) (\<lambda>items. Inr (alert, items)))"

definition enabledFlagCount :: "query_data option \<Rightarrow> nat" where
  "enabledFlagCount flags =
     (case flags of Some (QFlags fs) \<Rightarrow> length (filter (\<lambda>f. truthy (ff_enabled f)) fs) | _ \<Rightarrow> 0)"

section \<open>Lemmas\<close>

lemma capitalised_iff: "capitalised w = Inr v \<longleftrightarrow> w \<noteq> [] \<and> v = upper_char (hd w) # tl w"
  by (cases w) (auto simp: capitalised_def)

lemma rmapM_capitalised:
  "rmapM capitalised ws = Inr vs \<longleftrightarrow> [] \<notin> set ws \<and> vs = map (\<lambda>w. upper_char (hd w) # tl w) ws"
  by (induction ws arbitrary: vs) (auto simp: rbind_eq_Inr capitalised_iff)

text \<open>Lower case undoes the capital.\<close>

lemma lower_upper: "lower_char (upper_char c) = lower_char c"
proof -
  have "(of_char (upper_char c) :: nat)
      = (if 97 \<le> (of_char c :: nat) \<and> (of_char c :: nat) \<le> 122 then of_char c - 32 else of_char c)"
    by (auto simp: upper_char_def Let_def)
  then show ?thesis by (auto simp: lower_char_def upper_char_def Let_def)
qed

lemma lower_capital: "w \<noteq> [] \<Longrightarrow> toLowerCase (upper_char (hd w) # tl w) = toLowerCase w"
  by (cases w) (simp_all add: toLowerCase_def lower_upper)

lemma lower_join: "toLowerCase (join_str sep ws) = join_str (toLowerCase sep) (map toLowerCase ws)"
  by (induction sep ws rule: join_str.induct) (simp_all add: toLowerCase_def)

text \<open>A name that is displayed has no empty word, and keeps its letters.\<close>

lemma displayName_iff:
  "displayName (Str s) = Inr t \<longleftrightarrow> [] \<notin> set (split_char (CHR ''_'') s) \<and>
     t = join_str '' '' (map (\<lambda>w. upper_char (hd w) # tl w) (split_char (CHR ''_'') s))"
  by (auto simp: displayName_def rbind_eq_Inr rmapM_capitalised)

lemma lower_words: "join_str [d] (map toLowerCase (split_char c s)) = map (\<lambda>x. if x = c then d else lower_char x) s"
proof (induction s)
  case (Cons x s)
  then show ?case
    using split_char_nonempty [of c s]
    by (cases "split_char c s"; cases "tl (split_char c s)") (auto simp: toLowerCase_def)
qed (simp add: toLowerCase_def)

lemma displayName_lower:
  assumes "displayName (Str s) = Inr t"
  shows "toLowerCase t = map (\<lambda>x. if x = CHR ''_'' then CHR '' '' else lower_char x) s"
proof -
  have "map (\<lambda>w. toLowerCase (upper_char (hd w) # tl w)) (split_char (CHR ''_'') s) = map toLowerCase (split_char (CHR ''_'') s)"
    using assms by (intro map_cong refl lower_capital) (auto simp: displayName_iff)
  moreover have "t = join_str '' '' (map (\<lambda>w. upper_char (hd w) # tl w) (split_char (CHR ''_'') s))"
    using assms by (simp add: displayName_iff)
  moreover have "toLowerCase '' '' = '' ''" by (simp add: toLowerCase_def lower_char_def)
  ultimately show ?thesis by (simp only: lower_join map_map comp_def lower_words)
qed

text \<open>When a name has an empty word.\<close>

lemma split_head: "split_char c s = w # ws \<Longrightarrow> w = [] \<longleftrightarrow> s = [] \<or> hd s = c"
  by (cases s) (auto split: list.splits if_splits)

lemma split_rest:
  "[] \<in> set (tl (split_char c s)) \<longleftrightarrow> s \<noteq> [] \<and> (last s = c \<or> (\<exists>u v. s = u @ [c, c] @ v))"
proof (induction s)
  case (Cons d s)
  obtain w ws where w: "split_char c s = w # ws" using split_char_nonempty [of c s] by (cases "split_char c s") auto
  have double: "(\<exists>u v. d # s = u @ [c, c] @ v) \<longleftrightarrow> (d = c \<and> s \<noteq> [] \<and> hd s = c) \<or> (\<exists>u v. s = u @ [c, c] @ v)"
  proof
    assume "\<exists>u v. d # s = u @ [c, c] @ v"
    then obtain u v where "d # s = u @ [c, c] @ v" by blast
    then show "(d = c \<and> s \<noteq> [] \<and> hd s = c) \<or> (\<exists>u v. s = u @ [c, c] @ v)" by (cases u) auto
  next
    assume "(d = c \<and> s \<noteq> [] \<and> hd s = c) \<or> (\<exists>u v. s = u @ [c, c] @ v)"
    then show "\<exists>u v. d # s = u @ [c, c] @ v"
    proof
      assume "d = c \<and> s \<noteq> [] \<and> hd s = c"
      then have "d # s = [] @ [c, c] @ tl s" by (cases s) auto
      then show ?thesis by blast
    next
      assume "\<exists>u v. s = u @ [c, c] @ v"
      then obtain u v where "s = u @ [c, c] @ v" by blast
      then have "d # s = (d # u) @ [c, c] @ v" by simp
      then show ?thesis by blast
    qed
  qed
  show ?case unfolding double using Cons.IH split_head [OF w] w by (cases "s = []") auto
qed simp

lemma empty_word:
  "[] \<in> set (split_char c s) \<longleftrightarrow> s = [] \<or> hd s = c \<or> last s = c \<or> (\<exists>u v. s = u @ [c, c] @ v)"
proof -
  obtain w ws where w: "split_char c s = w # ws" using split_char_nonempty [of c s] by (cases "split_char c s") auto
  show ?thesis using split_rest [of c s] split_head [OF w] w by (cases "s = []") auto
qed

definition shown_badly :: "jsval \<Rightarrow> bool" where
  "shown_badly name \<longleftrightarrow> (case name of
      Str n \<Rightarrow> n = [] \<or> hd n = CHR ''_'' \<or> last n = CHR ''_'' \<or> (\<exists>u v. n = u @ ''__'' @ v)
    | _ \<Rightarrow> True)"

lemma displayName_fails: "(\<exists>e. displayName name = Inl e) \<longleftrightarrow> shown_badly name"
proof (cases name)
  case (Str n)
  have "(\<exists>t. displayName (Str n) = Inr t) \<longleftrightarrow> [] \<notin> set (split_char (CHR ''_'') n)"
    by (auto simp: displayName_iff)
  then show ?thesis using Str by (cases "displayName name") (auto simp: shown_badly_def empty_word)
qed (simp_all add: displayName_def shown_badly_def)

lemma rmapM_fails: "(\<exists>e. rmapM f xs = Inl e) \<longleftrightarrow> (\<exists>x \<in> set xs. \<exists>e. f x = Inl e)"
proof (induction xs)
  case (Cons x xs)
  then show ?case by (cases "f x"; cases "rmapM f xs") auto
qed simp

lemma item_parts:
  "FeatureFlagItem origin config x flag = Inr item \<Longrightarrow>
     displayName (ff_name flag) = Inr (fi_name item) \<and> fi_expanded item = x \<and>
     fi_curl item = getFeatureFlagCurl origin (to_str (ff_id flag)) (\<not> truthy (ff_enabled flag))"
  by (cases "displayName (ff_name flag)") (auto simp: FeatureFlagItem_def Let_def)

text \<open>A toggle that answers, run to its end.\<close>

lemma run_toggle:
  assumes "toggle (to_str (ff_id flag)) (\<not> truthy (ff_enabled flag)) = (Inr r, es)"
    and on: "(\<not> truthy (ff_enabled flag)) = on"
  shows "run_mutation (FeatureFlagItem_mutation toggle client flag) () s =
    (let s' = s\<lparr>fp_log := fp_log s @ es\<rparr>; name = to_str (ff_name flag)
     in case r of
          None \<Rightarrow> dispatch (FlagSuccess (''Flag '' @ name @ '' '' @ (if on then ''enabled'' else ''disabled'') @ '' successfully.''))
            (s'\<lparr>fp_cache := invalidateQueries client featureFlagKeys_problemPatterns True (fp_cache s)\<rparr>)
        | Some msg \<Rightarrow> dispatch (FlagError (''Error while '' @ (if on then ''enabling'' else ''disabling'') @ '' flag '' @
            name @ '': '' @ msg @ ''.'')) s')"
proof -
  note answer = assms(1) [unfolded on]
  show ?thesis
    unfolding run_mutation_def FeatureFlagItem_mutation_def Let_def mutation.select_convs on answer fst_conv snd_conv
    by (cases r) simp_all
qed

section \<open>Properties\<close>

text \<open>C39 (names of flags). The list of flags fails to render exactly when some flag has a name with an empty
  word: empty itself, with an underscore at either end, or with two in a row. Otherwise every flag is
  shown, in order, under its name with spaces for underscores, the same up to capitals, and open exactly
  when its name is the one last expanded.\<close>

theorem flag_names:
  "((\<exists>e. FeatureFlagList origin config s flags = Inl e) \<longleftrightarrow> (\<exists>flag \<in> set flags. shown_badly (ff_name flag))) \<and>
   (\<forall>items. FeatureFlagList origin config s flags = Inr items \<longrightarrow> length items = length flags \<and>
      (\<forall>i n. i < length flags \<and> ff_name (flags ! i) = Str n \<longrightarrow>
         toLowerCase (fi_name (items ! i)) = map (\<lambda>c. if c = CHR ''_'' then CHR '' '' else lower_char c) n \<and>
         (fi_expanded (items ! i) \<longleftrightarrow> n = fs_expand s)))"
proof -
  have item: "(\<exists>e. FeatureFlagItem origin config x flag = Inl e) \<longleftrightarrow> shown_badly (ff_name flag)" for x flag
    unfolding displayName_fails [symmetric]
    by (cases "displayName (ff_name flag)") (simp_all add: FeatureFlagItem_def Let_def)
  have fails: "(\<exists>e. FeatureFlagList origin config s flags = Inl e) \<longleftrightarrow> (\<exists>flag \<in> set flags. shown_badly (ff_name flag))"
    unfolding FeatureFlagList_def rmapM_fails item ..
  have shown: "toLowerCase (fi_name (items ! i)) = map (\<lambda>c. if c = CHR ''_'' then CHR '' '' else lower_char c) n \<and>
         (fi_expanded (items ! i) \<longleftrightarrow> n = fs_expand s)"
    if "FeatureFlagList origin config s flags = Inr items" "i < length flags" "ff_name (flags ! i) = Str n" for items i n
  proof -
    note named = that(3)
    have "FeatureFlagItem origin config (strict_eq (Str (fs_expand s)) (Str n)) (flags ! i) = Inr (items ! i)"
      using rmapM_nth [OF that(1) [unfolded FeatureFlagList_def] that(2)] that(3) by simp
    from item_parts [OF this] show ?thesis using displayName_lower [of n] named by auto
  qed
  show ?thesis
    using fails shown rmapM_length unfolding FeatureFlagList_def by blast
qed

text \<open>A request as a command line: what the page offers for copying is meant to be the one its button sends.\<close>

definition method_text :: "http_method \<Rightarrow> string" where
  "method_text m = (case m of GET \<Rightarrow> ''GET'' | POST \<Rightarrow> ''POST'' | PUT \<Rightarrow> ''PUT'' | DELETE \<Rightarrow> ''DELETE'')"

fun json_field :: "jsval \<Rightarrow> string" where
  "json_field (Obj [(k, Bool b)]) = ''{'' @ dquote @ k @ dquote @ '': '' @ bool_text b @ ''}''"
| "json_field v = to_str v"

definition curl_of :: "http_request \<Rightarrow> string" where
  "curl_of rq = ''curl -X '' @ method_text (hq_method rq) @ '' '' @
     dquote @ opt_or (hq_base rq) [] @ hq_path rq @ dquote @
     '' -H '' @ dquote @ ''Content-Type: application/json'' @ dquote @
     '' -d '' @ squote @ (case hq_body rq of None \<Rightarrow> [] | Some b \<Rightarrow> json_field b) @ squote"

text \<open>Toggling a flag. The button of a flag sends one request, the one the command shown beside it stands
  for, which asks for the opposite of the state shown. When it succeeds the page says so with the new state
  and outdates the list of flags and nothing else, the configuration included; when it fails it says so and
  nothing is outdated. What is expanded stays expanded.\<close>

lemma flag_toggle:
  assumes "documented_client qc" "mutate_documented mutate"
    and "ff_id flag = Str i" "ff_name flag = Str n" "on \<longleftrightarrow> \<not> truthy (ff_enabled flag)"
  shows "let rq = setProblemPatternEnabled (be_problemPatterns (mk_backends origin)) i on;
             s' = mutate (FeatureFlagItem_mutation (handleFlagToggle (mk_backends origin) send) qc flag) () s
    in fp_log s' = fp_log s @ [Sent rq] \<and>
       (\<forall>x \<in> {config, None}. \<forall>e item. FeatureFlagItem origin x e flag = Inr item \<longrightarrow> fi_curl item = curl_of rq) \<and>
       fs_expand (fp_state s') = fs_expand (fp_state s) \<and>
       (\<forall>x. send rq = Inr x \<longrightarrow>
          fs_feedback (fp_state s') = \<lparr>fb_visible = True, fb_variant = ''success'',
            fb_msg = ''Flag '' @ n @ '' '' @ (if on then ''enabled'' else ''disabled'') @ '' successfully.''\<rparr> \<and>
          (\<forall>k. getQueryData qc (fp_cache s') k = getQueryData qc (fp_cache s) k \<and>
             (isInvalidated qc (fp_cache s') k \<longleftrightarrow> isInvalidated qc (fp_cache s) k \<or>
                (k = featureFlagKeys_problemPatterns \<and> getQueryData qc (fp_cache s) k \<noteq> None)))) \<and>
       (\<forall>e. send rq = Inl e \<longrightarrow> fp_cache s' = fp_cache s \<and>
          fs_feedback (fp_state s') = \<lparr>fb_visible = True, fb_variant = ''error'',
            fb_msg = ''Error while '' @ (if on then ''enabling'' else ''disabling'') @ '' flag '' @ n @ '': '' @
              ''There was an error when setting flag state'' @ ''.''\<rparr>)"
proof -
  let ?rq = "setProblemPatternEnabled (be_problemPatterns (mk_backends origin)) i on"
  let ?m = "FeatureFlagItem_mutation (handleFlagToggle (mk_backends origin) send) qc flag"
  have run: "mutate ?m () s = run_mutation ?m () s" using assms(2) by (simp add: mutate_documented_def)
  have toggle: "handleFlagToggle (mk_backends origin) send i on
      = (Inr (case send ?rq of Inl e \<Rightarrow> Some ''There was an error when setting flag state'' | Inr x \<Rightarrow> None), [Sent ?rq])"
    by (cases "send ?rq") (simp_all add: handleFlagToggle_def cbind_csend)
  have curl: "getFeatureFlagCurl origin i on = curl_of ?rq"
    by (simp add: getFeatureFlagCurl_def curl_of_def setProblemPatternEnabled_def agent_call_def mk_backends_def
        new_ProblemPatternBackend_def axios_create_def getFeatureFlagServiceUrl_def method_text_def)
  have on: "(\<not> truthy (ff_enabled flag)) = on" using assms(5) by simp
  have "handleFlagToggle (mk_backends origin) send (to_str (ff_id flag)) (\<not> truthy (ff_enabled flag))
      = (Inr (case send ?rq of Inl e \<Rightarrow> Some ''There was an error when setting flag state'' | Inr x \<Rightarrow> None), [Sent ?rq])"
    using toggle by (simp only: assms(3) on to_str.simps)
  note s' = run_toggle [of "handleFlagToggle (mk_backends origin) send", OF this on, of qc s]
  have shown: "fi_curl item = curl_of ?rq" if "FeatureFlagItem origin x e flag = Inr item" for x e item
    using item_parts [OF that] curl by (simp only: assms(3) on to_str.simps)
  show ?thesis
    unfolding Let_def run s'
    by (cases "send ?rq")
      (auto simp: dispatch_def assms(4) shown getQueryData_invalidate [OF assms(1)]
        isInvalidated_invalidate [OF assms(1)] matches_def)
qed

lemma flag_toggle_witness:
  "let flag = \<lparr>ff_id = Str ''db_not_responding'', ff_enabled = Bool False, ff_name = Str ''db_not_responding'',
               ff_description = Null, ff_isModifiable = Bool True\<rparr>;
       page = \<lparr>fp_state = initial_flag_state, fp_cache = (\<lambda>k. Some (QConfig Null, False)), fp_log = []\<rparr>;
       s' = run_mutation (FeatureFlagItem_mutation
              (handleFlagToggle (mk_backends []) (\<lambda>rq. Inl (ThrownStr ''down''))) map_client flag) () page
   in fp_cache s' = fp_cache page \<and> fb_variant (fs_feedback (fp_state s')) = ''error''"
proof -
  let ?flag = "\<lparr>ff_id = Str ''db_not_responding'', ff_enabled = Bool False, ff_name = Str ''db_not_responding'',
               ff_description = Null, ff_isModifiable = Bool True\<rparr>"
  have "ff_id ?flag = Str ''db_not_responding''" "ff_name ?flag = Str ''db_not_responding''"
    "True \<longleftrightarrow> \<not> truthy (ff_enabled ?flag)"
    by simp_all
  from flag_toggle [OF documented_map_client documented_libraries(2) this, of "[]" "\<lambda>rq. Inl (ThrownStr ''down'')"
      "\<lparr>fp_state = initial_flag_state, fp_cache = (\<lambda>k. Some (QConfig Null, False)), fp_log = []\<rparr>"]
  show ?thesis by (simp add: Let_def)
qed

lemma flag_names_witness:
  "\<exists>e. FeatureFlagList [] None initial_flag_state
     [\<lparr>ff_id = Str ''a'', ff_enabled = Bool True, ff_name = Str ''a__b'', ff_description = Null, ff_isModifiable = Null\<rparr>] = Inl e"
proof -
  have "shown_badly (Str ''a__b'')" unfolding shown_badly_def by (simp add: exI [of _ "''a''"])
  then show ?thesis
    using flag_names [of "[]" None initial_flag_state
        "[\<lparr>ff_id = Str ''a'', ff_enabled = Bool True, ff_name = Str ''a__b'', ff_description = Null, ff_isModifiable = Null\<rparr>]"]
    by simp
qed

end
