(* ===== verification/Fe_View.thy ===== *)
theory Fe_View
  imports Fe_Trade_Forms Fe_Loaders Fe_Flags
begin

text \<open>
  What the pages make of their data: the formatter (\<open>contexts/FormatterContext\<close>), the tables and charts of
  the home page (\<open>components/InstrumentsTable.tsx\<close>, \<open>TransactionsTable.tsx\<close>, \<open>components/charts\<close>), the price
  of an instrument, the versions, the history of a card, the navigation and the theme. The \<open>Intl\<close>
  formatters, the clock and the parser of dates are arguments.
\<close>

section \<open>The formatter\<close>

definition milisecondsInMinute :: jsnum where "milisecondsInMinute = jint (60 * 1000)"
definition milisecondsInHour :: jsnum where "milisecondsInHour = jint (60 * 60 * 1000)"
definition milisecondsInDay :: jsnum where "milisecondsInDay = jint (24 * 60 * 60 * 1000)"

text \<open>The formatters of the locale. Those of dates throw for what is not a time.\<close>

record intl =
  currencyFormatter :: "jsnum \<Rightarrow> string"
  smallCurrencyFormatter :: "jsnum \<Rightarrow> string"
  percentFormatter :: "jsnum \<Rightarrow> string"
  timeFormatter :: "jsnum \<Rightarrow> (js_error, string) result"
  dateFormatter :: "jsnum \<Rightarrow> (js_error, string) result"
  relativeDateFormatter :: "jsnum \<Rightarrow> string \<Rightarrow> (js_error, string) result"

definition formatCurrency :: "intl \<Rightarrow> jsnum \<Rightarrow> string" where
  "formatCurrency F n =
     (let formatter = (if jlt n (fl (1 / 100)) then smallCurrencyFormatter F else currencyFormatter F) in formatter n)"

definition formatPercent :: "intl \<Rightarrow> jsnum \<Rightarrow> string" where "formatPercent F n = percentFormatter F n"

definition formatTime :: "intl \<Rightarrow> jsnum \<Rightarrow> (js_error, string) result" where "formatTime F n = timeFormatter F n"

definition formatDate :: "intl \<Rightarrow> jsnum \<Rightarrow> jsnum \<Rightarrow> (js_error, string) result" where
  "formatDate F now n =
     (let timeDiff = jsub n now
      in if jlt (jabs timeDiff) milisecondsInHour
         then relativeDateFormatter F (jfloor (jdiv timeDiff milisecondsInMinute)) ''minutes''
         else if jlt (jabs timeDiff) milisecondsInDay
         then relativeDateFormatter F (jfloor (jdiv timeDiff milisecondsInHour)) ''hours''
         else dateFormatter F n)"

section \<open>Tables\<close>

definition total_value :: "Instrument \<Rightarrow> jsnum" where
  "total_value row = jmul (it_amount row) (close_of row)"

record instrument_row =
  ir_code :: string
  ir_name :: string
  ir_amount :: jsnum
  ir_price :: string
  ir_totalValue :: string

definition InstrumentsTable :: "intl \<Rightarrow> Instrument list \<Rightarrow> instrument_row list" where
  "InstrumentsTable F instruments =
     map (\<lambda>i. \<lparr>ir_code = it_code i, ir_name = it_name i, ir_amount = it_amount i,
               ir_price = formatCurrency F (close_of i), ir_totalValue = formatCurrency F (total_value i)\<rparr>)
       (filter (\<lambda>i. jlt (jint 0) (it_amount i)) instruments)"

text \<open>The table puts the name of the instrument for its id, in the transaction objects themselves: the list it
  was given holds the rows from then on.\<close>

definition resolve_name :: "Instrument list \<Rightarrow> fe_transaction \<Rightarrow> fe_transaction" where
  "resolve_name instruments transaction =
     (case find (\<lambda>x. loose_eq_str (it_id x) (ft_instrumentName transaction)) instruments of
        None \<Rightarrow> transaction
      | Some instrument \<Rightarrow> transaction\<lparr>ft_instrumentName := it_name instrument\<rparr>)"

record transaction_row =
  tr_actionType :: string
  tr_status :: string
  tr_color :: string
  tr_instrument :: string
  tr_amount :: jsval
  tr_price :: string
  tr_total :: string
  tr_endTime :: "(js_error, string) result"

definition status_color :: "string \<Rightarrow> string" where
  "status_color v = (if v = ''ACTIVE'' then ''info.main'' else if v = ''SUCCESS'' then ''success.main'' else ''error.main'')"

definition transaction_row_of :: "intl \<Rightarrow> jsnum \<Rightarrow> (jsval \<Rightarrow> jsnum) \<Rightarrow> fe_transaction \<Rightarrow> transaction_row" where
  "transaction_row_of F now date_time t =
     \<lparr>tr_actionType = ft_actionType t, tr_status = ft_status t, tr_color = status_color (ft_status t),
      tr_instrument = ft_instrumentName t, tr_amount = ft_amount t,
      tr_price = formatCurrency F (to_number (ft_price t)),
      tr_total = formatCurrency F (jmul (to_number (ft_amount t)) (to_number (ft_price t))),
      tr_endTime = formatDate F now (date_time (ft_endTime t))\<rparr>"

definition TransactionsTable ::
  "intl \<Rightarrow> jsnum \<Rightarrow> (jsval \<Rightarrow> jsnum) \<Rightarrow> Instrument list \<Rightarrow> fe_transaction list
   \<Rightarrow> transaction_row list \<times> fe_transaction list" where
  "TransactionsTable F now date_time instruments transactions =
     (let transactions' = map (resolve_name instruments) transactions
      in (map (transaction_row_of F now date_time) transactions', transactions'))"

section \<open>Charts\<close>

text \<open>\<open>Array.from(map, ...)\<close> of the counts, in the order of the first occurrence.\<close>

definition getTransactionsData :: "fe_transaction list \<Rightarrow> (fe_transaction \<Rightarrow> string) \<Rightarrow> (string \<times> nat) list" where
  "getTransactionsData transactions property =
     foldl (\<lambda>m transaction.
       let key = property transaction; v = opt_or (om_get m key) 0 in om_set key (v + 1) m) om_empty transactions"

definition TransactionsCharts :: "fe_transaction list \<Rightarrow> (string \<times> nat) list \<times> (string \<times> nat) list" where
  "TransactionsCharts transactions =
     (getTransactionsData transactions ft_status, getTransactionsData transactions ft_actionType)"

text \<open>The colour of a slice, by name; \<open>None\<close> is \<open>undefined\<close>, for which the chart has a colour of its own.\<close>

definition slice_color :: "string \<Rightarrow> string option" where
  "slice_color = map_of
     [(''FAIL'', ''error.main''), (''SUCCESS'', ''success.main''), (''ACTIVE'', ''primary.main''),
      (''BUY'', ''primary.main''), (''SELL'', ''success.main'')]"

record instrument_bar =
  ib_name :: string
  ib_code :: string
  ib_amount :: jsnum
  ib_totalValue :: jsnum

definition InstrumentsChart :: "Instrument list \<Rightarrow> instrument_bar list" where
  "InstrumentsChart instruments =
     map (\<lambda>i. \<lparr>ib_name = it_name i, ib_code = it_code i, ib_amount = it_amount i, ib_totalValue = total_value i\<rparr>)
       instruments"

text \<open>The lines of the tooltip over a bar: its name, amount and total value.\<close>

definition bar_tooltip :: "intl \<Rightarrow> bool \<Rightarrow> instrument_bar list \<Rightarrow> (string \<times> jsnum \<times> string) option" where
  "bar_tooltip F active payload =
     (if active \<and> payload \<noteq> []
      then let b = payload ! 0 in Some (ib_name b, ib_amount b, formatCurrency F (ib_totalValue b))
      else None)"

text \<open>The candles of an instrument, newest first in the data and last in the chart. \<open>Math.min()\<close> of nothing is
  infinity.\<close>

record candle =
  ca_date :: string
  ca_openClose :: "jsnum \<times> jsnum"
  ca_lowHigh :: "jsnum \<times> jsnum"

record price_chart =
  pc_candles :: "candle list"
  pc_domain :: "jsnum \<times> jsnum"
  pc_brush :: "int \<times> int"

definition candle_of :: "intl \<Rightarrow> (string \<Rightarrow> jsnum) \<Rightarrow> InstrumentPrice \<Rightarrow> (js_error, candle) result" where
  "candle_of F parse_time price =
     rbind (formatTime F (parse_time (ip_timestamp price))) (\<lambda>date.
       Inr \<lparr>ca_date = date, ca_openClose = (ip_open price, ip_close price), ca_lowHigh = (ip_low price, ip_high price)\<rparr>)"

definition price_domain :: "InstrumentPrice list \<Rightarrow> jsnum \<times> jsnum" where
  "price_domain prices =
     (let minValue = foldl jmin PInf (map ip_low prices); maxValue = foldl jmax NInf (map ip_high prices);
          margin = jmul (fl (1 / 100)) minValue
      in (jsub minValue margin, jadd maxValue margin))"

definition InstrumentPriceChart ::
  "intl \<Rightarrow> (string \<Rightarrow> jsnum) \<Rightarrow> InstrumentPrice list \<Rightarrow> (js_error, price_chart) result" where
  "InstrumentPriceChart F parse_time prices =
     rbind (rmapM (candle_of F parse_time) prices) (\<lambda>candles.
       let priceData = rev candles in
       Inr \<lparr>pc_candles = priceData, pc_domain = price_domain prices,
            pc_brush = (int (length priceData) - 200, int (length priceData) - 1)\<rparr>)"

definition candle_color :: "jsnum \<times> jsnum \<Rightarrow> string" where
  "candle_color openClose = (if jlt (snd openClose) (fst openClose) then ''error.main'' else ''success.main'')"

definition CustomTooltip :: "bool \<Rightarrow> candle list \<Rightarrow> string \<Rightarrow> string list" where
  "CustomTooltip active payload label =
     (if active \<and> payload \<noteq> []
      then let (openPrice, closePrice) = ca_openClose (payload ! 0); (lowPrice, highPrice) = ca_lowHigh (payload ! 0)
           in [label,
               ''open: '' @ num_to_string openPrice @ ''; close: '' @ num_to_string closePrice @ '' '',
               ''low: '' @ num_to_string lowPrice @ ''; high: '' @ num_to_string highPrice]
      else [])"

section \<open>Prices, account, versions\<close>

record price_view =
  pv_color :: string
  pv_price :: string
  pv_percent :: string

definition PriceDisplay :: "intl \<Rightarrow> InstrumentPrice \<Rightarrow> price_view" where
  "PriceDisplay F price =
     (let trendingUp = jlt (ip_open price) (ip_close price);
          percentDifference = jdiv (jsub (ip_close price) (ip_open price)) (ip_open price)
      in \<lparr>pv_color = (if trendingUp then ''success.main'' else ''error.main''),
          pv_price = formatCurrency F (ip_close price), pv_percent = formatPercent F percentDifference\<rparr>)"

definition AccountInfo :: "fe_user option \<Rightarrow> Balance option \<Rightarrow> jsval \<times> jsval" where
  "AccountInfo user balance =
     (nullish (balance_value balance) (Str ''Loading...''),
      nullish (case user of None \<Rightarrow> Undefined | Some u \<Rightarrow> Str (fu_packageType u)) (Str ''Loading...''))"

text \<open>A cell of the version table is marked when it differs from the frontend's.\<close>

datatype version_row =
    FailedRow string string
  | VersionRow string "(jsval \<times> bool) list"

definition DifferenceWarning :: "jsval \<Rightarrow> jsval \<Rightarrow> jsval \<times> bool" where
  "DifferenceWarning v expected = (v, \<not> strict_eq v expected)"

definition VersionsTableItem :: "(string \<Rightarrow> jsval) \<Rightarrow> ServiceVersion \<Rightarrow> (js_error, version_row) result" where
  "VersionsTableItem frontend service =
     (case service of
        VersionError name message \<Rightarrow> Inr (FailedRow name message)
      | VersionSuccess name data \<Rightarrow>
          rbind (rmapM (\<lambda>k. rbind (get_prop data k) (\<lambda>v. Inr (DifferenceWarning v (frontend k))))
                   [''buildVersion'', ''buildDate'', ''buildCommit'']) (\<lambda>cells. Inr (VersionRow name cells)))"

definition getFrontendVersion :: "(string \<Rightarrow> jsval) \<Rightarrow> ServiceVersion" where
  "getFrontendVersion build =
     VersionSuccess ''Frontend''
       (Obj [(''buildVersion'', build ''buildVersion''), (''buildDate'', build ''buildDate''),
             (''buildCommit'', build ''buildCommit'')])"

datatype version_page = Spinner | Versions "(js_error, version_row list) result"

definition VersionPage :: "(string \<Rightarrow> jsval) \<Rightarrow> bool \<Rightarrow> query_data option \<Rightarrow> version_page" where
  "VersionPage build isPending data =
     (if isPending then Spinner
      else Versions (rmapM (VersionsTableItem build)
             (getFrontendVersion build # (case data of Some (QVersions vs) \<Rightarrow> vs | _ \<Rightarrow> []))))"

section \<open>The history of a card\<close>

definition status_word :: "string \<Rightarrow> (js_error, string) result" where
  "status_word w = (case w of
      [] \<Rightarrow> Inl (TypeError ''Cannot read properties of undefined (reading toLocaleUpperCase)'')
    | head # tail \<Rightarrow> Inr (upper_char head # toLowerCase tail))"

definition TimelineEntry ::
  "intl \<Rightarrow> jsnum \<Rightarrow> (jsval \<Rightarrow> jsnum) \<Rightarrow> jsval \<Rightarrow> (js_error, string \<times> string \<times> jsval) result" where
  "TimelineEntry F now parse_date e =
     rbind (formatDate F now (parse_date (opt_prop e ''timestamp''))) (\<lambda>date.
     case opt_prop e ''status'' of
       Str status \<Rightarrow>
         rbind (rmapM status_word (split_char (CHR ''_'') status)) (\<lambda>ws.
           Inr (date, join_str '' '' ws, opt_prop e ''details''))
     | _ \<Rightarrow> Inl (TypeError ''Cannot split the status''))"

text \<open>The id of the order and the entries, the last of the list first.\<close>

definition CreditCardsStatusTimeline ::
  "intl \<Rightarrow> jsnum \<Rightarrow> (jsval \<Rightarrow> jsnum) \<Rightarrow> jsval \<Rightarrow> jsval list
   \<Rightarrow> (js_error, jsval \<times> (string \<times> string \<times> jsval) list) result" where
  "CreditCardsStatusTimeline F now parse_date orderId statusList =
     rbind (rmapM (TimelineEntry F now parse_date) statusList) (\<lambda>entries. Inr (orderId, rev entries))"

section \<open>The home page\<close>

text \<open>The page from the data of its two queries: the instruments, and the transactions when there are any. The
  components are rendered in their order, so the charts see the transactions before the table names them;
  the last part is what the cache of the query holds after the rendering.\<close>

record home_page =
  hp_account :: "jsval \<times> jsval"
  hp_bars :: "instrument_bar list"
  hp_instruments :: "instrument_row list"
  hp_statuses :: "(string \<times> nat) list"
  hp_actions :: "(string \<times> nat) list"
  hp_transactions :: "transaction_row list"
  hp_cached :: "fe_transaction list"

definition Home ::
  "intl \<Rightarrow> jsnum \<Rightarrow> (jsval \<Rightarrow> jsnum) \<Rightarrow> fe_user option \<Rightarrow> Balance option \<Rightarrow> Instrument list
   \<Rightarrow> fe_transaction list option \<Rightarrow> home_page" where
  "Home F now date_time user balance instruments transactionsData =
     (let transactions = opt_or transactionsData [];
          charts = TransactionsCharts transactions;
          table = TransactionsTable F now date_time instruments transactions
      in \<lparr>hp_account = AccountInfo user balance, hp_bars = InstrumentsChart instruments,
          hp_instruments = InstrumentsTable F instruments,
          hp_statuses = fst charts, hp_actions = snd charts,
          hp_transactions = fst table, hp_cached = snd table\<rparr>)"

section \<open>Navigation and theme\<close>

definition toggleNavigation :: "bool \<Rightarrow> bool" where "toggleNavigation navigationVisible = (\<not> navigationVisible)"
definition hideNavigation :: "bool \<Rightarrow> bool" where "hideNavigation navigationVisible = False"

text \<open>The effect of the protected layout on a narrow screen.\<close>

definition hide_when_narrow :: "bool \<Rightarrow> bool \<Rightarrow> bool" where
  "hide_when_narrow navigationHidden navigationVisible =
     (if navigationHidden then hideNavigation navigationVisible else navigationVisible)"

definition navigation_items :: "(string \<times> string) list" where
  "navigation_items =
     [(''/home'', ''Home''), (''/instruments'', ''Instruments''), (''/deposit'', ''Deposit''),
      (''/withdraw'', ''Withdraw''), (''/credit-card'', ''Credit Card'')]"

datatype theme_mode = Dark | Light

definition toggleTheme :: "theme_mode \<Rightarrow> theme_mode" where
  "toggleTheme mode = (if mode = Dark then Light else Dark)"

definition getPreferredTheme :: "bool \<Rightarrow> theme_mode" where
  "getPreferredTheme prefersDark = (if prefersDark then Dark else Light)"

text \<open>The tabs of an instrument's page.\<close>

datatype form_id = QuickBuyTab | QuickSellTab | BuyTab | SellTab

definition initial_tab :: form_id where "initial_tab = QuickBuyTab"

fun tab_value :: "form_id \<Rightarrow> string" where
  "tab_value QuickBuyTab = ''quick-buy''"
| "tab_value QuickSellTab = ''quick-sell''"
| "tab_value BuyTab = ''buy''"
| "tab_value SellTab = ''sell''"

text \<open>A card in the grid of instruments; \<open>toLocaleString\<close> of the amount is an argument.\<close>

record instrument_card =
  cd_className :: string
  cd_to :: string
  cd_title :: string
  cd_subheader :: string
  cd_price :: price_view
  cd_amount :: string

definition InstrumentCard :: "intl \<Rightarrow> (jsnum \<Rightarrow> string) \<Rightarrow> Instrument \<Rightarrow> instrument_card" where
  "InstrumentCard F locale_string i =
     \<lparr>cd_className = ''instrument-card'' @ (if jlt (jint 0) (it_amount i) then '' owned-instrument'' else []),
      cd_to = ''/instruments/'' @ to_str (it_id i), cd_title = it_code i, cd_subheader = it_name i,
      cd_price = PriceDisplay F (it_price i), cd_amount = locale_string (it_amount i)\<rparr>"

definition InstrumentsGrid :: "intl \<Rightarrow> (jsnum \<Rightarrow> string) \<Rightarrow> Instrument list \<Rightarrow> instrument_card list" where
  "InstrumentsGrid F locale_string instruments = map (InstrumentCard F locale_string) instruments"

section \<open>Lemmas\<close>

text \<open>The floor of a rounded quotient of whole numbers is the quotient of the whole numbers.\<close>

lemma fl_uminus: "fl q = Fin p \<Longrightarrow> fl (- q) = Fin (- p)"
  by (auto simp: fl_def Let_def fl_rat_neg split: if_splits)

lemma fl_just_above:
  assumes "0 < m" "m \<le> 10 ^ 7" "\<bar>d\<bar> \<le> 10 ^ 8" "fl (of_int d / of_int m) = Fin p"
  shows "p < of_int d / of_int m + 1 / of_int m"
proof -
  have m: "1 / 10 ^ 7 \<le> (1 / of_int m :: rat)" "(0::rat) < of_int m" "(1::rat) \<le> of_int m"
    using assms(1,2) by (auto intro: frac_le)
  have small: "1 / 2 ^ 100 \<le> (1 / 10 ^ 7 :: rat)" by simp
  have near: "\<exists>p'. fl (of_int n / of_int m) = Fin p' \<and> \<bar>p' - of_int n / of_int m\<bar> < 1 / of_int m"
    if n: "0 < n" "n \<le> 10 ^ 8" for n
  proof -
    let ?x = "of_int n / of_int m :: rat"
    have "1 / of_int m \<le> ?x" using n(1) m(2) by (intro divide_right_mono) auto
    then have lo: "1 / 2 ^ 100 \<le> ?x" using m(1) small by linarith
    have "(of_int n :: rat) \<le> of_int (10 ^ 8)" using n(2) by (simp only: of_int_le_iff)
    then have "?x \<le> of_int (10 ^ 8) / 1" using m(3) n(1) by (intro frac_le) auto
    then have hi: "?x \<le> 10 ^ 8" by simp
    then have "?x \<le> 2 ^ 52" by simp
    from fl_near [OF lo this] obtain p' where p': "fl ?x = Fin p'" "?x * (1 - 1 / 2 ^ 53) \<le> p'" "p' \<le> ?x * (1 + 1 / 2 ^ 53)"
      by blast
    have "?x * (1 / 2 ^ 53) < 1 / 10 ^ 7" using hi by simp
    then have "?x * (1 / 2 ^ 53) < 1 / of_int m" using m(1) by linarith
    moreover have "\<bar>p' - ?x\<bar> \<le> ?x * (1 / 2 ^ 53)" using p'(2,3) unfolding abs_le_iff by (simp add: algebra_simps)
    ultimately show ?thesis using p'(1) by (intro exI [of _ p']) linarith
  qed
  consider "d = 0" | "0 < d" | "d < 0" by linarith
  then show ?thesis
  proof cases
    case 1
    then have "p = 0" using assms(4) fl_of_int [of 0] by (simp add: jint_def)
    then show ?thesis using 1 m(2) by simp
  next
    case 2
    then obtain p' where "fl (of_int d / of_int m) = Fin p'" "\<bar>p' - of_int d / of_int m\<bar> < 1 / of_int m"
      using near [of d] assms(3) by auto
    then show ?thesis using assms(4) by (simp add: abs_less_iff)
  next
    case 3
    then obtain p' where p': "fl (of_int (- d) / of_int m) = Fin p'" "\<bar>p' - of_int (- d) / of_int m\<bar> < 1 / of_int m"
      using near [of "- d"] assms(3) by auto
    have "fl (- (of_int (- d) / of_int m)) = Fin (- p')" using fl_uminus [OF p'(1)] .
    then have "p = - p'" using assms(4) by simp
    then show ?thesis using p'(2) by (simp add: abs_less_iff)
  qed
qed

lemma floor_div:
  assumes "0 < m" "m \<le> 10 ^ 7" "\<bar>d\<bar> \<le> 10 ^ 8"
  shows "jfloor (jdiv (jint d) (jint m)) = jint (d div m)"
proof -
  let ?x = "of_int d / of_int m :: rat" and ?k = "d div m"
  have m: "(0::rat) < of_int m" using assms(1) by simp
  have "?k * m + d mod m = d" "0 \<le> d mod m" "d mod m < m" using assms(1) by simp_all
  then have "?k * m \<le> d" "d + 1 \<le> (?k + 1) * m" unfolding distrib_right by linarith+
  note kd = this
  then have "(of_int (?k * m) :: rat) \<le> of_int d" "(of_int (d + 1) :: rat) \<le> of_int ((?k + 1) * m)"
    by (simp_all only: of_int_le_iff)
  then have k: "of_int ?k \<le> ?x" "?x + 1 / of_int m \<le> of_int ?k + 1"
    using m by (simp_all add: le_divide_eq divide_le_eq add_divide_distrib [symmetric])
  have "?k \<le> 10 ^ 8"
    using mult_left_mono [of 1 m ?k] kd(1) assms(1,3) by (cases "0 \<le> ?k") simp_all
  moreover have "- (10 ^ 8) \<le> ?k"
    using mult_right_mono_neg [of 1 m "?k + 1"] kd(2) assms(1,3)
      mult.commute [of m "?k + 1"] by (cases "?k + 1 \<le> 0") (simp_all add: abs_le_iff)
  ultimately have "\<bar>?k\<bar> \<le> 2 ^ 53" "\<bar>?k + 1\<bar> \<le> 2 ^ 53" by (simp_all add: abs_le_iff)
  then have "fl (of_int ?k) = jint ?k" "fl (of_int (?k + 1)) = jint (?k + 1)"
    by (simp_all only: fl_of_int)
  moreover have "?x \<le> of_int (?k + 1)" using k(2) m by (simp add: order_trans [OF _ k(2)])
  ultimately have "jle (jint ?k) (fl ?x)" "jle (fl ?x) (jint (?k + 1))"
    using fl_mono [OF k(1)] fl_mono [of ?x "of_int (?k + 1)"] by simp_all
  then obtain p where p: "fl ?x = Fin p" "of_int ?k \<le> p"
    by (cases "fl ?x") (auto simp: jle_def jeq_def jint_def)
  have "p < of_int ?k + 1" using fl_just_above [OF assms p(1)] k(2) by linarith
  then have "\<lfloor>p\<rfloor> = ?k" using p(2) by (simp add: floor_eq_iff)
  then show ?thesis using p(1) m by (simp add: jint_def)
qed

text \<open>Counting with a map, in the order of the first occurrence.\<close>

lemma update_graph:
  "distinct ks \<Longrightarrow> AList.update k v (map (\<lambda>k. (k, g k)) ks) =
     (if k \<in> set ks then map (\<lambda>j. (j, if j = k then v else g j)) ks else map (\<lambda>k. (k, g k)) ks @ [(k, v)])"
  by (induction ks) auto

definition first_occurrences :: "'a list \<Rightarrow> 'a list" where
  "first_occurrences xs = rev (remdups (rev xs))"

lemma set_first_occurrences [simp]: "set (first_occurrences xs) = set xs" "distinct (first_occurrences xs)"
  by (simp_all add: first_occurrences_def)

lemma first_occurrences_snoc:
  "first_occurrences (xs @ [x]) = (if x \<in> set xs then first_occurrences xs else first_occurrences xs @ [x])"
  by (simp add: first_occurrences_def)

lemma count_graph:
  "foldl (\<lambda>m k. om_set k (opt_or (om_get m k) 0 + 1) m) om_empty ks
     = map (\<lambda>k. (k, count_list ks k)) (first_occurrences ks)"
proof (induction ks rule: rev_induct)
  case Nil
  then show ?case by (simp add: om_empty_def first_occurrences_def)
next
  case (snoc x ks)
  have get: "opt_or (om_get (map (\<lambda>k. (k, count_list ks k)) (first_occurrences ks)) x) 0 = count_list ks x"
  proof (cases "x \<in> set ks")
    case True
    then have "map_of (map (\<lambda>k. (k, count_list ks k)) (first_occurrences ks)) x = Some (count_list ks x)"
      by (simp add: map_of_map_restrict)
    then show ?thesis by (simp add: om_get_def)
  next
    case False
    then have "map_of (map (\<lambda>k. (k, count_list ks k)) (first_occurrences ks)) x = None"
      by (simp add: map_of_map_restrict)
    then show ?thesis using False by (simp add: om_get_def count_list_0_iff)
  qed
  let ?step = "\<lambda>m k. om_set k (opt_or (om_get m k) 0 + 1) m"
  have "foldl ?step om_empty (ks @ [x])
      = om_set x (opt_or (om_get (foldl ?step om_empty ks) x) 0 + 1) (foldl ?step om_empty ks)" by simp
  also have "\<dots> = om_set x (count_list ks x + 1) (map (\<lambda>k. (k, count_list ks k)) (first_occurrences ks))"
    unfolding snoc.IH get ..
  also have "\<dots> = map (\<lambda>k. (k, count_list (ks @ [x]) k)) (first_occurrences (ks @ [x]))"
    by (auto simp: om_set_def update_graph first_occurrences_snoc count_list_0_iff)
  finally show ?case .
qed

lemma sum_counts: "sum_list (map (count_list ks) (first_occurrences ks)) = length ks"
  by (simp add: sum_list_distinct_conv_sum_set sum_count_set)

lemma transactions_data: "getTransactionsData ts f
    = map (\<lambda>k. (k, count_list (map f ts) k)) (first_occurrences (map f ts))"
  unfolding count_graph [symmetric] by (simp add: getTransactionsData_def foldl_map Let_def)

text \<open>Resolving names touches nothing else, and a resolved name stays as it is.\<close>

lemma resolve_fields [simp]:
  "ft_status (resolve_name is t) = ft_status t" "ft_actionType (resolve_name is t) = ft_actionType t"
  "ft_amount (resolve_name is t) = ft_amount t"
  by (simp_all add: resolve_name_def split: option.splits)

lemma resolve_twice:
  assumes "\<forall>i \<in> set is. \<forall>j \<in> set is. \<not> loose_eq_str (it_id i) (it_name j)"
  shows "resolve_name is (resolve_name is t) = resolve_name is t"
proof (cases "find (\<lambda>x. loose_eq_str (it_id x) (ft_instrumentName t)) is")
  case (Some i)
  then have "i \<in> set is" by (auto simp: find_Some_iff)
  with assms have "find (\<lambda>x. loose_eq_str (it_id x) (it_name i)) is = None" by (auto simp: find_None_iff)
  with Some show ?thesis by (simp add: resolve_name_def)
qed (simp add: resolve_name_def)

text \<open>The extremes of the prices.\<close>

lemma foldl_jmin:
  "xs \<noteq> [] \<Longrightarrow> \<exists>q. foldl jmin PInf (map Fin xs) = Fin q \<and> q \<in> set xs \<and> (\<forall>y \<in> set xs. q \<le> y)"
proof (induction xs rule: rev_induct)
  case (snoc x xs)
  then show ?case by (cases "xs = []") (auto simp: jmin_def)
qed simp

lemma foldl_jmax:
  "xs \<noteq> [] \<Longrightarrow> \<exists>q. foldl jmax NInf (map Fin xs) = Fin q \<and> q \<in> set xs \<and> (\<forall>y \<in> set xs. y \<le> q)"
proof (induction xs rule: rev_induct)
  case (snoc x xs)
  then show ?case by (cases "xs = []") (auto simp: jmax_def)
qed simp

section \<open>Properties\<close>

text \<open>Dates. A time less than an hour away is shown in whole minutes, rounded down, between 60 ago and 59
  ahead; one less than a day away in whole hours between 24 ago and 23 ahead; any other as a date. So a
  moment ago is a minute ago. What is not a time is handed to the date formatter, which throws.\<close>

lemma date_ranges:
  assumes "\<bar>n\<bar> \<le> 2 ^ 52" "\<bar>now\<bar> \<le> 2 ^ 52"
  shows "let d = n - now
    in formatDate F (jint now) (jint n) =
         (if \<bar>d\<bar> < 3600000 then relativeDateFormatter F (jint (d div 60000)) ''minutes''
          else if \<bar>d\<bar> < 86400000 then relativeDateFormatter F (jint (d div 3600000)) ''hours''
          else dateFormatter F (jint n)) \<and>
       (\<bar>d\<bar> < 3600000 \<longrightarrow> d div 60000 \<in> {-60..59}) \<and>
       (\<bar>d\<bar> < 86400000 \<longrightarrow> d div 3600000 \<in> {-24..23}) \<and>
       formatDate F (jint now) NaN = dateFormatter F NaN"
proof -
  let ?d = "n - now"
  have "fl (of_int ?d) = jint ?d" using assms by (intro fl_of_int) simp
  then have diff: "jsub (jint n) (jint now) = jint ?d" by (simp add: jsub_def jint_def)
  have abs: "jabs (jint ?d) = jint \<bar>?d\<bar>" by (simp add: jint_def)
  have minutes: "jfloor (jdiv (jint ?d) (jint 60000)) = jint (?d div 60000)" if "\<bar>?d\<bar> < 3600000"
    using that by (intro floor_div) simp_all
  have hours: "jfloor (jdiv (jint ?d) (jint 3600000)) = jint (?d div 3600000)" if "\<bar>?d\<bar> < 86400000"
    using that by (intro floor_div) simp_all
  have "formatDate F (jint now) NaN = dateFormatter F NaN" by (simp add: formatDate_def jsub_def jint_def)
  moreover have "formatDate F (jint now) (jint n) =
         (if \<bar>?d\<bar> < 3600000 then relativeDateFormatter F (jint (?d div 60000)) ''minutes''
          else if \<bar>?d\<bar> < 86400000 then relativeDateFormatter F (jint (?d div 3600000)) ''hours''
          else dateFormatter F (jint n))"
    unfolding formatDate_def diff abs Let_def milisecondsInHour_def milisecondsInMinute_def milisecondsInDay_def
    using minutes hours by simp
  moreover have "?d div 60000 \<in> {-60..59}" if "\<bar>?d\<bar> < 3600000"
    using that zdiv_mono1 [of ?d 3599999 60000] zdiv_mono1 [of "-3599999" ?d 60000] by (simp add: abs_less_iff)
  moreover have "?d div 3600000 \<in> {-24..23}" if "\<bar>?d\<bar> < 86400000"
    using that zdiv_mono1 [of ?d 86399999 3600000] zdiv_mono1 [of "-86399999" ?d 3600000] by (simp add: abs_less_iff)
  ultimately show ?thesis unfolding Let_def by blast
qed

text \<open>A moment ago, and a moment ahead of an hour.\<close>

lemma date_ranges_witness:
  "\<forall>F :: intl. formatDate F (jint 1000) (jint 0) = relativeDateFormatter F (jint (- 1)) ''minutes'' \<and>
     formatDate F (jint 0) (jint 3600000) = relativeDateFormatter F (jint 1) ''hours''"
proof
  fix F :: intl
  show "formatDate F (jint 1000) (jint 0) = relativeDateFormatter F (jint (- 1)) ''minutes'' \<and>
     formatDate F (jint 0) (jint 3600000) = relativeDateFormatter F (jint 1) ''hours''"
    using date_ranges [of 0 1000 F] date_ranges [of 3600000 0 F] by (simp add: Let_def)
qed

text \<open>C40 (home page). The charts of the home page say what its table says: a slice per status and per direction
  that occurs, in the order of their first transaction, as large as the number of the rows that show it, the
  slices of a chart together as many as the rows. The table keeps the order and everything but the
  instrument, whose id is replaced in the cached transactions; rendering the page again from them gives the
  same page, unless an instrument has another's id for its name.\<close>

theorem home_transactions:
  assumes "\<forall>i \<in> set instruments. \<forall>j \<in> set instruments. \<not> loose_eq_str (it_id i) (it_name j)"
  shows "let page = Home F now date_time user balance instruments (Some ts); rows = hp_transactions page in
    hp_statuses page = map (\<lambda>k. (k, count_list (map tr_status rows) k)) (first_occurrences (map tr_status rows)) \<and>
    hp_actions page = map (\<lambda>k. (k, count_list (map tr_actionType rows) k)) (first_occurrences (map tr_actionType rows)) \<and>
    sum_list (map snd (hp_statuses page)) = length ts \<and> sum_list (map snd (hp_actions page)) = length ts \<and>
    length rows = length ts \<and> map tr_status rows = map ft_status ts \<and>
    map tr_actionType rows = map ft_actionType ts \<and> map tr_amount rows = map ft_amount ts \<and>
    Home F now date_time user balance instruments (Some (hp_cached page)) = page"
proof -
  let ?ts = "map (resolve_name instruments) ts"
  note again = resolve_twice [OF assms]
  have same: "map ft_status ?ts = map ft_status ts" "map ft_actionType ?ts = map ft_actionType ts" by simp_all
  show ?thesis
    unfolding Home_def TransactionsTable_def TransactionsCharts_def Let_def
    by (simp add: again same transactions_data transaction_row_of_def sum_counts comp_def)
qed

text \<open>Two purchases, one finished, and one sale, of two instruments.\<close>

lemma home_transactions_witness:
  "\<forall>F now date_time user balance. let p = \<lparr>ip_timestamp = [], ip_open = jint 1, ip_close = jint 1, ip_low = jint 1, ip_high = jint 1\<rparr>;
     i = \<lparr>it_id = Str ''1'', it_code = ''A'', it_name = ''Alpha'', it_description = [], it_productId = jint 1,
          it_productName = [], it_price = p, it_amount = jint 1\<rparr>;
     t = \<lparr>ft_id = 0, ft_actionType = ''BUY'', ft_instrumentName = ''1'', ft_amount = Num (jint 1), ft_price = Num (jint 1),
          ft_status = ''ACTIVE'', ft_endTime = Null\<rparr>;
     page = Home F now date_time user balance [i, i\<lparr>it_id := Str ''2'', it_name := ''Beta''\<rparr>]
       (Some [t, t\<lparr>ft_status := ''SUCCESS''\<rparr>, t\<lparr>ft_actionType := ''SELL''\<rparr>])
   in hp_statuses page = [(''ACTIVE'', 2), (''SUCCESS'', 1)] \<and> hp_actions page = [(''BUY'', 2), (''SELL'', 1)]"
proof (unfold Let_def, intro allI)
  fix F now date_time user balance
  let ?p = "\<lparr>ip_timestamp = [], ip_open = jint 1, ip_close = jint 1, ip_low = jint 1, ip_high = jint 1\<rparr>"
  let ?i = "\<lparr>it_id = Str ''1'', it_code = ''A'', it_name = ''Alpha'', it_description = [], it_productId = jint 1,
          it_productName = [], it_price = ?p, it_amount = jint 1\<rparr>"
  let ?is = "[?i, ?i\<lparr>it_id := Str ''2'', it_name := ''Beta''\<rparr>]"
  let ?t = "\<lparr>ft_id = 0, ft_actionType = ''BUY'', ft_instrumentName = ''1'', ft_amount = Num (jint 1), ft_price = Num (jint 1),
          ft_status = ''ACTIVE'', ft_endTime = Null\<rparr>"
  let ?ts = "[?t, ?t\<lparr>ft_status := ''SUCCESS''\<rparr>, ?t\<lparr>ft_actionType := ''SELL''\<rparr>]"
  have "\<forall>i \<in> set ?is. \<forall>j \<in> set ?is. \<not> loose_eq_str (it_id i) (it_name j)" by (simp add: loose_eq_str_def)
  note page = home_transactions [OF this, of F now date_time user balance ?ts]
  let ?page = "Home F now date_time user balance ?is (Some ?ts)"
  have rows: "map tr_status (hp_transactions ?page) = [''ACTIVE'', ''SUCCESS'', ''ACTIVE'']"
    "map tr_actionType (hp_transactions ?page) = [''BUY'', ''BUY'', ''SELL'']"
    using page by (simp_all add: Let_def)
  show "hp_statuses ?page = [(''ACTIVE'', 2), (''SUCCESS'', 1)] \<and> hp_actions ?page = [(''BUY'', 2), (''SELL'', 1)]"
    using page unfolding Let_def rows by (simp add: first_occurrences_def)
qed

end
