(* ===== verification/Fe_Contexts.thy ===== *)
theory Fe_Contexts
  imports Fe_View
begin

text \<open>
  The contexts of the frontend (\<open>src/frontend/src/contexts\<close>): what each provider gives to the components below it,
  the hooks that read it, and which component calls which. A hook throws outside its provider; the trees at the end
  say that on the routes of the application no component does so.
\<close>

section \<open>Contexts and their hooks\<close>

record IFormatterContext =
  fx_formatCurrency :: "jsnum \<Rightarrow> string"
  fx_formatPercent :: "jsnum \<Rightarrow> string"
  fx_formatDate :: "jsnum \<Rightarrow> (js_error, string) result"
  fx_formatTime :: "jsnum \<Rightarrow> (js_error, string) result"

record IThemeContext =
  tx_theme :: theme_mode
  tx_isDarkTheme :: bool
  tx_toggleTheme :: "theme_mode \<Rightarrow> theme_mode"

text \<open>The handlers change the state of the provider, the session.\<close>

record IAuthContext =
  ax_userId :: jsval
  ax_isLoggedIn :: bool
  ax_loginHandler :: "string \<Rightarrow> string \<Rightarrow> auth \<Rightarrow> (jsval \<times> jsval) call \<times> auth"
  ax_logoutHandler :: "jsval \<Rightarrow> auth \<Rightarrow> (jsval \<times> jsval) call \<times> auth"
  ax_defaultLoginHandler :: "string \<Rightarrow> auth \<Rightarrow> auth"

record INavigationContext =
  nx_navigationVisible :: bool
  nx_toggleNavigation :: "bool \<Rightarrow> bool"
  nx_hideNavigation :: "bool \<Rightarrow> bool"

record IUserContext =
  ux_userId :: jsval
  ux_logoutHandler :: "jsval \<Rightarrow> auth \<Rightarrow> (jsval \<times> jsval) call \<times> auth"

text \<open>What surrounds a component. \<open>None\<close> is the default of \<open>createContext\<close> in those contexts whose hook checks
  for it. \<open>cx_client\<close>: below the provider of the query library; \<open>cx_user_data\<close>: the two values of the loader with the
  id \<open>LoaderIds.user\<close>, as the query library takes them, if a matched route has this loader.\<close>

record contexts =
  cx_formatter :: "IFormatterContext option"
  cx_query :: "IQueryContext option"
  cx_client :: bool
  cx_theme :: IThemeContext
  cx_auth :: "IAuthContext option"
  cx_navigation :: INavigationContext
  cx_user :: "IUserContext option"
  cx_instrument :: "IInstrumentContext option"
  cx_user_data :: "(query_data option \<times> query_data option) option"

text \<open>The defaults of the theme and of the navigation have functions that do nothing.\<close>

definition default_theme :: IThemeContext where
  "default_theme = \<lparr>tx_theme = Dark, tx_isDarkTheme = True, tx_toggleTheme = (\<lambda>m. m)\<rparr>"

definition default_navigation :: INavigationContext where
  "default_navigation =
     \<lparr>nx_navigationVisible = True, nx_toggleNavigation = (\<lambda>v. v), nx_hideNavigation = (\<lambda>v. v)\<rparr>"

definition no_contexts :: "(query_data option \<times> query_data option) option \<Rightarrow> contexts" where
  "no_contexts d =
     \<lparr>cx_formatter = None, cx_query = None, cx_client = False, cx_theme = default_theme, cx_auth = None,
      cx_navigation = default_navigation, cx_user = None, cx_instrument = None, cx_user_data = d\<rparr>"

definition required :: "string \<Rightarrow> 'x option \<Rightarrow> (js_error, 'x) result" where
  "required msg context = (case context of None \<Rightarrow> Inl (ErrorMsg msg) | Some c \<Rightarrow> Inr c)"

definition useFormatter :: "contexts \<Rightarrow> (js_error, IFormatterContext) result" where
  "useFormatter C =
     required ''Components using [useFormatter] hook need to be wrapped in [FormatterProvider]'' (cx_formatter C)"

definition useQueryContext :: "contexts \<Rightarrow> (js_error, IQueryContext) result" where
  "useQueryContext C =
     required ''Components using [useQueryContext] hook need to be wrapped in [QueryClientProvider]'' (cx_query C)"

definition useAuth :: "contexts \<Rightarrow> (js_error, IAuthContext) result" where
  "useAuth C = required ''Components using [useAuth] hook need to be wrapped in [AuthProvider]'' (cx_auth C)"

definition useAuthUser :: "contexts \<Rightarrow> (js_error, IUserContext) result" where
  "useAuthUser C = required ''[useAuthUser] hook needs to be wrapped in [UserContextProvider]'' (cx_user C)"

definition useTheme :: "contexts \<Rightarrow> IThemeContext" where "useTheme C = cx_theme C"
definition useNavigation :: "contexts \<Rightarrow> INavigationContext" where "useNavigation C = cx_navigation C"

text \<open>The two queries of the current user start from what the route has loaded; without a loader there is nothing
  to take apart.\<close>

definition useAuthUserData :: "contexts \<Rightarrow> (js_error, UseQueryOptions \<times> UseQueryOptions) result" where
  "useAuthUserData C =
     rbind (useAuthUser C) (\<lambda>u.
     case cx_user_data C of
       None \<Rightarrow> Inl (TypeError ''undefined is not iterable'')
     | Some (userData, balanceData) \<Rightarrow>
         rbind (useQueryContext C) (\<lambda>q.
           Inr (useUserQuery q (ux_userId u) userData, useBalanceQuery q (ux_userId u) balanceData)))"

section \<open>Providers\<close>

definition FormatterProvider :: "(string \<Rightarrow> string \<Rightarrow> intl) \<Rightarrow> jsnum \<Rightarrow> string \<Rightarrow> string \<Rightarrow> contexts \<Rightarrow> contexts" where
  "FormatterProvider mk_intl now locale currency C =
     (let F = mk_intl locale currency
      in C\<lparr>cx_formatter := Some \<lparr>fx_formatCurrency = formatCurrency F, fx_formatPercent = formatPercent F,
            fx_formatDate = formatDate F now, fx_formatTime = formatTime F\<rparr>\<rparr>)"

definition query_provider :: "QueryProviderProps \<Rightarrow> contexts \<Rightarrow> contexts" where
  "query_provider props C = C\<lparr>cx_query := Some (QueryClientProvider props), cx_client := True\<rparr>"

text \<open>The mode is a state; it starts with the property or the preference of the system.\<close>

definition initial_theme :: "theme_mode option \<Rightarrow> bool \<Rightarrow> theme_mode" where
  "initial_theme initialTheme prefersDark =
     (case initialTheme of Some m \<Rightarrow> m | None \<Rightarrow> getPreferredTheme prefersDark)"

definition ThemeProvider :: "theme_mode \<Rightarrow> contexts \<Rightarrow> contexts" where
  "ThemeProvider themeMode C =
     C\<lparr>cx_theme := \<lparr>tx_theme = themeMode, tx_isDarkTheme = (themeMode = Dark), tx_toggleTheme = toggleTheme\<rparr>\<rparr>"

definition AuthProvider ::
  "(string \<Rightarrow> string \<Rightarrow> jsval call) \<Rightarrow> (jsval \<Rightarrow> jsval call) \<Rightarrow> auth \<Rightarrow> contexts \<Rightarrow> contexts" where
  "AuthProvider loginHandler logoutHandler s C =
     C\<lparr>cx_auth := Some \<lparr>ax_userId = au_userId s, ax_isLoggedIn = isLoggedIn s, ax_loginHandler = auth_login loginHandler,
        ax_logoutHandler = auth_logout logoutHandler, ax_defaultLoginHandler = defaultLogin\<rparr>\<rparr>"

definition initial_navigation :: "bool option \<Rightarrow> bool" where
  "initial_navigation initialNavigationState = (case initialNavigationState of Some b \<Rightarrow> b | None \<Rightarrow> True)"

definition NavigationProvider :: "bool \<Rightarrow> contexts \<Rightarrow> contexts" where
  "NavigationProvider navigationVisible C =
     C\<lparr>cx_navigation := \<lparr>nx_navigationVisible = navigationVisible, nx_toggleNavigation = toggleNavigation,
        nx_hideNavigation = hideNavigation\<rparr>\<rparr>"

definition user_provider ::
  "jsval \<Rightarrow> (jsval \<Rightarrow> auth \<Rightarrow> (jsval \<times> jsval) call \<times> auth) \<Rightarrow> contexts \<Rightarrow> (js_error, contexts) result" where
  "user_provider userId logoutHandler C =
     rbind (UserContextProvider userId) (\<lambda>u. Inr (C\<lparr>cx_user := Some \<lparr>ux_userId = u, ux_logoutHandler = logoutHandler\<rparr>\<rparr>))"

section \<open>Components and the hooks they call\<close>

datatype hook =
    UseFormatter | UseQuery | UseQueryClient | UseTheme | UseAuth | UseNavigation | UseAuthUser | UseInstrument
  | UseAuthUserData

text \<open>A hook of \<open>contexts/QueryContext\<close> reads the query context and calls \<open>useQuery\<close>, which like \<open>useQueryClient\<close> and
  \<open>useMutation\<close> needs the provider of the library.\<close>

definition needs_client :: "contexts \<Rightarrow> (js_error, unit) result" where
  "needs_client C = (if cx_client C then Inr () else Inl (ErrorMsg ''No QueryClient set, use QueryClientProvider to set one''))"

fun call_hook :: "contexts \<Rightarrow> hook \<Rightarrow> (js_error, unit) result" where
  "call_hook C UseFormatter = rmap (\<lambda>_. ()) (useFormatter C)"
| "call_hook C UseQuery = rbind (useQueryContext C) (\<lambda>_. needs_client C)"
| "call_hook C UseQueryClient = needs_client C"
| "call_hook C UseTheme = Inr ()"
| "call_hook C UseAuth = rmap (\<lambda>_. ()) (useAuth C)"
| "call_hook C UseNavigation = Inr ()"
| "call_hook C UseAuthUser = rmap (\<lambda>_. ()) (useAuthUser C)"
| "call_hook C UseInstrument = rmap (\<lambda>_. ()) (useInstrument (cx_instrument C))"
| "call_hook C UseAuthUserData = rbind (useAuthUserData C) (\<lambda>_. needs_client C)"

text \<open>A component calls its hooks, then its children render, below the provider if it is one.\<close>

datatype comp_tree =
    Comp "hook list" "comp_tree list"
  | Provide "contexts \<Rightarrow> (js_error, contexts) result" "comp_tree list"

fun render_tree :: "contexts \<Rightarrow> comp_tree \<Rightarrow> (js_error, unit) result"
  and render_trees :: "contexts \<Rightarrow> comp_tree list \<Rightarrow> (js_error, unit) result" where
  "render_tree C (Comp hs ts) = rbind (rmapM (call_hook C) hs) (\<lambda>_. render_trees C ts)"
| "render_tree C (Provide P ts) = rbind (P C) (\<lambda>C'. render_trees C' ts)"
| "render_trees C [] = Inr ()"
| "render_trees C (t # ts) = rbind (render_tree C t) (\<lambda>_. render_trees C ts)"

section \<open>The components\<close>

text \<open>What a component needs of the data on display: the session, and the instrument of the page if there is one.\<close>

abbreviation leaf :: "hook list \<Rightarrow> comp_tree" where "leaf hs \<equiv> Comp hs []"

definition AccountInfo_hooks :: comp_tree where "AccountInfo_hooks = leaf [UseAuthUserData]"
definition InstrumentsChart_hooks :: comp_tree where
  "InstrumentsChart_hooks = Comp [UseTheme] [leaf [UseFormatter]]"
definition InstrumentsTable_hooks :: comp_tree where "InstrumentsTable_hooks = leaf [UseFormatter]"
definition TransactionsPieChart_hooks :: comp_tree where "TransactionsPieChart_hooks = leaf [UseTheme]"
definition TransactionsCharts_hooks :: comp_tree where
  "TransactionsCharts_hooks = Comp [] [TransactionsPieChart_hooks, TransactionsPieChart_hooks]"
definition TransactionsTable_hooks :: comp_tree where "TransactionsTable_hooks = leaf [UseFormatter]"

definition PriceDisplay_hooks :: comp_tree where "PriceDisplay_hooks = leaf [UseFormatter, UseTheme]"
definition InstrumentPriceChart_hooks :: comp_tree where
  "InstrumentPriceChart_hooks = leaf [UseFormatter, UseTheme]"
definition FullInstrumentCard_hooks :: comp_tree where
  "FullInstrumentCard_hooks = Comp [UseInstrument, UseQuery] [PriceDisplay_hooks, InstrumentPriceChart_hooks]"

definition QuickBuyForm_hooks :: comp_tree where
  "QuickBuyForm_hooks = leaf [UseAuthUserData, UseInstrument, UseAuthUser, UseQueryClient]"
definition QuickSellForm_hooks :: comp_tree where "QuickSellForm_hooks = leaf [UseInstrument, UseQueryClient]"
definition BuyForm_hooks :: comp_tree where
  "BuyForm_hooks = leaf [UseAuthUserData, UseInstrument, UseQueryClient]"
definition SellForm_hooks :: comp_tree where "SellForm_hooks = leaf [UseInstrument, UseQueryClient]"

definition InstrumentTransactions_hooks :: "form_id \<Rightarrow> comp_tree" where
  "InstrumentTransactions_hooks tab = Comp [] [case tab of
      QuickBuyTab \<Rightarrow> QuickBuyForm_hooks | QuickSellTab \<Rightarrow> QuickSellForm_hooks
    | BuyTab \<Rightarrow> BuyForm_hooks | SellTab \<Rightarrow> SellForm_hooks]"

definition DepositForm_hooks :: comp_tree where
  "DepositForm_hooks = leaf [UseAuthUserData, UseAuthUser, UseQueryClient]"
definition WithdrawForm_hooks :: comp_tree where
  "WithdrawForm_hooks = leaf [UseAuthUserData, UseAuthUser, UseQueryClient]"
definition CreditCardForm_hooks :: comp_tree where
  "CreditCardForm_hooks = leaf [UseAuthUser, UseAuthUserData, UseQueryClient]"
definition TimelineEntry_hooks :: comp_tree where "TimelineEntry_hooks = leaf [UseFormatter]"
definition LoginForm_hooks :: comp_tree where "LoginForm_hooks = leaf [UseQueryClient]"
definition SignupForm_hooks :: comp_tree where "SignupForm_hooks = leaf [UseQueryClient]"
definition FeatureFlagItem_hooks :: comp_tree where "FeatureFlagItem_hooks = leaf [UseQueryClient, UseQuery]"

definition ThemeSwitcher_hooks :: comp_tree where "ThemeSwitcher_hooks = leaf [UseTheme]"
definition FeatureFlagIcon_hooks :: comp_tree where "FeatureFlagIcon_hooks = leaf [UseQuery]"

text \<open>The panel queries the user only when there is an id that is not empty.\<close>

definition UserPanel_hooks :: "auth \<Rightarrow> comp_tree" where
  "UserPanel_hooks s = leaf ([UseAuth] @ (if truthy (au_userId s) then [UseQuery] else []) @ [UseQueryClient])"

definition AppHeader_hooks :: "auth \<Rightarrow> comp_tree" where
  "AppHeader_hooks s = Comp [UseAuth, UseNavigation]
     ([ThemeSwitcher_hooks, FeatureFlagIcon_hooks] @ (if isLoggedIn s then [UserPanel_hooks s] else []))"

definition Navigation_hooks :: comp_tree where "Navigation_hooks = leaf [UseNavigation]"

text \<open>The pages. Lists of cards, flags and entries show one component for each element, here \<open>n\<close> of them.\<close>

record shown =
  sn_session :: auth
  sn_instrument :: "IInstrumentContext option"
  sn_tab :: form_id
  sn_count :: nat

definition Instrument_hooks :: "shown \<Rightarrow> comp_tree" where
  "Instrument_hooks d = Comp [UseAuthUser, UseQuery] (case sn_instrument d of
      None \<Rightarrow> []
    | Some c \<Rightarrow> [Provide (\<lambda>C. Inr (C\<lparr>cx_instrument := Some c\<rparr>))
        [FullInstrumentCard_hooks, InstrumentTransactions_hooks (sn_tab d)]])"

definition Home_hooks :: comp_tree where
  "Home_hooks = Comp [UseAuthUser, UseQuery, UseQuery]
     [AccountInfo_hooks, InstrumentsChart_hooks, InstrumentsTable_hooks, TransactionsCharts_hooks, TransactionsTable_hooks]"

definition Instruments_hooks :: "shown \<Rightarrow> comp_tree" where
  "Instruments_hooks d = Comp [UseAuthUser, UseQuery] (replicate (sn_count d) PriceDisplay_hooks)"

definition CreditCardActive_hooks :: comp_tree where "CreditCardActive_hooks = leaf [UseAuthUser, UseQueryClient]"
definition CreditCardStatus_hooks :: "shown \<Rightarrow> comp_tree" where
  "CreditCardStatus_hooks d = Comp [UseAuthUser, UseQuery] (replicate (sn_count d) TimelineEntry_hooks)"
definition Login_hooks :: comp_tree where "Login_hooks = Comp [UseAuth, UseQuery] [LoginForm_hooks]"
definition FeatureFlags_hooks :: "shown \<Rightarrow> comp_tree" where
  "FeatureFlags_hooks d = Comp [UseQuery, UseQuery, UseQueryClient] (replicate (sn_count d) FeatureFlagItem_hooks)"
definition Version_hooks :: comp_tree where "Version_hooks = leaf [UseQuery]"

definition page_hooks :: "shown \<Rightarrow> string \<Rightarrow> comp_tree" where
  "page_hooks d n =
     (if n = ''FeatureFlags'' then FeatureFlags_hooks d
      else if n = ''Version'' then Version_hooks
      else if n = ''Login'' then Login_hooks
      else if n = ''Signup'' then Comp [] [SignupForm_hooks]
      else if n = ''Withdraw'' then Comp [] [WithdrawForm_hooks]
      else if n = ''Deposit'' then Comp [] [DepositForm_hooks]
      else if n = ''CreditCardOrder'' then Comp [] [CreditCardForm_hooks]
      else if n = ''CreditCardStatus'' then CreditCardStatus_hooks d
      else if n = ''CreditCardActive'' then CreditCardActive_hooks
      else if n = ''Home'' then Home_hooks
      else if n = ''Instruments'' then Instruments_hooks d
      else Instrument_hooks d)"

text \<open>The layouts, and what surrounds the application: the formatters of the runtime, the API, the states of the
  theme and of the navigation, the handlers of the session.\<close>

record surroundings =
  su_mk_intl :: "string \<Rightarrow> string \<Rightarrow> intl"
  su_now :: jsnum
  su_api :: QueryProviderProps
  su_theme :: theme_mode
  su_navigation :: bool
  su_login :: "string \<Rightarrow> string \<Rightarrow> jsval call"
  su_logout :: "jsval \<Rightarrow> jsval call"

definition AppLayout_hooks :: "surroundings \<Rightarrow> shown \<Rightarrow> comp_tree \<Rightarrow> comp_tree" where
  "AppLayout_hooks A d outlet =
     Provide (Inr \<circ> FormatterProvider (su_mk_intl A) (su_now A) ''en-US'' ''USD'')
    [Provide (Inr \<circ> query_provider (su_api A))
    [Provide (Inr \<circ> ThemeProvider (su_theme A))
    [Provide (Inr \<circ> AuthProvider (su_login A) (su_logout A) (sn_session d))
    [Provide (Inr \<circ> NavigationProvider (su_navigation A)) [AppHeader_hooks (sn_session d), outlet]]]]]"

definition BaseNavigation_hooks :: comp_tree where "BaseNavigation_hooks = leaf [UseAuth]"

definition PublicLayout_hooks :: "shown \<Rightarrow> comp_tree \<Rightarrow> comp_tree" where
  "PublicLayout_hooks d outlet = Comp [UseAuth] (if isLoggedIn (sn_session d) then [] else [outlet])"

definition ProtectedLayout_hooks :: "surroundings \<Rightarrow> shown \<Rightarrow> comp_tree \<Rightarrow> comp_tree" where
  "ProtectedLayout_hooks A d outlet = Comp [UseAuth, UseNavigation]
     (if \<not> isLoggedIn (sn_session d) then []
      else [Provide (user_provider (au_userId (sn_session d)) (auth_logout (su_logout A))) [Navigation_hooks, outlet]])"

definition CreditCardLayout_hooks :: "comp_tree \<Rightarrow> comp_tree" where
  "CreditCardLayout_hooks outlet = Comp [UseAuthUser, UseQuery] [outlet]"

definition element_hooks :: "surroundings \<Rightarrow> shown \<Rightarrow> component \<Rightarrow> comp_tree \<Rightarrow> comp_tree" where
  "element_hooks A d el outlet = (case el of
      AppLayout_c \<Rightarrow> AppLayout_hooks A d outlet
    | BaseNavigation_c \<Rightarrow> BaseNavigation_hooks
    | PublicLayout_c \<Rightarrow> PublicLayout_hooks d outlet
    | ProtectedLayout_c \<Rightarrow> ProtectedLayout_hooks A d outlet
    | CreditCardLayout_c \<Rightarrow> CreditCardLayout_hooks outlet
    | PageC n \<Rightarrow> page_hooks d n)"

definition elements_hooks :: "surroundings \<Rightarrow> shown \<Rightarrow> component list \<Rightarrow> comp_tree" where
  "elements_hooks A d els = foldr (element_hooks A d) els (leaf [])"

text \<open>A branch of the router: its elements, below no provider, with the data of its loaders.\<close>

definition branch_contexts :: "query_data option \<times> query_data option \<Rightarrow> branch \<Rightarrow> contexts" where
  "branch_contexts loaded br = no_contexts (if UserThunks \<in> set (br_loaders br) then Some loaded else None)"

section \<open>Every hook has its provider\<close>

definition in_app :: "contexts \<Rightarrow> bool" where
  "in_app C \<longleftrightarrow> cx_formatter C \<noteq> None \<and> cx_query C \<noteq> None \<and> cx_client C \<and> cx_auth C \<noteq> None"

definition in_account :: "contexts \<Rightarrow> bool" where
  "in_account C \<longleftrightarrow> in_app C \<and> cx_user C \<noteq> None \<and> cx_user_data C \<noteq> None"

lemmas hook_rules = useFormatter_def useQueryContext_def useAuth_def useAuthUser_def useAuthUserData_def required_def
  needs_client_def useInstrument_def

declare call_hook.simps [simp del]

lemma free_hooks [simp]: "call_hook C UseTheme = Inr ()" "call_hook C UseNavigation = Inr ()"
  by (simp_all add: call_hook.simps)

lemma app_hooks [simp]:
  assumes "in_app C"
  shows "call_hook C UseFormatter = Inr ()" "call_hook C UseQuery = Inr ()" "call_hook C UseQueryClient = Inr ()"
    "call_hook C UseAuth = Inr ()"
  using assms by (auto simp: in_app_def hook_rules call_hook.simps rmap_def)

lemma account_hooks [simp]:
  assumes "in_account C"
  shows "call_hook C UseAuthUser = Inr ()" "call_hook C UseAuthUserData = Inr ()"
  using assms by (auto simp: in_account_def in_app_def hook_rules call_hook.simps rmap_def)

lemma in_account_app [simp]: "in_account C \<Longrightarrow> in_app C"
  by (simp add: in_account_def)

lemma instrument_hook [simp]:
  "call_hook (C\<lparr>cx_instrument := Some c\<rparr>) UseInstrument = Inr ()"
  "in_app (C\<lparr>cx_instrument := Some c\<rparr>) = in_app C" "in_account (C\<lparr>cx_instrument := Some c\<rparr>) = in_account C"
  by (simp_all add: hook_rules call_hook.simps rmap_def in_app_def in_account_def)

lemma render_replicate [simp]:
  "render_tree C t = Inr () \<Longrightarrow> render_trees C (replicate k t) = Inr ()"
  by (induction k) auto

lemmas component_hooks = AccountInfo_hooks_def InstrumentsChart_hooks_def InstrumentsTable_hooks_def
  TransactionsPieChart_hooks_def TransactionsCharts_hooks_def TransactionsTable_hooks_def PriceDisplay_hooks_def
  InstrumentPriceChart_hooks_def FullInstrumentCard_hooks_def QuickBuyForm_hooks_def QuickSellForm_hooks_def
  BuyForm_hooks_def SellForm_hooks_def InstrumentTransactions_hooks_def DepositForm_hooks_def WithdrawForm_hooks_def
  CreditCardForm_hooks_def TimelineEntry_hooks_def LoginForm_hooks_def SignupForm_hooks_def FeatureFlagItem_hooks_def
  ThemeSwitcher_hooks_def FeatureFlagIcon_hooks_def UserPanel_hooks_def AppHeader_hooks_def Navigation_hooks_def

lemmas page_trees = Instrument_hooks_def Home_hooks_def Instruments_hooks_def CreditCardActive_hooks_def
  CreditCardStatus_hooks_def Login_hooks_def FeatureFlags_hooks_def Version_hooks_def

lemma pages_in_account:
  assumes "in_account C"
  shows "render_tree C (page_hooks d n) = Inr ()"
proof -
  have transactions: "render_tree (C\<lparr>cx_instrument := Some c\<rparr>) (InstrumentTransactions_hooks tab) = Inr ()" for c tab
    using assms by (cases tab) (simp_all add: component_hooks)
  have instrument: "render_tree C (Instrument_hooks d) = Inr ()"
    unfolding Instrument_hooks_def using assms transactions
    by (cases "sn_instrument d") (simp_all add: FullInstrumentCard_hooks_def PriceDisplay_hooks_def InstrumentPriceChart_hooks_def)
  have "render_tree C t = Inr ()" if "t \<in> {Home_hooks, Instruments_hooks d, CreditCardStatus_hooks d, CreditCardActive_hooks,
      Login_hooks, FeatureFlags_hooks d, Version_hooks, SignupForm_hooks, WithdrawForm_hooks, DepositForm_hooks, CreditCardForm_hooks}" for t
    using that assms by (auto simp: page_trees component_hooks)
  with instrument show ?thesis by (simp add: page_hooks_def)
qed

definition public_pages :: "string list" where
  "public_pages = [''FeatureFlags'', ''Version'', ''Login'', ''Signup'']"

lemma pages_in_app:
  assumes "in_app C" "n \<in> set public_pages"
  shows "render_tree C (page_hooks d n) = Inr ()"
proof -
  have pages: "page_hooks d ''FeatureFlags'' = FeatureFlags_hooks d" "page_hooks d ''Version'' = Version_hooks"
    "page_hooks d ''Login'' = Login_hooks" "page_hooks d ''Signup'' = Comp [] [SignupForm_hooks]"
    by (simp_all add: page_hooks_def)
  have shown: "render_tree C t = Inr ()"
    if "t \<in> {FeatureFlags_hooks d, Version_hooks, Login_hooks, Comp [] [SignupForm_hooks]}" for t
    using that assms(1) by (auto simp: page_trees component_hooks)
  from assms(2) consider "n = ''FeatureFlags''" | "n = ''Version''" | "n = ''Login''" | "n = ''Signup''"
    by (auto simp: public_pages_def)
  then show ?thesis by cases (simp_all only: pages, (rule shown, simp)+)
qed

text \<open>The layout of the application renders its own components, then the outlet below its providers.\<close>

lemma app_layout_outlet:
  "\<exists>C'. in_app C' \<and> cx_user_data C' = cx_user_data C \<and> cx_user C' = cx_user C \<and>
     render_tree C (AppLayout_hooks A d outlet) = render_tree C' outlet"
proof -
  let ?C = "NavigationProvider (su_navigation A) (AuthProvider (su_login A) (su_logout A) (sn_session d)
      (ThemeProvider (su_theme A) (query_provider (su_api A)
      (FormatterProvider (su_mk_intl A) (su_now A) ''en-US'' ''USD'' C))))"
  have app: "in_app ?C" "cx_user_data ?C = cx_user_data C" "cx_user ?C = cx_user C"
    by (simp_all add: in_app_def NavigationProvider_def AuthProvider_def ThemeProvider_def query_provider_def
        FormatterProvider_def Let_def)
  have "render_tree ?C (AppHeader_hooks (sn_session d)) = Inr ()"
    using app(1) by (simp add: component_hooks)
  then have "render_tree C (AppLayout_hooks A d outlet) = render_tree ?C outlet"
    by (cases "render_tree ?C outlet") (simp_all add: AppLayout_hooks_def)
  with app show ?thesis by blast
qed

lemma app_layout:
  assumes "\<And>C'. in_app C' \<Longrightarrow> cx_user_data C' = cx_user_data C \<Longrightarrow> render_tree C' outlet = Inr ()"
  shows "render_tree C (AppLayout_hooks A d outlet) = Inr ()"
  using app_layout_outlet [of C A d outlet] assms by auto

text \<open>What the pages of an account do where there is no user.\<close>

abbreviation no_user :: js_error where
  "no_user \<equiv> ErrorMsg ''[useAuthUser] hook needs to be wrapped in [UserContextProvider]''"

lemma user_hooks [simp]:
  assumes "cx_user C = None"
  shows "call_hook C UseAuthUser = Inl no_user" "call_hook C UseAuthUserData = Inl no_user"
  using assms by (simp_all add: call_hook.simps hook_rules rmap_def)

lemma pages_without_user:
  assumes "cx_user C = None" "n \<notin> set public_pages"
  shows "render_tree C (page_hooks d n) = Inl no_user"
proof -
  have "render_tree C t = Inl no_user" if "t \<in> {Home_hooks, Instruments_hooks d, CreditCardStatus_hooks d,
      CreditCardActive_hooks, WithdrawForm_hooks, DepositForm_hooks, CreditCardForm_hooks, Instrument_hooks d}" for t
    using that assms(1) by (auto simp: page_trees component_hooks)
  with assms(2) show ?thesis by (simp add: page_hooks_def public_pages_def)
qed

lemma protected_layout:
  assumes "in_app C" "cx_user_data C \<noteq> None" "\<And>C'. in_account C' \<Longrightarrow> render_tree C' outlet = Inr ()"
  shows "render_tree C (ProtectedLayout_hooks A d outlet) = Inr ()"
proof -
  let ?C = "C\<lparr>cx_user := Some \<lparr>ux_userId = au_userId (sn_session d), ux_logoutHandler = auth_logout (su_logout A)\<rparr>\<rparr>"
  have "in_account ?C" using assms(1,2) by (simp add: in_account_def in_app_def)
  with assms(1,3) show ?thesis
    by (simp add: ProtectedLayout_hooks_def user_provider_def UserContextProvider_def isLoggedIn_def Navigation_hooks_def)
qed

section \<open>Properties\<close>

text \<open>C29 (contexts). On every branch of the router, for every session, instrument and tab, whatever the state of the
  providers: no hook of a component on the page is called outside its provider, so none throws. The pages below the
  protected layout need it: without it, with someone logged in or not, the first of their hooks that asks for the
  user throws.\<close>

theorem hooks_in_scope:
  assumes "br \<in> set branches"
  shows "render_tree (branch_contexts loaded br) (elements_hooks A d (br_elements br)) = Inr () \<and>
    (ProtectedLayout_c \<in> set (br_elements br) \<longrightarrow>
     render_tree (branch_contexts loaded br) (elements_hooks A d (filter (\<lambda>el. el \<noteq> ProtectedLayout_c) (br_elements br))) =
       Inl (ErrorMsg ''[useAuthUser] hook needs to be wrapped in [UserContextProvider]''))"
proof
  have empty: "render_tree C (leaf []) = Inr ()" for C by simp
  have base: "render_tree C (AppLayout_hooks A d BaseNavigation_hooks) = Inr ()" for C
    by (rule app_layout) (simp add: BaseNavigation_hooks_def)
  have open_page: "render_tree C (AppLayout_hooks A d (page_hooks d n)) = Inr ()" if "n \<in> set public_pages" for C n
    by (rule app_layout) (rule pages_in_app [OF _ that])
  have public: "render_tree C (AppLayout_hooks A d (PublicLayout_hooks d (page_hooks d n))) = Inr ()"
    if "n \<in> set public_pages" for C n
    by (rule app_layout) (simp add: PublicLayout_hooks_def pages_in_app [OF _ that])
  have account: "render_tree C (AppLayout_hooks A d (ProtectedLayout_hooks A d t)) = Inr ()"
    if "cx_user_data C \<noteq> None" "\<And>C'. in_account C' \<Longrightarrow> render_tree C' t = Inr ()" for C t
    by (rule app_layout, rule protected_layout) (use that in auto)
  have card: "render_tree C' (CreditCardLayout_hooks t) = Inr ()"
    if "in_account C'" "render_tree C' t = Inr ()" for C' t
    using that by (simp add: CreditCardLayout_hooks_def)
  have data: "cx_user_data (branch_contexts loaded br) \<noteq> None" if "UserThunks \<in> set (br_loaders br)"
    using that by (simp add: branch_contexts_def no_contexts_def)
  show "render_tree (branch_contexts loaded br) (elements_hooks A d (br_elements br)) = Inr ()"
    using assms data
    by (auto simp: branches_eq elements_hooks_def element_hooks_def public_pages_def empty base
        intro!: open_page public account card pages_in_account)
next
  have error: "render_tree (branch_contexts loaded b) (AppLayout_hooks A d t) = Inl no_user"
    if "\<And>C'. cx_user C' = None \<Longrightarrow> render_tree C' t = Inl no_user" for t b
    using app_layout_outlet [of "branch_contexts loaded b" A d t] that
    by (auto simp: branch_contexts_def no_contexts_def)
  have card: "render_tree C' (CreditCardLayout_hooks t) = Inl no_user" if "cx_user C' = None" for C' t
    using that by (simp add: CreditCardLayout_hooks_def)
  show "ProtectedLayout_c \<in> set (br_elements br) \<longrightarrow>
     render_tree (branch_contexts loaded br) (elements_hooks A d (filter (\<lambda>el. el \<noteq> ProtectedLayout_c) (br_elements br))) =
       Inl no_user"
    using assms
    by (auto simp: branches_eq elements_hooks_def element_hooks_def intro!: error card pages_without_user)
      (simp_all add: public_pages_def)
qed

lemma hooks_in_scope_witness:
  "\<forall>A d. render_tree (branch_contexts (None, None)
       \<lparr>br_path = ''/deposit'', br_elements = [AppLayout_c, ProtectedLayout_c, PageC ''Deposit''], br_loaders = [UserThunks]\<rparr>)
     (elements_hooks A d [AppLayout_c, ProtectedLayout_c, PageC ''Deposit'']) = Inr ()"
  using hooks_in_scope [of "\<lparr>br_path = ''/deposit'', br_elements = [AppLayout_c, ProtectedLayout_c, PageC ''Deposit''],
      br_loaders = [UserThunks]\<rparr>" "(None, None)"]
  by (simp add: branches_eq)

end
