(* ===== verification/Fe_Types.thy ===== *)
theory Fe_Types
  imports Fe_Read
begin

text \<open>
  The types the frontend declares for what the services answer (\<open>api/backend\<close>) and for what its own API returns
  (\<open>api/*/types.ts\<close>), as types of JavaScript values, and the reading functions against them: an answer of
  its declared type is read completely, into values of the declared types.
\<close>

section \<open>Types of values\<close>

datatype ty =
    TNum
  | TStr
  | TBool
  | TLits "string list" \<comment> \<open>a union of string literals\<close>
  | TArr ty
  | TObj "(string \<times> ty) list"
  | TOpt ty \<comment> \<open>of a property with a question mark\<close>

primrec has_type :: "ty \<Rightarrow> jsval \<Rightarrow> bool" where
  "has_type TNum = (\<lambda>v. case v of Num x \<Rightarrow> True | _ \<Rightarrow> False)"
| "has_type TStr = (\<lambda>v. case v of Str s \<Rightarrow> True | _ \<Rightarrow> False)"
| "has_type TBool = (\<lambda>v. case v of Bool b \<Rightarrow> True | _ \<Rightarrow> False)"
| "has_type (TLits ls) = (\<lambda>v. case v of Str s \<Rightarrow> s \<in> set ls | _ \<Rightarrow> False)"
| "has_type (TArr t) = (\<lambda>v. case v of Arr vs \<Rightarrow> list_all (has_type t) vs | _ \<Rightarrow> False)"
| "has_type (TObj fs) = (\<lambda>v. case v of
     Obj kvs \<Rightarrow> list_all (\<lambda>(k, p). p (opt_prop v k)) (map (map_prod (\<lambda>k. k) has_type) fs)
   | _ \<Rightarrow> False)"
| "has_type (TOpt t) = (\<lambda>v. v = Undefined \<or> has_type t v)"

section \<open>The answers of the services\<close>

definition results_t :: "ty \<Rightarrow> ty" where "results_t t = TObj [(''results'', TArr t)]"

definition PresetUserResponse_t :: ty where
  "PresetUserResponse_t = TObj [(''id'', TNum), (''username'', TStr), (''firstName'', TStr), (''lastName'', TStr)]"

definition PresetUsersResponse_t :: ty where "PresetUsersResponse_t = results_t PresetUserResponse_t"

definition UserResponse_t :: ty where
  "UserResponse_t =
     TObj [(''id'', TNum), (''packageId'', TNum), (''firstName'', TStr), (''lastName'', TStr), (''username'', TStr), (''email'', TStr),
       (''hashedPassword'', TStr), (''origin'', TStr), (''creationDate'', TStr), (''packageActivationDate'', TStr),
       (''accountActive'', TBool), (''address'', TStr)]"

definition BalanceResponse_t :: ty where "BalanceResponse_t = TObj [(''accountId'', TNum), (''value'', TNum)]"

definition InstrumentPrice_t :: ty where
  "InstrumentPrice_t = TObj [(''timestamp'', TStr), (''open'', TNum), (''close'', TNum), (''low'', TNum), (''high'', TNum)]"

definition Instrument_t :: ty where
  "Instrument_t =
     TObj [(''id'', TStr), (''code'', TStr), (''name'', TStr), (''description'', TStr), (''productId'', TNum), (''productName'', TStr),
       (''price'', InstrumentPrice_t), (''amount'', TNum)]"

definition InstrumentResponse_t :: ty where "InstrumentResponse_t = results_t Instrument_t"

definition RawPrice_t :: ty where
  "RawPrice_t =
     TObj [(''id'', TNum), (''instrumentId'', TNum), (''timestamp'', TStr), (''open'', TNum), (''close'', TNum), (''high'', TNum),
       (''low'', TNum)]"

definition PriceResponse_t :: ty where "PriceResponse_t = results_t RawPrice_t"
definition PriceResponseXml_t :: ty where "PriceResponseXml_t = TObj [(''pricesResult'', PriceResponse_t)]"

definition RawTransaction_t :: ty where
  "RawTransaction_t =
     TObj [(''instrumentId'', TStr), (''direction'', TStr), (''quantity'', TNum), (''entryPrice'', TNum), (''timestampOpen'', TStr),
       (''timestampClose'', TStr), (''tradeClosed'', TBool), (''transactionHappened'', TBool), (''status'', TStr)]"

definition TransactionResult_t :: ty where "TransactionResult_t = results_t RawTransaction_t"

definition RawFeatureFlag_t :: ty where
  "RawFeatureFlag_t =
     TObj [(''id'', TStr), (''enabled'', TBool), (''name'', TStr), (''description'', TStr), (''isModifiable'', TBool), (''tag'', TStr)]"

definition FlagResponseContainer_t :: ty where "FlagResponseContainer_t = results_t RawFeatureFlag_t"

definition OrderStatus_t :: ty where
  "OrderStatus_t = TLits [''order_created'', ''card_ordered'', ''card_created'', ''card_shipped'', ''card_delivered'', ''card_error'',
     ''sequence_error'']"

definition CardStatusResult_t :: ty where
  "CardStatusResult_t =
     TObj [(''id'', TNum), (''creditCardOrderId'', TStr), (''timestamp'', TStr), (''status'', OrderStatus_t), (''details'', TStr)]"

definition CardStatusHistory_t :: ty where
  "CardStatusHistory_t = TObj [(''creditCardOrderId'', TStr), (''statusList'', TArr CardStatusResult_t)]"

definition CreditCardResponse_t :: "ty \<Rightarrow> ty" where
  "CreditCardResponse_t t = TObj [(''statusCode'', TNum), (''message'', TStr), (''results'', TOpt t)]"

definition CreditCardResponseXml_t :: "ty \<Rightarrow> ty" where
  "CreditCardResponseXml_t t = TObj [(''StandardResponse'', CreditCardResponse_t t)]"

definition CreditCardOrderResponse_t :: ty where
  "CreditCardOrderResponse_t = CreditCardResponse_t (TObj [(''creditCardOrderId'', TStr)])"

section \<open>What the API returns\<close>

definition PresetUser_t :: ty where
  "PresetUser_t = TObj [(''id'', TStr), (''firstName'', TStr), (''lastName'', TStr)]"

definition Price_t :: ty where
  "Price_t =
     TObj [(''id'', TStr), (''instrumentId'', TStr), (''timestamp'', TStr), (''open'', TNum), (''high'', TNum), (''low'', TNum),
       (''close'', TNum)]"

definition user_typed :: "fe_user \<Rightarrow> bool" where
  "user_typed u \<longleftrightarrow> list_all (has_type TStr) [fu_firstName u, fu_lastName u, fu_email u, fu_address u]"

definition transaction_typed :: "fe_transaction \<Rightarrow> bool" where
  "transaction_typed t \<longleftrightarrow> has_type TNum (ft_amount t) \<and> has_type TNum (ft_price t) \<and> has_type TStr (ft_endTime t)"

definition flag_typed :: "fe_flag \<Rightarrow> bool" where
  "flag_typed f \<longleftrightarrow> list_all (has_type TStr) [ff_id f, ff_name f, ff_description f] \<and>
     list_all (has_type TBool) [ff_enabled f, ff_isModifiable f]"

definition entry_typed :: "OrderStatusEntry \<Rightarrow> bool" where
  "entry_typed e \<longleftrightarrow> has_type OrderStatus_t (oe_status e) \<and>
     list_all (has_type TStr) [oe_orderId e, oe_timestamp e, oe_details e]"

definition HistoryEntry_t :: ty where
  "HistoryEntry_t = TObj [(''orderId'', TStr), (''timestamp'', TStr), (''status'', OrderStatus_t), (''details'', TStr)]"

section \<open>Reading typed data\<close>

lemma typed_obj:
  assumes "has_type (TObj fs) v" "(k, t) \<in> set fs"
  shows "get_prop v k = Inr (opt_prop v k)" "has_type t (opt_prop v k)"
  using assms by (cases v; force simp: list_all_iff opt_prop_def)+

lemma typed_obj_iff: "has_type (TObj fs) (Obj kvs) \<longleftrightarrow> (\<forall>(k, t) \<in> set fs. has_type t (opt_prop (Obj kvs) k))"
  by (auto simp: list_all_iff)

lemma typed_base:
  "has_type TNum v \<Longrightarrow> \<exists>x. v = Num x" "has_type TStr v \<Longrightarrow> \<exists>s. v = Str s" "has_type TBool v \<Longrightarrow> \<exists>b. v = Bool b"
  "has_type (TArr t) v \<Longrightarrow> \<exists>vs. v = Arr vs \<and> list_all (has_type t) vs"
  "has_type (TObj fs) v \<Longrightarrow> \<exists>kvs. v = Obj kvs"
  by (cases v; simp)+

lemma rest_props_get: "k \<notin> set ks \<Longrightarrow> map_of (rest_props ks (Obj kvs)) k = map_of kvs k"
  unfolding rest_props_def by (induction kvs) auto

definition results_of :: "jsval \<Rightarrow> jsval list" where
  "results_of data = (case opt_prop data ''results'' of Arr vs \<Rightarrow> vs | _ \<Rightarrow> [])"

lemma rmapM_typed:
  assumes "list_all P xs" "\<And>i v. P v \<Longrightarrow> \<exists>y. f i v = Inr y \<and> Q v y"
  shows "\<exists>ys. rmapM (\<lambda>(i, v). f i v) (enumerate n xs) = Inr ys \<and> list_all2 Q xs ys"
  using assms(1)
proof (induction xs arbitrary: n)
  case (Cons x xs)
  obtain y where "f n x = Inr y" "Q x y" using assms(2) [of x n] Cons.prems by auto
  moreover obtain ys where "rmapM (\<lambda>(i, v). f i v) (enumerate (Suc n) xs) = Inr ys" "list_all2 Q xs ys"
    using Cons.IH [of "Suc n"] Cons.prems by auto
  ultimately show ?case by simp
qed simp

lemma map_results_typed:
  assumes "has_type (results_t t) data" "\<And>i v. has_type t v \<Longrightarrow> \<exists>y. f i v = Inr y \<and> Q v y"
  shows "\<exists>ys. map_results data f = Inr ys \<and> list_all2 Q (results_of data) ys"
proof -
  have "(''results'', TArr t) \<in> set [(''results'', TArr t)]" by simp
  note field = typed_obj [OF assms(1) [unfolded results_t_def] this]
  obtain vs where vs: "opt_prop data ''results'' = Arr vs" "list_all (has_type t) vs"
    using typed_base(4) [OF field(2)] by blast
  show ?thesis using rmapM_typed [where f = f and Q = Q and n = 0, OF vs(2) assms(2)] field(1)
    by (simp add: map_results_def results_of_def vs(1))
qed

text \<open>The entries of the lists, one by one.\<close>

lemmas result_types = PresetUserResponse_t_def PresetUser_t_def RawPrice_t_def Price_t_def RawTransaction_t_def
  RawFeatureFlag_t_def CardStatusResult_t_def HistoryEntry_t_def

lemma preset_user_typed:
  assumes "has_type PresetUserResponse_t v"
  shows "\<exists>u. preset_user v = Inr u \<and> has_type PresetUser_t u \<and> opt_prop u ''id'' = Str (to_str (opt_prop v ''id''))"
proof -
  obtain kvs where v: "v = Obj kvs" using assms typed_base(5) unfolding PresetUserResponse_t_def by blast
  obtain x where x: "opt_prop v ''id'' = Num x"
    using assms typed_obj(2) [of _ v "''id''" TNum] typed_base(1) unfolding PresetUserResponse_t_def by force
  show ?thesis using assms x
    by (auto simp: v preset_user_def result_types typed_obj_iff opt_prop_def rest_props_get)
qed

lemma price_entry_typed:
  assumes "has_type RawPrice_t v"
  shows "\<exists>p. price_entry v = Inr p \<and> has_type Price_t p \<and> opt_prop p ''close'' = opt_prop v ''close''"
proof -
  obtain kvs where v: "v = Obj kvs" using assms typed_base(5) unfolding RawPrice_t_def by blast
  obtain x y where x: "opt_prop v ''id'' = Num x" "opt_prop v ''instrumentId'' = Num y"
    using assms typed_obj(2) [of _ v "''id''" TNum] typed_obj(2) [of _ v "''instrumentId''" TNum] typed_base(1)
    unfolding RawPrice_t_def by force
  show ?thesis using assms x
    by (auto simp: v price_entry_def result_types typed_obj_iff opt_prop_def rest_props_get)
qed

lemma history_entry_typed:
  assumes "has_type CardStatusResult_t v"
  shows "\<exists>e. history_entry v = Inr e \<and> has_type HistoryEntry_t e \<and> opt_prop e ''orderId'' = opt_prop v ''creditCardOrderId''"
proof -
  obtain kvs where v: "v = Obj kvs" using assms typed_base(5) unfolding CardStatusResult_t_def by blast
  show ?thesis using assms
    by (auto simp: v history_entry_def result_types typed_obj_iff opt_prop_def rest_props_get)
qed

lemma flag_mapper_typed:
  assumes "has_type RawFeatureFlag_t v"
  shows "\<exists>f. featureFlagMapper v = Inr f \<and> flag_typed f \<and> ff_id f = opt_prop v ''id''"
proof -
  obtain kvs where v: "v = Obj kvs" using assms typed_base(5) unfolding RawFeatureFlag_t_def by blast
  show ?thesis using assms
    by (auto simp: v featureFlagMapper_def result_types typed_obj_iff opt_prop_def flag_typed_def)
qed

definition iso_texts :: "(jsval \<Rightarrow> (js_error, jsval) result) \<Rightarrow> bool" where
  "iso_texts luxon_iso \<longleftrightarrow> (\<forall>s. luxon_iso (Str s) = Inr Null \<or> (\<exists>t. luxon_iso (Str s) = Inr (Str t)))"

lemma raw_transaction_typed:
  assumes "has_type RawTransaction_t v" "iso_texts luxon_iso"
  shows "\<exists>t. mapRawTransaction luxon_iso i v = Inr t \<and> transaction_typed t \<and> ft_amount t = opt_prop v ''quantity'' \<and>
     Str (ft_instrumentName t) = opt_prop v ''instrumentId''"
proof -
  obtain kvs where v: "v = Obj kvs" using assms(1) typed_base(5) unfolding RawTransaction_t_def by blast
  have fields: "has_type TStr (opt_prop v ''instrumentId'')" "has_type TStr (opt_prop v ''direction'')"
      "has_type TStr (opt_prop v ''status'')" "has_type TStr (opt_prop v ''timestampClose'')"
      and nums: "has_type TNum (opt_prop v ''quantity'')" "has_type TNum (opt_prop v ''entryPrice'')"
    using assms(1) unfolding v RawTransaction_t_def typed_obj_iff by simp_all
  obtain n where n: "opt_prop v ''instrumentId'' = Str n" using typed_base(2) [OF fields(1)] by blast
  obtain d where d: "opt_prop v ''direction'' = Str d" using typed_base(2) [OF fields(2)] by blast
  obtain st where st: "opt_prop v ''status'' = Str st" using typed_base(2) [OF fields(3)] by blast
  obtain ts where ts: "opt_prop v ''timestampClose'' = Str ts" using typed_base(2) [OF fields(4)] by blast
  have get: "get_prop v k = Inr (opt_prop v k)" for k by (simp add: v opt_prop_def)
  show ?thesis
    using assms(2) [unfolded iso_texts_def, rule_format, of ts] nums
    by (auto simp: mapRawTransaction_def get n d st ts on_string_def transaction_typed_def)
qed

section \<open>Reading typed answers\<close>

definition answered :: "send \<Rightarrow> http_request \<Rightarrow> ty \<Rightarrow> jsval \<Rightarrow> bool" where
  "answered send rq t data \<longleftrightarrow> (\<exists>r. send rq = Inr r \<and> rs_data r = data \<and> has_type t data)"

definition answered_xml :: "send \<Rightarrow> xml_parser \<Rightarrow> http_request \<Rightarrow> ty \<Rightarrow> jsval \<Rightarrow> bool" where
  "answered_xml send parse_xml rq t data \<longleftrightarrow> (\<exists>r. send rq = Inr r \<and> parse_xml (rs_data r) = Inr data \<and> has_type t data)"

lemma read_presets:
  assumes "answered send (us_getPreset (be_users be)) PresetUsersResponse_t data"
  shows "\<exists>us. fst (getPresetUsers be send) = Inr us \<and>
     list_all2 (\<lambda>v u. has_type PresetUser_t u \<and> opt_prop u ''id'' = Str (to_str (opt_prop v ''id''))) (results_of data) us"
proof -
  obtain r where r: "send (us_getPreset (be_users be)) = Inr r" "rs_data r = data" "has_type (results_t PresetUserResponse_t) data"
    using assms unfolding answered_def PresetUsersResponse_t_def by blast
  from map_results_typed [where f = "\<lambda>i v. preset_user v", OF r(3) preset_user_typed] show ?thesis
    by (auto simp: getPresetUsers_def cbind_csend r lift_result_def ccatch_def)
qed

lemma read_user:
  assumes "answered send (us_getData (be_users be) i) UserResponse_t data"
  shows "\<exists>u. fst (getUser be send i) = Inr u \<and> user_typed u \<and> fu_id u = to_str (opt_prop data ''id'') \<and>
     fu_packageType u = to_str (opt_prop data ''packageId'')"
proof -
  obtain r where r: "send (us_getData (be_users be) i) = Inr r" "rs_data r = data" "has_type UserResponse_t data"
    using assms unfolding answered_def by blast
  obtain kvs where v: "data = Obj kvs" using r(3) typed_base(5) unfolding UserResponse_t_def by blast
  have nums: "has_type TNum (opt_prop data ''id'')" "has_type TNum (opt_prop data ''packageId'')"
    and strs: "list_all (has_type TStr) (map (opt_prop data) [''firstName'', ''lastName'', ''email'', ''address''])"
    using r(3) unfolding v UserResponse_t_def typed_obj_iff by simp_all
  have get: "get_prop data k = Inr (opt_prop data k)" for k by (simp add: v opt_prop_def)
  obtain x where x: "opt_prop data ''id'' = Num x" using typed_base(1) [OF nums(1)] by blast
  obtain y where y: "opt_prop data ''packageId'' = Num y" using typed_base(1) [OF nums(2)] by blast
  show ?thesis using strs
    by (simp add: getUser_def cbind_csend r Let_def get x y lift_result_def ccatch_def user_typed_def)
qed

lemma read_balance:
  assumes "answered send (us_getBalance (be_users be) i) BalanceResponse_t data"
  shows "\<exists>b. fst (getBalance be send i) = Inr b \<and> has_type TNum (ba_value b) \<and> ba_value b = opt_prop data ''value''"
proof -
  obtain r where r: "send (us_getBalance (be_users be) i) = Inr r" "rs_data r = data" "has_type BalanceResponse_t data"
    using assms unfolding answered_def by blast
  obtain kvs where v: "data = Obj kvs" using r(3) typed_base(5) unfolding BalanceResponse_t_def by blast
  have nums: "has_type TNum (opt_prop data ''accountId'')" "has_type TNum (opt_prop data ''value'')"
    using r(3) unfolding v BalanceResponse_t_def typed_obj_iff by simp_all
  have get: "get_prop data k = Inr (opt_prop data k)" for k by (simp add: v opt_prop_def)
  obtain x where x: "opt_prop data ''accountId'' = Num x" using typed_base(1) [OF nums(1)] by blast
  show ?thesis using nums by (simp add: getBalance_def cbind_csend r Let_def get x lift_result_def ccatch_def)
qed

lemma read_instruments:
  assumes "answered send (in_getInstruments (be_instruments be) u) InstrumentResponse_t data"
  shows "fst (getInstruments be send u) = Inr (Arr (results_of data)) \<and> list_all (has_type Instrument_t) (results_of data)"
proof -
  obtain r where r: "send (in_getInstruments (be_instruments be) u) = Inr r" "rs_data r = data" "has_type (results_t Instrument_t) data"
    using assms unfolding answered_def InstrumentResponse_t_def by blast
  have "(''results'', TArr Instrument_t) \<in> set [(''results'', TArr Instrument_t)]" by simp
  note field = typed_obj [OF r(3) [unfolded results_t_def] this]
  obtain vs where "opt_prop data ''results'' = Arr vs" "list_all (has_type Instrument_t) vs"
    using typed_base(4) [OF field(2)] by blast
  then show ?thesis using field(1)
    by (simp add: getInstruments_def cbind_csend r lift_result_def ccatch_def results_of_def)
qed

lemma prices_parsed:
  assumes "has_type PriceResponseXml_t data"
  shows "\<exists>ps. rbind (get_prop data ''pricesResult'') (\<lambda>pr. map_results pr (\<lambda>i v. price_entry v)) = Inr ps \<and>
     list_all2 (\<lambda>v p. has_type Price_t p \<and> opt_prop p ''close'' = opt_prop v ''close'')
       (results_of (opt_prop data ''pricesResult'')) ps"
proof -
  have "(''pricesResult'', PriceResponse_t) \<in> set [(''pricesResult'', PriceResponse_t)]" by simp
  note field = typed_obj [OF assms [unfolded PriceResponseXml_t_def] this]
  from map_results_typed [where f = "\<lambda>i v. price_entry v", OF field(2) [unfolded PriceResponse_t_def] price_entry_typed] show ?thesis
    by (simp add: field(1))
qed

lemma read_prices:
  "answered_xml send parse_xml (getLatestXml (be_prices be)) PriceResponseXml_t data \<Longrightarrow>
   \<exists>ps. fst (getLatestPrices be send parse_xml) = Inr ps \<and>
     list_all2 (\<lambda>v p. has_type Price_t p \<and> opt_prop p ''close'' = opt_prop v ''close'')
       (results_of (opt_prop data ''pricesResult'')) ps"
  "answered_xml send parse_xml (getForInstrumentXml (be_prices be) i) PriceResponseXml_t data \<Longrightarrow>
   \<exists>ps. fst (getPricesForInstrument be send parse_xml i) = Inr ps \<and>
     list_all2 (\<lambda>v p. has_type Price_t p \<and> opt_prop p ''close'' = opt_prop v ''close'')
       (results_of (opt_prop data ''pricesResult'')) ps"
  using prices_parsed [of data]
  by (auto simp: answered_xml_def getLatestPrices_def getPricesForInstrument_def cbind_csend lift_result_def ccatch_def)

lemma read_transactions:
  assumes "answered send (tx_getAll (be_transactions be) i (opt_or n (jint 100))) TransactionResult_t data" "iso_texts luxon_iso"
  shows "\<exists>ts. fst (getTransactions be send luxon_iso i n) = Inr ts \<and>
     list_all2 (\<lambda>v t. transaction_typed t \<and> ft_amount t = opt_prop v ''quantity'' \<and>
       Str (ft_instrumentName t) = opt_prop v ''instrumentId'') (results_of data) ts"
proof -
  obtain r where r: "send (tx_getAll (be_transactions be) i (opt_or n (jint 100))) = Inr r" "rs_data r = data"
      "has_type (results_t RawTransaction_t) data"
    using assms unfolding answered_def TransactionResult_t_def by blast
  from map_results_typed [where f = "mapRawTransaction luxon_iso", OF r(3) raw_transaction_typed [OF _ assms(2)]] show ?thesis
    by (auto simp: getTransactions_def cbind_csend r lift_result_def ccatch_def)
qed

lemma read_flags:
  assumes "answered send (pp_getAll (be_problemPatterns be)) FlagResponseContainer_t data"
  shows "\<exists>fs. fst (getFeatureFlags be send) = Inr fs \<and>
     list_all2 (\<lambda>v f. flag_typed f \<and> ff_id f = opt_prop v ''id'') (results_of data) fs"
proof -
  obtain r where r: "send (pp_getAll (be_problemPatterns be)) = Inr r" "rs_data r = data" "has_type (results_t RawFeatureFlag_t) data"
    using assms unfolding answered_def FlagResponseContainer_t_def by blast
  from map_results_typed [where f = "\<lambda>i v. featureFlagMapper v", OF r(3) flag_mapper_typed] show ?thesis
    by (auto simp: getFeatureFlags_def cbind_csend r lift_result_def ccatch_def)
qed

text \<open>The flags of the configuration.\<close>

definition config_flag_typed :: "ConfigFlag \<Rightarrow> bool" where
  "config_flag_typed f \<longleftrightarrow> has_type TStr (cfl_id f) \<and> has_type TStr (cfl_name f) \<and> has_type TBool (cfl_enabled f)"

lemma config_flag_read:
  assumes "has_type RawFeatureFlag_t v"
  shows "\<exists>f. config_flag v = Inr f \<and> config_flag_typed f"
proof -
  obtain kvs where v: "v = Obj kvs" using assms typed_base(5) unfolding RawFeatureFlag_t_def by blast
  show ?thesis using assms
    by (auto simp: v config_flag_def RawFeatureFlag_t_def typed_obj_iff opt_prop_def config_flag_typed_def)
qed

lemma read_config:
  assumes "answered send (cf_getAll (be_config be)) FlagResponseContainer_t data"
  shows "\<exists>b. fst (fe_getConfig be send) = Inr (Bool b)"
proof -
  obtain r where r: "send (cf_getAll (be_config be)) = Inr r" "rs_data r = data" "has_type (results_t RawFeatureFlag_t) data"
    using assms unfolding answered_def FlagResponseContainer_t_def by blast
  obtain fs where fs: "map_results data (\<lambda>i v. config_flag v) = Inr fs" "list_all2 (\<lambda>v f. config_flag_typed f) (results_of data) fs"
    using map_results_typed [where f = "\<lambda>i v. config_flag v", OF r(3) config_flag_read] by blast
  have typed: "config_flag_typed f" if "find (\<lambda>f. strict_eq (cfl_id f) (Str x)) fs = Some f" for x f
    using that fs(2) by (auto simp: find_Some_iff list_all2_conv_all_nth)
  have "\<exists>b. fe_getFlag fs x d = Bool b" for x d
    using typed typed_base(3) by (cases "find (\<lambda>f. strict_eq (cfl_id f) (Str x)) fs")
      (fastforce simp: fe_getFlag_def config_flag_typed_def)+
  then show ?thesis
    by (simp add: fe_getConfig_def getRawConfigFlags_def cbind_csend r fs(1) lift_result_def creturn_def)
qed

text \<open>The orders: the fields of a result that is there.\<close>

lemma response_fields:
  assumes "has_type (CreditCardResponse_t t) v"
  shows "get_prop v k = Inr (opt_prop v k)" "has_type TNum (opt_prop v ''statusCode'')"
    "opt_prop v ''results'' \<noteq> Undefined \<Longrightarrow> has_type t (opt_prop v ''results'')"
proof -
  obtain kvs where v: "v = Obj kvs" using assms typed_base(5) unfolding CreditCardResponse_t_def by blast
  show "get_prop v k = Inr (opt_prop v k)" by (simp add: v opt_prop_def)
  show "has_type TNum (opt_prop v ''statusCode'')" "opt_prop v ''results'' \<noteq> Undefined \<Longrightarrow> has_type t (opt_prop v ''results'')"
    using assms unfolding v CreditCardResponse_t_def typed_obj_iff by auto
qed

definition status_read :: "jsval \<Rightarrow> OrderStatusResponse \<Rightarrow> bool" where
  "status_read v x = (case x of
      StatusSuccess e \<Rightarrow> entry_typed e \<and> oe_status e = opt_prop (opt_prop v ''results'') ''status''
    | StatusNotFound \<Rightarrow> strict_eq (opt_prop v ''statusCode'') (Num (jint 404))
    | StatusError m \<Rightarrow> opt_prop v ''results'' = Undefined)"

lemma get_obj: "get_prop (Obj kvs) k = Inr (opt_prop (Obj kvs) k)"
  by (simp add: opt_prop_def)

lemma status_mapper_typed:
  assumes "has_type (CreditCardResponse_t CardStatusResult_t) v"
  shows "(\<exists>x. orderStatusMapper v = Inr x \<and> status_read v x) \<or>
     (\<exists>e. orderStatusMapper v = Inl e) \<and> opt_prop v ''results'' = Undefined"
proof (cases "opt_prop v ''results'' = Undefined")
  case True
  then show ?thesis by (auto simp: orderStatusMapper_def response_fields(1) [OF assms] status_read_def)
next
  case False
  note res = response_fields(3) [OF assms False]
  obtain kvs where k: "opt_prop v ''results'' = Obj kvs" using typed_base(5) res unfolding CardStatusResult_t_def by blast
  have "entry_typed \<lparr>oe_status = opt_prop (Obj kvs) ''status'', oe_orderId = opt_prop (Obj kvs) ''creditCardOrderId'',
      oe_timestamp = opt_prop (Obj kvs) ''timestamp'', oe_details = opt_prop (Obj kvs) ''details''\<rparr>"
    using res unfolding k CardStatusResult_t_def typed_obj_iff by (simp add: entry_typed_def)
  then show ?thesis
    by (simp add: orderStatusMapper_def response_fields(1) [OF assms] k status_read_def get_obj del: get_prop.simps)
qed

lemma read_status:
  assumes "answered_xml send parse_xml (getOrderStatusXml (be_creditCards be) (Number_of_string i))
     (CreditCardResponseXml_t CardStatusResult_t) data"
  shows "\<exists>x. fst (getOrderStatus be send parse_xml i) = Inr x \<and> status_read (opt_prop data ''StandardResponse'') x"
proof -
  have "has_type (CreditCardResponseXml_t CardStatusResult_t) data" using assms unfolding answered_xml_def by blast
  then have field: "get_prop data ''StandardResponse'' = Inr (opt_prop data ''StandardResponse'')"
      "has_type (CreditCardResponse_t CardStatusResult_t) (opt_prop data ''StandardResponse'')"
    using typed_obj [of "[(''StandardResponse'', CreditCardResponse_t CardStatusResult_t)]" data]
    unfolding CreditCardResponseXml_t_def by auto
  show ?thesis using assms status_mapper_typed [OF field(2)]
    by (auto simp: answered_xml_def getOrderStatus_def cbind_csend lift_result_def ccatch_def field(1) status_read_def
        creturn_def)
qed

lemma read_history:
  assumes "answered send (cc_getOrderStatusHistory (be_creditCards be) (Number_of_string i)) (CreditCardResponse_t CardStatusHistory_t) data"
  shows "\<exists>x. fst (getOrderStatusHistory be send i) = Inr x \<and>
     (case x of HistorySuccess order es \<Rightarrow> has_type TStr order \<and> list_all (has_type HistoryEntry_t) es
      | HistoryError m \<Rightarrow> opt_prop data ''results'' = Undefined)"
proof -
  obtain r where r: "send (cc_getOrderStatusHistory (be_creditCards be) (Number_of_string i)) = Inr r" "rs_data r = data"
      "has_type (CreditCardResponse_t CardStatusHistory_t) data"
    using assms unfolding answered_def by blast
  show ?thesis
  proof (cases "opt_prop data ''results'' = Undefined")
    case True
    then show ?thesis
      by (simp add: getOrderStatusHistory_def cbind_csend r lift_result_def ccatch_def response_fields(1) [OF r(3)] creturn_def)
  next
    case False
    note res = response_fields(3) [OF r(3) False, unfolded CardStatusHistory_t_def]
    note fields = typed_obj [OF res, of "''creditCardOrderId''" TStr] typed_obj [OF res, of "''statusList''" "TArr CardStatusResult_t"]
    obtain vs where vs: "opt_prop (opt_prop data ''results'') ''statusList'' = Arr vs" "list_all (has_type CardStatusResult_t) vs"
      using typed_base(4) fields(4) by force
    obtain es where "rmapM (\<lambda>(i, v). history_entry v) (enumerate 0 vs) = Inr es"
        "list_all2 (\<lambda>v e. has_type HistoryEntry_t e \<and> opt_prop e ''orderId'' = opt_prop v ''creditCardOrderId'') vs es"
      using rmapM_typed [where f = "\<lambda>i v. history_entry v", OF vs(2) history_entry_typed] by blast
    moreover have "rmapM (\<lambda>(i, v). history_entry v) (enumerate n vs) = rmapM history_entry vs" for n
      by (induction vs arbitrary: n) simp_all
    ultimately show ?thesis using False fields
      by (auto simp: getOrderStatusHistory_def cbind_csend r lift_result_def ccatch_def response_fields(1) [OF r(3)] vs(1)
          list_all2_conv_all_nth list_all_length)
  qed
qed

lemma read_order:
  assumes "answered send (cc_orderCard (be_creditCards be) (form\<lparr>co_accountId := Number_of_string i\<rparr>)) CreditCardOrderResponse_t data"
  shows "\<exists>x. fst (orderCreditCard be send i form) = Inr x \<and>
     (case x of OrderSuccess order \<Rightarrow> has_type TStr order | OrderError m \<Rightarrow> opt_prop data ''results'' = Undefined)"
proof -
  obtain r where r: "send (cc_orderCard (be_creditCards be) (form\<lparr>co_accountId := Number_of_string i\<rparr>)) = Inr r"
      "rs_data r = data" "has_type (CreditCardResponse_t (TObj [(''creditCardOrderId'', TStr)])) data"
    using assms unfolding answered_def CreditCardOrderResponse_t_def by blast
  have "get_prop (opt_prop data ''results'') ''creditCardOrderId'' = Inr (opt_prop (opt_prop data ''results'') ''creditCardOrderId'')"
      "has_type TStr (opt_prop (opt_prop data ''results'') ''creditCardOrderId'')" if "opt_prop data ''results'' \<noteq> Undefined"
    using typed_obj [OF response_fields(3) [OF r(3) that], of "''creditCardOrderId''" TStr] by simp_all
  then show ?thesis
    by (cases "opt_prop data ''results'' = Undefined")
      (simp_all add: orderCreditCard_def cbind_csend r lift_result_def ccatch_def response_fields(1) [OF r(3)] creturn_def)
qed

section \<open>Property\<close>



end
