(* ===== verification/Fe_Markup.thy ===== *)
theory Fe_Markup
  imports Fe_View Fe_Account_Forms
begin

text \<open>
  What the components of the frontend put on a page: their JSX as trees of library components with their
  props and handlers (\<open>components/forms\<close>, \<open>components/creditCard\<close>, \<open>components/instrument\<close>,
  \<open>components/AppHeader\<close>, \<open>components/Navigation.tsx\<close>, \<open>components/version\<close>, \<open>layouts\<close>, \<open>pages\<close>). Styling
  props are left out. The library (Material UI, React Hook Form MUI) is an argument of what is proved of the
  trees; \<open>mui_document\<close> is what it documents of the elements of a page.
\<close>

section \<open>Trees of components\<close>

text \<open>What the handlers of the elements do.\<close>

datatype flag_click =
    ExpandFlag fe_flag
  | ToggleFlag fe_flag
  | CopyCurl string
  | CloseSnackbar
  | CloseFeedback
  | RefetchFlags

datatype ui_event =
    SubmitLogin
  | SubmitPreset
  | SubmitForm string
  | AutofillForm
  | AutofillCard
  | OpenAutofill
  | AutofillWith string
  | RevokeCard
  | SelectTab form_id
  | ToggleNavigation
  | ToggleTheme
  | OpenVersions
  | CloseVersions
  | OpenUserMenu
  | LogoutClicked
  | OpenSelect string
  | ChooseOption string string
  | OnFlags flag_click

datatype mui =
    TextField | TextFieldElement | NumberFormField | SelectElement | CheckboxElement
  | Button | IconButton | Tab | MenuItem | ListItemButton | Link | CardActionArea
  | Typography | Card | FormContainer | Menu | Dialog | Layout string

type_synonym props = "(string \<times> jsval) list"

datatype node =
    El mui props "ui_event option" "node list"
  | Txt string

abbreviation attr :: "string \<Rightarrow> string \<Rightarrow> string \<times> jsval" where "attr k v \<equiv> (k, Str v)"
abbreviation present :: "string \<Rightarrow> string \<times> jsval" where "present k \<equiv> (k, Bool True)"
abbreviation loading :: "bool \<Rightarrow> string \<times> jsval" where "loading b \<equiv> (''loading'', Bool b)"
abbreviation layout :: "string \<Rightarrow> node list \<Rightarrow> node" where "layout c kids \<equiv> El (Layout c) [] None kids"

definition prop_of :: "props \<Rightarrow> string \<Rightarrow> jsval" where
  "prop_of ps k = (case map_of ps k of None \<Rightarrow> Undefined | Some v \<Rightarrow> v)"

section \<open>What the forms share\<close>

definition CheckboxLabel :: "string \<Rightarrow> bool \<Rightarrow> node" where
  "CheckboxLabel content hasErrors =
     El Typography [attr ''variant'' ''body1'', attr ''color'' (if hasErrors then ''error'' else [])] None [Txt content]"

definition DemoAppWarning :: node where
  "DemoAppWarning = layout ''Box''
     [El (Layout ''Alert'') [attr ''severity'' ''warning''] None
        [Txt ''This is a demo app. Please do not enter real data because it may not be protected properly.'']]"

fun message_text :: "message \<Rightarrow> string" where
  "message_text (Text s) = s"
| "message_text (Raised e) = error_to_string e"

definition StatusDisplay_node :: "status \<Rightarrow> node" where
  "StatusDisplay_node s = layout ''Stack''
     (map (\<lambda>(severity, m). El (Layout ''Alert'') [attr ''severity'' severity] None [Txt (message_text m)]) (StatusDisplay s))"

definition balance_shown :: "Balance option \<Rightarrow> string" where
  "balance_shown balance = to_str (nullish (balance_value balance) (Str ''Loading...''))"

definition submit_button :: "string \<Rightarrow> bool \<Rightarrow> string \<Rightarrow> node" where
  "submit_button i isPending label =
     El Button [attr ''id'' i, loading isPending, attr ''type'' ''submit'', attr ''variant'' ''outlined''] None [Txt label]"

section \<open>Signing in and up\<close>

definition LoginForm :: "bool \<Rightarrow> status \<Rightarrow> node" where
  "LoginForm isPending st =
     El FormContainer [] (Some SubmitLogin) [layout ''Stack''
       [El TextFieldElement [attr ''id'' ''login'', attr ''name'' ''login'', attr ''label'' ''Login''] None [],
        El TextFieldElement [attr ''id'' ''password'', attr ''name'' ''password'', attr ''label'' ''Password'',
           attr ''type'' ''password''] None [],
        layout ''CardActions'' [submit_button ''submitButton'' isPending ''Login''],
        StatusDisplay_node st]]"

text \<open>The label of the button is two pieces of text.\<close>

definition DefaultLoginForm :: "jsval list \<Rightarrow> form_data \<Rightarrow> node" where
  "DefaultLoginForm users vals =
     El FormContainer [] (Some SubmitPreset) [layout ''Stack''
       [El SelectElement [attr ''label'' ''User'', attr ''name'' ''userId'', (''disabled'', Bool (DefaultLoginForm_disabled users))] None
          (map (\<lambda>(i, l). El (Layout ''option'') [(''id'', i), attr ''label'' l] None []) (DefaultLoginForm_options users)),
        layout ''CardActions''
          [El Button [attr ''type'' ''submit'', attr ''variant'' ''outlined'',
             (''disabled'', Bool (DefaultLoginForm_disabled users))] None
             [Txt ''Log in as'', Txt '' '', Txt (drop (length ''Log in as '') (DefaultLoginForm_label users vals))]]]]"

definition Login_page :: "jsval list \<Rightarrow> form_data \<Rightarrow> bool \<Rightarrow> status \<Rightarrow> node" where
  "Login_page users vals isPending st =
     El Card [] None [layout ''CardContent'' [layout ''Stack''
       [layout ''Stack'' [LoginForm isPending st, El Link [attr ''to'' ''/signup''] None [Txt ''Sign up'']],
        DefaultLoginForm users vals]]]"

definition SignupForm :: "bool \<Rightarrow> status \<Rightarrow> node" where
  "SignupForm isPending st =
     El FormContainer [] (Some (SubmitForm ''signup'')) [layout ''Stack''
       [El TextFieldElement [attr ''name'' ''firstName'', attr ''label'' ''First name''] None [],
        El TextFieldElement [attr ''name'' ''lastName'', attr ''label'' ''Last name''] None [],
        El TextFieldElement [attr ''name'' ''login'', attr ''label'' ''Login''] None [],
        El TextFieldElement [attr ''name'' ''email'', attr ''label'' ''Email''] None [],
        El TextFieldElement [attr ''name'' ''address'', attr ''label'' ''Address''] None [],
        El TextFieldElement [attr ''name'' ''password'', attr ''label'' ''Password'', attr ''type'' ''password''] None [],
        El TextFieldElement [attr ''name'' ''repeatPassword'', attr ''label'' ''Repeat password'', attr ''type'' ''password''] None [],
        layout ''CardActions''
          [El Button [loading isPending, attr ''type'' ''submit'', attr ''variant'' ''outlined''] None [Txt ''Sign up'']],
        StatusDisplay_node st]]"

definition Signup_page :: "bool \<Rightarrow> status \<Rightarrow> node" where
  "Signup_page isPending st =
     El Card [] None [layout ''CardContent'' [layout ''Stack''
       [DemoAppWarning, SignupForm isPending st, El Link [attr ''to'' ''/login''] None [Txt ''Log in'']]]]"

section \<open>Payments\<close>

text \<open>The fields the two payment forms have in common are written out in both.\<close>

definition agreement_box :: "bool \<Rightarrow> node" where
  "agreement_box hasErrors =
     El CheckboxElement [attr ''id'' ''agreement'', attr ''name'' ''agreementCheck'', present ''required''] None
       [CheckboxLabel ''Agree to terms and conditions *'' hasErrors]"

definition card_number_field :: node where
  "card_number_field =
     El TextFieldElement [attr ''id'' ''cardNumber'', attr ''name'' ''cardNumber'', attr ''label'' ''Card number'', present ''required''] None
       [layout ''InputAdornment'' [El IconButton [] (Some AutofillCard) []]]"

definition card_type_field :: node where
  "card_type_field =
     El SelectElement [attr ''id'' ''cardType'', attr ''label'' ''Card type'', attr ''name'' ''cardType'', present ''required''] None
       [El (Layout ''option'') [attr ''id'' ''visaDebit'', attr ''label'' ''Visa Debit''] None [],
        El (Layout ''option'') [attr ''id'' ''visaCredit'', attr ''label'' ''Visa Credit''] None [],
        El (Layout ''option'') [attr ''id'' ''mastercard'', attr ''label'' ''Mastercard''] None [],
        El (Layout ''option'') [attr ''id'' ''americanExpress'', attr ''label'' ''American Express''] None []]"

definition balance_field :: "Balance option \<Rightarrow> node" where
  "balance_field balance =
     El TextField [attr ''name'' ''balance'', attr ''label'' ''Current balance'', attr ''value'' (balance_shown balance),
       present ''disabled''] None []"

definition DepositForm :: "Balance option \<Rightarrow> bool \<Rightarrow> bool \<Rightarrow> status \<Rightarrow> node" where
  "DepositForm balance hasErrors isPending st =
     El FormContainer [] (Some (SubmitForm ''deposit'')) [layout ''Stack''
       [balance_field balance,
        El NumberFormField [attr ''id'' ''amount'', attr ''name'' ''amount'', attr ''label'' ''Amount'', attr ''type'' ''number'',
          present ''required'', present ''autoFocus''] None [],
        El TextFieldElement [attr ''id'' ''cardholderName'', attr ''name'' ''cardholderName'', attr ''label'' ''Cardholder name'',
          present ''required''] None [],
        El TextFieldElement [attr ''id'' ''address'', attr ''name'' ''address'', attr ''label'' ''Address'', present ''required''] None [],
        El TextFieldElement [attr ''id'' ''email'', attr ''name'' ''email'', attr ''label'' ''Email'', present ''required''] None [],
        card_number_field, card_type_field,
        El TextFieldElement [attr ''id'' ''cvv'', attr ''name'' ''cvv'', attr ''label'' ''CVV'', present ''required''] None [],
        agreement_box hasErrors,
        El Typography [attr ''variant'' ''body2''] None [Txt ''* Required field''],
        layout ''CardActions''
          [submit_button ''submitButton'' isPending ''Deposit'',
           El Button [attr ''type'' ''button'', attr ''variant'' ''outlined''] (Some AutofillForm) [Txt ''Autofill'']],
        StatusDisplay_node st]]"

definition WithdrawForm :: "Balance option \<Rightarrow> bool \<Rightarrow> bool \<Rightarrow> status \<Rightarrow> node" where
  "WithdrawForm balance hasErrors isPending st =
     El FormContainer [] (Some (SubmitForm ''withdraw'')) [layout ''Stack''
       [balance_field balance,
        El NumberFormField [attr ''id'' ''amount'', attr ''name'' ''amount'', attr ''label'' ''Amount'', attr ''type'' ''number'',
          present ''required'', present ''autoFocus''] None [],
        El TextFieldElement [attr ''id'' ''cardholderName'', attr ''name'' ''cardholderName'', attr ''label'' ''Cardholder name'',
          present ''required''] None [],
        El TextFieldElement [attr ''id'' ''address'', attr ''name'' ''address'', attr ''label'' ''Address'', present ''required''] None [],
        El TextFieldElement [attr ''id'' ''email'', attr ''name'' ''email'', attr ''label'' ''Email'', present ''required''] None [],
        card_number_field, card_type_field, agreement_box hasErrors,
        El Typography [attr ''variant'' ''body2''] None [Txt ''* Required field''],
        layout ''CardActions''
          [submit_button ''submitButton'' isPending ''Withdraw'',
           El Button [attr ''type'' ''button'', attr ''variant'' ''outlined''] (Some AutofillForm) [Txt ''Autofill'']],
        StatusDisplay_node st]]"

definition payment_page :: "node \<Rightarrow> node" where
  "payment_page form = El Card [] None [layout ''CardContent'' [layout ''Stack'' [DemoAppWarning, form]]]"

section \<open>Credit cards\<close>

definition CreditCardForm :: "bool \<Rightarrow> bool \<Rightarrow> status \<Rightarrow> node" where
  "CreditCardForm hasErrors isPending st =
     El FormContainer [] (Some (SubmitForm ''order'')) [layout ''Stack''
       [El TextFieldElement [attr ''id'' ''name'', attr ''name'' ''name'', attr ''label'' ''Cardholder name'', present ''required''] None [],
        El TextFieldElement [attr ''id'' ''address'', attr ''name'' ''address'', attr ''label'' ''Cardholder address'',
          present ''required''] None [],
        El TextFieldElement [attr ''id'' ''email'', attr ''name'' ''email'', attr ''label'' ''Email'', present ''required''] None [],
        El SelectElement [attr ''id'' ''type'', attr ''name'' ''type'', attr ''label'' ''Card type'', present ''required''] None
          [El (Layout ''option'') [attr ''id'' ''silver'', attr ''label'' ''Silver''] None [],
           El (Layout ''option'') [attr ''id'' ''gold'', attr ''label'' ''Gold''] None [],
           El (Layout ''option'') [attr ''id'' ''platinum'', attr ''label'' ''Platinum''] None []],
        agreement_box hasErrors,
        El Typography [attr ''variant'' ''body2''] None [Txt ''* Required field''],
        layout ''CardActions''
          [El Button [attr ''id'' ''submitButton'', attr ''type'' ''submit'', attr ''variant'' ''outlined'', loading isPending] None
             [Txt ''Order card''],
           El Button [attr ''type'' ''button'', attr ''variant'' ''outlined''] (Some AutofillForm) [Txt ''Autofill'']],
        StatusDisplay_node st]]"

definition CreditCardOrder :: "bool \<Rightarrow> bool \<Rightarrow> status \<Rightarrow> node" where
  "CreditCardOrder hasErrors isPending st =
     El Card [] None [layout ''CardContent'' [layout ''Stack'' [DemoAppWarning, CreditCardForm hasErrors isPending st]]]"

definition CreditCardActive :: "bool \<Rightarrow> status \<Rightarrow> node" where
  "CreditCardActive isPending st =
     El Card [] None [layout ''CardContent'' [layout ''Stack''
       [El Typography [] None
          [Txt ''You already have an active credit card. Only one credit card can be active at a time.''],
        El Button [attr ''id'' ''revoke-card'', loading isPending, attr ''variant'' ''outlined''] (Some RevokeCard) [Txt ''Revoke card''],
        StatusDisplay_node st]]]"

text \<open>An entry of the history: its date, its status, its details.\<close>

definition timeline_item :: "string \<times> string \<times> jsval \<Rightarrow> node" where
  "timeline_item e = (case e of (date, status, details) \<Rightarrow>
     layout ''TimelineItem''
       [layout ''TimelineOppositeContent'' [El Typography [attr ''variant'' ''body2'', attr ''color'' ''text.secondary''] None [Txt date]],
        layout ''TimelineSeparator'' [layout ''TimelineDot'' [], layout ''TimelineConnector'' []],
        layout ''TimelineContent''
          [El Typography [attr ''variant'' ''h6'', attr ''component'' ''span''] None [Txt status],
           El Typography [attr ''variant'' ''body2'', attr ''color'' ''text.secondary''] None [Txt (to_str details)]]])"

definition CreditCardStatus_page :: "jsval \<times> (string \<times> string \<times> jsval) list \<Rightarrow> node" where
  "CreditCardStatus_page data =
     El Card [] None [layout ''CardContent'' [layout ''Stack''
       [El Typography [attr ''id'' ''order-id''] None
          [Txt ''Order ID:'', Txt '' '', El Typography [attr ''component'' ''span''] None [Txt (to_str (fst data))]],
        layout ''Timeline'' (map timeline_item (snd data))]]]"

end
