(* ===== verification/Fe_Reports.thy ===== *)
theory Fe_Reports
  imports Fe_Markup
begin

text \<open>
  What the frontend reports, as trees: the charts (\<open>components/charts\<close>) and the tables of the home page, the
  table of the versions (\<open>components/version\<close>, \<open>pages/Version.tsx\<close>) and the page of the feature flags
  (\<open>components/featureFlags\<close>, \<open>pages/FeatureFlags.tsx\<close>) with what its clicks do. A colour is the path of
  its entry in the palette of the theme. Charts and data grids are drawn by libraries: their elements have
  the data and the settings as props.
\<close>

section \<open>Charts\<close>

definition jnum_prop :: "string \<Rightarrow> int \<Rightarrow> string \<times> jsval" where "jnum_prop k n = (k, Num (jint n))"

definition instrument_bar_data :: "instrument_bar \<Rightarrow> jsval" where
  "instrument_bar_data b =
     Obj [attr ''name'' (ib_name b), attr ''code'' (ib_code b), (''amount'', Num (ib_amount b)), (''totalValue'', Num (ib_totalValue b))]"

definition axis_label :: "string \<Rightarrow> int \<Rightarrow> string \<Rightarrow> node" where
  "axis_label shown angle position =
     El (Layout ''Label'') [attr ''value'' shown, jnum_prop ''angle'' angle, attr ''position'' position,
       (''style'', Obj [attr ''textAnchor'' ''middle''])] None []"

text \<open>The frame of a tooltip of the charts.\<close>

definition chart_tooltip :: node where
  "chart_tooltip =
     El (Layout ''Tooltip'') [(''wrapperStyle'', Obj [attr ''backgroundColor'' ''background.default'', attr ''color'' ''text.primary'',
       attr ''borderStyle'' ''ridge'', attr ''padding'' ''10px''])] None [layout ''CustomTooltip'' []]"

definition chart_grid :: node where
  "chart_grid = El (Layout ''CartesianGrid'') [attr ''strokeDasharray'' ''3 3''] None []"

definition InstrumentsChart_node :: "instrument_bar list \<Rightarrow> node" where
  "InstrumentsChart_node bars =
     El (Layout ''Box'') [attr ''height'' ''300px'', attr ''width'' ''100%'', attr ''data-dt-feature'' ''main-chart''] None
       [El (Layout ''ResponsiveContainer'') [attr ''width'' ''100%'', attr ''height'' ''100%''] None
         [El (Layout ''BarChart'') [(''data'', Arr (map instrument_bar_data bars))] None
           [El (Layout ''XAxis'') [attr ''dataKey'' ''code'', jnum_prop ''interval'' 0, (''tick'', Obj [jnum_prop ''fontSize'' 14])] None [],
            El (Layout ''YAxis'') [attr ''yAxisId'' ''left'', attr ''dataKey'' ''amount'', jnum_prop ''width'' 80] None
              [axis_label ''Amount'' (-90) ''insideLeft''],
            El (Layout ''YAxis'') [attr ''yAxisId'' ''right'', attr ''dataKey'' ''totalValue'', attr ''orientation'' ''right'',
                jnum_prop ''width'' 80, attr ''unit'' ''$''] None
              [axis_label ''Total value'' 90 ''insideRight''],
            chart_grid, chart_tooltip,
            El (Layout ''Legend'') [attr ''iconType'' ''square''] None [],
            El (Layout ''Bar'') [attr ''dataKey'' ''amount'', attr ''name'' ''Amount'', attr ''fill'' ''primary.main'',
              attr ''yAxisId'' ''left''] None [],
            El (Layout ''Bar'') [attr ''dataKey'' ''totalValue'', attr ''name'' ''Total value'', attr ''fill'' ''success.main'',
              attr ''yAxisId'' ''right''] None []]]]"

definition bar_tooltip_node :: "(string \<times> jsnum \<times> string) option \<Rightarrow> node option" where
  "bar_tooltip_node shown = map_option (\<lambda>(name, amount, totalValue).
     El (Layout ''Box'') [attr ''data-dt-mouse-over'' ''300''] None
       [El Typography [attr ''variant'' ''h6''] None [Txt name],
        El Typography [attr ''variant'' ''body1''] None [Txt ''Amount: '', Txt (num_to_string amount)],
        El Typography [attr ''variant'' ''body1''] None [Txt ''Total value: '', Txt totalValue]]) shown"

text \<open>The slices with their colours, the names of the legend, and the label in the middle of a slice. The sine
  and the cosine are those of the browser.\<close>

definition pie_cell :: "nat \<Rightarrow> string \<times> nat \<Rightarrow> node" where
  "pie_cell index slice =
     El (Layout ''Cell'') [attr ''key'' (''cell-'' @ dec index),
       (''fill'', (case slice_color (fst slice) of None \<Rightarrow> Undefined | Some c \<Rightarrow> Str c))] None []"

definition legend_entry :: "string \<Rightarrow> node" where
  "legend_entry name =
     El Typography [attr ''color'' ''text.primary'', attr ''display'' ''inline''] None [Txt name]"

definition TransactionsPieChart :: "(string \<times> nat) list \<Rightarrow> node" where
  "TransactionsPieChart transactionData =
     El (Layout ''ResponsiveContainer'') [attr ''width'' ''50%'', attr ''height'' ''100%''] None [layout ''PieChart''
       [El (Layout ''Legend'') [attr ''verticalAlign'' ''bottom'', attr ''align'' ''center'', attr ''iconType'' ''square''] None [],
        El (Layout ''Pie'')
          [(''data'', Arr (map (\<lambda>(name, n). Obj [attr ''name'' name, jnum_prop ''value'' (int n)]) transactionData)),
           attr ''dataKey'' ''value'', attr ''nameKey'' ''name'', attr ''cx'' ''50%'', attr ''cy'' ''50%'', attr ''fill'' ''#8884d8'',
           (''labelLine'', Bool False)] None
          (map (\<lambda>(index, slice). pie_cell index slice) (enumerate 0 transactionData))]]"

text \<open>\<open>Math.round\<close>: to the nearest integer, a half goes up.\<close>

fun jround :: "jsnum \<Rightarrow> jsnum" where
  "jround (Fin r) = Fin (of_int \<lfloor>r + 1 / 2\<rfloor>)"
| "jround x = x"

record slice_label =
  sl_x :: jsnum
  sl_y :: jsnum
  sl_anchor :: string
  sl_text :: string

definition CustomLabel ::
  "(jsnum \<Rightarrow> jsnum) \<Rightarrow> (jsnum \<Rightarrow> jsnum) \<Rightarrow> jsnum \<Rightarrow> jsnum \<Rightarrow> jsnum \<Rightarrow> jsnum \<Rightarrow> jsnum \<Rightarrow> jsnum \<Rightarrow> jsnum \<Rightarrow> slice_label" where
  "CustomLabel cosine sine RADIAN cx cy midAngle innerRadius outerRadius percent =
     (let radius = jadd innerRadius (jmul (jsub outerRadius innerRadius) (fl (1 / 2)));
          x = jadd cx (jmul radius (cosine (jmul (jneg midAngle) RADIAN)));
          y = jadd cy (jmul radius (sine (jmul (jneg midAngle) RADIAN)))
      in \<lparr>sl_x = x, sl_y = y, sl_anchor = (if jlt cx x then ''start'' else ''end''),
          sl_text = num_to_string (jround (jmul percent (jint 100))) @ ''%''\<rparr>)"

definition TransactionsCharts_node :: "(string \<times> nat) list \<Rightarrow> (string \<times> nat) list \<Rightarrow> node" where
  "TransactionsCharts_node statusData actionTypeData =
     El (Layout ''Stack'') [attr ''height'' ''300px'', attr ''width'' ''100%''] None
       [TransactionsPieChart statusData, TransactionsPieChart actionTypeData]"

text \<open>A candle is a rectangle in the colour of its direction; the chart shows the last 200 of them.\<close>

definition CustomBar :: "string \<Rightarrow> jsnum \<Rightarrow> jsnum \<Rightarrow> jsnum \<Rightarrow> jsnum \<Rightarrow> jsnum \<times> jsnum \<Rightarrow> node" where
  "CustomBar date width height x y openClosePriceRange =
     El (Layout ''Rectangle'') [attr ''key'' (''rectangle'' @ date), (''width'', Num width), (''height'', Num height),
       (''x'', Num x), (''y'', Num y), attr ''fill'' (candle_color openClosePriceRange)] None []"

definition candle_tooltip :: "string list \<Rightarrow> node option" where
  "candle_tooltip shown = (case shown of
      label # rest \<Rightarrow> Some (El (Layout ''Box'') [attr ''data-dt-mouse-over'' ''300''] None
        (El Typography [attr ''variant'' ''h6''] None [Txt label] #
         map (\<lambda>l. El Typography [attr ''variant'' ''body1''] None [Txt l]) rest))
    | [] \<Rightarrow> None)"

definition num_pair :: "jsnum \<times> jsnum \<Rightarrow> jsval" where "num_pair p = Arr [Num (fst p), Num (snd p)]"

definition InstrumentPriceChart_node :: "price_chart \<Rightarrow> node" where
  "InstrumentPriceChart_node chart =
     El (Layout ''Box'') [attr ''height'' ''200px'', attr ''width'' ''100%''] None
       [El (Layout ''ResponsiveContainer'') [attr ''width'' ''90%'', attr ''height'' ''100%''] None
         [El (Layout ''BarChart'')
             [(''data'', Arr (map (\<lambda>c. Obj [attr ''date'' (ca_date c), (''openClosePriceRange'', num_pair (ca_openClose c)),
                (''lowHighPriceRange'', num_pair (ca_lowHigh c))]) (pc_candles chart)))] None
           [El (Layout ''XAxis'') [attr ''dataKey'' ''date'', jnum_prop ''xAxisId'' 0] None [],
            El (Layout ''XAxis'') [attr ''dataKey'' ''date'', jnum_prop ''xAxisId'' 1, present ''hide''] None [],
            El (Layout ''YAxis'') [attr ''type'' ''number'', (''domain'', num_pair (pc_domain chart)),
              (''allowDataOverflow'', Bool False)] None [],
            chart_tooltip,
            El (Layout ''Bar'') [attr ''dataKey'' ''lowHighPriceRange'', jnum_prop ''barSize'' 1, jnum_prop ''xAxisId'' 0] None
              [layout ''CustomBar'' []],
            El (Layout ''Bar'') [attr ''dataKey'' ''openClosePriceRange'', jnum_prop ''xAxisId'' 1, jnum_prop ''minPointSize'' 1] None
              [layout ''CustomBar'' []],
            chart_grid,
            El (Layout ''Brush'') [attr ''dataKey'' ''date'', jnum_prop ''startIndex'' (fst (pc_brush chart)),
              jnum_prop ''endIndex'' (snd (pc_brush chart)), jnum_prop ''height'' 20, attr ''stroke'' ''#1565c0'',
              attr ''fill'' ''none''] None []]]]"

section \<open>Tables\<close>

definition table_toolbar :: "string \<Rightarrow> props \<Rightarrow> node" where
  "table_toolbar title extra = layout ''Stack''
     [El Typography [attr ''variant'' ''h6''] None [Txt title],
      El (Layout ''GridToolbarContainer'') extra None
        [layout ''GridToolbarColumnsButton'' [], layout ''GridToolbarFilterButton'' [], layout ''GridToolbarQuickFilter'' []]]"

text \<open>The columns of the two tables: the field, the header, the type, the share of the width, and whether it is centered.\<close>

definition grid_column :: "string \<Rightarrow> string \<Rightarrow> string \<Rightarrow> rat \<Rightarrow> bool \<Rightarrow> jsval" where
  "grid_column field headerName ty flex centered =
     Obj ([attr ''field'' field, attr ''headerName'' headerName] @ (if ty = [] then [] else [attr ''type'' ty]) @
          [(''flex'', Num (fl flex))] @
          (if centered then [attr ''align'' ''center'', attr ''headerAlign'' ''center''] else []))"

definition with_options :: "string list \<Rightarrow> jsval \<Rightarrow> jsval" where
  "with_options opts c = (case c of Obj fs \<Rightarrow> Obj (fs @ [(''valueOptions'', Arr (map Str opts))]) | v \<Rightarrow> v)"

definition instrument_columns :: "jsval list" where
  "instrument_columns =
     [grid_column ''code'' ''Code'' [] 1 True, grid_column ''name'' ''Name'' [] 2 True,
      grid_column ''amount'' ''Amount'' ''number'' 1 False, grid_column ''price'' ''Current price'' ''number'' 2 False,
      grid_column ''totalValue'' ''Total value'' ''number'' 2 False]"

definition transaction_columns :: "jsval list" where
  "transaction_columns =
     [with_options [''BUY'', ''SELL''] (grid_column ''actionType'' ''Buy/Sell'' ''singleSelect'' 1 True),
      with_options [''ACTIVE'', ''SUCCESS'', ''FAIL''] (grid_column ''status'' ''Status'' ''singleSelect'' (3 / 2) True),
      grid_column ''instrumentName'' ''Instrument'' [] 2 True, grid_column ''amount'' ''Amount'' ''number'' (3 / 2) False,
      grid_column ''price'' ''Price'' ''number'' 2 False, grid_column ''total'' ''Total'' ''number'' 2 False,
      grid_column ''endTime'' ''End time'' ''dateTime'' 2 True]"

text \<open>The rows of the assets as their cells show them; those of the transactions as they are, the names resolved.\<close>

definition instrument_row_data :: "instrument_row \<Rightarrow> jsval" where
  "instrument_row_data r =
     Obj [attr ''code'' (ir_code r), attr ''name'' (ir_name r), (''amount'', Num (ir_amount r)), attr ''price'' (ir_price r),
          attr ''totalValue'' (ir_totalValue r)]"

definition InstrumentsTable_node :: "bool \<Rightarrow> instrument_row list \<Rightarrow> node" where
  "InstrumentsTable_node disableVirtualization rows =
     El (Layout ''DataGrid'')
       [(''rows'', Arr (map instrument_row_data rows)), (''columns'', Arr instrument_columns), present ''hideFooter'',
        (''disableVirtualization'', Bool disableVirtualization), attr ''data-dt-feature'' ''main-table''] None
       [table_toolbar ''Owned assets'' [attr ''data-dt-feature'' ''main-table,table-toolbar'']]"

definition transaction_data :: "fe_transaction \<Rightarrow> jsval" where
  "transaction_data t =
     Obj [jnum_prop ''id'' (int (ft_id t)), attr ''actionType'' (ft_actionType t), attr ''instrumentName'' (ft_instrumentName t),
          (''amount'', ft_amount t), (''price'', ft_price t), attr ''status'' (ft_status t), (''endTime'', ft_endTime t)]"

definition TransactionsTable_node :: "bool \<Rightarrow> fe_transaction list \<Rightarrow> node" where
  "TransactionsTable_node disableVirtualization transactions =
     El (Layout ''DataGrid'')
       [(''rows'', Arr (map transaction_data transactions)), (''columns'', Arr transaction_columns), present ''autoHeight'',
        (''initialState'', Obj [(''pagination'', Obj [(''paginationModel'', Obj [jnum_prop ''pageSize'' 5])])]),
        (''pageSizeOptions'', Arr (map (\<lambda>n. Num (jint n)) [5, 10, 25])),
        (''disableVirtualization'', Bool disableVirtualization)] None
       [table_toolbar ''Transactions'' []]"

text \<open>The cell of a status has an icon beside its text, both in the colour of the status.\<close>

definition status_cell :: "string \<Rightarrow> node" where
  "status_cell v = layout ''Stack''
     [El (Layout (if v = ''ACTIVE'' then ''AutorenewIcon'' else if v = ''SUCCESS'' then ''CheckIcon'' else ''CloseIcon''))
        [attr ''fontSize'' ''small'',
         attr ''color'' (if v = ''ACTIVE'' then ''info'' else if v = ''SUCCESS'' then ''success'' else ''error'')] None [],
      El Typography [attr ''variant'' ''body2'', attr ''color'' (status_color v)] None [Txt v]]"

section \<open>Versions\<close>

definition table_cell :: "node list \<Rightarrow> node" where "table_cell kids = layout ''TableCell'' kids"

definition version_cell :: "jsval \<times> bool \<Rightarrow> node" where
  "version_cell cell = table_cell
     [if snd cell then El (Layout ''Alert'') [attr ''severity'' ''warning''] None [Txt (to_str (fst cell))]
      else Txt (to_str (fst cell))]"

fun VersionsTableItem_node :: "version_row \<Rightarrow> node" where
  "VersionsTableItem_node (FailedRow name message) = layout ''TableRow''
     [table_cell [Txt name],
      El (Layout ''TableCell'') [jnum_prop ''colSpan'' 3] None [El (Layout ''Alert'') [attr ''severity'' ''error''] None [Txt message]]]"
| "VersionsTableItem_node (VersionRow name cells) = layout ''TableRow'' (table_cell [Txt name] # map version_cell cells)"

definition VersionsTable :: "version_row list \<Rightarrow> node" where
  "VersionsTable rows = El (Layout ''TableContainer'') [attr ''component'' ''Paper''] None [layout ''Table''
     [layout ''TableHead'' [layout ''TableRow''
        (map (\<lambda>h. table_cell [Txt h]) [''Service'', ''Version'', ''Build date'', ''Build commit''])],
      layout ''TableBody'' (map VersionsTableItem_node rows)]]"

definition Version_node :: "version_page \<Rightarrow> (js_error, node) result" where
  "Version_node page = (case page of
      Spinner \<Rightarrow> Inr (layout ''Box'' [layout ''CircularProgress'' []])
    | Versions rows \<Rightarrow> rbind rows (\<lambda>rs. Inr (layout ''Grid'' [layout ''Grid'' [VersionsTable rs]])))"

section \<open>Feature flags\<close>

definition chip :: "string \<Rightarrow> string \<Rightarrow> node" where
  "chip label color = El (Layout ''Chip'') [attr ''label'' label, attr ''color'' color, attr ''variant'' ''outlined''] None []"

definition flag_caption :: "string \<Rightarrow> node" where
  "flag_caption s = El Typography [attr ''color'' ''primary'', attr ''component'' ''span''] None [Txt s]"

definition FeatureFlagItem_node :: "fe_flag \<Rightarrow> flag_item \<Rightarrow> bool \<Rightarrow> node" where
  "FeatureFlagItem_node flag it isPending =
     (let isModifiable = truthy (ff_isModifiable flag); enabled = truthy (ff_enabled flag) in
      El (Layout ''Accordion'') [(''expanded'', Bool (fi_expanded it))] (Some (OnFlags (ExpandFlag flag)))
       [layout ''AccordionSummary'' [layout ''Stack''
          [El Typography [attr ''variant'' ''h5''] None [Txt (fi_name it)],
           layout ''Stack''
             [chip (fi_modifiable_chip it) (if isModifiable then ''info'' else ''warning''),
              chip (fi_enabled_chip it) (if enabled then ''success'' else ''error'')]]],
        layout ''AccordionDetails'' [layout ''Grid''
          [layout ''Grid''
             [El Typography [] None [flag_caption ''Flag id:'', Txt '' '', Txt (to_str (ff_id flag))],
              El Typography [] None [flag_caption ''Description:'', Txt '' '', Txt (to_str (fi_description it))],
              El Typography [attr ''color'' ''primary''] None
                [Txt ''CURL to '', Txt (if enabled then ''disable'' else ''enable''), Txt '' the feature flag:''],
              layout ''Paper'' [layout ''Stack''
                [El Typography [attr ''variant'' ''body1''] None [Txt (fi_curl it)],
                 layout ''Box'' [El IconButton [] (Some (OnFlags (CopyCurl (fi_curl it)))) [layout ''ContentCopyIcon'' []]]]]],
           layout ''Grid''
             [El (Layout ''Tooltip'')
                [attr ''title'' ''Managing flags on frontend has been disabled in this environment'',
                 (''disableHoverListener'', Bool (fi_disabled it))] None
                [layout ''span''
                   [El Button [loading isPending, attr ''variant'' ''outlined'', attr ''color'' (if enabled then ''error'' else ''success''),
                      (''disabled'', Bool (fi_disabled it))] (Some (OnFlags (ToggleFlag flag))) [Txt (fi_button it)]]]]]]])"

text \<open>Every item has a mutation of its own; \<open>pending\<close> says which of them are under way.\<close>

definition FeatureFlagList_node :: "(nat \<Rightarrow> bool) \<Rightarrow> flag_state \<Rightarrow> fe_flag list \<Rightarrow> flag_item list \<Rightarrow> node" where
  "FeatureFlagList_node pending st flags items = layout ''Box''
     (map (\<lambda>(idx, flag, it). FeatureFlagItem_node flag it (pending idx)) (enumerate 0 (zip flags items)) @
      [El (Layout ''Snackbar'')
         [(''open'', Bool (fb_visible (fs_feedback st))),
          (''anchorOrigin'', Obj [attr ''horizontal'' ''center'', attr ''vertical'' ''bottom'']),
          jnum_prop ''autoHideDuration'' 5000] (Some (OnFlags CloseSnackbar))
         [El (Layout ''Alert'') [attr ''severity'' (fb_variant (fs_feedback st)), attr ''variant'' ''filled'']
            (Some (OnFlags CloseFeedback)) [Txt (fb_msg (fs_feedback st))]]])"

definition FeatureFlags_node ::
  "(nat \<Rightarrow> bool) \<Rightarrow> bool \<Rightarrow> flag_state \<Rightarrow> fe_flag list \<Rightarrow> bool \<times> flag_item list \<Rightarrow> node" where
  "FeatureFlags_node pending isPending st flags shown = layout ''Fragment''
     [layout ''Grid'' [layout ''Grid'' [layout ''Stack''
        [El Card [] None [El Typography [] None
           [Txt ''Feature flags (or problem patterns) are used to enable or disable specific problem simulation in EasyTrade application. Each feature flag (problem pattern) comes with its own description of what parts of the application are affected and what symptoms should be expected.'']],
         layout ''Stack''
           [layout ''Stack''
              (if fst shown
               then [El (Layout ''Alert'') [attr ''severity'' ''info''] None [Txt ''The feature flag modification via UI has been disabled.'']]
               else []),
            El IconButton [] (Some (OnFlags RefetchFlags)) [layout ''ReplayIcon'' []]],
         FeatureFlagList_node pending st flags (snd shown)]]],
      El (Layout ''Backdrop'') [(''open'', Bool isPending)] None [layout ''CircularProgress'' []]]"

text \<open>What the clicks of the page do. The refetch is that of the query client; the snackbar closes by itself.\<close>

definition flag_clicked ::
  "((unit, unit, 'c flag_page) mutation \<Rightarrow> unit \<Rightarrow> 'c flag_page \<Rightarrow> 'c flag_page)
   \<Rightarrow> (string \<Rightarrow> bool \<Rightarrow> HandlerResponse call) \<Rightarrow> 'c query_client \<Rightarrow> (query_key \<Rightarrow> 'c \<Rightarrow> 'c)
   \<Rightarrow> flag_click \<Rightarrow> 'c flag_page \<Rightarrow> 'c flag_page" where
  "flag_clicked mutate toggle client refetch e s = (case e of
      ExpandFlag flag \<Rightarrow> expand_clicked flag s
    | ToggleFlag flag \<Rightarrow> mutate (FeatureFlagItem_mutation toggle client flag) () s
    | CopyCurl command \<Rightarrow> copy_clicked s
    | CloseSnackbar \<Rightarrow> s\<lparr>fp_state := snackbar_close ''timeout'' (fp_state s)\<rparr>
    | CloseFeedback \<Rightarrow> dispatch FlagReset s
    | RefetchFlags \<Rightarrow> s\<lparr>fp_cache := refetch featureFlagKeys_all (fp_cache s)\<rparr>)"

end
