(* ===== verification/Fe_Pages.thy ===== *)
theory Fe_Pages
  imports Fe_Reports
begin

text \<open>
  The pages of the frontend as trees, continued: the page of an instrument with its tabs and forms, the home
  page, the header, the navigation, the layouts and the error page; and the document they make, from the
  routes.
\<close>

section \<open>The trade forms\<close>

definition number_field :: "string \<Rightarrow> string \<Rightarrow> string \<Rightarrow> props \<Rightarrow> node" where
  "number_field i name label extra =
     El NumberFormField ([attr ''id'' i, attr ''name'' name, attr ''label'' label, attr ''type'' ''number'', present ''required''] @ extra)
       None []"

definition total_field :: node where
  "total_field =
     El NumberFormField [attr ''name'' ''total'', attr ''label'' ''Total price'', attr ''type'' ''number'', present ''required'',
       present ''readOnly''] None []"

definition QuickBuyForm :: "bool \<Rightarrow> status \<Rightarrow> node" where
  "QuickBuyForm isPending st =
     El FormContainer [] (Some (SubmitForm ''quick-buy'')) [layout ''Stack''
       [number_field ''amount'' ''amount'' ''Amount'' [present ''autoFocus''],
        number_field ''price'' ''price'' ''Instrument price'' [present ''readOnly''],
        number_field ''currentBalance'' ''currentBalance'' ''Current balance'' [present ''readOnly''],
        total_field,
        layout ''CardActions'' [submit_button ''submitButton'' isPending ''Buy''],
        StatusDisplay_node st]]"

definition QuickSellForm :: "bool \<Rightarrow> status \<Rightarrow> node" where
  "QuickSellForm isPending st =
     El FormContainer [] (Some (SubmitForm ''quick-sell'')) [layout ''Stack''
       [number_field ''amount'' ''amount'' ''Amount'' [present ''autoFocus''],
        number_field ''price'' ''price'' ''Instrument price'' [present ''readOnly''],
        number_field ''posessedAmount'' ''possessedAmount'' ''Possessed amount'' [present ''readOnly''],
        total_field,
        layout ''CardActions'' [submit_button ''submitButton'' isPending ''Sell''],
        StatusDisplay_node st]]"

text \<open>The button with the menu of ready-made transactions.\<close>

definition AutofillButton_node :: "bool \<Rightarrow> node" where
  "AutofillButton_node menuOpen = layout ''Fragment''
     [El Button [attr ''type'' ''button'', attr ''variant'' ''outlined''] (Some OpenAutofill) [Txt ''Autofill''],
      El Menu [(''open'', Bool menuOpen)] None
        [El MenuItem [] (Some (AutofillWith ''success'')) [Txt ''Success transaction''],
         El MenuItem [] (Some (AutofillWith ''fail'')) [Txt ''Fail transaction''],
         El MenuItem [] (Some (AutofillWith ''timeout'')) [Txt ''Timeout transaction'']]]"

definition BuyForm :: "bool \<Rightarrow> bool \<Rightarrow> status \<Rightarrow> node" where
  "BuyForm menuOpen isPending st =
     El FormContainer [] (Some (SubmitForm ''buy'')) [layout ''Stack''
       [number_field ''amount'' ''amount'' ''Amount'' [present ''autoFocus''],
        number_field ''price'' ''price'' ''Instrument price'' [],
        number_field ''time'' ''time'' ''Time [h]'' [],
        total_field,
        layout ''CardActions''
          [layout ''Stack'' [submit_button ''submitButton'' isPending ''Buy'', AutofillButton_node menuOpen]],
        StatusDisplay_node st]]"

definition SellForm :: "bool \<Rightarrow> bool \<Rightarrow> status \<Rightarrow> node" where
  "SellForm menuOpen isPending st =
     El FormContainer [] (Some (SubmitForm ''sell'')) [layout ''Stack''
       [number_field ''amount'' ''amount'' ''Amount'' [present ''autoFocus''],
        number_field ''price'' ''price'' ''Instrument price'' [],
        number_field ''time'' ''time'' ''Time [h]'' [],
        total_field,
        layout ''CardActions''
          [layout ''Stack'' [submit_button ''submitButton'' isPending ''Sell'', AutofillButton_node menuOpen]],
        StatusDisplay_node st]]"

section \<open>The page of an instrument\<close>

definition PriceDisplay_node :: "price_view \<Rightarrow> node" where
  "PriceDisplay_node v = layout ''Stack''
     [El Typography [attr ''id'' ''instrumentPrice'', attr ''color'' (pv_color v), attr ''variant'' ''h5''] None [Txt (pv_price v)],
      El Typography [attr ''color'' (pv_color v), attr ''variant'' ''caption''] None [Txt (pv_percent v)]]"

definition InstrumentHeader :: "intl \<Rightarrow> Instrument \<Rightarrow> node" where
  "InstrumentHeader F instrument = layout ''Stack''
     [El Typography [attr ''id'' ''instrumentName'', attr ''variant'' ''h4''] None [Txt (it_name instrument)],
      PriceDisplay_node (PriceDisplay F (it_price instrument))]"

text \<open>The chart of the card, from prices that are loaded after it, is \<open>InstrumentPriceChart_node\<close>.\<close>

definition FullInstrumentCard :: "intl \<Rightarrow> Instrument \<Rightarrow> node" where
  "FullInstrumentCard F instrument =
     El Card [] None
       [El (Layout ''CardHeader'') [attr ''subheader'' (it_code instrument)] None [InstrumentHeader F instrument],
        layout ''InstrumentPriceChart'' []]"

text \<open>The four tabs; only the panel of the chosen one is on the page.\<close>

definition TabForm :: "form_id \<Rightarrow> form_id \<Rightarrow> node \<Rightarrow> node list" where
  "TabForm chosen panelId component =
     (if chosen = panelId then [layout ''TabPanel'' [layout ''Box'' [component]]] else [])"

definition InstrumentTransactions :: "form_id \<Rightarrow> bool \<Rightarrow> bool \<Rightarrow> status \<Rightarrow> node" where
  "InstrumentTransactions formId menuOpen isPending st = layout ''Grid''
     ([layout ''Grid'' [El Card [] None [layout ''TabList''
        [El Tab [attr ''label'' ''Quick Buy''] (Some (SelectTab QuickBuyTab)) [],
         El Tab [attr ''label'' ''Quick Sell''] (Some (SelectTab QuickSellTab)) [],
         El Tab [attr ''label'' ''Buy''] (Some (SelectTab BuyTab)) [],
         El Tab [attr ''label'' ''Sell''] (Some (SelectTab SellTab)) []]]],
       layout ''Grid'' [El Card [] None
         (TabForm formId QuickBuyTab (QuickBuyForm isPending st) @
          TabForm formId QuickSellTab (QuickSellForm isPending st) @
          TabForm formId BuyTab (BuyForm menuOpen isPending st) @
          TabForm formId SellTab (SellForm menuOpen isPending st))]])"

definition Instrument_node :: "intl \<Rightarrow> Instrument \<Rightarrow> form_id \<Rightarrow> bool \<Rightarrow> bool \<Rightarrow> status \<Rightarrow> node" where
  "Instrument_node F instrument formId menuOpen isPending st = layout ''Grid''
     [layout ''Grid'' [FullInstrumentCard F instrument],
      layout ''Grid'' [InstrumentTransactions formId menuOpen isPending st]]"

section \<open>The list of instruments\<close>

definition InstrumentCard_node :: "instrument_card \<Rightarrow> node" where
  "InstrumentCard_node c =
     El Card [attr ''className'' (cd_className c)] None
       [El CardActionArea [attr ''to'' (cd_to c)] None [layout ''Stack''
          [El (Layout ''CardHeader'') [attr ''title'' (cd_title c), attr ''subheader'' (cd_subheader c)] None [],
           layout ''CardContent'' [layout ''Stack''
             [PriceDisplay_node (cd_price c), El Typography [attr ''variant'' ''h5''] None [Txt (cd_amount c)]]]]]]"

definition Instruments_node :: "intl \<Rightarrow> (jsnum \<Rightarrow> string) \<Rightarrow> Instrument list \<Rightarrow> node" where
  "Instruments_node F locale_string instruments = layout ''Grid'' [layout ''Grid''
     [layout ''Grid'' (map (\<lambda>c. layout ''Grid'' [InstrumentCard_node c]) (InstrumentsGrid F locale_string instruments))]]"

section \<open>The home page\<close>

definition AccountInfo_node :: "jsval \<times> jsval \<Rightarrow> node" where
  "AccountInfo_node info = layout ''Stack''
     [El TextField [attr ''id'' ''currentBalance'', attr ''name'' ''balance'', attr ''label'' ''Current balance'',
        (''value'', fst info), present ''disabled''] None [],
      El TextField [attr ''name'' ''package'', attr ''label'' ''Package type'', (''value'', snd info), present ''disabled''] None []]"

definition Home_node :: "home_page \<Rightarrow> node" where
  "Home_node h = layout ''Container'' [layout ''Stack''
     [AccountInfo_node (hp_account h), InstrumentsChart_node (hp_bars h), InstrumentsTable_node False (hp_instruments h),
      TransactionsCharts_node (hp_statuses h) (hp_actions h), TransactionsTable_node False (hp_cached h)]]"

section \<open>Header and navigation\<close>

definition Logo :: node where
  "Logo = El Link [attr ''variant'' ''h6'', attr ''to'' ''/''] None [Txt ''EasyTrade'']"

definition ThemeSwitcher :: "bool \<Rightarrow> node" where
  "ThemeSwitcher isDarkTheme =
     El IconButton [] (Some ToggleTheme) [layout (if isDarkTheme then ''DarkMode'' else ''LightMode'') []]"

definition FeatureFlagIcon :: "nat \<Rightarrow> node" where
  "FeatureFlagIcon enabledCount =
     El IconButton [attr ''to'' ''/feature-flags''] None
       [El (Layout ''Badge'') [(''badgeContent'', Num (jint (int enabledCount)))] None [layout ''FlagIcon'' []]]"

definition version_item :: "jsval \<Rightarrow> string \<Rightarrow> string \<Rightarrow> node" where
  "version_item data primary k = layout ''ListItem''
     [El (Layout ''ListItemText'') [attr ''primary'' primary, (''secondary'', opt_prop data k)] None []]"

definition VersionDialog :: "bool \<Rightarrow> jsval \<Rightarrow> node" where
  "VersionDialog isOpen data =
     El Dialog [(''open'', Bool isOpen)] None
       [layout ''DialogTitle'' [Txt ''EasyTrade''],
        layout ''List'' [version_item data ''Version'' ''buildVersion'', version_item data ''Build date'' ''buildDate'',
          version_item data ''Build commit'' ''buildCommit''],
        layout ''DialogActions''
          [El Button [attr ''variant'' ''outlined'', attr ''to'' ''/version''] (Some CloseVersions) [Txt ''More''],
           El Button [attr ''variant'' ''outlined''] (Some CloseVersions) [Txt ''Close'']]]"

definition VersionInfo :: "(string \<Rightarrow> jsval) \<Rightarrow> bool \<Rightarrow> node" where
  "VersionInfo build modalOpen = layout ''Fragment''
     [El IconButton [] (Some OpenVersions) [layout ''Build'' []],
      VersionDialog modalOpen (case getFrontendVersion build of VersionSuccess s data \<Rightarrow> data | VersionError s m \<Rightarrow> Undefined)]"

text \<open>The first name of the user, once it is known and not empty.\<close>

definition GreetingWithSkeleton :: "string option \<Rightarrow> node" where
  "GreetingWithSkeleton firstName =
     (case firstName of
        Some (c # cs) \<Rightarrow> El Typography [] None [Txt ''Hi, '', Txt (c # cs)]
      | _ \<Rightarrow> layout ''Skeleton'' [El Typography [] None [Txt ''Hi, username'']])"

definition AvatarWithSkeleton :: "string option \<Rightarrow> node" where
  "AvatarWithSkeleton token =
     (case token of
        Some (c # cs) \<Rightarrow> layout ''Avatar'' [Txt [c]]
      | _ \<Rightarrow> layout ''Skeleton'' [layout ''Avatar'' []])"

definition UserPanel :: "string option \<Rightarrow> bool \<Rightarrow> node" where
  "UserPanel firstName menuOpen = layout ''Fragment''
     [layout ''Stack''
        [GreetingWithSkeleton firstName,
         El IconButton [attr ''id'' ''profileToggler''] (Some OpenUserMenu) [AvatarWithSkeleton firstName]],
      El Menu [(''open'', Bool menuOpen)] None
        [El MenuItem [attr ''id'' ''logoutItem''] (Some LogoutClicked) [layout ''ListItemIcon'' [], Txt ''Logout'']]]"

definition AppHeader :: "bool \<Rightarrow> node \<Rightarrow> node \<Rightarrow> node \<Rightarrow> node \<Rightarrow> node" where
  "AppHeader loggedIn themeSwitcher flags versions user = layout ''AppBar'' [layout ''Toolbar'' [layout ''Stack''
     ([layout ''Stack''
         [layout ''Stack''
            ((if loggedIn then [El IconButton [attr ''id'' ''navigationToggler''] (Some ToggleNavigation) [layout ''MenuIcon'' []]]
              else []) @ [Logo]),
          layout ''Stack'' [themeSwitcher, flags, versions]]] @
      (if loggedIn then [user] else []))]]"

definition NavigationItem :: "string \<times> string \<Rightarrow> node" where
  "NavigationItem item = layout ''ListItem''
     [El ListItemButton [attr ''to'' (fst item)] None
        [layout ''ListItemIcon'' [], El (Layout ''ListItemText'') [attr ''primary'' (snd item)] None []]]"

definition Navigation :: "bool \<Rightarrow> node" where
  "Navigation navigationVisible =
     El (Layout ''Drawer'') [attr ''variant'' ''persistent'', (''open'', Bool navigationVisible)] None
       [layout ''Toolbar'' [], layout ''Box'' [layout ''List'' (map NavigationItem navigation_items)]]"

section \<open>Layouts\<close>

definition AppLayout :: "node \<Rightarrow> node \<Rightarrow> node" where
  "AppLayout header outlet = layout ''Stack'' [header, outlet]"

definition ProtectedLayout_node :: "bool \<Rightarrow> node \<Rightarrow> node" where
  "ProtectedLayout_node navigationVisible outlet = layout ''Box''
     [Navigation navigationVisible,
      El (Layout ''Grid'') [attr ''ml'' (if navigationVisible then ''210px'' else ''0px'')] None [outlet]]"

definition PublicLayout_node :: "node \<Rightarrow> node" where
  "PublicLayout_node outlet = layout ''Box'' [outlet]"

definition CreditCardLayout_node :: "node \<Rightarrow> node" where
  "CreditCardLayout_node outlet = layout ''Box'' [outlet]"

definition ErrorPage :: "string \<Rightarrow> node" where
  "ErrorPage error = layout ''Box'' [El Card [] None
     [El Typography [attr ''variant'' ''h6''] None [Txt ''Oops! There was an error!''],
      El Typography [] None [Txt error]]]"

end
