(* ===== verification/Fe_Document.thy ===== *)
theory Fe_Document
  imports Fe_Pages Fe_Router
begin

text \<open>
  The documents of the frontend and the XPath expressions that point into them. \<open>mui_document\<close> states what the
  component library and the browser document: the elements a tree of components becomes, in document order, as
  far as an XPath of the load generator can tell them apart. It is the hypothesis on the argument
  \<open>render\<close> of everything proved of a document. The document of a URL is put together from the routes in
  \<open>Fe_Site\<close>.
\<close>

section \<open>Elements\<close>

record mark =
  mk_tag :: string
  mk_id :: "string option"
  mk_type :: "string option"
  mk_href :: "string option"
  mk_class :: string \<comment> \<open>the class of the parent, when that is a card\<close>
  mk_name :: "string option" \<comment> \<open>the name of a field\<close>
  mk_texts :: "string list" \<comment> \<open>its text nodes\<close>
  mk_menu :: "string option" \<comment> \<open>the id of the list of options it is in\<close>
  mk_form :: "ui_event option" \<comment> \<open>the form it is in\<close>
  mk_on :: "ui_event option"
  mk_disabled :: bool
  mk_readonly :: bool

definition str_prop :: "props \<Rightarrow> string \<Rightarrow> string option" where
  "str_prop ps k = (case prop_of ps k of Str s \<Rightarrow> Some s | _ \<Rightarrow> None)"

definition texts_of :: "node list \<Rightarrow> string list" where
  "texts_of kids = concat (map (\<lambda>k. case k of Txt s \<Rightarrow> [s] | El c ps on ks \<Rightarrow> []) kids)"

definition element :: "string \<Rightarrow> props \<Rightarrow> ui_event option \<Rightarrow> string \<Rightarrow> ui_event option \<Rightarrow> string list \<Rightarrow> mark" where
  "element tag ps form cls on texts =
     \<lparr>mk_tag = tag, mk_id = str_prop ps ''id'', mk_type = str_prop ps ''type'', mk_href = str_prop ps ''to'',
      mk_class = cls, mk_name = str_prop ps ''name'', mk_texts = texts, mk_menu = None, mk_form = form, mk_on = on,
      mk_disabled = (prop_of ps ''disabled'' = Bool True \<or> prop_of ps ''loading'' = Bool True),
      mk_readonly = (prop_of ps ''readOnly'' = Bool True)\<rparr>"

text \<open>A button with a link is an anchor; a text is a paragraph unless it is a heading or names its element.\<close>

definition button_tag :: "props \<Rightarrow> string" where
  "button_tag ps = (if str_prop ps ''to'' = None then ''button'' else ''a'')"

definition text_tag :: "props \<Rightarrow> string" where
  "text_tag ps = (case str_prop ps ''component'' of
      Some c \<Rightarrow> c
    | None \<Rightarrow> (case str_prop ps ''variant'' of
        Some v \<Rightarrow> if v = ''h4'' \<or> v = ''h5'' \<or> v = ''h6'' then v else if v = ''caption'' then ''span'' else ''p''
      | None \<Rightarrow> ''p''))"

fun own_elements :: "mui \<Rightarrow> props \<Rightarrow> ui_event option \<Rightarrow> string \<Rightarrow> ui_event option \<Rightarrow> node list \<Rightarrow> mark list" where
  "own_elements SelectElement ps form cls on kids =
     [element ''div'' ps form cls (Some (OpenSelect (opt_or (str_prop ps ''name'') []))) []]"
| "own_elements Button ps form cls on kids = [element (button_tag ps) ps form cls on (texts_of kids)]"
| "own_elements IconButton ps form cls on kids = [element (button_tag ps) ps form cls on (texts_of kids)]"
| "own_elements Tab ps form cls on kids = [element ''button'' ps form cls on [opt_or (str_prop ps ''label'') []]]"
| "own_elements MenuItem ps form cls on kids = [element ''li'' ps form cls on (texts_of kids)]"
| "own_elements ListItemButton ps form cls on kids = [element ''a'' ps form cls on (texts_of kids)]"
| "own_elements Link ps form cls on kids = [element ''a'' ps form cls on (texts_of kids)]"
| "own_elements CardActionArea ps form cls on kids = [element ''a'' ps form cls on (texts_of kids)]"
| "own_elements Typography ps form cls on kids = [element (text_tag ps) ps form cls on (texts_of kids)]"
| "own_elements TextField ps form cls on kids = [element ''input'' ps form cls on []]"
| "own_elements TextFieldElement ps form cls on kids = [element ''input'' ps form cls on []]"
| "own_elements NumberFormField ps form cls on kids = [element ''input'' ps form cls on []]"
| "own_elements CheckboxElement ps form cls on kids =
     [element ''input'' (attr ''type'' ''checkbox'' # ps) form cls on []]"
| "own_elements c ps form cls on kids = []"

text \<open>What is in the place of the component: nothing of a menu, a dialog or the options of a select.\<close>

fun in_place :: "ui_event option \<Rightarrow> string \<Rightarrow> node \<Rightarrow> mark list" where
  "in_place form cls (Txt s) = []"
| "in_place form cls (El c ps on kids) =
     own_elements c ps form cls on kids @
     (if c \<in> set [Menu, Dialog, SelectElement] then []
      else concat (map (in_place (if c = FormContainer then on else form)
                          (if c = Card then opt_or (str_prop ps ''className'') [] else [])) kids))"

text \<open>What is at the end of the document: the menus and dialogs that are open, and the options of the select that
  is open, in a list with an id made of its name.\<close>

definition option_element :: "string \<Rightarrow> node \<Rightarrow> mark list" where
  "option_element select_name k = (case k of
      Txt s \<Rightarrow> []
    | El c ps on kids \<Rightarrow>
        [(element ''li'' [] None [] (Some (ChooseOption select_name (opt_or (str_prop ps ''id'') [])))
            [opt_or (str_prop ps ''label'') []])\<lparr>mk_menu := Some (''menu-'' @ select_name)\<rparr>])"

fun at_end :: "string option \<Rightarrow> node \<Rightarrow> mark list" where
  "at_end sel (Txt s) = []"
| "at_end sel (El c ps on kids) =
     (if c = Menu \<or> c = Dialog
      then (if prop_of ps ''open'' = Bool True then concat (map (in_place None []) kids) else [])
      else if c = SelectElement
      then (if sel \<noteq> None \<and> str_prop ps ''name'' = sel then concat (map (option_element (the sel)) kids) else [])
      else concat (map (at_end sel) kids))"

definition mui_document :: "string option \<Rightarrow> node \<Rightarrow> mark list" where
  "mui_document sel n = in_place None [] n @ at_end sel n"

section \<open>XPath\<close>

text \<open>The forms of expressions the load generator uses.\<close>

datatype xpath =
    ById string string           \<comment> \<open>\<open>//tag[@id="i"]\<close>\<close>
  | ByHref string                \<comment> \<open>\<open>//a[contains(@href, "h")]\<close>\<close>
  | ByText string string         \<comment> \<open>\<open>//tag[text()="t"]\<close>\<close>
  | InForm string string         \<comment> \<open>\<open>//form//tag[@type="t"]\<close>\<close>
  | InMenu string string         \<comment> \<open>\<open>//*[@id="m"]//li[contains(text(), "t")]\<close>\<close>
  | InCard string string         \<comment> \<open>\<open>//div[contains(@class, "c")]/a[contains(@href, "h")]\<close>\<close>

fun xpath_text :: "xpath \<Rightarrow> string" where
  "xpath_text (ById t i) = ''//'' @ t @ ''[@id=\"'' @ i @ ''\"]''"
| "xpath_text (ByHref h) = ''//a[contains(@href, \"'' @ h @ ''\")]''"
| "xpath_text (ByText t s) = ''//'' @ t @ ''[text()=\"'' @ s @ ''\"]''"
| "xpath_text (InForm t ty) = ''//form//'' @ t @ ''[@type=\"'' @ ty @ ''\"]''"
| "xpath_text (InMenu m s) = ''//*[@id=\"'' @ m @ ''\"]//li[contains(text(), \"'' @ s @ ''\")]''"
| "xpath_text (InCard c h) = ''//div[contains(@class, \"'' @ c @ ''\")]/a[contains(@href, \"'' @ h @ ''\")]''"

fun hit :: "xpath \<Rightarrow> mark \<Rightarrow> bool" where
  "hit (ById t i) m \<longleftrightarrow> (t = ''*'' \<or> mk_tag m = t) \<and> mk_id m = Some i"
| "hit (ByHref h) m \<longleftrightarrow> mk_tag m = ''a'' \<and> (case mk_href m of None \<Rightarrow> False | Some u \<Rightarrow> str_includes u h)"
| "hit (ByText t s) m \<longleftrightarrow> mk_tag m = t \<and> s \<in> set (mk_texts m)"
| "hit (InForm t ty) m \<longleftrightarrow> mk_form m \<noteq> None \<and> mk_tag m = t \<and> mk_type m = Some ty"
| "hit (InMenu u s) m \<longleftrightarrow> mk_menu m = Some u \<and> mk_tag m = ''li'' \<and> mk_texts m \<noteq> [] \<and> str_includes (hd (mk_texts m)) s"
| "hit (InCard c h) m \<longleftrightarrow> mk_tag m = ''a'' \<and> str_includes (mk_class m) c \<and>
     (case mk_href m of None \<Rightarrow> False | Some u \<Rightarrow> str_includes u h)"

end
