(* ===== verification/Fe_Site.thy ===== *)
theory Fe_Site
  imports Fe_Document Loadgen_Page
begin

text \<open>
  The frontend as the load generator sees it: a state with the URL, the session, the card of the user and what
  is open on the page; the document of a state, put together from the routes (\<open>router.tsx\<close>) and the trees of
  the components; and what the calls of the page object do to it. The answers of the services are those of the
  record \<open>site\<close>: a form that is sent is invalid, refused or accepted, a card may be revoked or not, and the data
  of the pages stay as they are.
\<close>

section \<open>XPath expressions in text\<close>

text \<open>An expression is cut at its quotation marks.\<close>

definition between :: "string \<Rightarrow> string \<Rightarrow> string \<Rightarrow> string option" where
  "between p q s =
     (let n = length s - length p - length q; t = take n (drop (length p) s)
      in if s = p @ t @ q then Some t else None)"

definition parse_xpath :: "string \<Rightarrow> xpath option" where
  "parse_xpath s = (case split_char (CHR 0x22) s of
      [p, x, q] \<Rightarrow>
        if q = '']'' then
          (case between ''//'' ''[@id='' p of
             Some t \<Rightarrow> Some (ById t x)
           | None \<Rightarrow> (case between ''//'' ''[text()='' p of
               Some t \<Rightarrow> Some (ByText t x)
             | None \<Rightarrow> map_option (\<lambda>t. InForm t x) (between ''//form//'' ''[@type='' p)))
        else if p = ''//a[contains(@href, '' \<and> q = '')]'' then Some (ByHref x) else None
    | [p, x, q, y, r] \<Rightarrow>
        if p = ''//*[@id='' \<and> q = '']//li[contains(text(), '' \<and> r = '')]'' then Some (InMenu x y)
        else if p = ''//div[contains(@class, '' \<and> q = '')]/a[contains(@href, '' \<and> r = '')]'' then Some (InCard x y)
        else None
    | _ \<Rightarrow> None)"

text \<open>The browser finds the elements an expression points to, in document order: the argument \<open>query\<close>.\<close>

definition query_documented :: "(string \<Rightarrow> mark list \<Rightarrow> mark list) \<Rightarrow> bool" where
  "query_documented query \<longleftrightarrow> (\<forall>e x ms. parse_xpath e = Some x \<longrightarrow> query e ms = filter (hit x) ms)"

definition parsed_query :: "string \<Rightarrow> mark list \<Rightarrow> mark list" where
  "parsed_query e ms = (case parse_xpath e of None \<Rightarrow> [] | Some x \<Rightarrow> filter (hit x) ms)"

section \<open>The state\<close>

text \<open>A form as it is sent: the URL of its page, its name, and what was put into its fields. What becomes of it: its data do not pass the schema of the form, so that nothing is sent; the service
  answers with an error; or the service accepts. The status line after an answer is part of it: the runs of
  the single forms, with the messages they show, are in the theories of the forms.\<close>

type_synonym sent = "string \<times> string \<times> (string \<times> string) list"

datatype outcome = Invalid | Denied status | Accepted status

record site =
  si_address :: string
  si_intl :: intl
  si_locale_string :: "jsnum \<Rightarrow> string"
  si_build :: "string \<Rightarrow> jsval"
  si_users :: "jsval list"
  si_login_values :: form_data
  si_user_id :: jsval
  si_first_name :: "string option"
  si_balance :: "Balance option"
  si_instruments :: "Instrument list"
  si_home :: home_page
  si_timeline :: "jsval \<times> (string \<times> string \<times> jsval) list"
  si_ordered :: card_data \<comment> \<open>the card after an order\<close>
  si_flags :: nat
  si_outcome :: "sent \<Rightarrow> outcome"
  si_revocation :: "status option" \<comment> \<open>the status line when a card is not revoked\<close>
  si_values :: "mark \<Rightarrow> string" \<comment> \<open>what an input shows\<close>

record ui =
  ui_user :: jsval
  ui_cards :: card_data
  ui_url :: string
  ui_tab :: form_id
  ui_nav :: bool
  ui_dark :: bool
  ui_versions :: bool
  ui_menu :: bool
  ui_autofill :: bool
  ui_select :: "string option"
  ui_status :: status
  ui_errors :: bool
  ui_handles :: "mark list"
  ui_filled :: "(string \<times> string) list" \<comment> \<open>what was put into the fields\<close>
  ui_sent :: "sent list" \<comment> \<open>the forms sent\<close>
  ui_ended :: bool \<comment> \<open>the session with the monitoring has been ended\<close>

section \<open>Documents\<close>

definition instrument_prefix :: string where "instrument_prefix = ''/instruments/''"

text \<open>The pages of the versions and of the flags, which no visit opens, are named here; their trees are in
  \<open>Fe_Reports\<close>.\<close>

definition page_body :: "site \<Rightarrow> ui \<Rightarrow> string \<Rightarrow> node" where
  "page_body S s n =
     (if n = ''Login'' then Login_page (si_users S) (si_login_values S) False (ui_status s)
      else if n = ''Signup'' then Signup_page False (ui_status s)
      else if n = ''Deposit'' then payment_page (DepositForm (si_balance S) (ui_errors s) False (ui_status s))
      else if n = ''Withdraw'' then payment_page (WithdrawForm (si_balance S) (ui_errors s) False (ui_status s))
      else if n = ''CreditCardOrder'' then CreditCardOrder (ui_errors s) False (ui_status s)
      else if n = ''CreditCardStatus'' then CreditCardStatus_page (si_timeline S)
      else if n = ''CreditCardActive'' then CreditCardActive False (ui_status s)
      else if n = ''Home'' then Home_node (si_home S)
      else if n = ''Instruments'' then Instruments_node (si_intl S) (si_locale_string S) (si_instruments S)
      else if n = ''Instrument'' then
        (case find (\<lambda>x. loose_eq_str (it_id x) (drop (length instrument_prefix) (ui_url s))) (si_instruments S) of
           None \<Rightarrow> layout ''Fragment'' []
         | Some i \<Rightarrow> Instrument_node (si_intl S) i (ui_tab s) (ui_autofill s) False (ui_status s))
      else layout n [])"

definition site_header :: "site \<Rightarrow> ui \<Rightarrow> node" where
  "site_header S s =
     AppHeader (isLoggedIn \<lparr>au_userId = ui_user s\<rparr>) (ThemeSwitcher (ui_dark s)) (FeatureFlagIcon (si_flags S))
       (VersionInfo (si_build S) (ui_versions s)) (UserPanel (si_first_name S) (ui_menu s))"

definition component_node :: "site \<Rightarrow> ui \<Rightarrow> component \<Rightarrow> node \<Rightarrow> node" where
  "component_node S s el outlet = (case el of
      AppLayout_c \<Rightarrow> AppLayout (site_header S s) outlet
    | BaseNavigation_c \<Rightarrow> outlet
    | PublicLayout_c \<Rightarrow> PublicLayout_node outlet
    | ProtectedLayout_c \<Rightarrow> ProtectedLayout_node (ui_nav s) outlet
    | CreditCardLayout_c \<Rightarrow> CreditCardLayout_node outlet
    | PageC n \<Rightarrow> page_body S s n)"

text \<open>The document of a state whose URL has settled; an error shows the error page alone.\<close>

definition document ::
  "(string option \<Rightarrow> node \<Rightarrow> mark list) \<Rightarrow> (string \<Rightarrow> branch) \<Rightarrow> site \<Rightarrow> ui \<Rightarrow> mark list" where
  "document render select S s = (case go select (ui_user s) (ui_cards s) (ui_url s) of
      ShowPage n \<Rightarrow>
        render (ui_select s) (foldr (component_node S s) (br_elements (select (ui_url s))) (layout ''Fragment'' []))
    | RenderError e \<Rightarrow> render None (ErrorPage e)
    | _ \<Rightarrow> [])"

definition settle :: "(string \<Rightarrow> branch) \<Rightarrow> ui \<Rightarrow> ui" where
  "settle select s = (case go select (ui_user s) (ui_cards s) (ui_url s) of NavigateTo p \<Rightarrow> s\<lparr>ui_url := p\<rparr> | _ \<Rightarrow> s)"

section \<open>What a click does\<close>

text \<open>A form is sent with what is in its fields. An error leaves the fields as they are
  (\<open>onError: setError\<close>), a success clears them (\<open>reset\<close> in the \<open>onSuccess\<close> of the forms). Data that do not pass the
  schema only mark the agreement that has not been ticked.\<close>

definition submit_here :: "site \<Rightarrow> string \<Rightarrow> (ui \<Rightarrow> ui) \<Rightarrow> ui \<Rightarrow> ui" where
  "submit_here S f accepted s = (case si_outcome S (ui_url s, f, ui_filled s) of
      Invalid \<Rightarrow> s\<lparr>ui_errors := ''agreementCheck'' \<notin> fst ` set (ui_filled s)\<rparr>
    | Denied st \<Rightarrow> s\<lparr>ui_sent := ui_sent s @ [(ui_url s, f, ui_filled s)], ui_status := st, ui_errors := False\<rparr>
    | Accepted st \<Rightarrow> accepted (s\<lparr>ui_sent := ui_sent s @ [(ui_url s, f, ui_filled s)], ui_filled := [], ui_status := st, ui_errors := False\<rparr>))"

text \<open>A component that is left takes its status line and its errors with it.\<close>

definition unmounted :: "ui \<Rightarrow> ui" where
  "unmounted s = s\<lparr>ui_filled := [], ui_status := useStatusDisplay, ui_errors := False\<rparr>"

definition handle_event :: "site \<Rightarrow> ui_event \<Rightarrow> ui \<Rightarrow> ui" where
  "handle_event S e s = (case e of
      SubmitLogin \<Rightarrow> submit_here S ''login'' (\<lambda>s. unmounted (s\<lparr>ui_user := si_user_id S\<rparr>)) s
    | SubmitPreset \<Rightarrow> s\<lparr>ui_user := si_login_values S ''userId''\<rparr>
    | SubmitForm f \<Rightarrow> submit_here S f (\<lambda>s. if f = ''order'' then unmounted (s\<lparr>ui_cards := si_ordered S\<rparr>) else s) s
    | AutofillForm \<Rightarrow> s
    | AutofillCard \<Rightarrow> s
    | OpenAutofill \<Rightarrow> s\<lparr>ui_autofill := True\<rparr>
    | AutofillWith k \<Rightarrow> s\<lparr>ui_autofill := False\<rparr>
    | RevokeCard \<Rightarrow> (case si_revocation S of
          Some st \<Rightarrow> s\<lparr>ui_status := st\<rparr>
        | None \<Rightarrow> unmounted (s\<lparr>ui_cards := (Some StatusNotFound, snd (ui_cards s))\<rparr>))
    | SelectTab t \<Rightarrow> unmounted (s\<lparr>ui_tab := t\<rparr>)
    | ToggleNavigation \<Rightarrow> s\<lparr>ui_nav := toggleNavigation (ui_nav s)\<rparr>
    | ToggleTheme \<Rightarrow> s\<lparr>ui_dark := \<not> ui_dark s\<rparr>
    | OpenVersions \<Rightarrow> s\<lparr>ui_versions := True\<rparr>
    | CloseVersions \<Rightarrow> s\<lparr>ui_versions := False\<rparr>
    | OpenUserMenu \<Rightarrow> s\<lparr>ui_menu := True\<rparr>
    | LogoutClicked \<Rightarrow> s\<lparr>ui_user := Null, ui_menu := False\<rparr>
    | OpenSelect f \<Rightarrow> s\<lparr>ui_select := Some f\<rparr>
    | ChooseOption f v \<Rightarrow> s\<lparr>ui_select := None, ui_filled := ui_filled s @ [(f, v)]\<rparr>
    | OnFlags c \<Rightarrow> s)"

text \<open>The page of the flags keeps a state of its own, which \<open>flag_clicked\<close> changes.\<close>

text \<open>An element that can be used: its handler, then its link; a submit button sends its form, a box is ticked.\<close>

definition activate :: "(string \<Rightarrow> branch) \<Rightarrow> site \<Rightarrow> mark \<Rightarrow> ui \<Rightarrow> ui option" where
  "activate select S m s =
     (if mk_disabled m then None
      else let
        s1 = (case mk_on m of
            Some e \<Rightarrow> handle_event S e s
          | None \<Rightarrow>
              if mk_type m = Some ''submit'' then (case mk_form m of Some e \<Rightarrow> handle_event S e s | None \<Rightarrow> s)
              else if mk_type m = Some ''checkbox'' then
                s\<lparr>ui_filled := ui_filled s @ (case mk_name m of Some n \<Rightarrow> [(n, ''on'')] | None \<Rightarrow> [])\<rparr>
              else s);
        s2 = (case mk_href m of Some u \<Rightarrow> unmounted (s1\<lparr>ui_url := u, ui_tab := initial_tab, ui_autofill := False\<rparr>)
                | None \<Rightarrow> s1)
      in Some (settle select s2))"

section \<open>The calls of the page object\<close>

text \<open>\<open>None\<close>: nothing is found, or what is found cannot be used in this way. A handle is a position in the
  list last asked for.\<close>

definition look ::
  "(string option \<Rightarrow> node \<Rightarrow> mark list) \<Rightarrow> (string \<Rightarrow> branch) \<Rightarrow> (string \<Rightarrow> mark list \<Rightarrow> mark list) \<Rightarrow> site
   \<Rightarrow> ui \<Rightarrow> selector \<Rightarrow> mark list" where
  "look render select query S s sel = query (sel_xpath sel) (document render select S s)"

definition ui_step ::
  "(string option \<Rightarrow> node \<Rightarrow> mark list) \<Rightarrow> (string \<Rightarrow> branch) \<Rightarrow> (string \<Rightarrow> mark list \<Rightarrow> mark list) \<Rightarrow> site
   \<Rightarrow> page_action \<Rightarrow> ui \<Rightarrow> ui option" where
  "ui_step render select query S a s =
     (let found = look render select query S s;
          use = (\<lambda>sel. case found sel of [] \<Rightarrow> None | m # ms \<Rightarrow> activate select S m s);
          use_handle = (\<lambda>h. if h < length (ui_handles s) then activate select S (ui_handles s ! h) s else None)
      in case a of
        GotoPage u \<Rightarrow>
          if u = si_address S
          then Some (settle select (unmounted (s\<lparr>ui_url := ''/'', ui_tab := initial_tab, ui_nav := True, ui_versions := False,
                 ui_menu := False, ui_autofill := False, ui_select := None, ui_handles := [], ui_ended := False\<rparr>)))
          else None
      | Input sel v \<Rightarrow>
          (case found sel of
             [] \<Rightarrow> None
           | m # ms \<Rightarrow> if mk_tag m = ''input'' \<and> \<not> mk_disabled m \<and> \<not> mk_readonly m
               then Some (s\<lparr>ui_filled := ui_filled s @ (case mk_name m of Some n \<Rightarrow> [(n, v)] | None \<Rightarrow> [])\<rparr>) else None)
      | Click sel \<Rightarrow> use sel
      | Navigate sel \<Rightarrow> use sel
      | ClickHandle h \<Rightarrow> use_handle h
      | NavigateHandle h \<Rightarrow> use_handle h
      | GetHandle sel \<Rightarrow> (case found sel of [] \<Rightarrow> None | m # ms \<Rightarrow> Some (s\<lparr>ui_handles := [m]\<rparr>))
      | GetAllHandles sel \<Rightarrow> Some (s\<lparr>ui_handles := found sel\<rparr>)
      | GetInnerText sel \<Rightarrow> if found sel = [] then None else Some s
      | GetProperty sel p \<Rightarrow> if found sel = [] \<or> mk_tag (hd (found sel)) \<noteq> ''input'' then None else Some s
      | EndDtSession \<Rightarrow> Some (s\<lparr>ui_ended := True\<rparr>)
      | _ \<Rightarrow> Some s)"

fun walk :: "(page_action \<Rightarrow> ui \<Rightarrow> ui option) \<Rightarrow> page_log \<Rightarrow> ui \<Rightarrow> ui option" where
  "walk step [] s = Some s"
| "walk step (a # as) s = Option.bind (step a s) (walk step as)"

lemma walk_append: "walk step (as @ bs) s = Option.bind (walk step as s) (walk step bs)"
  by (induction as arbitrary: s) (auto split: bind_splits)

text \<open>The browser on the site: it answers from the state the calls made so far have led to.\<close>

definition not_found :: js_error where "not_found = ErrorMsg ''Element not found''"

definition answer ::
  "(page_action \<Rightarrow> ui \<Rightarrow> ui option) \<Rightarrow> ui \<Rightarrow> page_log \<Rightarrow> page_action \<Rightarrow> (ui \<Rightarrow> 'a) \<Rightarrow> (js_error, 'a) result" where
  "answer step s0 l a f = (case walk step l s0 of
      None \<Rightarrow> Inl not_found
    | Some s \<Rightarrow> if step a s = None then Inl not_found else Inr (f s))"

definition site_browser ::
  "(string option \<Rightarrow> node \<Rightarrow> mark list) \<Rightarrow> (string \<Rightarrow> branch) \<Rightarrow> (string \<Rightarrow> mark list \<Rightarrow> mark list) \<Rightarrow> site
   \<Rightarrow> (nat \<Rightarrow> jsnum) \<Rightarrow> (nat \<Rightarrow> jsnum \<Rightarrow> jsnum \<Rightarrow> jsnum) \<Rightarrow> ui \<Rightarrow> browser" where
  "site_browser render select query S draws drawsBetween s0 =
     (let step = ui_step render select query S; found = look render select query S
      in \<lparr>br_do = (\<lambda>l a. answer step s0 l a (\<lambda>s. ())),
          br_present = (\<lambda>l sel. answer step s0 l (IsSelectorPresent sel) (\<lambda>s. found s sel \<noteq> [])),
          br_handle = (\<lambda>l sel. answer step s0 l (GetHandle sel) (\<lambda>s. 0)),
          br_handles = (\<lambda>l sel. answer step s0 l (GetAllHandles sel) (\<lambda>s. [0..<length (found s sel)])),
          br_text = (\<lambda>l sel. answer step s0 l (GetInnerText sel) (\<lambda>s. concat (mk_texts (hd (found s sel))))),
          br_property = (\<lambda>l sel p. answer step s0 l (GetProperty sel p) (\<lambda>s. si_values S (hd (found s sel)))),
          br_random = draws, br_randomBetween = drawsBetween\<rparr>)"

end
