(* ===== verification/Site_Pages.thy ===== *)
theory Site_Pages
  imports Fe_Site Loadgen_Selectors
begin

text \<open>
  Where the selectors of the load generator (\<open>loadgen/src/selectors.ts\<close>) lead on the pages of the frontend:
  the calls of the page object on each page, step by step. The libraries of the frontend are the parameters
  of the locale \<open>site_libraries\<close>, and \<open>site_run\<close> (in \<open>Site_Visits\<close>) adds what a site needs for the visits.
\<close>

section \<open>The expressions of the selectors\<close>

text \<open>Reading an expression that was written gives it back.\<close>

lemma split_char_at: "c \<notin> set w \<Longrightarrow> split_char c (w @ c # s) = w # split_char c s"
  by (induction w) auto

lemma split_char_whole: "c \<notin> set w \<Longrightarrow> split_char c w = [w]"
  by (induction w) auto

fun quote_free :: "xpath \<Rightarrow> bool" where
  "quote_free (ById t i) \<longleftrightarrow> CHR 0x22 \<notin> set t \<and> CHR 0x22 \<notin> set i"
| "quote_free (ByHref h) \<longleftrightarrow> CHR 0x22 \<notin> set h"
| "quote_free (ByText t s) \<longleftrightarrow> CHR 0x22 \<notin> set t \<and> CHR 0x22 \<notin> set s"
| "quote_free (InForm t ty) \<longleftrightarrow> CHR 0x22 \<notin> set t \<and> CHR 0x22 \<notin> set ty"
| "quote_free (InMenu m s) \<longleftrightarrow> CHR 0x22 \<notin> set m \<and> CHR 0x22 \<notin> set s"
| "quote_free (InCard c h) \<longleftrightarrow> CHR 0x22 \<notin> set c \<and> CHR 0x22 \<notin> set h"

lemma between_some [simp]: "between p q (p @ t @ q) = Some t"
  by (simp add: between_def Let_def)

lemma between_none: "(\<And>t. s \<noteq> p @ t @ q) \<Longrightarrow> between p q s = None"
  by (simp add: between_def Let_def)

lemma xpath_three:
  assumes "CHR 0x22 \<notin> set p" "CHR 0x22 \<notin> set x" "CHR 0x22 \<notin> set q"
  shows "split_char (CHR 0x22) (p @ CHR 0x22 # x @ CHR 0x22 # q) = [p, x, q]"
  using assms by (simp add: split_char_at split_char_whole)

lemma other_suffix:
  assumes "take 5 (rev q) \<noteq> take 5 (rev q')" "5 \<le> length q" "5 \<le> length q'"
  shows "p' @ t' @ q' \<noteq> p @ t @ q"
proof
  assume "p' @ t' @ q' = p @ t @ q"
  then have "rev q' @ rev t' @ rev p' = rev q @ rev t @ rev p" by (metis append.assoc rev_append)
  then have "take 5 (rev q' @ rev t' @ rev p') = take 5 (rev q @ rev t @ rev p)" by simp
  with assms show False by simp
qed

lemma parse_xpath_text: "quote_free x \<Longrightarrow> parse_xpath (xpath_text x) = Some x"
proof (cases x)
  case (ById t i)
  assume "quote_free x"
  with ById have "split_char (CHR 0x22) (xpath_text x) = [''//'' @ t @ ''[@id='', i, '']'']"
    using xpath_three [of "''//'' @ t @ ''[@id=''" i "'']''"] by simp
  then show ?thesis using between_some [of "''//''" "''[@id=''" t] unfolding parse_xpath_def ById by simp
next
  case (ByText t s)
  assume "quote_free x"
  with ByText have "split_char (CHR 0x22) (xpath_text x) = [''//'' @ t @ ''[text()='', s, '']'']"
    using xpath_three [of "''//'' @ t @ ''[text()=''" s "'']''"] by simp
  moreover have "between ''//'' ''[@id='' (''//'' @ t @ ''[text()='') = None"
    by (intro between_none other_suffix) simp_all
  ultimately show ?thesis using between_some [of "''//''" "''[text()=''" t] unfolding parse_xpath_def ByText by simp
next
  case (InForm t s)
  assume "quote_free x"
  with InForm have "split_char (CHR 0x22) (xpath_text x) = [''//form//'' @ t @ ''[@type='', s, '']'']"
    using xpath_three [of "''//form//'' @ t @ ''[@type=''" s "'']''"] by simp
  moreover have "between ''//'' ''[@id='' (''//form//'' @ t @ ''[@type='') = None"
      "between ''//'' ''[text()='' (''//form//'' @ t @ ''[@type='') = None"
    by (intro between_none other_suffix; simp)+
  ultimately show ?thesis using between_some [of "''//form//''" "''[@type=''" t] unfolding parse_xpath_def InForm by simp
next
  case (ByHref h)
  assume "quote_free x"
  with ByHref show ?thesis by (simp add: parse_xpath_def split_char_at)
next
  case (InMenu m s)
  assume "quote_free x"
  with InMenu show ?thesis by (simp add: parse_xpath_def split_char_at)
next
  case (InCard c h)
  assume "quote_free x"
  with InCard show ?thesis by (simp add: parse_xpath_def split_char_at)
qed

lemma selector_paths:
  "parse_xpath (sel_xpath common_currentBalance) = Some (ById ''input'' ''currentBalance'')"
  "parse_xpath (sel_xpath loginPage_username) = Some (ById ''input'' ''login'')"
  "parse_xpath (sel_xpath loginPage_password) = Some (ById ''input'' ''password'')"
  "parse_xpath (sel_xpath loginPage_loginButton) = Some (ById ''button'' ''submitButton'')"
  "parse_xpath (sel_xpath navigation_sidebarToggler) = Some (ById ''button'' ''navigationToggler'')"
  "parse_xpath (sel_xpath navigation_depositPage) = Some (ByHref ''deposit'')"
  "parse_xpath (sel_xpath navigation_homePage) = Some (ByHref ''home'')"
  "parse_xpath (sel_xpath navigation_withdrawPage) = Some (ByHref ''withdraw'')"
  "parse_xpath (sel_xpath navigation_instrumentsPage) = Some (ByHref ''instruments'')"
  "parse_xpath (sel_xpath navigation_dropdownToggler) = Some (ById ''button'' ''profileToggler'')"
  "parse_xpath (sel_xpath navigation_creditCardPage) = Some (ByHref ''credit-card'')"
  "parse_xpath (sel_xpath navigation_logout) = Some (ById ''li'' ''logoutItem'')"
  "parse_xpath (sel_xpath depositPage_submit) = Some (InForm ''button'' ''submit'')"
  "parse_xpath (sel_xpath depositPage_cardholderName) = Some (ById ''input'' ''cardholderName'')"
  "parse_xpath (sel_xpath depositPage_cardType) = Some (ById ''div'' ''cardType'')"
  "parse_xpath (sel_xpath depositPage_address) = Some (ById ''input'' ''address'')"
  "parse_xpath (sel_xpath depositPage_email) = Some (ById ''input'' ''email'')"
  "parse_xpath (sel_xpath depositPage_cardNumber) = Some (ById ''input'' ''cardNumber'')"
  "parse_xpath (sel_xpath depositPage_cardCvv) = Some (ById ''input'' ''cvv'')"
  "parse_xpath (sel_xpath depositPage_amount) = Some (ById ''input'' ''amount'')"
  "parse_xpath (sel_xpath depositPage_acceptTerms) = Some (ById ''input'' ''agreement'')"
  "parse_xpath (sel_xpath instrumentsPage_instrumentCard) = Some (InCard ''instrument-card'' ''instruments'')"
  "parse_xpath (sel_xpath instrumentsPage_ownedInstrument) = Some (InCard ''owned-instrument'' ''instruments'')"
  "parse_xpath (sel_xpath instrumentPage_quickBuyForm) = Some (ByText ''button'' ''Quick Buy'')"
  "parse_xpath (sel_xpath instrumentPage_quickSellForm) = Some (ByText ''button'' ''Quick Sell'')"
  "parse_xpath (sel_xpath instrumentPage_buyForm) = Some (ByText ''button'' ''Buy'')"
  "parse_xpath (sel_xpath instrumentPage_sellForm) = Some (ByText ''button'' ''Sell'')"
  "parse_xpath (sel_xpath instrumentPage_instrumentPrice) = Some (ById ''h5'' ''instrumentPrice'')"
  "parse_xpath (sel_xpath instrumentPage_instrumentName) = Some (ById ''*'' ''instrumentName'')"
  "parse_xpath (sel_xpath instrumentPage_amountInput) = Some (ById ''input'' ''amount'')"
  "parse_xpath (sel_xpath instrumentPage_possessedAmount) = Some (ById ''input'' ''posessedAmount'')"
  "parse_xpath (sel_xpath instrumentPage_priceInput) = Some (ById ''input'' ''price'')"
  "parse_xpath (sel_xpath instrumentPage_timeInput) = Some (ById ''input'' ''time'')"
  "parse_xpath (sel_xpath instrumentPage_submitButton) = Some (ById ''button'' ''submitButton'')"
  "parse_xpath (sel_xpath creditCardPage_nameInput) = Some (ById ''input'' ''name'')"
  "parse_xpath (sel_xpath creditCardPage_addressInput) = Some (ById ''input'' ''address'')"
  "parse_xpath (sel_xpath creditCardPage_emailInput) = Some (ById ''input'' ''email'')"
  "parse_xpath (sel_xpath creditCardPage_cardTypeInput) = Some (ById ''div'' ''type'')"
  "parse_xpath (sel_xpath creditCardPage_orderCardButton) = Some (ById ''button'' ''submitButton'')"
  "parse_xpath (sel_xpath creditCardPage_acceptTerms) = Some (ById ''input'' ''agreement'')"
  "parse_xpath (sel_xpath creditCardPage_revokeCard) = Some (ById ''button'' ''revoke-card'')"
  "parse_xpath (sel_xpath creditCardPage_orderIdDisplay) = Some (ById ''p'' ''order-id'')"
  by (simp_all add: selector_defs parse_xpath_def between_def Let_def)

lemma option_paths:
  assumes "CHR 0x22 \<notin> set t"
  shows "parse_xpath (sel_xpath (depositPage_cardType_provider t)) = Some (InMenu ''menu-cardType'' t)"
    "parse_xpath (sel_xpath (creditCardPage_cardType_type t)) = Some (InMenu ''menu-type'' t)"
  using parse_xpath_text [of "InMenu ''menu-cardType'' t"] parse_xpath_text [of "InMenu ''menu-type'' t"] assms
  by (simp_all add: selector_defs)

section \<open>The libraries\<close>

definition mui_documented :: "(string option \<Rightarrow> node \<Rightarrow> mark list) \<Rightarrow> bool" where
  "mui_documented render \<longleftrightarrow> (\<forall>sel n. render sel n = mui_document sel n)"

text \<open>A URL of the form \<open>/instruments/i\<close> selects the branch with the parameter.\<close>

definition params_documented :: "(string \<Rightarrow> branch) \<Rightarrow> bool" where
  "params_documented select \<longleftrightarrow>
     (\<forall>i. i \<noteq> [] \<and> CHR ''/'' \<notin> set i \<longrightarrow>
        select (instrument_prefix @ i) \<in> set branches \<and> br_path (select (instrument_prefix @ i)) = ''/instruments/:id'')"

locale site_libraries =
  fixes render :: "string option \<Rightarrow> node \<Rightarrow> mark list"
    and select :: "string \<Rightarrow> branch"
    and query :: "string \<Rightarrow> mark list \<Rightarrow> mark list"
  assumes render: "mui_documented render"
    and router: "router_documented select"
    and params: "params_documented select"
    and query: "query_documented query"

section \<open>Looking for an element\<close>

lemma find_append: "find P (xs @ ys) = (case find P xs of None \<Rightarrow> find P ys | Some x \<Rightarrow> Some x)"
  by (induction xs) auto

lemma bind_find_append: "Option.bind (find P (xs @ ys)) f =
    (case find P xs of None \<Rightarrow> Option.bind (find P ys) f | Some x \<Rightarrow> f x)"
  by (simp add: find_append split: option.splits)

lemma case_filter: "(case filter P xs of [] \<Rightarrow> a | y # ys \<Rightarrow> f y) = (case find P xs of None \<Rightarrow> a | Some y \<Rightarrow> f y)"
  by (induction xs) auto

lemma hd_filter: "find P xs = Some y \<Longrightarrow> filter P xs \<noteq> [] \<and> hd (filter P xs) = y"
  by (induction xs) (auto split: if_splits)

lemma filter_none: "find P xs = None \<longleftrightarrow> filter P xs = []"
  by (induction xs) auto

context site_libraries
begin

abbreviation step :: "site \<Rightarrow> page_action \<Rightarrow> ui \<Rightarrow> ui option" where "step S \<equiv> ui_step render select query S"
abbreviation doc :: "site \<Rightarrow> ui \<Rightarrow> mark list" where "doc S s \<equiv> document render select S s"

lemma look: "parse_xpath (sel_xpath sel) = Some x \<Longrightarrow> look render select query S s sel = filter (hit x) (doc S s)"
  using query by (simp add: look_def query_documented_def)

lemma step_use:
  assumes "parse_xpath (sel_xpath sel) = Some x"
  shows "step S (Click sel) s = Option.bind (find (hit x) (doc S s)) (\<lambda>m. activate select S m s)"
    "step S (Navigate sel) s = Option.bind (find (hit x) (doc S s)) (\<lambda>m. activate select S m s)"
    "step S (GetHandle sel) s = Option.bind (find (hit x) (doc S s)) (\<lambda>m. Some (s\<lparr>ui_handles := [m]\<rparr>))"
  by (simp_all add: ui_step_def look [OF assms] case_filter Let_def split: option.splits)

lemma step_input:
  assumes "parse_xpath (sel_xpath sel) = Some x"
  shows "step S (Input sel v) s = Option.bind (find (hit x) (doc S s)) (\<lambda>m.
        if mk_tag m = ''input'' \<and> \<not> mk_disabled m \<and> \<not> mk_readonly m
        then Some (s\<lparr>ui_filled := ui_filled s @ (case mk_name m of Some n \<Rightarrow> [(n, v)] | None \<Rightarrow> [])\<rparr>) else None)"
  by (simp add: ui_step_def look [OF assms] case_filter Let_def split: option.splits)

lemma step_read:
  assumes "parse_xpath (sel_xpath sel) = Some x"
  shows "step S (GetInnerText sel) s = (if find (hit x) (doc S s) = None then None else Some s)"
    "step S (GetProperty sel p) s = Option.bind (find (hit x) (doc S s)) (\<lambda>m. if mk_tag m = ''input'' then Some s else None)"
  using hd_filter [of "hit x" "doc S s"] filter_none [of "hit x" "doc S s"]
  by (cases "find (hit x) (doc S s)"; simp add: ui_step_def look [OF assms] Let_def)+

lemma step_other [simp]:
  "step S ShortDelay s = Some s" "step S StandardDelay s = Some s" "step S EndDtSession s = Some (s\<lparr>ui_ended := True\<rparr>)"
  "step S (IsSelectorPresent sel) s = Some s"
  by (simp_all add: ui_step_def)

end

section \<open>The documents of the pages\<close>

definition signed :: "ui \<Rightarrow> bool" where
  "signed s \<longleftrightarrow> ui_user s \<noteq> Null \<and> ui_user s \<noteq> Str []"

text \<open>What every page of the account has besides its own: the header and the navigation before it, the menus of
  the header after it.\<close>

definition before_page :: "site \<Rightarrow> ui \<Rightarrow> mark list" where
  "before_page S s = in_place None [] (site_header S s) @ in_place None [] (Navigation (ui_nav s))"

definition after_page :: "site \<Rightarrow> ui \<Rightarrow> mark list" where
  "after_page S s = at_end (ui_select s) (site_header S s)"

definition account_document :: "site \<Rightarrow> ui \<Rightarrow> node \<Rightarrow> mark list" where
  "account_document S s n = before_page S s @ in_place None [] n @ after_page S s @ at_end (ui_select s) n"

lemma at_end_navigation [simp]: "at_end sel (Navigation v) = []"
  by (simp add: Navigation_def NavigationItem_def navigation_items_def)

lemma select_path: "router_documented select \<Longrightarrow> b \<in> set branches \<Longrightarrow> select (br_path b) = b"
  by (simp add: router_documented_def)

lemma branch_elements:
  "router_documented select \<Longrightarrow> br_elements (select ''/deposit'') = [AppLayout_c, ProtectedLayout_c, PageC ''Deposit'']"
  "router_documented select \<Longrightarrow> br_elements (select ''/withdraw'') = [AppLayout_c, ProtectedLayout_c, PageC ''Withdraw'']"
  "router_documented select \<Longrightarrow> br_elements (select ''/home'') = [AppLayout_c, ProtectedLayout_c, PageC ''Home'']"
  "router_documented select \<Longrightarrow> br_elements (select ''/instruments'') = [AppLayout_c, ProtectedLayout_c, PageC ''Instruments'']"
  "router_documented select \<Longrightarrow> br_elements (select ''/login'') = [AppLayout_c, PublicLayout_c, PageC ''Login'']"
  "router_documented select \<Longrightarrow> br_elements (select ''/credit-card/order'')
     = [AppLayout_c, ProtectedLayout_c, CreditCardLayout_c, PageC ''CreditCardOrder'']"
  "router_documented select \<Longrightarrow> br_elements (select ''/credit-card/status'')
     = [AppLayout_c, ProtectedLayout_c, CreditCardLayout_c, PageC ''CreditCardStatus'']"
  "router_documented select \<Longrightarrow> br_elements (select ''/credit-card/active'')
     = [AppLayout_c, ProtectedLayout_c, CreditCardLayout_c, PageC ''CreditCardActive'']"
  using select_path [of select "branches ! 7"] select_path [of select "branches ! 6"] select_path [of select "branches ! 12"]
    select_path [of select "branches ! 13"] select_path [of select "branches ! 4"] select_path [of select "branches ! 8"]
    select_path [of select "branches ! 9"] select_path [of select "branches ! 10"]
  by (simp_all add: branches_eq)

lemma go_account:
  assumes "router_documented select" "u \<noteq> Null" "u \<noteq> Str []"
  shows "go select u cd ''/deposit'' = ShowPage ''Deposit''" "go select u cd ''/withdraw'' = ShowPage ''Withdraw''"
    "go select u cd ''/instruments'' = ShowPage ''Instruments''"
    "go select u cd ''/credit-card'' = CreditCardLayout (fst cd) ''/credit-card''"
  using go_path [OF assms(1), of "branches ! 7" u cd] go_path [OF assms(1), of "branches ! 6" u cd]
    go_path [OF assms(1), of "branches ! 13" u cd] go_path [OF assms(1), of "branches ! 11" u cd] assms(2,3)
  by (simp_all add: branches_eq visit_simps split: rendered.splits)

lemma go_root: "router_documented select \<Longrightarrow> go select u cd ''/'' = NavigateTo (if u = Null then ''/login'' else ''/home'')"
  using go_path [of select "branches ! 0" u cd] by (simp add: branches_eq visit_simps)

text \<open>The branch of an instrument.\<close>

lemma go_instrument:
  assumes "router_documented select" "params_documented select" "i \<noteq> []" "CHR ''/'' \<notin> set i"
  shows "br_elements (select (instrument_prefix @ i)) = [AppLayout_c, ProtectedLayout_c, PageC ''Instrument'']"
    "u \<noteq> Null \<Longrightarrow> u \<noteq> Str [] \<Longrightarrow> go select u cd (instrument_prefix @ i) = ShowPage ''Instrument''"
proof -
  have b: "select (instrument_prefix @ i) \<in> set branches" "br_path (select (instrument_prefix @ i)) = ''/instruments/:id''"
    using assms by (simp_all add: params_documented_def)
  then have "select (instrument_prefix @ i) = branches ! 14" by (auto simp: branches_eq)
  then show "br_elements (select (instrument_prefix @ i)) = [AppLayout_c, ProtectedLayout_c, PageC ''Instrument'']"
    "u \<noteq> Null \<Longrightarrow> u \<noteq> Str [] \<Longrightarrow> go select u cd (instrument_prefix @ i) = ShowPage ''Instrument''"
    by (simp_all add: branches_eq go_def visit_simps)
qed

end
