(* ===== verification/Site_Steps.thy ===== *)
theory Site_Steps
  imports Site_Pages
begin

text \<open>
  The calls of the page object on the pages of the frontend, one by one: what each selector finds there, and
  what using it does to the state.
\<close>

section \<open>Before a page\<close>

lemma element_sel [simp]:
  "mk_tag (element tag ps form cls on texts) = tag" "mk_id (element tag ps form cls on texts) = str_prop ps ''id''"
  "mk_type (element tag ps form cls on texts) = str_prop ps ''type''" "mk_href (element tag ps form cls on texts) = str_prop ps ''to''"
  "mk_class (element tag ps form cls on texts) = cls" "mk_name (element tag ps form cls on texts) = str_prop ps ''name''"
  "mk_texts (element tag ps form cls on texts) = texts" "mk_menu (element tag ps form cls on texts) = None"
  "mk_form (element tag ps form cls on texts) = form" "mk_on (element tag ps form cls on texts) = on"
  "mk_disabled (element tag ps form cls on texts) \<longleftrightarrow> prop_of ps ''disabled'' = Bool True \<or> prop_of ps ''loading'' = Bool True"
  "mk_readonly (element tag ps form cls on texts) \<longleftrightarrow> prop_of ps ''readOnly'' = Bool True"
  by (simp_all add: element_def)

lemma prop_of_simps [simp]:
  "prop_of [] k = Undefined" "prop_of ((j, v) # ps) k = (if j = k then v else prop_of ps k)"
  by (simp_all add: prop_of_def)

lemma str_prop_simps [simp]:
  "str_prop [] k = None" "str_prop ((j, v) # ps) k = (if j = k then (case v of Str s \<Rightarrow> Some s | _ \<Rightarrow> None) else str_prop ps k)"
  by (simp_all add: str_prop_def)

lemma texts_of_simps [simp]:
  "texts_of [] = []" "texts_of (Txt t # ks) = t # texts_of ks" "texts_of (El c ps on ns # ks) = texts_of ks"
  by (simp_all add: texts_of_def)

lemmas markup = site_header_def AppHeader_def Logo_def ThemeSwitcher_def FeatureFlagIcon_def VersionInfo_def
  VersionDialog_def UserPanel_def GreetingWithSkeleton_def AvatarWithSkeleton_def Navigation_def NavigationItem_def
  navigation_items_def version_item_def text_tag_def button_tag_def

lemmas text_search = str_includes_def indexOf_def starts_with_def

lemma includes_empty [simp]: "str_includes [] c \<longleftrightarrow> c = []"
  by (auto simp: str_includes_iff)

definition signed_header :: "site \<Rightarrow> mark list" where
  "signed_header S =
     [element ''button'' [attr ''id'' ''navigationToggler''] None [] (Some ToggleNavigation) [],
      element ''a'' [attr ''variant'' ''h6'', attr ''to'' ''/''] None [] None [''EasyTrade''],
      element ''button'' [] None [] (Some ToggleTheme) [],
      element ''a'' [attr ''to'' ''/feature-flags''] None [] None [],
      element ''button'' [] None [] (Some OpenVersions) [],
      element ''p'' [] None [] None
        (case si_first_name S of Some (c # cs) \<Rightarrow> [''Hi, '', c # cs] | _ \<Rightarrow> [''Hi, username'']),
      element ''button'' [attr ''id'' ''profileToggler''] None [] (Some OpenUserMenu) []]"

definition link_element :: "string \<Rightarrow> mark" where
  "link_element url = element ''a'' [attr ''to'' url] None [] None []"

definition nav_marks :: "mark list" where
  "nav_marks = map (link_element \<circ> fst) navigation_items"

lemma before_page_eq: "signed s \<Longrightarrow> before_page S s = signed_header S @ nav_marks"
  by (cases "si_first_name S"; cases "the (si_first_name S)")
    (simp_all add: before_page_def signed_header_def nav_marks_def link_element_def markup signed_def isLoggedIn_def)

text \<open>What the selectors do not find before a page, and the links they do.\<close>

lemma before_page_none:
  assumes "signed s"
  shows "find (hit (ById ''input'' i)) (before_page S s) = None" "find (hit (ById ''div'' i)) (before_page S s) = None"
    "i \<notin> set [''navigationToggler'', ''profileToggler''] \<Longrightarrow> find (hit (ById t i)) (before_page S s) = None"
    "find (hit (ByText ''button'' t)) (before_page S s) = None" "find (hit (InForm t ty)) (before_page S s) = None"
    "find (hit (InMenu mn x)) (before_page S s) = None" "c \<noteq> [] \<Longrightarrow> filter (hit (InCard c h)) (before_page S s) = []"
  by (auto simp: before_page_eq [OF assms] signed_header_def nav_marks_def link_element_def navigation_items_def)

definition visited :: "string \<Rightarrow> ui \<Rightarrow> ui" where
  "visited url s = unmounted (s\<lparr>ui_url := url, ui_tab := initial_tab, ui_autofill := False\<rparr>)"

definition navigation_links :: "(string \<times> string) list" where
  "navigation_links = [(''deposit'', ''/deposit''), (''withdraw'', ''/withdraw''), (''home'', ''/home''),
     (''instruments'', ''/instruments''), (''credit-card'', ''/credit-card'')]"

lemma activate_link [simp]: "activate select S (link_element url) s = Some (settle select (visited url s))"
  by (simp add: activate_def link_element_def visited_def)

lemma before_page_link:
  assumes "signed s" "(h, url) \<in> set navigation_links"
  shows "find (hit (ByHref h)) (before_page S s) = Some (link_element url)"
proof -
  have "\<forall>(h, url) \<in> set navigation_links. find (hit (ByHref h)) (before_page S s) = Some (link_element url)"
    by (simp add: before_page_eq [OF assms(1)] signed_header_def nav_marks_def link_element_def navigation_items_def
        navigation_links_def text_search)
  with assms(2) show ?thesis by blast
qed

lemma before_page_buttons:
  assumes "signed s"
  shows "Option.bind (find (hit (ById ''button'' ''profileToggler'')) (before_page S s)) (\<lambda>m. activate select S m s)
    = Some (settle select (s\<lparr>ui_menu := True\<rparr>))"
  by (simp add: before_page_eq [OF assms] signed_header_def activate_def handle_event_def)

lemma after_page_logout:
  assumes "signed s" "ui_menu s" "\<not> ui_versions s"
  shows "Option.bind (find (hit (ById ''li'' ''logoutItem'')) (after_page S s)) (\<lambda>m. activate select S m s)
    = Some (settle select (s\<lparr>ui_user := Null, ui_menu := False\<rparr>))"
  using assms
  by (simp add: after_page_def markup signed_def isLoggedIn_def activate_def handle_event_def split: option.splits list.splits)

lemma after_page_none:
  assumes "\<not> ui_menu s" "\<not> ui_versions s"
  shows "after_page S s = []"
  using assms by (simp add: after_page_def markup split: option.splits list.splits)

section \<open>What is on a page\<close>

text \<open>Questions about the tree of a page: a field that can be written, one that can be read, a box, a select with
  an option, a button that sends its form, a button with a handler, a tab.\<close>

definition found_in :: "node \<Rightarrow> xpath \<Rightarrow> (mark \<Rightarrow> bool) \<Rightarrow> bool" where
  "found_in n x P = (case find (hit x) (in_place None [] n) of None \<Rightarrow> False | Some m \<Rightarrow> P m)"

definition write_field :: "node \<Rightarrow> string \<Rightarrow> string \<Rightarrow> bool" where
  "write_field n i name \<longleftrightarrow>
     found_in n (ById ''input'' i) (\<lambda>m. mk_tag m = ''input'' \<and> \<not> mk_disabled m \<and> \<not> mk_readonly m \<and> mk_name m = Some name)"

definition read_field :: "node \<Rightarrow> string \<Rightarrow> bool" where
  "read_field n i \<longleftrightarrow> found_in n (ById ''input'' i) (\<lambda>m. mk_tag m = ''input'')"

definition tick_box :: "node \<Rightarrow> string \<Rightarrow> string \<Rightarrow> bool" where
  "tick_box n i name \<longleftrightarrow>
     found_in n (ById ''input'' i) (\<lambda>m. \<not> mk_disabled m \<and> mk_on m = None \<and> mk_type m = Some ''checkbox'' \<and> mk_href m = None \<and>
       mk_name m = Some name)"

definition press :: "node \<Rightarrow> xpath \<Rightarrow> ui_event \<Rightarrow> bool" where
  "press n x e \<longleftrightarrow>
     found_in n x (\<lambda>m. \<not> mk_disabled m \<and> mk_href m = None \<and>
       (mk_on m = Some e \<or> mk_on m = None \<and> mk_type m = Some ''submit'' \<and> mk_form m = Some e))"

definition offers :: "node \<Rightarrow> string \<Rightarrow> string \<Rightarrow> string \<Rightarrow> bool" where
  "offers n name t v \<longleftrightarrow>
     (case find (hit (InMenu (''menu-'' @ name) t)) (at_end (Some name) n) of
        None \<Rightarrow> False
      | Some m \<Rightarrow> \<not> mk_disabled m \<and> mk_href m = None \<and> mk_on m = Some (ChooseOption name v))"

lemma no_marks [simp]:
  "in_place f c (StatusDisplay_node st) = []" "at_end sel (StatusDisplay_node st) = []"
  by (simp_all add: StatusDisplay_node_def StatusDisplay_def)

lemmas form_defs = payment_page_def DemoAppWarning_def balance_field_def card_number_field_def card_type_field_def
  agreement_box_def CheckboxLabel_def submit_button_def number_field_def total_field_def AutofillButton_node_def
  DepositForm_def WithdrawForm_def CreditCardForm_def CreditCardOrder_def CreditCardActive_def LoginForm_def
  QuickBuyForm_def QuickSellForm_def BuyForm_def SellForm_def button_tag_def text_tag_def

lemmas question_defs = found_in_def write_field_def read_field_def tick_box_def press_def offers_def

lemma deposit_page:
  fixes b e st
  defines "n \<equiv> payment_page (DepositForm b e False st)"
  shows "write_field n ''amount'' ''amount''" "write_field n ''cardholderName'' ''cardholderName''"
    "write_field n ''address'' ''address''" "write_field n ''email'' ''email''" "write_field n ''cardNumber'' ''cardNumber''"
    "write_field n ''cvv'' ''cvv''" "tick_box n ''agreement'' ''agreementCheck''"
    "press n (ById ''div'' ''cardType'') (OpenSelect ''cardType'')"
    "press n (InForm ''button'' ''submit'') (SubmitForm ''deposit'')"
    "offers n ''cardType'' ''Visa Debit'' ''visaDebit''" "offers n ''cardType'' ''Visa Credit'' ''visaCredit''"
    "offers n ''cardType'' ''Mastercard'' ''mastercard''" "offers n ''cardType'' ''American Express'' ''americanExpress''"
  by (simp_all add: n_def question_defs form_defs option_element_def text_search)

lemma withdraw_page:
  fixes b e st
  defines "n \<equiv> payment_page (WithdrawForm b e False st)"
  shows "write_field n ''amount'' ''amount''" "write_field n ''cardholderName'' ''cardholderName''"
    "write_field n ''address'' ''address''" "write_field n ''email'' ''email''" "write_field n ''cardNumber'' ''cardNumber''"
    "tick_box n ''agreement'' ''agreementCheck''"
    "press n (ById ''div'' ''cardType'') (OpenSelect ''cardType'')"
    "press n (InForm ''button'' ''submit'') (SubmitForm ''withdraw'')"
    "offers n ''cardType'' ''Visa Debit'' ''visaDebit''" "offers n ''cardType'' ''Visa Credit'' ''visaCredit''"
    "offers n ''cardType'' ''Mastercard'' ''mastercard''" "offers n ''cardType'' ''American Express'' ''americanExpress''"
  by (simp_all add: n_def question_defs form_defs option_element_def text_search)

lemma order_page:
  fixes e st
  defines "n \<equiv> CreditCardOrder e False st"
  shows "write_field n ''name'' ''name''" "write_field n ''address'' ''address''" "write_field n ''email'' ''email''"
    "tick_box n ''agreement'' ''agreementCheck''" "press n (ById ''div'' ''type'') (OpenSelect ''type'')"
    "press n (ById ''button'' ''submitButton'') (SubmitForm ''order'')"
    "offers n ''type'' ''Silver'' ''silver''" "offers n ''type'' ''Gold'' ''gold''" "offers n ''type'' ''Platinum'' ''platinum''"
    "\<not> found_in n (ById ''p'' ''order-id'') P" "\<not> found_in n (ById ''button'' ''revoke-card'') P"
    "at_end None n = []"
  by (simp_all add: n_def question_defs form_defs option_element_def text_search)

lemma active_page:
  fixes st
  defines "n \<equiv> CreditCardActive False st"
  shows "press n (ById ''button'' ''revoke-card'') RevokeCard" "\<not> found_in n (ById ''p'' ''order-id'') P" "at_end None n = []"
  by (simp_all add: n_def question_defs form_defs)

lemma status_page:
  "found_in (CreditCardStatus_page data) (ById ''p'' ''order-id'') (\<lambda>m. True)"
  by (simp add: question_defs CreditCardStatus_page_def text_tag_def)

text \<open>The page of an instrument: its name and price, the four tabs, the form of the chosen one.\<close>

definition tab_form :: "form_id \<Rightarrow> bool \<Rightarrow> status \<Rightarrow> node" where
  "tab_form t menuOpen st = (case t of
      QuickBuyTab \<Rightarrow> QuickBuyForm False st | QuickSellTab \<Rightarrow> QuickSellForm False st
    | BuyTab \<Rightarrow> BuyForm menuOpen False st | SellTab \<Rightarrow> SellForm menuOpen False st)"

definition tab_element :: "string \<times> form_id \<Rightarrow> mark" where
  "tab_element tab = element ''button'' [attr ''label'' (fst tab)] None [] (Some (SelectTab (snd tab))) [fst tab]"

lemma instrument_marks:
  "in_place None [] (Instrument_node F i t m False st) =
     in_place None [] (InstrumentHeader F i) @
     map tab_element [(''Quick Buy'', QuickBuyTab), (''Quick Sell'', QuickSellTab), (''Buy'', BuyTab), (''Sell'', SellTab)] @
     in_place None [] (tab_form t m st)"
  by (cases t) (simp_all add: Instrument_node_def FullInstrumentCard_def InstrumentTransactions_def TabForm_def tab_form_def
      tab_element_def)

lemma header_marks:
  "in_place None [] (InstrumentHeader F i) =
     [element ''h4'' [attr ''id'' ''instrumentName'', attr ''variant'' ''h4''] None [] None [it_name i],
      element ''h5'' [attr ''id'' ''instrumentPrice'', attr ''color'' (pv_color (PriceDisplay F (it_price i))), attr ''variant'' ''h5'']
        None [] None [pv_price (PriceDisplay F (it_price i))],
      element ''span'' [attr ''color'' (pv_color (PriceDisplay F (it_price i))), attr ''variant'' ''caption''] None [] None
        [pv_percent (PriceDisplay F (it_price i))]]"
  by (simp add: InstrumentHeader_def PriceDisplay_node_def text_tag_def)

lemmas tab_simps = instrument_marks header_marks tab_element_def find_append

lemma trade_tabs:
  assumes "n = Instrument_node F i t m False st"
  shows "found_in n (ById ''*'' ''instrumentName'') (\<lambda>m. True)"
    "press n (ByText ''button'' ''Quick Buy'') (SelectTab QuickBuyTab)" "press n (ByText ''button'' ''Quick Sell'') (SelectTab QuickSellTab)"
    "press n (ByText ''button'' ''Buy'') (SelectTab BuyTab)" "press n (ByText ''button'' ''Sell'') (SelectTab SellTab)"
  unfolding assms question_defs tab_simps by simp_all

lemma form_on_tab:
  assumes "n = Instrument_node F i t m False st"
  shows "find (hit (ById ''input'' j)) (in_place None [] n) = find (hit (ById ''input'' j)) (in_place None [] (tab_form t m st))"
    "find (hit (ById ''button'' j)) (in_place None [] n) = find (hit (ById ''button'' j)) (in_place None [] (tab_form t m st))"
  unfolding assms tab_simps by simp_all

lemma trade_forms:
  "write_field (tab_form t m st) ''amount'' ''amount''" "read_field (tab_form t m st) ''price''"
  "press (tab_form t m st) (ById ''button'' ''submitButton'') (SubmitForm (tab_value t))"
  "t = QuickBuyTab \<Longrightarrow> read_field (tab_form t m st) ''currentBalance''"
  "t = QuickSellTab \<Longrightarrow> read_field (tab_form t m st) ''posessedAmount''"
  "t = BuyTab \<or> t = SellTab \<Longrightarrow> write_field (tab_form t m st) ''price'' ''price''"
  "t = BuyTab \<or> t = SellTab \<Longrightarrow> write_field (tab_form t m st) ''time'' ''time''"
  by (cases t; simp add: question_defs form_defs tab_form_def)+

lemma instrument_page:
  assumes "n = Instrument_node F i t m False st"
  shows "write_field n ''amount'' ''amount''" "read_field n ''price''"
    "press n (ById ''button'' ''submitButton'') (SubmitForm (tab_value t))"
    "t = QuickBuyTab \<Longrightarrow> read_field n ''currentBalance''" "t = QuickSellTab \<Longrightarrow> read_field n ''posessedAmount''"
    "t = BuyTab \<or> t = SellTab \<Longrightarrow> write_field n ''price'' ''price''"
    "t = BuyTab \<or> t = SellTab \<Longrightarrow> write_field n ''time'' ''time''"
  using trade_forms [of t m st] unfolding question_defs form_on_tab [OF assms] by simp_all

lemma login_page:
  fixes users vals st
  defines "n \<equiv> Login_page users vals False st"
  shows "write_field n ''login'' ''login''" "write_field n ''password'' ''password''"
    "press n (ById ''button'' ''submitButton'') SubmitLogin"
  by (simp_all add: n_def question_defs form_defs Login_page_def)

end
