(* ===== verification/Site_Visits.thy ===== *)
theory Site_Visits
  imports Site_Steps Loadgen_Visits
begin

text \<open>
  The visits of the load generator on the frontend: each runs to its end. \<open>wp m Q s\<close> says that the program \<open>m\<close>
  started in the state \<open>s\<close> of the frontend returns, with a result and a state that satisfy \<open>Q\<close>; its rules follow
  the constructors of programs, and the calls of the page object are computed on the documents.
\<close>

section \<open>On a page of the account\<close>

text \<open>What the site needs: a user id that counts as one, instruments whose ids can stand in a URL, one that is
  owned, and a card whose page can be shown after an order.\<close>

definition card_settled :: "card_data \<Rightarrow> bool" where
  "card_settled cards \<longleftrightarrow> (case card_page (fst cards) of
      None \<Rightarrow> False
    | Some w \<Rightarrow> w = ''status'' \<longrightarrow> (case snd cards of Some (HistorySuccess i es) \<Rightarrow> True | _ \<Rightarrow> False))"

definition url_id :: "jsval \<Rightarrow> bool" where
  "url_id i \<longleftrightarrow> (case i of Str t \<Rightarrow> t \<noteq> [] \<and> CHR ''/'' \<notin> set t | _ \<Rightarrow> False)"

definition site_stocked :: "site \<Rightarrow> bool" where
  "site_stocked S \<longleftrightarrow>
     si_user_id S \<noteq> Null \<and> si_user_id S \<noteq> Str [] \<and>
     (\<forall>i \<in> set (si_instruments S). url_id (it_id i)) \<and>
     (\<exists>i \<in> set (si_instruments S). jlt (jint 0) (it_amount i)) \<and>
     length (si_instruments S) \<le> 2 ^ 53 \<and> card_settled (si_ordered S)"

definition steady :: "(string \<Rightarrow> branch) \<Rightarrow> ui \<Rightarrow> bool" where
  "steady select s \<longleftrightarrow> \<not> is_redirect (go select (ui_user s) (ui_cards s) (ui_url s))"

lemma settle_steady: "steady select s \<Longrightarrow> settle select s = s"
  by (simp add: steady_def settle_def is_redirect_def split: rendered.splits)

lemma in_place_menu: "m \<in> set (in_place f c n) \<Longrightarrow> mk_menu m = None"
proof (induction f c n rule: in_place.induct)
  case (2 form cls c ps on kids)
  have "mk_menu m = None" if "m \<in> set (own_elements c ps form cls on kids)" using that by (cases c) auto
  then show ?case using 2 by (auto split: if_splits)
qed simp

lemma menu_none:
  "find (hit (InMenu mn t)) (in_place f c n) = None" "find (hit (InMenu mn t)) (after_page S s) = None"
proof -
  show "find (hit (InMenu mn t)) (in_place f c n) = None" for f c n
    using in_place_menu [of _ f c n] by (auto simp: find_None_iff)
  show "find (hit (InMenu mn t)) (after_page S s) = None"
    by (simp add: after_page_def markup find_append split: option.splits list.splits)
qed

context site_libraries
begin

text \<open>A state in which the user is signed in, nothing of the header is open, and the page is \<open>n\<close>.\<close>

definition on_page :: "site \<Rightarrow> ui \<Rightarrow> node \<Rightarrow> bool" where
  "on_page S s n \<longleftrightarrow> signed s \<and> \<not> ui_menu s \<and> \<not> ui_versions s \<and> steady select s \<and> doc S s = account_document S s n"

lemma doc_account:
  assumes "go select (ui_user s) (ui_cards s) (ui_url s) = ShowPage n"
    and "br_elements (select (ui_url s)) \<in> set [[AppLayout_c, ProtectedLayout_c, PageC n],
           [AppLayout_c, ProtectedLayout_c, CreditCardLayout_c, PageC n]]"
  shows "doc S s = account_document S s (page_body S s n)"
  using assms render
  by (auto simp: document_def mui_documented_def mui_document_def component_node_def AppLayout_def ProtectedLayout_node_def
      CreditCardLayout_node_def account_document_def before_page_def after_page_def)

lemma found_on_page:
  assumes "on_page S s n" "found_in n x P" "find (hit x) (before_page S s) = None"
  obtains m where "find (hit x) (doc S s) = Some m" "P m"
proof -
  obtain m where m: "find (hit x) (in_place None [] n) = Some m" "P m"
    using assms(2) unfolding found_in_def by (cases "find (hit x) (in_place None [] n)") simp_all
  have "find (hit x) (doc S s) = Some m"
    using assms(1,3) m(1) by (simp add: on_page_def account_document_def find_append)
  then show thesis using that m(2) by blast
qed

lemma on_page_signed: "on_page S s n \<Longrightarrow> signed s" "on_page S s n \<Longrightarrow> steady select s"
  by (simp_all add: on_page_def)

lemma step_write:
  assumes "on_page S s n" "write_field n i name" "parse_xpath (sel_xpath sel) = Some (ById ''input'' i)"
  shows "step S (Input sel v) s = Some (s\<lparr>ui_filled := ui_filled s @ [(name, v)]\<rparr>)"
proof -
  obtain m where "find (hit (ById ''input'' i)) (doc S s) = Some m" "mk_tag m = ''input''" "\<not> mk_disabled m" "\<not> mk_readonly m"
    "mk_name m = Some name"
    using found_on_page [OF assms(1) assms(2) [unfolded write_field_def] before_page_none(1) [OF on_page_signed(1) [OF assms(1)]]]
    by blast
  then show ?thesis by (simp add: step_input [OF assms(3)])
qed

lemma step_tick:
  assumes "on_page S s n" "tick_box n i name" "parse_xpath (sel_xpath sel) = Some (ById ''input'' i)"
  shows "step S (Click sel) s = Some (s\<lparr>ui_filled := ui_filled s @ [(name, ''on'')]\<rparr>)"
proof -
  obtain m where m: "find (hit (ById ''input'' i)) (doc S s) = Some m" "\<not> mk_disabled m" "mk_on m = None"
    "mk_type m = Some ''checkbox''" "mk_href m = None" "mk_name m = Some name"
    using found_on_page [OF assms(1) assms(2) [unfolded tick_box_def] before_page_none(1) [OF on_page_signed(1) [OF assms(1)]]]
    by blast
  have "steady select (s\<lparr>ui_filled := ui_filled s @ [(name, ''on'')]\<rparr>)"
    using on_page_signed(2) [OF assms(1)] by (simp add: steady_def)
  with m show ?thesis by (simp add: step_use [OF assms(3)] activate_def settle_steady)
qed

lemma step_press:
  assumes "on_page S s n" "press n x e" "parse_xpath (sel_xpath sel) = Some x" "find (hit x) (before_page S s) = None"
  shows "step S (Click sel) s = Some (settle select (handle_event S e s))"
    "step S (Navigate sel) s = Some (settle select (handle_event S e s))"
proof -
  obtain m where m: "find (hit x) (doc S s) = Some m" "\<not> mk_disabled m" "mk_href m = None"
    "mk_on m = Some e \<or> mk_on m = None \<and> mk_type m = Some ''submit'' \<and> mk_form m = Some e"
    using found_on_page [OF assms(1) assms(2) [unfolded press_def] assms(4)] by blast
  then have "activate select S m s = Some (settle select (handle_event S e s))"
    by (elim disjE) (simp_all add: activate_def)
  with m(1) show "step S (Click sel) s = Some (settle select (handle_event S e s))"
    "step S (Navigate sel) s = Some (settle select (handle_event S e s))"
    by (simp_all add: step_use [OF assms(3)])
qed

lemma step_read_field:
  assumes "on_page S s n" "read_field n i" "parse_xpath (sel_xpath sel) = Some (ById ''input'' i)"
  shows "step S (GetProperty sel p) s = Some s"
proof -
  obtain m where "find (hit (ById ''input'' i)) (doc S s) = Some m" "mk_tag m = ''input''"
    using found_on_page [OF assms(1) assms(2) [unfolded read_field_def] before_page_none(1) [OF on_page_signed(1) [OF assms(1)]]]
    by blast
  then show ?thesis by (simp add: step_read [OF assms(3)])
qed

lemma step_read_text:
  assumes "on_page S s n" "found_in n x P" "parse_xpath (sel_xpath sel) = Some x" "find (hit x) (before_page S s) = None"
  shows "step S (GetInnerText sel) s = Some s"
proof -
  obtain m where "find (hit x) (doc S s) = Some m" using found_on_page [OF assms(1,2,4)] by blast
  then show ?thesis by (simp add: step_read [OF assms(3)])
qed

lemma step_option:
  assumes "on_page S s n" "offers n name t v" "ui_select s = Some name"
    and "parse_xpath (sel_xpath sel) = Some (InMenu (''menu-'' @ name) t)"
  obtains m where "step S (GetHandle sel) s = Some (s\<lparr>ui_handles := [m]\<rparr>)"
    "\<And>s'. steady select s' \<Longrightarrow> ui_handles s' = [m] \<Longrightarrow>
       step S (ClickHandle 0) s' = Some (s'\<lparr>ui_select := None, ui_filled := ui_filled s' @ [(name, v)]\<rparr>)"
proof -
  obtain m where m: "find (hit (InMenu (''menu-'' @ name) t)) (at_end (Some name) n) = Some m" "\<not> mk_disabled m"
    "mk_href m = None" "mk_on m = Some (ChooseOption name v)"
    using assms(2) by (auto simp: offers_def split: option.splits)
  have "step S (GetHandle sel) s = Some (s\<lparr>ui_handles := [m]\<rparr>)"
    using assms(1,3) m(1) by (simp add: step_use [OF assms(4)] on_page_def account_document_def bind_find_append before_page_none menu_none)
  moreover have "step S (ClickHandle 0) s' = Some (s'\<lparr>ui_select := None, ui_filled := ui_filled s' @ [(name, v)]\<rparr>)"
    if "steady select s'" "ui_handles s' = [m]" for s'
    using that m(2-4) by (simp add: ui_step_def activate_def handle_event_def settle_steady steady_def)
  ultimately show thesis by (rule that)
qed

lemma step_link:
  assumes "on_page S s n" "(h, url) \<in> set navigation_links" "parse_xpath (sel_xpath sel) = Some (ByHref h)"
  shows "step S (Navigate sel) s = Some (settle select (visited url s))"
  using assms(1) before_page_link [OF _ assms(2)]
  by (simp add: step_use [OF assms(3)] on_page_def account_document_def bind_find_append)

lemma home_link_present:
  assumes "on_page S s n"
  shows "look render select query S s navigation_homePage \<noteq> []"
proof -
  have "find (hit (ByHref ''home'')) (doc S s) = Some (link_element ''/home'')"
    using assms before_page_link [of s "''home''" "''/home''" S]
    by (simp add: on_page_def account_document_def find_append navigation_links_def)
  from hd_filter [OF this] show ?thesis by (simp add: look [OF selector_paths(7)])
qed

text \<open>The pages by their URLs.\<close>

definition quiet :: "ui \<Rightarrow> bool" where
  "quiet s \<longleftrightarrow> signed s \<and> \<not> ui_menu s \<and> \<not> ui_versions s \<and> \<not> ui_ended s"

lemma on_pageI:
  assumes "quiet s" "go select (ui_user s) (ui_cards s) (ui_url s) = ShowPage n"
    and "br_elements (select (ui_url s)) \<in> set [[AppLayout_c, ProtectedLayout_c, PageC n],
           [AppLayout_c, ProtectedLayout_c, CreditCardLayout_c, PageC n]]"
  shows "on_page S s (page_body S s n)"
  using assms doc_account [OF assms(2,3)] by (simp add: on_page_def quiet_def steady_def)

lemma on_pages:
  assumes "quiet s"
  shows "ui_url s = ''/deposit'' \<Longrightarrow> on_page S s (payment_page (DepositForm (si_balance S) (ui_errors s) False (ui_status s)))"
    "ui_url s = ''/withdraw'' \<Longrightarrow> on_page S s (payment_page (WithdrawForm (si_balance S) (ui_errors s) False (ui_status s)))"
    "ui_url s = ''/home'' \<Longrightarrow> on_page S s (Home_node (si_home S))"
    "ui_url s = ''/instruments'' \<Longrightarrow> on_page S s (Instruments_node (si_intl S) (si_locale_string S) (si_instruments S))"
  using assms on_pageI [OF assms, of "''Deposit''" S] on_pageI [OF assms, of "''Withdraw''" S]
    on_pageI [OF assms, of "''Home''" S] on_pageI [OF assms, of "''Instruments''" S]
  by (simp_all add: quiet_def signed_def go_account [OF router] go_home [OF router] branch_elements [OF router] page_body_def)

lemma on_instrument:
  assumes "quiet s" "ui_url s = instrument_prefix @ t" "t \<noteq> []" "CHR ''/'' \<notin> set t"
    and "find (\<lambda>x. loose_eq_str (it_id x) t) (si_instruments S) = Some i"
  shows "on_page S s (Instrument_node (si_intl S) i (ui_tab s) (ui_autofill s) False (ui_status s))"
  using assms on_pageI [OF assms(1), of "''Instrument''" S] go_instrument [OF router params assms(3,4)]
  by (simp add: quiet_def signed_def page_body_def)

text \<open>The page of the card, by its status; any URL of the card settles on it.\<close>

lemma on_card:
  assumes "quiet s" "card_page (fst (ui_cards s)) = Some w" "ui_url s = ''/credit-card/'' @ w"
    and "w = ''status'' \<Longrightarrow> (\<exists>i es. snd (ui_cards s) = Some (HistorySuccess i es))"
  shows "on_page S s (if w = ''order'' then CreditCardOrder (ui_errors s) False (ui_status s)
    else if w = ''active'' then CreditCardActive False (ui_status s) else CreditCardStatus_page (si_timeline S))"
proof -
  consider "w = ''order''" | "w = ''status''" | "w = ''active''" using card_page_values [OF assms(2)] by blast
  then show ?thesis
    using assms go_card [OF router assms(2), of "ui_user s"] on_pageI [OF assms(1), of "''CreditCardOrder''" S]
      on_pageI [OF assms(1), of "''CreditCardStatus''" S] on_pageI [OF assms(1), of "''CreditCardActive''" S]
    by cases (auto simp: quiet_def signed_def branch_elements [OF router] page_body_def CreditCardStatus_def)
qed

lemma settle_card:
  assumes "quiet s" "card_page (fst (ui_cards s)) = Some w" "ui_url s = ''/credit-card''"
  shows "settle select s = s\<lparr>ui_url := ''/credit-card/'' @ w\<rparr>"
proof -
  have "\<not> str_includes ''/credit-card'' w" using card_page_values [OF assms(2)] by (elim insertE emptyE; simp add: text_search)
  then show ?thesis
    using assms by (simp add: settle_def quiet_def signed_def go_account [OF router] CreditCardLayout_cases)
qed

lemma settle_account:
  assumes "signed s" "ui_url s \<in> set [''/deposit'', ''/withdraw'', ''/home'', ''/instruments'']"
  shows "settle select s = s"
  using assms by (auto simp: settle_def signed_def go_account [OF router] go_home [OF router])

end

section \<open>Programs on the site\<close>

text \<open>A calculator that returns, without a call of the page.\<close>

definition computes :: "'a page \<Rightarrow> bool" where
  "computes m \<longleftrightarrow> (\<forall>b s. \<exists>x. fst (m b s) = Inr x \<and> se_log (snd (m b s)) = se_log s)"

definition draws_documented :: "(nat \<Rightarrow> jsnum) \<Rightarrow> bool" where
  "draws_documented draws \<longleftrightarrow> (\<forall>k. \<exists>r. draws k = Fin r \<and> is_double r \<and> 0 \<le> r \<and> r < 1)"

locale site_run = site_libraries +
  fixes S :: site
    and draws :: "nat \<Rightarrow> jsnum"
    and drawsBetween :: "nat \<Rightarrow> jsnum \<Rightarrow> jsnum \<Rightarrow> jsnum"
  assumes stocked: "site_stocked S"
    and draws: "draws_documented draws"
begin

abbreviation browser_from :: "ui \<Rightarrow> browser" where
  "browser_from \<equiv> site_browser render select query S draws drawsBetween"

definition wp :: "'a page \<Rightarrow> ('a \<Rightarrow> ui \<Rightarrow> bool) \<Rightarrow> ui \<Rightarrow> bool" where
  "wp m Q s \<longleftrightarrow> (\<forall>s0 (ses :: session). walk (step S) (se_log ses) s0 = Some s \<longrightarrow>
     (\<exists>x ses' s'. m (browser_from s0) ses = (Inr x, ses') \<and> walk (step S) (se_log ses') s0 = Some s' \<and> Q x s'))"

lemma wp_return: "Q x s \<Longrightarrow> wp (preturn x) Q s"
  by (simp add: wp_def preturn_def)

lemma wp_bind: "wp m (\<lambda>x. wp (f x) Q) s \<Longrightarrow> wp (pbind m f) Q s"
  unfolding wp_def pbind_def by (fastforce split: prod.splits sum.splits)

lemma wp_seq: "wp m (\<lambda>_. wp k Q) s \<Longrightarrow> wp (pseq m k) Q s"
  unfolding pseq_def by (rule wp_bind)

lemma wp_mono: "wp m Q s \<Longrightarrow> (\<And>x s'. Q x s' \<Longrightarrow> R x s') \<Longrightarrow> wp m R s"
  unfolding wp_def by blast

lemma wp_call:
  assumes "step S a s = Some s'" "Q (v s) s'" "\<And>s0 l. f (browser_from s0) l = answer (step S) s0 l a v"
  shows "wp (pcall a f) Q s"
  using assms by (auto simp: wp_def pcall_def answer_def walk_append)

lemma wp_do: "step S a s = Some s' \<Longrightarrow> Q () s' \<Longrightarrow> wp (pdo a) Q s"
  unfolding pdo_def by (rule wp_call [where v = "\<lambda>_. ()"]) (simp_all add: site_browser_def Let_def)

lemma wp_present: "Q (look render select query S s sel \<noteq> []) s \<Longrightarrow> wp (isSelectorPresent sel) Q s"
  unfolding isSelectorPresent_def
  by (rule wp_call [where v = "\<lambda>s. look render select query S s sel \<noteq> []"]) (simp_all add: site_browser_def Let_def)

lemma wp_handle: "step S (GetHandle sel) s = Some s' \<Longrightarrow> Q 0 s' \<Longrightarrow> wp (getHandle sel) Q s"
  unfolding getHandle_def by (rule wp_call [where v = "\<lambda>_. 0"]) (simp_all add: site_browser_def Let_def)

lemma wp_handles:
  "Q [0..<length (look render select query S s sel)] (s\<lparr>ui_handles := look render select query S s sel\<rparr>) \<Longrightarrow> wp (getAllHandles sel) Q s"
  unfolding getAllHandles_def
  by (rule wp_call [where v = "\<lambda>s. [0..<length (look render select query S s sel)]"]) (simp_all add: site_browser_def ui_step_def Let_def)

lemma wp_text: "step S (GetInnerText sel) s = Some s \<Longrightarrow> (\<And>t. Q t s) \<Longrightarrow> wp (getInnerText sel) Q s"
  unfolding getInnerText_def
  by (rule wp_call [where v = "\<lambda>s. concat (mk_texts (hd (look render select query S s sel)))"]) (simp_all add: site_browser_def Let_def)

lemma wp_property: "step S (GetProperty sel p) s = Some s \<Longrightarrow> (\<And>t. Q t s) \<Longrightarrow> wp (getProperty sel p) Q s"
  unfolding getProperty_def
  by (rule wp_call [where v = "\<lambda>s. si_values S (hd (look render select query S s sel))"]) (simp_all add: site_browser_def Let_def)

lemma wp_between: "(\<And>r. Q r s) \<Longrightarrow> wp (randomBetween lo hi) Q s"
  by (auto simp: wp_def randomBetween_def draw_def)

lemma wp_computes: "computes m \<Longrightarrow> (\<And>x. Q x s) \<Longrightarrow> wp m Q s"
  unfolding wp_def computes_def by (metis prod.collapse)

lemma wp_arrayRandom:
  assumes "xs \<noteq> []" "length xs \<le> 2 ^ 53" "\<And>x. x \<in> set xs \<Longrightarrow> Q (Some x) s"
  shows "wp (arrayRandom xs) Q s"
  unfolding wp_def
proof (intro allI impI)
  fix s0 and ses :: session
  assume w: "walk (step S) (se_log ses) s0 = Some s"
  let ?b = "browser_from s0"
  have "\<exists>r. br_random ?b k = Fin r \<and> is_double r \<and> 0 \<le> r \<and> r < 1" for k
    using draws by (simp add: draws_documented_def site_browser_def Let_def)
  moreover obtain r ses' where run: "ok_run (arrayRandom xs) ?b ses r ses'"
    using assms(1) by (simp add: arrayRandom_def ok_bind ok_math_random)
  ultimately have "r \<noteq> None" using arrayRandom_some [OF _ assms(1,2)] by blast
  with arrayRandom_elem [OF run] obtain x where x: "r = Some x" "x \<in> set xs" "se_log ses' = se_log ses" by auto
  then show "\<exists>x ses' s'. arrayRandom xs ?b ses = (Inr x, ses') \<and> walk (step S) (se_log ses') s0 = Some s' \<and> Q x s'"
    using run w assms(3) by (auto simp: ok_run_def)
qed

lemma wp_steps_nil: "Q () s \<Longrightarrow> wp (steps []) Q s"
  by (simp add: wp_return)

lemma wp_steps_cons: "wp m (\<lambda>_. wp (steps ms) Q) s \<Longrightarrow> wp (steps (m # ms)) Q s"
  by (simp add: wp_seq)

lemmas wp_rules = wp_return wp_bind wp_seq wp_steps_nil wp_steps_cons

lemma wp_delay: "Q () s \<Longrightarrow> wp shortDelay Q s" "Q () s \<Longrightarrow> wp standardDelay Q s"
  "Q () (s\<lparr>ui_ended := True\<rparr>) \<Longrightarrow> wp endDtSession Q s"
  by (simp_all add: shortDelay_def standardDelay_def endDtSession_def wp_do [OF step_other(1)] wp_do [OF step_other(2)]
      wp_do [OF step_other(3)])

section \<open>Programs that stop\<close>

text \<open>\<open>stops m K s\<close>: the program \<open>m\<close> started in \<open>s\<close> fails at a call that the state it has then led to, which
  satisfies \<open>K\<close>, does not allow; that call is the last of the log.\<close>

definition stops :: "'a page \<Rightarrow> (ui \<Rightarrow> bool) \<Rightarrow> ui \<Rightarrow> bool" where
  "stops m K s \<longleftrightarrow> (\<forall>s0 (ses :: session). walk (step S) (se_log ses) s0 = Some s \<longrightarrow>
     (\<exists>ses' l a s'. m (browser_from s0) ses = (Inl not_found, ses') \<and> se_log ses' = l @ [a] \<and>
        walk (step S) l s0 = Some s' \<and> step S a s' = None \<and> K s'))"

lemma stops_call:
  assumes "step S a s = None" "K s" "\<And>s0 l. f (browser_from s0) l = answer (step S) s0 l a v"
  shows "stops (pcall a f) K s"
  using assms by (auto simp: stops_def pcall_def answer_def)

lemma stops_do: "step S a s = None \<Longrightarrow> K s \<Longrightarrow> stops (pdo a) K s"
  unfolding pdo_def by (rule stops_call [where v = "\<lambda>_. ()"]) (simp_all add: site_browser_def Let_def)

lemma stops_mono: "stops m K s \<Longrightarrow> (\<And>s'. K s' \<Longrightarrow> K' s') \<Longrightarrow> stops m K' s"
  unfolding stops_def by blast

lemma stops_first: "stops m K s \<Longrightarrow> stops (pbind m f) K s"
  unfolding stops_def pbind_def by (fastforce split: prod.splits sum.splits)

lemma stops_later: "wp m (\<lambda>x. stops (f x) K) s \<Longrightarrow> stops (pbind m f) K s"
  unfolding stops_def wp_def pbind_def by (fastforce split: prod.splits sum.splits)

lemma stops_seq: "stops m K s \<Longrightarrow> stops (pseq m k) K s" "wp m (\<lambda>_. stops k K) s \<Longrightarrow> stops (pseq m k) K s"
  unfolding pseq_def by (rule stops_first stops_later, assumption)+

lemma stops_steps: "stops m K s \<Longrightarrow> stops (steps (m # ms)) K s" "wp m (\<lambda>_. stops (steps ms) K) s \<Longrightarrow> stops (steps (m # ms)) K s"
  by (simp_all add: stops_seq)

end

end
