(* ===== verification/Site_Runs.thy ===== *)
theory Site_Runs
  imports Site_Visits
begin

text \<open>
  The helpers of the load generator on the pages of the frontend: from the page a helper is written for it
  runs to its end, and this is the page, the forms sent and the card it leaves.
\<close>

section \<open>What the forms are sent with\<close>

fun provider_id :: "card_provider \<Rightarrow> string" where
  "provider_id visaDebit = ''visaDebit''"
| "provider_id visaCredit = ''visaCredit''"
| "provider_id mastercard = ''mastercard''"
| "provider_id americanExpress = ''americanExpress''"

definition login_sent :: "User \<Rightarrow> sent" where
  "login_sent user = (''/login'', ''login'', [(''login'', username user), (''password'', password user)])"

definition payment_data :: "User \<Rightarrow> jsnum \<Rightarrow> (string \<times> string) list" where
  "payment_data user v =
     [(''amount'', num_to_string v), (''cardholderName'', full_name user), (''address'', address user), (''email'', email user),
      (''cardNumber'', credit_card_number user), (''cardType'', provider_id (credit_card_provider user))]"

definition deposit_sent :: "User \<Rightarrow> jsnum \<Rightarrow> sent" where
  "deposit_sent user v = (''/deposit'', ''deposit'', payment_data user v @ [(''cvv'', credit_card_cvv user), (''agreementCheck'', ''on'')])"

definition withdraw_sent :: "User \<Rightarrow> jsnum \<Rightarrow> sent" where
  "withdraw_sent user v = (''/withdraw'', ''withdraw'', payment_data user v @ [(''agreementCheck'', ''on'')])"

definition card_type_id :: "string \<Rightarrow> string" where
  "card_type_id t = (if t = ''Silver'' then ''silver'' else if t = ''Gold'' then ''gold'' else ''platinum'')"

definition order_sent :: "User \<Rightarrow> string \<Rightarrow> sent" where
  "order_sent user cardType =
     (''/credit-card/order'', ''order'', [(''name'', full_name user), (''address'', address user), (''email'', email user),
        (''type'', card_type_id cardType), (''agreementCheck'', ''on'')])"

definition quick_sent :: "string \<Rightarrow> form_id \<Rightarrow> jsnum \<Rightarrow> sent" where
  "quick_sent url t amount = (url, tab_value t, [(''amount'', num_to_string amount)])"

definition long_sent :: "string \<Rightarrow> form_id \<Rightarrow> jsnum \<Rightarrow> jsnum \<Rightarrow> jsnum \<Rightarrow> sent" where
  "long_sent url t price duration amount =
     (url, tab_value t, [(''amount'', num_to_string amount), (''price'', num_to_string price), (''time'', num_to_string duration)])"

section \<open>Forms\<close>

definition payment_steps :: "User \<Rightarrow> jsnum \<Rightarrow> unit page list" where
  "payment_steps user v =
     [input depositPage_amount (num_to_string v), standardDelay,
      input depositPage_cardholderName (full_name user), standardDelay, input depositPage_address (address user), standardDelay,
      input depositPage_email (email user), standardDelay, input depositPage_cardNumber (credit_card_number user), standardDelay,
      selectCardProvider depositPage_cardType (CREDIT_CARD_MAPPING (credit_card_provider user))]"

lemma pseq_assoc: "pseq (pseq a b) k = pseq a (pseq b k)" "pseq (preturn ()) k = k"
  by (auto simp: pseq_def pbind_def preturn_def fun_eq_iff split: prod.splits sum.splits)

lemma payment_programs:
  "deposit user v = steps (payment_steps user v @ [shortDelay, input depositPage_cardCvv (credit_card_cvv user), standardDelay,
     click depositPage_acceptTerms, shortDelay, click depositPage_submit])"
  "withdraw user v = steps (payment_steps user v @ [standardDelay, click depositPage_acceptTerms, shortDelay, click depositPage_submit])"
  by (simp_all add: payment_steps_def deposit_def withdraw_def fillUserDepositData_def fillUserWithdrawData_def pseq_assoc)

text \<open>Of the forms a visit submits, those that are valid reach the services.\<close>

definition goes_out :: "site \<Rightarrow> sent \<Rightarrow> bool" where
  "goes_out S x \<longleftrightarrow> si_outcome S x \<noteq> Invalid"

definition is_accepted :: "outcome \<Rightarrow> bool" where
  "is_accepted out \<longleftrightarrow> (case out of Accepted st \<Rightarrow> True | _ \<Rightarrow> False)"

text \<open>What a submission leaves as it is, whatever its outcome, and what it adds to the forms sent.\<close>

definition submitted :: "ui \<Rightarrow> ui \<Rightarrow> bool" where
  "submitted s s' \<longleftrightarrow> (\<exists>k fs st e. s' = s\<lparr>ui_sent := k, ui_filled := fs, ui_status := st, ui_errors := e\<rparr>)"

lemma submission_outcome:
  "submitted s (submit_here S f (\<lambda>s. s) s)"
  "ui_sent (submit_here S f (\<lambda>s. s) s) = ui_sent s @ filter (goes_out S) [(ui_url s, f, ui_filled s)]"
proof -
  show "ui_sent (submit_here S f (\<lambda>s. s) s) = ui_sent s @ filter (goes_out S) [(ui_url s, f, ui_filled s)]"
    by (cases "si_outcome S (ui_url s, f, ui_filled s)") (simp_all add: submit_here_def goes_out_def)
  have "submit_here S f (\<lambda>s. s) s = s\<lparr>ui_sent := ui_sent (submit_here S f (\<lambda>s. s) s), ui_filled := ui_filled (submit_here S f (\<lambda>s. s) s),
      ui_status := ui_status (submit_here S f (\<lambda>s. s) s), ui_errors := ui_errors (submit_here S f (\<lambda>s. s) s)\<rparr>"
    by (cases "si_outcome S (ui_url s, f, ui_filled s)") (simp_all add: submit_here_def)
  then show "submitted s (submit_here S f (\<lambda>s. s) s)" unfolding submitted_def by blast
qed

lemma submission_refused:
  "\<not> is_accepted (si_outcome S (ui_url s, f, ui_filled s)) \<Longrightarrow> submit_here S f g s = submit_here S f (\<lambda>s. s) s"
  by (simp add: submit_here_def is_accepted_def split: outcome.splits)

lemma submission_accepted:
  assumes "is_accepted (si_outcome S (ui_url s, f, ui_filled s))"
  obtains st where "submit_here S f g s = g (s\<lparr>ui_sent := ui_sent s @ [(ui_url s, f, ui_filled s)], ui_filled := [], ui_status := st, ui_errors := False\<rparr>)"
  using assms by (auto simp: submit_here_def is_accepted_def split: outcome.splits)

lemma handle_submit:
  "f \<noteq> ''order'' \<Longrightarrow> handle_event S (SubmitForm f) s = submit_here S f (\<lambda>s. s) s"
  "handle_event S (SubmitForm ''order'') s = submit_here S ''order'' (\<lambda>s. unmounted (s\<lparr>ui_cards := si_ordered S\<rparr>)) s"
  "handle_event S (SelectTab t) s = unmounted (s\<lparr>ui_tab := t\<rparr>)"
  "handle_event S RevokeCard s = (case si_revocation S of
      Some st \<Rightarrow> s\<lparr>ui_status := st\<rparr>
    | None \<Rightarrow> unmounted (s\<lparr>ui_cards := (Some StatusNotFound, snd (ui_cards s))\<rparr>))"
  "handle_event S SubmitLogin s = submit_here S ''login'' (\<lambda>s. unmounted (s\<lparr>ui_user := si_user_id S\<rparr>)) s"
  by (simp_all add: handle_event_def cong: if_cong)

text \<open>What the two payment forms have in common, for the helpers.\<close>

definition payment_inputs :: "node \<Rightarrow> bool" where
  "payment_inputs n \<longleftrightarrow>
     write_field n ''amount'' ''amount'' \<and> write_field n ''cardholderName'' ''cardholderName'' \<and> write_field n ''address'' ''address'' \<and>
     write_field n ''email'' ''email'' \<and> write_field n ''cardNumber'' ''cardNumber'' \<and> tick_box n ''agreement'' ''agreementCheck'' \<and>
     press n (ById ''div'' ''cardType'') (OpenSelect ''cardType'') \<and>
     (\<forall>p. offers n ''cardType'' (CREDIT_CARD_MAPPING p) (provider_id p))"

lemma payment_inputs:
  "payment_inputs (payment_page (DepositForm b e False st))" "payment_inputs (payment_page (WithdrawForm b e False st))"
  unfolding payment_inputs_def by (intro conjI allI deposit_page withdraw_page; case_tac p; simp add: deposit_page withdraw_page)+

section \<open>The cards of the instruments\<close>

definition card_element :: "Instrument \<Rightarrow> mark" where
  "card_element i = element ''a'' [attr ''to'' (''/instruments/'' @ to_str (it_id i))] None
     (''instrument-card'' @ (if jlt (jint 0) (it_amount i) then '' owned-instrument'' else [])) None []"

lemma instruments_url: "str_includes (''/instruments/'' @ t) ''instruments''"
  unfolding str_includes_iff by (intro exI [of _ "''/''"] exI [of _ "''/'' @ t"]) simp

lemma card_marks:
  "in_place None c (InstrumentCard_node (InstrumentCard F l i)) =
     card_element i # in_place None [] (PriceDisplay_node (PriceDisplay F (it_price i))) @
     [element ''h5'' [attr ''variant'' ''h5''] None [] None [l (it_amount i)]]"
  by (simp add: InstrumentCard_node_def InstrumentCard_def card_element_def text_tag_def PriceDisplay_node_def)

lemma card_hits:
  "filter (hit (InCard ''instrument-card'' ''instruments'')) (in_place None c (InstrumentCard_node (InstrumentCard F l i))) = [card_element i]"
  "filter (hit (InCard ''owned-instrument'' ''instruments'')) (in_place None c (InstrumentCard_node (InstrumentCard F l i))) =
     (if jlt (jint 0) (it_amount i) then [card_element i] else [])"
  unfolding card_marks
  by (simp_all add: card_element_def PriceDisplay_node_def text_tag_def instruments_url [simplified] text_search)

lemma grid_hits:
  "filter (hit (InCard ''instrument-card'' ''instruments'')) (in_place None [] (Instruments_node F l is)) = map card_element is"
  "filter (hit (InCard ''owned-instrument'' ''instruments'')) (in_place None [] (Instruments_node F l is)) =
     map card_element (filter (\<lambda>i. jlt (jint 0) (it_amount i)) is)"
  by (induction "is") (simp_all add: Instruments_node_def InstrumentsGrid_def card_hits)

lemma grid_end: "at_end sel (Instruments_node F l is) = []"
  by (induction "is") (simp_all add: Instruments_node_def InstrumentsGrid_def InstrumentCard_node_def PriceDisplay_node_def)

lemma activate_card:
  "activate select S (card_element i) s = Some (settle select (visited (''/instruments/'' @ to_str (it_id i)) s))"
  by (simp add: activate_def card_element_def visited_def)

text \<open>The URLs of the pages of some instruments, and the instruments that are owned.\<close>

definition instrument_urls :: "Instrument list \<Rightarrow> string set" where
  "instrument_urls is = (\<lambda>i. ''/instruments/'' @ to_str (it_id i)) ` set is"

definition owned_of :: "Instrument list \<Rightarrow> Instrument list" where
  "owned_of = filter (\<lambda>i. jlt (jint 0) (it_amount i))"

context site_run
begin

text \<open>The page is \<open>n\<close>, whatever is put into its fields.\<close>

definition form_at :: "node \<Rightarrow> ui \<Rightarrow> bool" where
  "form_at n s \<longleftrightarrow> (\<forall>f h x. on_page S (s\<lparr>ui_filled := f, ui_handles := h, ui_select := x\<rparr>) n)"

lemma form_at_updates [simp]:
  "form_at n (s\<lparr>ui_filled := f\<rparr>) = form_at n s" "form_at n (s\<lparr>ui_handles := h\<rparr>) = form_at n s"
  "form_at n (s\<lparr>ui_select := x\<rparr>) = form_at n s"
  by (simp_all add: form_at_def)

lemma form_fill: "form_at n s \<Longrightarrow> form_at n (s\<lparr>ui_filled := f\<rparr>)"
  by simp

lemma form_at_page: "form_at n s \<Longrightarrow> on_page S s n"
  unfolding form_at_def by (drule spec [of _ "ui_filled s"], drule spec [of _ "ui_handles s"], drule spec [of _ "ui_select s"]) simp

lemma wp_act: "(case step S a s of None \<Rightarrow> False | Some s' \<Rightarrow> Q () s') \<Longrightarrow> wp (pdo a) Q s"
  by (cases "step S a s") (simp_all add: wp_do)

lemma wp_write:
  assumes "form_at n s" "write_field n i name" "parse_xpath (sel_xpath sel) = Some (ById ''input'' i)"
    and "Q () (s\<lparr>ui_filled := ui_filled s @ [(name, v)]\<rparr>)"
  shows "wp (input sel v) Q s"
  unfolding input_def using step_write [OF form_at_page [OF assms(1)] assms(2,3)] assms(4) by (intro wp_do) simp_all

lemma wp_tick:
  assumes "form_at n s" "tick_box n i name" "parse_xpath (sel_xpath sel) = Some (ById ''input'' i)"
    and "Q () (s\<lparr>ui_filled := ui_filled s @ [(name, ''on'')]\<rparr>)"
  shows "wp (click sel) Q s"
  unfolding click_def using step_tick [OF form_at_page [OF assms(1)] assms(2,3)] assms(4) by (intro wp_do) simp_all

lemma wp_press:
  assumes "form_at n s" "press n x e" "parse_xpath (sel_xpath sel) = Some x" "find (hit x) (before_page S s) = None"
    and "Q () (settle select (handle_event S e s))"
  shows "wp (click sel) Q s" "wp (navigate sel) Q s"
  unfolding click_def navigate_def using step_press [OF form_at_page [OF assms(1)] assms(2-4)] assms(5)
  by (auto intro: wp_do)

lemma form_signed: "form_at n s \<Longrightarrow> signed s"
  using form_at_page on_page_signed(1) by blast

lemma form_steady: "form_at n s \<Longrightarrow> settle select s = s"
  using form_at_page on_page_signed(2) settle_steady by blast

lemma wp_open_select:
  assumes "form_at n s" "press n (ById ''div'' i) (OpenSelect f)" "parse_xpath (sel_xpath sel) = Some (ById ''div'' i)"
    and "Q () (s\<lparr>ui_select := Some f\<rparr>)"
  shows "wp (click sel) Q s"
proof (rule wp_press(1) [OF assms(1,2,3)])
  show "find (hit (ById ''div'' i)) (before_page S s) = None"
    by (rule before_page_none(2) [OF form_signed [OF assms(1)]])
  have "settle select (s\<lparr>ui_select := Some f\<rparr>) = s\<lparr>ui_select := Some f\<rparr>"
    using assms(1) by (intro form_steady) simp
  then show "Q () (settle select (handle_event S (OpenSelect f) s))"
    using assms(4) by (simp only: handle_event_def ui_event.case)
qed

text \<open>Choosing an option of the select that is open, with a delay before the click and the programs \<open>ms\<close> after it.\<close>

lemma wp_choose:
  assumes "form_at n s" "offers n name t v" "ui_select s = Some name"
    and "parse_xpath (sel_xpath sel) = Some (InMenu (''menu-'' @ name) t)"
    and "\<And>m. wp (steps ms) Q (s\<lparr>ui_handles := [m], ui_select := None, ui_filled := ui_filled s @ [(name, v)]\<rparr>)"
  shows "wp (pbind (getHandle sel) (\<lambda>h. steps (shortDelay # clickHandle h # ms))) Q s"
proof -
  obtain m where m: "step S (GetHandle sel) s = Some (s\<lparr>ui_handles := [m]\<rparr>)"
    "\<And>s'. steady select s' \<Longrightarrow> ui_handles s' = [m] \<Longrightarrow>
       step S (ClickHandle 0) s' = Some (s'\<lparr>ui_select := None, ui_filled := ui_filled s' @ [(name, v)]\<rparr>)"
    using step_option [OF form_at_page [OF assms(1)] assms(2-4)] by blast
  have "steady select (s\<lparr>ui_handles := [m]\<rparr>)"
    using on_page_signed(2) [OF form_at_page [of n "s\<lparr>ui_handles := [m]\<rparr>"]] assms(1) by simp
  then have "wp (clickHandle 0) (\<lambda>_. wp (steps ms) Q) (s\<lparr>ui_handles := [m]\<rparr>)"
    unfolding clickHandle_def using m(2) [of "s\<lparr>ui_handles := [m]\<rparr>"] assms(5) [of m] by (intro wp_do) simp_all
  then show ?thesis
    by (intro wp_bind wp_handle [OF m(1)]) (simp add: wp_seq wp_delay)
qed

lemma wp_provider:
  assumes "form_at n s" "payment_inputs n"
    and "\<And>m. Q () (s\<lparr>ui_handles := [m], ui_select := None, ui_filled := ui_filled s @ [(''cardType'', provider_id p)]\<rparr>)"
  shows "wp (selectCardProvider depositPage_cardType (CREDIT_CARD_MAPPING p)) Q s"
proof -
  have offer: "offers n ''cardType'' (CREDIT_CARD_MAPPING p) (provider_id p)"
    and open_it: "press n (ById ''div'' ''cardType'') (OpenSelect ''cardType'')"
    using assms(2) by (simp_all add: payment_inputs_def)
  have path: "parse_xpath (sel_xpath (depositPage_cardType_provider (CREDIT_CARD_MAPPING p))) =
      Some (InMenu (''menu-'' @ ''cardType'') (CREDIT_CARD_MAPPING p))"
    by (cases p) (simp_all add: option_paths)
  show ?thesis
    unfolding selectCardProvider_def
    by (intro wp_seq wp_open_select [OF assms(1) open_it selector_paths(15)] wp_choose [OF _ offer _ path])
      (simp_all add: assms wp_return)
qed

lemma wp_payment_data:
  assumes "form_at n s" "payment_inputs n" "ui_filled s = []"
    and "\<And>m. wp (steps ms) Q (s\<lparr>ui_handles := [m], ui_select := None, ui_filled := payment_data user v\<rparr>)"
  shows "wp (steps (payment_steps user v @ ms)) Q s"
proof -
  have f: "write_field n ''amount'' ''amount''" "write_field n ''cardholderName'' ''cardholderName''"
    "write_field n ''address'' ''address''" "write_field n ''email'' ''email''" "write_field n ''cardNumber'' ''cardNumber''"
    using assms(2) by (simp_all add: payment_inputs_def)
  show ?thesis
    unfolding payment_steps_def append.simps
    by (intro wp_steps_cons wp_delay wp_write [OF _ f(1) selector_paths(20)] wp_write [OF _ f(2) selector_paths(14)]
        wp_write [OF _ f(3) selector_paths(16)] wp_write [OF _ f(4) selector_paths(17)]
        wp_write [OF _ f(5) selector_paths(18)] wp_provider [OF _ assms(2)])
      (simp_all add: assms(1,3) assms(4) [unfolded payment_data_def])
qed

section \<open>The helpers\<close>

text \<open>Nothing of the header is open, and the URL, the card, the forms submitted and the tab are these; \<open>fresh\<close> when nothing
  is in the fields.\<close>

definition here :: "string \<Rightarrow> card_data \<Rightarrow> sent list \<Rightarrow> form_id \<Rightarrow> ui \<Rightarrow> bool" where
  "here u c k t s \<longleftrightarrow> quiet s \<and> ui_url s = u \<and> ui_cards s = c \<and> ui_sent s = filter (goes_out S) k \<and> ui_tab s = t \<and>
     ui_select s = None"

definition fresh :: "string \<Rightarrow> card_data \<Rightarrow> sent list \<Rightarrow> form_id \<Rightarrow> ui \<Rightarrow> bool" where
  "fresh u c k t s \<longleftrightarrow> here u c k t s \<and> ui_filled s = []"

lemma freshD: "fresh u c k t s \<Longrightarrow> here u c k t s" "fresh u c k t s \<Longrightarrow> ui_filled s = []"
  by (simp_all add: fresh_def)

lemma quiet_updates [simp]:
  "quiet (s\<lparr>ui_filled := f\<rparr>) = quiet s" "quiet (s\<lparr>ui_handles := h\<rparr>) = quiet s" "quiet (s\<lparr>ui_select := x\<rparr>) = quiet s"
  "quiet (s\<lparr>ui_sent := k\<rparr>) = quiet s" "quiet (s\<lparr>ui_cards := c\<rparr>) = quiet s" "quiet (s\<lparr>ui_url := u\<rparr>) = quiet s"
  "quiet (s\<lparr>ui_tab := t\<rparr>) = quiet s" "quiet (s\<lparr>ui_autofill := b\<rparr>) = quiet s"
  "quiet (s\<lparr>ui_status := st\<rparr>) = quiet s" "quiet (s\<lparr>ui_errors := e\<rparr>) = quiet s"
  by (simp_all add: quiet_def signed_def)

lemma form_payment:
  "quiet s \<Longrightarrow> ui_url s = ''/deposit'' \<Longrightarrow> form_at (payment_page (DepositForm (si_balance S) (ui_errors s) False (ui_status s))) s"
  "quiet s \<Longrightarrow> ui_url s = ''/withdraw'' \<Longrightarrow> form_at (payment_page (WithdrawForm (si_balance S) (ui_errors s) False (ui_status s))) s"
  unfolding form_at_def
  using on_pages(1) [of "s\<lparr>ui_filled := f, ui_handles := h, ui_select := x\<rparr>" S for f h x]
    on_pages(2) [of "s\<lparr>ui_filled := f, ui_handles := h, ui_select := x\<rparr>" S for f h x]
  by simp_all

lemma here_updates [simp]:
  "here u c k t (s\<lparr>ui_filled := f\<rparr>) = here u c k t s" "here u c k t (s\<lparr>ui_handles := h\<rparr>) = here u c k t s"
  "here u c k t (s\<lparr>ui_status := st\<rparr>) = here u c k t s" "here u c k t (s\<lparr>ui_errors := e\<rparr>) = here u c k t s"
  "here u c k t s \<Longrightarrow> here u c k t (s\<lparr>ui_select := None\<rparr>)"
  by (simp_all add: here_def)

lemma here_submitted:
  assumes "here u c k t s"
  shows "here u c (k @ [(u, f, ui_filled s)]) t (submit_here S f (\<lambda>s. s) s)"
proof -
  obtain k' fs st e where s': "submit_here S f (\<lambda>s. s) s = s\<lparr>ui_sent := k', ui_filled := fs, ui_status := st, ui_errors := e\<rparr>"
    using submission_outcome(1) [of s S f] by (auto simp: submitted_def)
  have "k' = ui_sent s @ filter (goes_out S) [(ui_url s, f, ui_filled s)]" using submission_outcome(2) [of S f s] s' by simp
  then show ?thesis unfolding s' using assms by (simp add: here_def)
qed

lemma settle_same:
  assumes "form_at n s" "ui_user s' = ui_user s" "ui_cards s' = ui_cards s" "ui_url s' = ui_url s"
  shows "settle select s' = s'"
  using on_page_signed(2) [OF form_at_page [OF assms(1)]] assms(2-4) by (intro settle_steady) (simp add: steady_def)

lemma settle_submission:
  assumes "form_at n s"
  shows "settle select (submit_here S f (\<lambda>s. s) s) = submit_here S f (\<lambda>s. s) s"
  using submission_outcome(1) [of s S f] by (intro settle_same [OF assms]) (auto simp: submitted_def)

lemma wp_submit:
  assumes "form_at n s" "press n x (SubmitForm f)" "parse_xpath (sel_xpath sel) = Some x" "find (hit x) (before_page S s) = None"
    and "here u c k t s" "f \<noteq> ''order''" "ui_filled s = vs"
  shows "wp (click sel) (\<lambda>_. wp (steps []) (\<lambda>_. here u c (k @ [(u, f, vs)]) t)) s"
  using here_submitted [OF assms(5)] assms(7)
  by (intro wp_press(1) [OF assms(1-4)]) (simp add: handle_submit(1) [OF assms(6)] settle_submission [OF assms(1)] wp_return)

lemma form_submit:
  assumes "form_at n s" "press n (InForm ''button'' ''submit'') (SubmitForm f)" "f \<noteq> ''order''" "here u c k t s"
  shows "wp (click depositPage_submit) (\<lambda>_. wp (steps []) (\<lambda>_. here u c (k @ [(u, f, vs)]) t))
    (s\<lparr>ui_handles := h, ui_select := None, ui_filled := vs\<rparr>)" (is "wp _ _ ?s")
proof -
  have form: "form_at n ?s" using assms(1) by simp
  show ?thesis
    by (rule wp_submit [OF form assms(2) selector_paths(13) before_page_none(5) [OF form_signed [OF form]] _ assms(3)])
      (simp_all add: assms(4))
qed

lemma wp_deposit:
  assumes "fresh ''/deposit'' c k t s"
  shows "wp (deposit user v) (\<lambda>_. here ''/deposit'' c (k @ [deposit_sent user v]) t) s"
proof -
  let ?n = "payment_page (DepositForm (si_balance S) (ui_errors s) False (ui_status s))"
  have form: "form_at ?n s" using assms form_payment(1) by (simp add: fresh_def here_def)
  have send: "wp (click depositPage_submit) (\<lambda>_. wp (steps []) (\<lambda>_. here ''/deposit'' c (k @ [(''/deposit'', ''deposit'', vs)]) t))
      (s\<lparr>ui_handles := [m], ui_select := None, ui_filled := vs\<rparr>)" for m vs
    by (rule form_submit [OF form deposit_page(9) _ freshD(1) [OF assms]]) simp
  show ?thesis
    unfolding payment_programs
    by (intro wp_payment_data [OF form payment_inputs(1) freshD(2) [OF assms]] wp_steps_cons wp_delay
        wp_write [OF _ deposit_page(6) selector_paths(19)] wp_tick [OF _ deposit_page(7) selector_paths(21)])
      (use form send in \<open>simp_all add: deposit_sent_def del: steps.simps\<close>)
qed

lemma wp_withdraw:
  assumes "fresh ''/withdraw'' c k t s"
  shows "wp (withdraw user v) (\<lambda>_. here ''/withdraw'' c (k @ [withdraw_sent user v]) t) s"
proof -
  let ?n = "payment_page (WithdrawForm (si_balance S) (ui_errors s) False (ui_status s))"
  have form: "form_at ?n s" using assms form_payment(2) by (simp add: fresh_def here_def)
  have send: "wp (click depositPage_submit) (\<lambda>_. wp (steps []) (\<lambda>_. here ''/withdraw'' c (k @ [(''/withdraw'', ''withdraw'', vs)]) t))
      (s\<lparr>ui_handles := [m], ui_select := None, ui_filled := vs\<rparr>)" for m vs
    by (rule form_submit [OF form withdraw_page(8) _ freshD(1) [OF assms]]) simp
  show ?thesis
    unfolding payment_programs
    by (intro wp_payment_data [OF form payment_inputs(2) freshD(2) [OF assms]] wp_steps_cons wp_delay
        wp_tick [OF _ withdraw_page(6) selector_paths(21)])
      (use form send in \<open>simp_all add: withdraw_sent_def del: steps.simps\<close>)
qed

section \<open>From page to page\<close>

lemma wp_goto:
  assumes "form_at n s" "(h, url) \<in> set navigation_links" "parse_xpath (sel_xpath sel) = Some (ByHref h)"
    and "Q () (settle select (visited url s))"
  shows "wp (gotoPageWithNavBar sel) Q s"
proof -
  have "wp showNavbar (\<lambda>_. wp (steps [navigate sel, standardDelay]) Q) s"
    unfolding showNavbar_def
    by (intro wp_seq wp_delay wp_bind wp_present)
      (use home_link_present [OF form_at_page [OF assms(1)]] assms(4) step_link [OF form_at_page [OF assms(1)] assms(2,3)] in
        \<open>simp add: wp_return wp_seq navigate_def wp_do wp_delay\<close>)
  then show ?thesis unfolding gotoPageWithNavBar_def by (intro wp_steps_cons)
qed

lemma here_form: "here u c k t s \<Longrightarrow> quiet s" "here u c k t s \<Longrightarrow> ui_url s = u"
  by (simp_all add: here_def)

lemma here_visited:
  assumes "here u c k t s" "url \<in> set [''/deposit'', ''/withdraw'', ''/home'', ''/instruments'']"
  shows "fresh url c k initial_tab (settle select (visited url s))"
proof -
  have "settle select (visited url s) = visited url s"
    using assms by (intro settle_account) (simp_all add: here_def quiet_def visited_def unmounted_def signed_def)
  with assms show ?thesis by (simp add: fresh_def here_def visited_def unmounted_def quiet_def signed_def)
qed

lemma wp_goto_account:
  assumes "here u c k t s" "form_at n s"
  shows "wp gotoDepositPage (\<lambda>_. fresh ''/deposit'' c k initial_tab) s" "wp gotoWithdrawPage (\<lambda>_. fresh ''/withdraw'' c k initial_tab) s"
    "wp gotoInstrumentsPage (\<lambda>_. fresh ''/instruments'' c k initial_tab) s"
proof -
  have go: "wp (gotoPageWithNavBar sel) (\<lambda>_. fresh url c k initial_tab) s"
    if "(h, url) \<in> set navigation_links" "parse_xpath (sel_xpath sel) = Some (ByHref h)"
      "url \<in> set [''/deposit'', ''/withdraw'', ''/home'', ''/instruments'']" for h url sel
    by (rule wp_goto [OF assms(2) that(1,2)]) (rule here_visited [OF assms(1) that(3)])
  show "wp gotoDepositPage (\<lambda>_. fresh ''/deposit'' c k initial_tab) s" "wp gotoWithdrawPage (\<lambda>_. fresh ''/withdraw'' c k initial_tab) s"
    "wp gotoInstrumentsPage (\<lambda>_. fresh ''/instruments'' c k initial_tab) s"
    unfolding gotoDepositPage_def gotoWithdrawPage_def gotoInstrumentsPage_def
    by (rule go [OF _ selector_paths(6)] go [OF _ selector_paths(8)] go [OF _ selector_paths(9)]; simp add: navigation_links_def)+
qed

lemma form_pages:
  "quiet s \<Longrightarrow> ui_url s = ''/home'' \<Longrightarrow> form_at (Home_node (si_home S)) s"
  "quiet s \<Longrightarrow> ui_url s = ''/instruments'' \<Longrightarrow> form_at (Instruments_node (si_intl S) (si_locale_string S) (si_instruments S)) s"
  unfolding form_at_def
  using on_pages(3) [of "s\<lparr>ui_filled := f, ui_handles := h, ui_select := x\<rparr>" S for f h x]
    on_pages(4) [of "s\<lparr>ui_filled := f, ui_handles := h, ui_select := x\<rparr>" S for f h x]
  by simp_all

section \<open>Choosing an instrument\<close>

abbreviation instrument_at :: "string \<Rightarrow> bool" where
  "instrument_at u \<equiv> u \<in> instrument_urls (si_instruments S)"

lemma owned_at: "u \<in> instrument_urls (owned_of (si_instruments S)) \<Longrightarrow> instrument_at u"
  by (auto simp: instrument_urls_def owned_of_def)

lemma instrument_id:
  assumes "i \<in> set (si_instruments S)"
  obtains t where "it_id i = Str t" "t \<noteq> []" "CHR ''/'' \<notin> set t"
proof -
  have "url_id (it_id i)" using stocked assms by (simp add: site_stocked_def)
  then show thesis using that by (auto simp: url_id_def split: jsval.splits)
qed

lemma form_instrument:
  assumes "quiet s" "instrument_at (ui_url s)"
  obtains i where "form_at (Instrument_node (si_intl S) i (ui_tab s) (ui_autofill s) False (ui_status s)) s"
proof -
  obtain j where j: "j \<in> set (si_instruments S)" "ui_url s = ''/instruments/'' @ to_str (it_id j)"
    using assms(2) by (auto simp: instrument_urls_def)
  obtain t where t: "it_id j = Str t" "t \<noteq> []" "CHR ''/'' \<notin> set t" using instrument_id [OF j(1)] .
  have "loose_eq_str (it_id j) t" using t(1) by (simp add: loose_eq_str_def)
  with j(1) obtain i where i: "find (\<lambda>x. loose_eq_str (it_id x) t) (si_instruments S) = Some i"
    by (cases "find (\<lambda>x. loose_eq_str (it_id x) t) (si_instruments S)") (auto simp: find_None_iff)
  have url: "ui_url s = instrument_prefix @ t" using j(2) t(1) by (simp add: instrument_prefix_def)
  have "form_at (Instrument_node (si_intl S) i (ui_tab s) (ui_autofill s) False (ui_status s)) s"
    unfolding form_at_def
    using on_instrument [OF _ _ t(2,3) i, of "s\<lparr>ui_filled := f, ui_handles := h, ui_select := x\<rparr>" for f h x] assms(1) url
    by simp
  then show thesis by (rule that)
qed

lemma here_card:
  assumes "here u c k t s" "i \<in> set (si_instruments S)"
  shows "fresh (''/instruments/'' @ to_str (it_id i)) c k initial_tab (settle select (visited (''/instruments/'' @ to_str (it_id i)) s))"
proof -
  obtain w where w: "it_id i = Str w" "w \<noteq> []" "CHR ''/'' \<notin> set w" using instrument_id [OF assms(2)] .
  have signed: "ui_user s \<noteq> Null" "ui_user s \<noteq> Str []" using assms(1) by (simp_all add: here_def quiet_def signed_def)
  have "settle select (visited (''/instruments/'' @ w) s) = visited (''/instruments/'' @ w) s"
    using go_instrument(2) [OF router params w(2,3) signed, of "ui_cards s"]
    by (simp add: settle_def visited_def unmounted_def instrument_prefix_def)
  with assms(1) w(1) show ?thesis by (simp add: fresh_def here_def visited_def unmounted_def quiet_def signed_def)
qed

lemma grid_found:
  assumes "here ''/instruments'' c k t s"
  shows "look render select query S s instrumentsPage_instrumentCard = map card_element (si_instruments S)"
    "look render select query S s instrumentsPage_ownedInstrument = map card_element (owned_of (si_instruments S))"
proof -
  have q: "signed s" "\<not> ui_menu s" "\<not> ui_versions s" "quiet s" "ui_url s = ''/instruments''"
    using assms by (simp_all add: here_def quiet_def)
  have "doc S s = before_page S s @ in_place None [] (Instruments_node (si_intl S) (si_locale_string S) (si_instruments S))"
    using on_pages(4) [OF q(4,5), of S]
    by (simp add: on_page_def account_document_def after_page_none [OF q(2,3)] grid_end)
  then show "look render select query S s instrumentsPage_instrumentCard = map card_element (si_instruments S)"
    "look render select query S s instrumentsPage_ownedInstrument = map card_element (owned_of (si_instruments S))"
    unfolding look [OF selector_paths(22)] look [OF selector_paths(23)]
    using before_page_none(7) [OF q(1)] by (simp_all add: grid_hits owned_of_def)
qed

lemma wp_pick:
  assumes "here ''/instruments'' c k t s" "is \<noteq> []" "set is \<subseteq> set (si_instruments S)" "length is \<le> length (si_instruments S)"
    and "\<And>s. here ''/instruments'' c k t s \<Longrightarrow> look render select query S s sel = map card_element is"
    and go: "\<And>h. go_with (Some h) = gotoInstrumentPage h"
  shows "wp (pbind (pseq waitForInstruments (pbind (getAllHandles sel) (\<lambda>cards. arrayRandom cards))) go_with)
    (\<lambda>_ s'. \<exists>u. u \<in> instrument_urls is \<and> fresh u c k initial_tab s') s"
proof -
  let ?m = "hd (map card_element (si_instruments S))"
  have nonempty: "si_instruments S \<noteq> []" using assms(2,3) by auto
  have "step S (GetHandle instrumentsPage_instrumentCard) s = Some (s\<lparr>ui_handles := [?m]\<rparr>)"
    using grid_found(1) [OF assms(1)] nonempty by (cases "si_instruments S") (simp_all add: ui_step_def)
  note wait = this
  let ?s1 = "s\<lparr>ui_handles := [?m]\<rparr>" and ?s2 = "s\<lparr>ui_handles := map card_element is\<rparr>"
  have here1: "here ''/instruments'' c k t ?s1" and here2: "here ''/instruments'' c k t ?s2"
    using assms(1) by (simp_all add: here_def)
  have count: "length is \<le> 2 ^ 53"
    using assms(4) stocked by (simp add: site_stocked_def)
  have visit: "wp (go_with (Some h)) (\<lambda>_ s'. \<exists>u. u \<in> instrument_urls is \<and> fresh u c k initial_tab s') ?s2" if "h \<in> set [0..<length is]" for h
  proof -
    have h: "h < length is" "is ! h \<in> set (si_instruments S)" using that assms(3) by auto
    have "step S (NavigateHandle h) ?s2 = Some (settle select (visited (''/instruments/'' @ to_str (it_id (is ! h))) ?s2))"
      using h(1) by (simp add: ui_step_def activate_card)
    moreover have "''/instruments/'' @ to_str (it_id (is ! h)) \<in> instrument_urls is" using h(1) by (auto simp: instrument_urls_def)
    ultimately show ?thesis
      unfolding go gotoInstrumentPage_def navigateHandle_def using here_card [OF here2 h(2)] by (intro wp_do) blast+
  qed
  have "wp (arrayRandom [0..<length is]) (\<lambda>x. wp (go_with x) (\<lambda>_ s'. \<exists>u. u \<in> instrument_urls is \<and> fresh u c k initial_tab s')) ?s2"
    using assms(2) count by (intro wp_arrayRandom visit) simp_all
  then show ?thesis
    unfolding waitForInstruments_def
    by (intro wp_bind wp_seq wp_handle [OF wait] wp_return wp_handles) (simp add: assms(5) [OF here1])
qed

lemma wp_gotoRandomInstrument:
  assumes "here u c k t s" "form_at n s"
  shows "wp gotoRandomInstrument (\<lambda>_ s'. \<exists>u. instrument_at u \<and> fresh u c k initial_tab s') s"
proof -
  have "si_instruments S \<noteq> []" using stocked by (auto simp: site_stocked_def)
  then show ?thesis
    unfolding gotoRandomInstrument_def getRandomInstrument_def
    by (intro wp_seq wp_mono [OF wp_goto_account(3) [OF assms]] wp_pick [OF freshD(1) _ subset_refl order_refl grid_found(1)]) simp_all
qed

lemma wp_gotoRandomOwnedInstrument:
  assumes "here u c k t s" "form_at n s"
  shows "wp gotoRandomOwnedInstrument (\<lambda>_ s'. \<exists>u. u \<in> instrument_urls (owned_of (si_instruments S)) \<and> fresh u c k initial_tab s') s"
proof -
  have "owned_of (si_instruments S) \<noteq> []" "set (owned_of (si_instruments S)) \<subseteq> set (si_instruments S)"
    "length (owned_of (si_instruments S)) \<le> length (si_instruments S)"
    using stocked by (auto simp: site_stocked_def filter_empty_conv owned_of_def)
  then show ?thesis
    unfolding gotoRandomOwnedInstrument_def getRandomOwnedInstrument_def
    by (intro wp_seq wp_mono [OF wp_goto_account(3) [OF assms]] wp_pick [OF freshD(1) _ _ _ grid_found(2)]) simp_all
qed

section \<open>On the page of an instrument\<close>

lemma here_instrument:
  assumes "here u c k t s" "instrument_at u"
  obtains i where "form_at (Instrument_node (si_intl S) i t (ui_autofill s) False (ui_status s)) s"
  using form_instrument [of s] assms by (auto simp: here_def)

lemma wp_tab:
  assumes "here u c k t s" "instrument_at u" "parse_xpath (sel_xpath sel) = Some (ByText ''button'' l)"
    and "\<And>n F i m st. n = Instrument_node F i t m False st \<Longrightarrow> press n (ByText ''button'' l) (SelectTab t')"
  shows "wp (click sel) (\<lambda>_. fresh u c k t') s"
proof -
  obtain i where form: "form_at (Instrument_node (si_intl S) i t (ui_autofill s) False (ui_status s)) s"
    using here_instrument [OF assms(1,2)] .
  let ?s = "unmounted (s\<lparr>ui_tab := t'\<rparr>)"
  have "settle select ?s = ?s" by (rule settle_same [OF form]) (simp_all add: unmounted_def)
  moreover have "fresh u c k t' ?s" using assms(1) by (simp add: fresh_def here_def unmounted_def quiet_def signed_def)
  ultimately show ?thesis
    by (intro wp_press(1) [OF form assms(4) [OF refl] assms(3) before_page_none(4) [OF form_signed [OF form]]])
      (simp add: handle_submit)
qed

lemma wp_selects:
  assumes "here u c k t s" "instrument_at u"
  shows "wp selectQuickBuy (\<lambda>_. fresh u c k QuickBuyTab) s" "wp selectQuickSell (\<lambda>_. fresh u c k QuickSellTab) s"
    "wp selectBuy (\<lambda>_. fresh u c k BuyTab) s" "wp selectSell (\<lambda>_. fresh u c k SellTab) s"
  unfolding selectQuickBuy_def selectQuickSell_def selectBuy_def selectSell_def
  by (rule wp_tab [OF assms selector_paths(24) trade_tabs(2)] wp_tab [OF assms selector_paths(25) trade_tabs(3)]
      wp_tab [OF assms selector_paths(26) trade_tabs(4)] wp_tab [OF assms selector_paths(27) trade_tabs(5)]; assumption)+

lemma wp_read_input:
  assumes "form_at n s" "read_field n i" "parse_xpath (sel_xpath sel) = Some (ById ''input'' i)" "\<And>x. Q x s"
  shows "wp (pbind (getProperty sel p) (\<lambda>v. preturn (f v))) Q s"
  by (intro wp_bind wp_property [OF step_read_field [OF form_at_page [OF assms(1)] assms(2,3)]] wp_return assms(4))

lemma wp_reads:
  assumes "here u c k t s" "instrument_at u"
  shows "(\<And>x. Q x s) \<Longrightarrow> wp getInstrumentPrice Q s" "(\<And>x. R x s) \<Longrightarrow> wp getInstrumentName R s"
    "(\<And>x. Q x s) \<Longrightarrow> t = QuickBuyTab \<Longrightarrow> wp getCurrentBalance Q s"
    "(\<And>x. Q x s) \<Longrightarrow> t = QuickSellTab \<Longrightarrow> wp getInstrumentPossessedAmount Q s"
proof -
  obtain i where form: "form_at (Instrument_node (si_intl S) i t (ui_autofill s) False (ui_status s)) s"
    using here_instrument [OF assms] .
  show "wp getInstrumentPrice Q s" if "\<And>x. Q x s"
    unfolding getInstrumentPrice_def by (rule wp_read_input [OF form instrument_page(2) [OF refl] selector_paths(32)]) (rule that)
  show "wp getCurrentBalance Q s" if "\<And>x. Q x s" "t = QuickBuyTab"
    unfolding getCurrentBalance_def
    by (rule wp_read_input [OF form instrument_page(4) [OF refl that(2)] selector_paths(1)]) (rule that(1))
  show "wp getInstrumentPossessedAmount Q s" if "\<And>x. Q x s" "t = QuickSellTab"
    unfolding getInstrumentPossessedAmount_def
    by (rule wp_read_input [OF form instrument_page(5) [OF refl that(2)] selector_paths(31)]) (rule that(1))
  have "find (hit (ById ''*'' ''instrumentName'')) (before_page S s) = None"
    by (rule before_page_none(3) [OF form_signed [OF form]]) simp
  then show "wp getInstrumentName R s" if "\<And>x. R x s"
    unfolding getInstrumentName_def
    by (intro wp_text [OF step_read_text [OF form_at_page [OF form] trade_tabs(1) [OF refl] selector_paths(29)]] that)
qed

lemma wp_send_trade:
  assumes "here u c k t s" "form_at (Instrument_node F i t m False st) s"
  shows "wp (click instrumentPage_submitButton) (\<lambda>_. wp (steps []) (\<lambda>_. here u c (k @ [(u, tab_value t, vs)]) t)) (s\<lparr>ui_filled := vs\<rparr>)"
proof -
  have form: "form_at (Instrument_node F i t m False st) (s\<lparr>ui_filled := vs\<rparr>)" using assms(2) by simp
  have hidden: "find (hit (ById ''button'' ''submitButton'')) (before_page S (s\<lparr>ui_filled := vs\<rparr>)) = None"
    by (rule before_page_none(3) [OF form_signed [OF form]]) simp
  have "tab_value t \<noteq> ''order''" by (cases t) simp_all
  then show ?thesis
    by (intro wp_submit [OF form instrument_page(3) [OF refl] selector_paths(34) hidden]) (simp_all add: assms(1))
qed

lemma wp_trade:
  assumes "fresh u c k t s" "instrument_at u"
  shows "wp (trade amount) (\<lambda>_. here u c (k @ [quick_sent u t amount]) t) s"
proof -
  note here = freshD(1) [OF assms(1)]
  obtain i where form: "form_at (Instrument_node (si_intl S) i t (ui_autofill s) False (ui_status s)) s"
    using here_instrument [OF here assms(2)] .
  show ?thesis
    unfolding trade_def quick_sent_def
    by (intro wp_steps_cons wp_delay wp_write [OF form instrument_page(1) [OF refl] selector_paths(30)])
      (use wp_send_trade [OF here form] in \<open>simp add: freshD(2) [OF assms(1)] del: steps.simps\<close>)
qed

lemma wp_schedule:
  assumes "fresh u c k t s" "instrument_at u" "t = BuyTab \<or> t = SellTab"
  shows "wp (scheduleTransaction price duration amount) (\<lambda>_. here u c (k @ [long_sent u t price duration amount]) t) s"
proof -
  note here = freshD(1) [OF assms(1)]
  obtain i where form: "form_at (Instrument_node (si_intl S) i t (ui_autofill s) False (ui_status s)) s"
    using here_instrument [OF here assms(2)] .
  show ?thesis
    unfolding scheduleTransaction_def long_sent_def
    by (intro wp_steps_cons wp_delay wp_write [OF _ instrument_page(1) [OF refl] selector_paths(30)]
        wp_write [OF _ instrument_page(6) [OF refl assms(3)] selector_paths(32)]
        wp_write [OF _ instrument_page(7) [OF refl assms(3)] selector_paths(33)])
      (use form wp_send_trade [OF here form] in \<open>simp_all add: freshD(2) [OF assms(1)] del: steps.simps\<close>)
qed

section \<open>The card\<close>

text \<open>On the page of the status of the card.\<close>

definition at_card :: "card_data \<Rightarrow> sent list \<Rightarrow> form_id \<Rightarrow> ui \<Rightarrow> bool" where
  "at_card c k t s \<longleftrightarrow> card_settled c \<and> (\<exists>w. card_page (fst c) = Some w \<and> here (''/credit-card/'' @ w) c k t s)"

definition card_tree :: "string \<Rightarrow> ui \<Rightarrow> node" where
  "card_tree w s = (if w = ''order'' then CreditCardOrder (ui_errors s) False (ui_status s)
     else if w = ''active'' then CreditCardActive False (ui_status s) else CreditCardStatus_page (si_timeline S))"

lemma form_card:
  assumes "quiet s" "card_settled (ui_cards s)" "card_page (fst (ui_cards s)) = Some w" "ui_url s = ''/credit-card/'' @ w"
  shows "form_at (card_tree w s) s"
proof -
  have "w = ''status'' \<Longrightarrow> \<exists>i es. snd (ui_cards s) = Some (HistorySuccess i es)"
    using assms(2,3) by (auto simp: card_settled_def split: option.splits OrderStatusHistoryResponse.splits)
  then show ?thesis
    unfolding form_at_def card_tree_def
    using on_card [of "s\<lparr>ui_filled := f, ui_handles := h, ui_select := x\<rparr>" w S for f h x] assms
    by (simp cong: if_cong split del: if_split del: append.simps)
qed

lemma at_cardE:
  assumes "at_card c k t s"
  obtains w where "card_page (fst c) = Some w" "here (''/credit-card/'' @ w) c k t s" "form_at (card_tree w s) s"
proof -
  obtain w where w: "card_page (fst c) = Some w" "here (''/credit-card/'' @ w) c k t s" "card_settled c"
    using assms by (auto simp: at_card_def)
  then have "form_at (card_tree w s) s" by (intro form_card) (simp_all add: here_def)
  with w that show thesis by blast
qed

lemma wp_gotoCreditCardPage:
  assumes "here u c k t s" "form_at n s" "card_settled c"
  shows "wp gotoCreditCardPage (\<lambda>_ s'. at_card c k initial_tab s' \<and> ui_filled s' = []) s"
proof -
  obtain w where w: "card_page (fst c) = Some w" using assms(3) by (auto simp: card_settled_def split: option.splits)
  have v: "quiet (visited ''/credit-card'' s)" "ui_url (visited ''/credit-card'' s) = ''/credit-card''"
    "ui_cards (visited ''/credit-card'' s) = c"
    using assms(1) by (simp_all add: here_def quiet_def visited_def unmounted_def signed_def)
  have "settle select (visited ''/credit-card'' s) = (visited ''/credit-card'' s)\<lparr>ui_url := ''/credit-card/'' @ w\<rparr>"
    using v w by (intro settle_card) simp_all
  moreover have "here (''/credit-card/'' @ w) c k initial_tab ((visited ''/credit-card'' s)\<lparr>ui_url := ''/credit-card/'' @ w\<rparr>)"
    using assms(1) by (simp add: here_def visited_def unmounted_def quiet_def signed_def)
  ultimately have "at_card c k initial_tab (settle select (visited ''/credit-card'' s)) \<and> ui_filled (settle select (visited ''/credit-card'' s)) = []"
    using assms(3) w by (auto simp: at_card_def visited_def unmounted_def)
  then show ?thesis
    unfolding gotoCreditCardPage_def
    by (intro wp_goto [OF assms(2) _ selector_paths(11), of "''/credit-card''"]) (simp_all add: navigation_links_def)
qed

end

end
