(* ===== verification/Site_Account.thy ===== *)
theory Site_Account
  imports Site_Runs
begin

text \<open>
  The account of a user on the site: the card that is shown, revoked and ordered, signing in and signing out.
\<close>

section \<open>Elements of the pages of the card\<close>

lemma timeline_marks:
  "find (hit (ById ''li'' j)) (in_place None [] (CreditCardStatus_page data)) = None"
  "find (hit (ById ''button'' j)) (in_place None [] (CreditCardStatus_page data)) = None"
  "at_end sel (CreditCardStatus_page data) = []"
proof -
  have items: "find (hit (ById ''li'' j)) (concat (map (in_place None []) (map timeline_item es))) = None"
    "find (hit (ById ''button'' j)) (concat (map (in_place None []) (map timeline_item es))) = None"
    "concat (map (at_end sel) (map timeline_item es)) = []" for es
    by (induction es) (auto simp: timeline_item_def find_append text_tag_def split: prod.splits)
  show "find (hit (ById ''li'' j)) (in_place None [] (CreditCardStatus_page data)) = None"
    "find (hit (ById ''button'' j)) (in_place None [] (CreditCardStatus_page data)) = None"
    "at_end sel (CreditCardStatus_page data) = []"
    using items [of "snd data"] by (simp_all add: CreditCardStatus_page_def find_append text_tag_def)
qed

lemma bind_find_before: "Option.bind (find P xs) f = Some y \<Longrightarrow> Option.bind (find P (xs @ ys)) f = Some y"
  by (cases "find P xs") (simp_all add: find_append)

lemma bind_find_skip: "find P xs = None \<Longrightarrow> Option.bind (find P (xs @ ys)) f = Option.bind (find P ys) f"
  by (simp add: find_append)

text \<open>A URL of the card that is not the one of its status is left for that one.\<close>

lemma card_pages_apart:
  "card_page st = Some w \<Longrightarrow> w \<noteq> ''order'' \<Longrightarrow> \<not> str_includes ''/credit-card/order'' w"
  "card_page st = Some w \<Longrightarrow> w \<noteq> ''active'' \<Longrightarrow> \<not> str_includes ''/credit-card/active'' w"
  by (drule card_page_values; elim insertE emptyE; simp add: text_search)+

lemma go_card_moved:
  assumes "router_documented select" "card_page (fst cd) = Some w" "u \<noteq> Null" "u \<noteq> Str []"
  shows "w \<noteq> ''order'' \<Longrightarrow> go select u cd ''/credit-card/order'' = NavigateTo (''/credit-card/'' @ w)"
    "w \<noteq> ''active'' \<Longrightarrow> go select u cd ''/credit-card/active'' = NavigateTo (''/credit-card/'' @ w)"
  using go_path [OF assms(1), of "branches ! 8" u cd] go_path [OF assms(1), of "branches ! 10" u cd]
    card_pages_apart [OF assms(2)] assms(2-4)
  by (simp_all add: branches_eq visit_simps CreditCardLayout_cases)

lemma go_card_guarded:
  assumes "router_documented select" "card_page st = Some w"
  shows "go select Null cd (''/credit-card/'' @ w) = NavigateTo ''/login''"
  using go_path [OF assms(1), of "branches ! 8" Null cd] go_path [OF assms(1), of "branches ! 9" Null cd]
    go_path [OF assms(1), of "branches ! 10" Null cd] card_page_values [OF assms(2)]
  by (elim insertE emptyE) (simp_all add: branches_eq visit_simps)

text \<open>The header of a page before the user has signed in.\<close>

lemma public_header:
  assumes "ui_user s = Null"
  shows "in_place None [] (site_header S s) =
     [element ''a'' [attr ''variant'' ''h6'', attr ''to'' ''/''] None [] None [''EasyTrade''],
      element ''button'' [] None [] (Some ToggleTheme) [], element ''a'' [attr ''to'' ''/feature-flags''] None [] None [],
      element ''button'' [] None [] (Some OpenVersions) []]"
  using assms by (simp add: markup isLoggedIn_def)

section \<open>Answers that a visit depends on\<close>

definition login_accepted :: "site \<Rightarrow> User \<Rightarrow> bool" where
  "login_accepted S user \<longleftrightarrow> is_accepted (si_outcome S (login_sent user))"

definition order_goes_on :: "site \<Rightarrow> card_data \<Rightarrow> bool" where
  "order_goes_on S c \<longleftrightarrow> (card_page (fst c) = Some ''active'' \<longrightarrow> si_revocation S = None)"

context site_run
begin

lemma card_tree_end: "at_end None (card_tree w s) = []"
  unfolding card_tree_def using order_page(12) active_page(3) timeline_marks(3) by simp

lemma card_tree_li: "find (hit (ById ''li'' ''logoutItem'')) (in_place None [] (card_tree w s)) = None"
  unfolding card_tree_def using timeline_marks(1) by (simp add: form_defs)

lemma card_tree_finds:
  "find (hit (ById ''p'' ''order-id'')) (in_place None [] (card_tree w s)) = None \<longleftrightarrow> w = ''order'' \<or> w = ''active''"
  "find (hit (ById ''button'' ''revoke-card'')) (in_place None [] (card_tree w s)) = None \<longleftrightarrow> w \<noteq> ''active''"
proof -
  show "find (hit (ById ''p'' ''order-id'')) (in_place None [] (card_tree w s)) = None \<longleftrightarrow> w = ''order'' \<or> w = ''active''"
    unfolding card_tree_def by (simp add: form_defs CreditCardStatus_page_def)
  show "find (hit (ById ''button'' ''revoke-card'')) (in_place None [] (card_tree w s)) = None \<longleftrightarrow> w \<noteq> ''active''"
    unfolding card_tree_def using timeline_marks(2) by (simp add: form_defs)
qed

lemma card_doc:
  assumes "here (''/credit-card/'' @ w) c k t s" "form_at (card_tree w s) s"
  shows "doc S s = before_page S s @ in_place None [] (card_tree w s)"
proof -
  have q: "\<not> ui_menu s" "\<not> ui_versions s" "ui_select s = None" using assms(1) by (simp_all add: here_def quiet_def)
  have "doc S s = account_document S s (card_tree w s)" using form_at_page [OF assms(2)] by (simp add: on_page_def)
  then show ?thesis by (simp add: account_document_def after_page_none [OF q(1,2)] q(3) card_tree_end)
qed

lemma wp_checks:
  assumes "here (''/credit-card/'' @ w) c k t s" "form_at (card_tree w s) s" "card_page (fst c) = Some w"
  shows "Q (w = ''status'') s \<Longrightarrow> wp checkIfOrderPending Q s" "R (w = ''active'') s \<Longrightarrow> wp checkIfCardActive R s"
proof -
  have w: "w = ''order'' \<or> w = ''status'' \<or> w = ''active''" using card_page_values [OF assms(3)] by blast
  have before: "find (hit (ById ''p'' ''order-id'')) (before_page S s) = None"
    "find (hit (ById ''button'' ''revoke-card'')) (before_page S s) = None"
    by (rule before_page_none(3) [OF form_signed [OF assms(2)]]; simp)+
  have "look render select query S s creditCardPage_orderIdDisplay \<noteq> [] \<longleftrightarrow> w = ''status''"
    unfolding look [OF selector_paths(42)] card_doc [OF assms(1,2)] filter_none [symmetric]
    using w by (auto simp: find_append before card_tree_finds(1))
  then show "Q (w = ''status'') s \<Longrightarrow> wp checkIfOrderPending Q s"
    unfolding checkIfOrderPending_def by (intro wp_present) simp
  have "look render select query S s creditCardPage_revokeCard \<noteq> [] \<longleftrightarrow> w = ''active''"
    unfolding look [OF selector_paths(41)] card_doc [OF assms(1,2)] filter_none [symmetric]
    by (auto simp: find_append before card_tree_finds(2))
  then show "R (w = ''active'') s \<Longrightarrow> wp checkIfCardActive R s"
    unfolding checkIfCardActive_def by (intro wp_present) simp
qed

section \<open>Revoking and ordering\<close>

lemma settle_moved:
  assumes "quiet s" "card_page (fst (ui_cards s)) = Some w" "ui_url s = ''/credit-card/'' @ x" "x = ''order'' \<or> x = ''active''"
  shows "settle select s = s\<lparr>ui_url := ''/credit-card/'' @ w\<rparr>"
proof (cases "w = x")
  case True
  have "\<not> is_redirect (go select (ui_user s) (ui_cards s) (ui_url s))"
    using assms go_card [OF router assms(2), of "ui_user s"] True by (auto simp: quiet_def signed_def)
  with True assms(3) show ?thesis by (simp add: settle_steady steady_def)
next
  case False
  then show ?thesis
    using assms go_card_moved [OF router assms(2), of "ui_user s"] by (auto simp: settle_def quiet_def signed_def)
qed

lemma active_form:
  assumes "here ''/credit-card/active'' c k t s" "card_settled c" "card_page (fst c) = Some ''active''"
  shows "form_at (CreditCardActive False (ui_status s)) s"
  using form_card [of s "''active''"] assms by (simp add: here_def card_tree_def)

lemma step_revoke:
  assumes "here ''/credit-card/active'' c k t s" "card_settled c" "card_page (fst c) = Some ''active''"
  shows "step S (Navigate creditCardPage_revokeCard) s = Some (settle select (handle_event S RevokeCard s))"
proof -
  note form = active_form [OF assms]
  have "find (hit (ById ''button'' ''revoke-card'')) (before_page S s) = None"
    by (rule before_page_none(3) [OF form_signed [OF form]]) simp
  then show ?thesis by (rule step_press(2) [OF form_at_page [OF form] active_page(1) selector_paths(41)])
qed

lemma wp_revokeCard:
  assumes "here ''/credit-card/active'' c k t s" "card_settled c" "card_page (fst c) = Some ''active''"
  shows "si_revocation S = None \<Longrightarrow> wp revokeCard (\<lambda>_. fresh ''/credit-card/order'' (Some StatusNotFound, snd c) k t) s"
    "si_revocation S = Some st \<Longrightarrow> wp revokeCard (\<lambda>_. here ''/credit-card/active'' c k t) s"
proof -
  let ?s = "unmounted (s\<lparr>ui_cards := (Some StatusNotFound, snd (ui_cards s))\<rparr>)"
  have "settle select ?s = ?s\<lparr>ui_url := ''/credit-card/'' @ ''order''\<rparr>"
    using assms(1)
    by (intro settle_moved [where x = "''active''"]) (simp_all add: here_def card_page_def unmounted_def quiet_def signed_def)
  moreover have "fresh ''/credit-card/order'' (Some StatusNotFound, snd c) k t (?s\<lparr>ui_url := ''/credit-card/order''\<rparr>)"
    using assms(1) by (simp add: fresh_def here_def unmounted_def quiet_def signed_def)
  ultimately show "wp revokeCard (\<lambda>_. fresh ''/credit-card/order'' (Some StatusNotFound, snd c) k t) s" if "si_revocation S = None"
    unfolding revokeCard_def navigate_def using that by (intro wp_do [OF step_revoke [OF assms]]) (simp add: handle_submit)
  have "settle select (s\<lparr>ui_status := st\<rparr>) = s\<lparr>ui_status := st\<rparr>"
    by (rule settle_same [OF active_form [OF assms]]) simp_all
  then show "wp revokeCard (\<lambda>_. here ''/credit-card/active'' c k t) s" if "si_revocation S = Some st"
    unfolding revokeCard_def navigate_def using that assms(1) by (intro wp_do [OF step_revoke [OF assms]]) (simp add: handle_submit)
qed

text \<open>An order that is accepted changes the card; otherwise the card and its page stay as they are.\<close>

lemma wp_send_order:
  assumes "here ''/credit-card/order'' c k t s" "fst c = Some StatusNotFound" "ui_filled s = vs"
  shows "wp (click creditCardPage_orderCardButton) (\<lambda>_. wp (steps []) (\<lambda>_ s'. \<exists>c'. at_card c' (k @ [(''/credit-card/order'', ''order'', vs)]) t s')) s"
proof -
  let ?n = "CreditCardOrder (ui_errors s) False (ui_status s)" and ?k = "k @ [(''/credit-card/order'', ''order'', vs)]"
  have form: "form_at ?n s" and settled: "card_settled c"
    using form_card [of s "''order''"] assms by (simp_all add: here_def card_tree_def card_settled_def card_page_def)
  have hidden: "find (hit (ById ''button'' ''submitButton'')) (before_page S s) = None"
    by (rule before_page_none(3) [OF form_signed [OF form]]) simp
  have url: "ui_url s = ''/credit-card/order''" using assms(1) by (simp add: here_def)
  have "\<exists>c'. at_card c' ?k t (settle select (handle_event S (SubmitForm ''order'') s))"
  proof (cases "is_accepted (si_outcome S (ui_url s, ''order'', ui_filled s))")
    case False
    have "at_card c ?k t (submit_here S ''order'' (\<lambda>s. s) s)"
      using here_submitted [OF assms(1), of "''order''"] assms(2,3) settled by (simp add: at_card_def card_page_def)
    moreover have "handle_event S (SubmitForm ''order'') s = submit_here S ''order'' (\<lambda>s. s) s"
      unfolding handle_submit(2) by (rule submission_refused [OF False])
    ultimately show ?thesis using settle_submission [OF form, of "''order''"] by (intro exI [of _ c]) simp
  next
    case True
    let ?c = "si_ordered S"
    have out: "goes_out S (ui_url s, ''order'', ui_filled s)" using True by (auto simp: goes_out_def is_accepted_def)
    have settled: "card_settled ?c" using stocked by (simp add: site_stocked_def)
    then obtain w where w: "card_page (fst ?c) = Some w" by (auto simp: card_settled_def split: option.splits)
    obtain st where st: "handle_event S (SubmitForm ''order'') s = unmounted
        (s\<lparr>ui_sent := ui_sent s @ [(ui_url s, ''order'', ui_filled s)], ui_filled := [], ui_status := st, ui_errors := False, ui_cards := ?c\<rparr>)"
      (is "_ = ?s") using submission_accepted [OF True] unfolding handle_submit(2) by blast
    have "settle select ?s = ?s\<lparr>ui_url := ''/credit-card/'' @ w\<rparr>"
      using assms(1) w
      by (intro settle_moved [where x = "''order''"]) (simp_all add: here_def unmounted_def quiet_def signed_def)
    moreover have "here (''/credit-card/'' @ w) ?c ?k t (?s\<lparr>ui_url := ''/credit-card/'' @ w\<rparr>)"
      using assms(1,3) out by (simp add: here_def unmounted_def quiet_def signed_def url)
    ultimately have "at_card ?c ?k t (settle select (handle_event S (SubmitForm ''order'') s))"
      unfolding st using settled w by (simp only: at_card_def) blast
    then show ?thesis by blast
  qed
  then show ?thesis
    by (intro wp_press(1) [OF form order_page(6) selector_paths(39) hidden]) (simp add: wp_return)
qed

lemma wp_orderCard:
  assumes "fresh ''/credit-card/order'' c k t s" "fst c = Some StatusNotFound" "cardType \<in> set EASYTRADE_CREDIT_CARD_TYPES"
  shows "wp (orderCard user cardType) (\<lambda>_ s'. \<exists>c'. at_card c' (k @ [order_sent user cardType]) t s') s"
proof -
  note here = freshD(1) [OF assms(1)]
  let ?n = "CreditCardOrder (ui_errors s) False (ui_status s)"
  have form: "form_at ?n s"
    using form_card [of s "''order''"] here assms(2) by (simp add: here_def card_tree_def card_settled_def card_page_def)
  have offer: "offers ?n ''type'' cardType (card_type_id cardType)"
    using assms(3) order_page(7-9) by (auto simp: EASYTRADE_CREDIT_CARD_TYPES_def card_type_id_def)
  have path: "parse_xpath (sel_xpath (creditCardPage_cardType_type cardType)) = Some (InMenu (''menu-'' @ ''type'') cardType)"
    using assms(3) option_paths(2) by (auto simp: EASYTRADE_CREDIT_CARD_TYPES_def)
  have send: "wp (click creditCardPage_orderCardButton) (\<lambda>_. wp (steps []) (\<lambda>_ s'. \<exists>c'. at_card c' (k @ [(''/credit-card/order'', ''order'', vs)]) t s'))
      (s\<lparr>ui_handles := [m], ui_select := None, ui_filled := vs\<rparr>)" for m vs
    by (rule wp_send_order [where c = c]) (use here assms(2) in simp_all)
  show ?thesis
    unfolding orderCard_def order_sent_def
    by (intro wp_seq wp_steps_cons wp_delay wp_write [OF _ order_page(1) selector_paths(35)]
        wp_write [OF _ order_page(2) selector_paths(36)] wp_write [OF _ order_page(3) selector_paths(37)]
        wp_open_select [OF _ order_page(5) selector_paths(38)] wp_steps_nil wp_choose [OF _ offer _ path]
        wp_tick [OF _ order_page(4) selector_paths(40)])
      (use form send in \<open>simp_all add: freshD(2) [OF assms(1)] del: steps.simps\<close>)
qed

text \<open>An order that is pending is left alone; a card is revoked before a new one is ordered.\<close>

lemma order_unless_pending:
  assumes "at_card c k t s" "card_page (fst c) = Some w" "w \<noteq> ''status''"
  shows "wp (pseq (if w = ''active'' then revokeCard else preturn ()) (orderCard user cardType)) Q s \<Longrightarrow> wp (visit_orderCard user cardType) Q s"
    "stops (pseq (if w = ''active'' then revokeCard else preturn ()) (orderCard user cardType)) K s \<Longrightarrow> stops (visit_orderCard user cardType) K s"
proof -
  obtain v where v: "card_page (fst c) = Some v" "here (''/credit-card/'' @ v) c k t s" "form_at (card_tree v s) s"
    using at_cardE [OF assms(1)] .
  have w: "v = w" "(w = ''status'') = False" using v(1) assms(2,3) by simp_all
  note pending = wp_checks(1) [OF v(2,3,1)] and active = wp_checks(2) [OF v(2,3,1)]
  show "wp (pseq (if w = ''active'' then revokeCard else preturn ()) (orderCard user cardType)) Q s \<Longrightarrow> wp (visit_orderCard user cardType) Q s"
    unfolding visit_orderCard_def by (intro wp_bind pending) (simp only: w if_False, intro wp_bind active, simp only: w)
  show "stops (pseq (if w = ''active'' then revokeCard else preturn ()) (orderCard user cardType)) K s \<Longrightarrow> stops (visit_orderCard user cardType) K s"
    unfolding visit_orderCard_def
    by (intro stops_later pending) (simp only: w if_False, intro stops_later active, simp only: w)
qed

lemma wp_visit_orderCard:
  assumes "at_card c k t s" "ui_filled s = []" "order_goes_on S c" "cardType \<in> set EASYTRADE_CREDIT_CARD_TYPES"
  shows "wp (visit_orderCard user cardType)
    (\<lambda>_ s'. \<exists>c'. at_card c' (if card_page (fst c) = Some ''status'' then k else k @ [order_sent user cardType]) t s') s"
proof -
  obtain w where w: "card_page (fst c) = Some w" "here (''/credit-card/'' @ w) c k t s" "form_at (card_tree w s) s"
    using at_cardE [OF assms(1)] .
  have settled: "card_settled c" using assms(1) by (simp add: at_card_def)
  let ?Q = "\<lambda>(_::unit) s'. \<exists>c'. at_card c' (k @ [order_sent user cardType]) t s'"
  consider "w = ''status''" | "w = ''active''" | "w = ''order''" using card_page_values [OF w(1)] by blast
  then show ?thesis
  proof cases
    case 1
    have "wp (preturn ()) (\<lambda>_ s'. \<exists>c'. at_card c' k t s') s" by (rule wp_return) (use assms(1) in blast)
    with 1 show ?thesis
      unfolding visit_orderCard_def using w(1) by (intro wp_bind wp_checks(1) [OF w(2,3,1)]) simp
  next
    case 2
    then have "wp revokeCard (\<lambda>_. wp (orderCard user cardType) ?Q) s"
      using w settled assms(3)
      by (intro wp_mono [OF wp_revokeCard(1) wp_orderCard [OF _ fst_conv assms(4)]]) (simp_all add: order_goes_on_def)
    then have "wp (visit_orderCard user cardType) ?Q s"
      using 2 by (intro order_unless_pending(1) [OF assms(1) w(1)] wp_seq) simp_all
    then show ?thesis using 2 w(1) by simp
  next
    case 3
    have "fst c = Some StatusNotFound"
      using w(1) 3 by (auto simp: card_page_def split: option.splits OrderStatusResponse.splits if_splits)
    then have "wp (orderCard user cardType) ?Q s"
      using w(2) 3 assms(2) by (intro wp_orderCard assms(4)) (simp_all add: fresh_def)
    then have "wp (visit_orderCard user cardType) ?Q s"
      using 3 by (intro order_unless_pending(1) [OF assms(1) w(1)] wp_seq) (simp_all add: wp_return)
    then show ?thesis using 3 w(1) by simp
  qed
qed

text \<open>A card that is not revoked keeps its page, which has no field for an order.\<close>

lemma stops_visit_orderCard:
  assumes "at_card c k t s" "\<not> order_goes_on S c"
  shows "stops (visit_orderCard user cardType) (here ''/credit-card/active'' c k t) s"
proof -
  obtain w where w: "card_page (fst c) = Some w" "here (''/credit-card/'' @ w) c k t s" using at_cardE [OF assms(1)] .
  have settled: "card_settled c" using assms(1) by (simp add: at_card_def)
  obtain st where refused: "w = ''active''" "si_revocation S = Some st" using w(1) assms(2) by (auto simp: order_goes_on_def)
  have order: "stops (orderCard user cardType) (here ''/credit-card/active'' c k t) s'" if "here ''/credit-card/active'' c k t s'" for s'
  proof -
    have form: "form_at (card_tree ''active'' s') s'"
      using active_form [OF that settled] w(1) refused(1) by (simp add: card_tree_def)
    have "find (hit (ById ''input'' ''name'')) (doc S s') = None"
      using card_doc [of "''active''" c k t s'] that form before_page_none(1) [OF form_signed [OF form]]
      by (simp add: find_append card_tree_def form_defs)
    then have "step S (Input creditCardPage_nameInput (full_name user)) s' = None" by (simp add: step_input [OF selector_paths(35)])
    then show ?thesis unfolding orderCard_def input_def using that by (intro stops_seq(1) stops_steps(1) stops_do)
  qed
  have "stops (pseq revokeCard (orderCard user cardType)) (here ''/credit-card/active'' c k t) s"
    using w refused settled by (intro stops_seq(2) wp_mono [OF wp_revokeCard(2) order]) simp_all
  with refused(1) show ?thesis by (intro order_unless_pending(2) [OF assms(1) w(1)]) simp_all
qed

section \<open>Signing out\<close>

lemma card_doc_menu:
  assumes "signed s" "card_settled (ui_cards s)" "card_page (fst (ui_cards s)) = Some w" "ui_url s = ''/credit-card/'' @ w"
  shows "doc S s = account_document S s (card_tree w s)"
proof -
  consider "w = ''status''" | "w = ''active''" | "w = ''order''" using card_page_values [OF assms(3)] by blast
  then show ?thesis
  proof cases
    case 1
    then obtain i es where "snd (ui_cards s) = Some (HistorySuccess i es)"
      using assms(2,3) by (auto simp: card_settled_def split: option.splits OrderStatusHistoryResponse.splits)
    then show ?thesis
      using doc_account [of s "''CreditCardStatus''" S] 1 assms go_card [OF router assms(3), of "ui_user s"]
      by (simp add: signed_def branch_elements [OF router] page_body_def CreditCardStatus_def card_tree_def)
  next
    case 2
    then show ?thesis
      using doc_account [of s "''CreditCardActive''" S] assms go_card [OF router assms(3), of "ui_user s"]
      by (simp add: signed_def branch_elements [OF router] page_body_def card_tree_def)
  next
    case 3
    then show ?thesis
      using doc_account [of s "''CreditCardOrder''" S] assms go_card [OF router assms(3), of "ui_user s"]
      by (simp add: signed_def branch_elements [OF router] page_body_def card_tree_def)
  qed
qed

lemma wp_logout:
  assumes "at_card c k t s"
  shows "wp logout (\<lambda>_ s'. ui_user s' = Null \<and> ui_url s' = ''/login'' \<and> ui_sent s' = filter (goes_out S) k) s"
proof -
  obtain w where w: "card_page (fst c) = Some w" "here (''/credit-card/'' @ w) c k t s" "form_at (card_tree w s) s"
    using at_cardE [OF assms] .
  have q: "signed s" "\<not> ui_menu s" "\<not> ui_versions s" "ui_cards s = c" "ui_url s = ''/credit-card/'' @ w"
    "ui_sent s = filter (goes_out S) k"
    using w(2) by (simp_all add: here_def quiet_def)
  have settled: "card_settled c" using assms by (simp add: at_card_def)
  let ?s1 = "s\<lparr>ui_menu := True\<rparr>" let ?s2 = "?s1\<lparr>ui_user := Null, ui_menu := False\<rparr>"
  have signed1: "signed ?s1" using q(1) by (simp add: signed_def)
  have "settle select ?s1 = ?s1" by (rule settle_same [OF w(3)]) simp_all
  then have step1: "step S (Click navigation_dropdownToggler) s = Some ?s1"
    unfolding step_use [OF selector_paths(10)] card_doc [OF w(2,3)]
    by (intro bind_find_before) (simp add: before_page_buttons [OF q(1)])
  have doc1: "doc S ?s1 = account_document S ?s1 (card_tree w s)"
    using card_doc_menu [of ?s1 w] signed1 settled w(1) q by (simp add: card_tree_def)
  have before: "find (hit (ById ''li'' ''logoutItem'')) (before_page S ?s1) = None"
    by (rule before_page_none(3) [OF signed1]) simp
  have "go select (ui_user ?s2) (ui_cards ?s2) (ui_url ?s2) = NavigateTo ''/login''"
    using go_card_guarded [OF router w(1)] q(4,5) by simp
  then have out: "settle select ?s2 = ?s2\<lparr>ui_url := ''/login''\<rparr>" by (simp add: settle_def)
  have step2: "step S (Navigate navigation_logout) ?s1 = Some (?s2\<lparr>ui_url := ''/login''\<rparr>)"
    unfolding step_use [OF selector_paths(12)] doc1 account_document_def out [symmetric]
      bind_find_skip [OF before] bind_find_skip [OF card_tree_li]
    by (rule bind_find_before, rule after_page_logout) (use signed1 q(3) in simp_all)
  then show ?thesis
    unfolding logout_def click_def navigate_def
    by (intro wp_steps_cons wp_steps_nil wp_delay wp_do [OF step1] wp_do [OF step2]) (simp_all add: q)
qed

section \<open>Signing in\<close>

definition at_login :: "card_data \<Rightarrow> sent list \<Rightarrow> ui \<Rightarrow> bool" where
  "at_login c k s \<longleftrightarrow> ui_user s = Null \<and> ui_url s = ''/login'' \<and> \<not> ui_menu s \<and> \<not> ui_versions s \<and> ui_select s = None \<and>
     ui_tab s = initial_tab \<and> ui_cards s = c \<and> ui_sent s = filter (goes_out S) k \<and> \<not> ui_ended s"

abbreviation login_tree :: "ui \<Rightarrow> node" where
  "login_tree s \<equiv> Login_page (si_users S) (si_login_values S) False (ui_status s)"

lemma found_at_login:
  assumes "at_login c k s" "found_in (login_tree s) (ById t i) P"
  obtains m where "find (hit (ById t i)) (doc S s) = Some m" "P m"
proof -
  obtain m where m: "find (hit (ById t i)) (in_place None [] (login_tree s)) = Some m" "P m"
    using assms(2) unfolding found_in_def by (cases "find (hit (ById t i)) (in_place None [] (login_tree s))") simp_all
  have user: "ui_user s = Null" "ui_url s = ''/login''" using assms(1) by (simp_all add: at_login_def)
  have "doc S s = mui_document (ui_select s) (AppLayout (site_header S s) (PublicLayout_node (login_tree s)))"
    using user render
    by (simp add: document_def go_login [OF router] branch_elements [OF router] mui_documented_def component_node_def page_body_def)
  moreover have "in_place None [] (AppLayout (site_header S s) (PublicLayout_node (login_tree s))) =
      in_place None [] (site_header S s) @ in_place None [] (login_tree s)"
    by (simp add: AppLayout_def PublicLayout_node_def)
  moreover have "find (hit (ById t i)) (in_place None [] (site_header S s)) = None"
    by (simp add: public_header [OF user(1)])
  ultimately have "find (hit (ById t i)) (doc S s) = Some m" using m(1) by (simp add: mui_document_def find_append)
  then show thesis using that m(2) by blast
qed

lemma at_login_filled [simp]: "at_login c k (s\<lparr>ui_filled := f\<rparr>) = at_login c k s"
  by (simp add: at_login_def)

lemma wp_login_field:
  assumes "at_login c k s" "write_field (login_tree s) i name" "parse_xpath (sel_xpath sel) = Some (ById ''input'' i)"
    and "Q () (s\<lparr>ui_filled := ui_filled s @ [(name, v)]\<rparr>)"
  shows "wp (input sel v) Q s"
proof -
  obtain m where "find (hit (ById ''input'' i)) (doc S s) = Some m" "mk_tag m = ''input''" "\<not> mk_disabled m" "\<not> mk_readonly m"
    "mk_name m = Some name"
    using found_at_login [OF assms(1) assms(2) [unfolded write_field_def]] by blast
  then have "step S (Input sel v) s = Some (s\<lparr>ui_filled := ui_filled s @ [(name, v)]\<rparr>)"
    by (simp add: step_input [OF assms(3)])
  then show ?thesis unfolding input_def using assms(4) by (rule wp_do)
qed

lemma wp_login_button:
  assumes "at_login c k s" "ui_filled s = vs"
  shows "wp (navigate loginPage_loginButton)
    (\<lambda>_. if is_accepted (si_outcome S (''/login'', ''login'', vs)) then fresh ''/home'' c (k @ [(''/login'', ''login'', vs)]) initial_tab
          else at_login c (k @ [(''/login'', ''login'', vs)])) s"
proof -
  obtain m where m: "find (hit (ById ''button'' ''submitButton'')) (doc S s) = Some m" "\<not> mk_disabled m" "mk_href m = None"
    "mk_on m = Some SubmitLogin \<or> mk_on m = None \<and> mk_type m = Some ''submit'' \<and> mk_form m = Some SubmitLogin"
    using found_at_login [OF assms(1) login_page(3) [unfolded press_def]] by blast
  have "activate select S m s = Some (settle select (handle_event S SubmitLogin s))"
    using m(2-4) by (elim disjE) (simp_all add: activate_def)
  then have step: "step S (Navigate loginPage_loginButton) s = Some (settle select (handle_event S SubmitLogin s))"
    unfolding step_use [OF selector_paths(4)] m(1) by (simp only: Option.bind.bind_lunit)
  have url: "ui_url s = ''/login''" using assms(1) by (simp add: at_login_def)
  show ?thesis
  proof (cases "is_accepted (si_outcome S (''/login'', ''login'', vs))")
    case True
    then obtain st where st: "handle_event S SubmitLogin s = unmounted
        (s\<lparr>ui_sent := ui_sent s @ [(''/login'', ''login'', vs)], ui_filled := [], ui_status := st, ui_errors := False, ui_user := si_user_id S\<rparr>)"
      (is "_ = ?s")
      using submission_accepted [of S s "''login''" "\<lambda>s. unmounted (s\<lparr>ui_user := si_user_id S\<rparr>)"] assms(2) url
      unfolding handle_submit(5) by fastforce
    have u: "si_user_id S \<noteq> Null" "si_user_id S \<noteq> Str []" using stocked by (simp_all add: site_stocked_def)
    have "settle select ?s = ?s\<lparr>ui_url := ''/home''\<rparr>"
      using assms(1) u by (simp add: settle_def at_login_def unmounted_def go_login [OF router])
    moreover have "goes_out S (''/login'', ''login'', vs)" using True by (auto simp: goes_out_def is_accepted_def)
    then have "fresh ''/home'' c (k @ [(''/login'', ''login'', vs)]) initial_tab (?s\<lparr>ui_url := ''/home''\<rparr>)"
      using assms u by (simp add: fresh_def here_def quiet_def signed_def at_login_def unmounted_def)
    ultimately show ?thesis unfolding navigate_def using True by (intro wp_do [OF step]) (simp add: st)
  next
    case False
    have refused: "handle_event S SubmitLogin s = submit_here S ''login'' (\<lambda>s. s) s"
      unfolding handle_submit(5) by (rule submission_refused) (simp add: False assms(2) url)
    then obtain k' fs st e where s': "handle_event S SubmitLogin s = s\<lparr>ui_sent := k', ui_filled := fs, ui_status := st, ui_errors := e\<rparr>"
      using submission_outcome(1) [of s S "''login''"] by (auto simp: submitted_def)
    have "k' = ui_sent s @ filter (goes_out S) [(ui_url s, ''login'', ui_filled s)]"
      using submission_outcome(2) [of S "''login''" s] unfolding refused [symmetric] s' by simp
    then have "at_login c (k @ [(''/login'', ''login'', vs)]) (handle_event S SubmitLogin s)"
      unfolding s' using assms url by (simp add: at_login_def)
    moreover have "settle select (handle_event S SubmitLogin s) = handle_event S SubmitLogin s"
      unfolding s' using assms(1) by (simp add: settle_def at_login_def go_login [OF router])
    ultimately show ?thesis unfolding navigate_def using False by (intro wp_do [OF step]) simp
  qed
qed

lemma wp_login:
  assumes "at_login c k s" "ui_filled s = []"
  shows "wp (login user) (\<lambda>_. if login_accepted S user then fresh ''/home'' c (k @ [login_sent user]) initial_tab
      else at_login c (k @ [login_sent user])) s"
  unfolding login_def login_sent_def login_accepted_def
  by (intro wp_steps_cons wp_delay wp_login_field [OF _ login_page(1) selector_paths(2)]
      wp_login_field [OF _ login_page(2) selector_paths(3)]
      wp_mono [OF wp_login_button [where c = c and k = k and vs = "[(''login'', username user), (''password'', password user)]"]])
    (use assms in \<open>simp_all add: wp_return\<close>)

lemma wp_gotoPage:
  assumes "ui_user s = Null" "to = si_address S" "ui_sent s = []"
  shows "wp (gotoPage to) (\<lambda>_ s'. at_login (ui_cards s) [] s' \<and> ui_filled s' = []) s"
proof -
  let ?s = "unmounted (s\<lparr>ui_url := ''/'', ui_tab := initial_tab, ui_nav := True, ui_versions := False,
     ui_menu := False, ui_autofill := False, ui_select := None, ui_handles := [], ui_ended := False\<rparr>)"
  have "settle select ?s = ?s\<lparr>ui_url := ''/login''\<rparr>" using assms(1) by (simp add: settle_def unmounted_def go_root [OF router])
  then have step: "step S (GotoPage to) s = Some (?s\<lparr>ui_url := ''/login''\<rparr>)" using assms(2) by (simp add: ui_step_def)
  show ?thesis
    unfolding gotoPage_def by (rule wp_do [OF step]) (use assms(1,3) in \<open>simp add: at_login_def unmounted_def\<close>)
qed

text \<open>Without a user there is no navigation, and no button that opens it.\<close>

lemma stops_at_login:
  assumes "at_login c k s"
  shows "stops (gotoPageWithNavBar sel) (at_login c k) s"
proof -
  have user: "ui_user s = Null" "ui_url s = ''/login''" "ui_select s = None" "\<not> ui_menu s" "\<not> ui_versions s"
    using assms by (simp_all add: at_login_def)
  have "at_end None (site_header S s) = []"
    using user by (simp add: markup isLoggedIn_def)
  then have doc: "doc S s = in_place None [] (site_header S s) @ in_place None [] (login_tree s)"
    using user render
    by (simp add: document_def go_login [OF router] branch_elements [OF router] mui_documented_def component_node_def page_body_def
        mui_document_def AppLayout_def PublicLayout_node_def Login_page_def LoginForm_def DefaultLoginForm_def submit_button_def)
  have none: "find (hit (ByHref ''home'')) (doc S s) = None" "find (hit (ById ''button'' ''navigationToggler'')) (doc S s) = None"
    unfolding doc public_header [OF user(1)]
    by (simp_all add: Login_page_def LoginForm_def DefaultLoginForm_def submit_button_def find_append text_search)
  have "look render select query S s navigation_homePage = []"
    unfolding look [OF selector_paths(7)] using none(1) by (simp add: find_None_iff filter_empty_conv)
  moreover have "step S (Click navigation_sidebarToggler) s = None"
    by (simp add: step_use [OF selector_paths(5)] none(2))
  ultimately have "stops showNavbar (at_login c k) s"
    unfolding showNavbar_def click_def using assms
    by (intro stops_seq(2) wp_delay stops_later wp_present) (simp only: not_True_eq_False if_False simp_thms, intro stops_steps(1) stops_do)
  then show ?thesis unfolding gotoPageWithNavBar_def by (rule stops_steps(1))
qed

end

end
