(* ===== verification/Fe_Mocks.thy ===== *)
theory Fe_Mocks
  imports Fe_Trade_Forms Fe_Api Fe_Types
begin

text \<open>
  The mock API of the frontend (\<open>api/*/mockData.ts\<close>, \<open>api/*/mockFunc.ts\<close>): the data, written out, and the
  handlers. A mock call is the milliseconds it waits and what it then gives or throws; its lines on the console
  are left out. A decimal is the double nearest to it.
\<close>

section \<open>Data\<close>

definition first_instruments :: "Instrument list" where
  "first_instruments =
     [\<lparr>it_id = Str ''1'', it_code = ''ETRAVE'', it_name = ''EasyTravel'', it_description = ''EasyTravel Incorporated'', it_productId = jint 1,
        it_productName = ''Share'',
        it_price = \<lparr>ip_timestamp = ''2023-07-28T12:46:00Z'', ip_open = fl (13689930556 / 100000000), ip_close = fl (13694097222 / 100000000),
          ip_low = fl (13554899536 / 100000000), ip_high = fl (13806830198 / 100000000)\<rparr>,
        it_amount = jint 0\<rparr>,
      \<lparr>it_id = Str ''2'', it_code = ''EPLANE'', it_name = ''EasyPlanes'', it_description = ''EasyPlanes Worldwide'', it_productId = jint 2,
        it_productName = ''ETF'',
        it_price = \<lparr>ip_timestamp = ''2023-07-28T12:46:00Z'', ip_open = fl (9402592593 / 100000000), ip_close = fl (9407037037 / 100000000),
          ip_low = fl (9347043922 / 100000000), ip_high = fl (9457735546 / 100000000)\<rparr>,
        it_amount = jint 0\<rparr>,
      \<lparr>it_id = Str ''3'', it_code = ''EHOTEL'', it_name = ''EasyHotels'', it_description = ''EasyHotels International'', it_productId = jint 3,
        it_productName = ''Crypto'',
        it_price = \<lparr>ip_timestamp = ''2023-07-28T12:46:00Z'', ip_open = fl (1775972222 / 100000000), ip_close = fl (1777638889 / 100000000),
          ip_low = fl (1756330321 / 100000000), ip_high = fl (1795577612 / 100000000)\<rparr>,
        it_amount = jint 0\<rparr>,
      \<lparr>it_id = Str ''4'', it_code = ''JANGRP'', it_name = ''Janssen Groep'', it_description = ''Janssen Groep'', it_productId = jint 1,
        it_productName = ''Share'',
        it_price = \<lparr>ip_timestamp = ''2023-07-28T12:46:00Z'', ip_open = fl (23193519 / 100000000), ip_close = fl (23182407 / 100000000),
          ip_low = fl (22995119 / 100000000), ip_high = fl (2338967 / 10000000)\<rparr>,
        it_amount = jint 0\<rparr>,
      \<lparr>it_id = Str ''5'', it_code = ''CORFIG'', it_name = ''Corti e figli'', it_description = ''Corti e figli'', it_productId = jint 2,
        it_productName = ''ETF'',
        it_price = \<lparr>ip_timestamp = ''2023-07-28T12:46:00Z'', ip_open = fl (27216551 / 100000000), ip_close = fl (27223495 / 100000000),
          ip_low = fl (27029866 / 100000000), ip_high = fl (27407263 / 100000000)\<rparr>,
        it_amount = jint 0\<rparr>,
      \<lparr>it_id = Str ''6'', it_code = ''CMRTIN'', it_name = ''Cummerata Inc'', it_description = ''Cummerata Inc'', it_productId = jint 3,
        it_productName = ''Crypto'',
        it_price = \<lparr>ip_timestamp = ''2023-07-28T12:46:00Z'', ip_open = fl (192464815 / 100000000), ip_close = fl (192575926 / 100000000),
          ip_low = fl (190543412 / 100000000), ip_high = fl (194374358 / 100000000)\<rparr>,
        it_amount = jint 0\<rparr>,
      \<lparr>it_id = Str ''7'', it_code = ''CHAMAT'', it_name = ''Charles - Mathieu'', it_description = ''Charles - Mathieu'', it_productId = jint 1,
        it_productName = ''Share'',
        it_price = \<lparr>ip_timestamp = ''2023-07-28T12:46:00Z'', ip_open = fl (131433796 / 100000000), ip_close = fl (131406019 / 100000000),
          ip_low = fl (129530193 / 100000000), ip_high = fl (133327475 / 100000000)\<rparr>,
        it_amount = jint 0\<rparr>,
      \<lparr>it_id = Str ''8'', it_code = ''BLSTCR'', it_name = ''BlueStar Craft'', it_description = ''BlueStar Craft'', it_productId = jint 2,
        it_productName = ''ETF'',
        it_price = \<lparr>ip_timestamp = ''2023-07-28T12:46:00Z'', ip_open = fl (814762037 / 100000000), ip_close = fl (815039815 / 100000000),
          ip_low = fl (806908858 / 100000000), ip_high = fl (822301537 / 100000000)\<rparr>,
        it_amount = jint 0\<rparr>]"

definition other_instruments :: "Instrument list" where
  "other_instruments =
     [\<lparr>it_id = Str ''9'', it_code = ''CAFGAL'', it_name = ''Cafe Galore'', it_description = ''Cafe Galore'', it_productId = jint 3,
        it_productName = ''Crypto'',
        it_price = \<lparr>ip_timestamp = ''2023-07-28T12:46:00Z'', ip_open = fl (469910185 / 100000000), ip_close = fl (470099074 / 100000000),
          ip_low = fl (466189436 / 100000000), ip_high = fl (473903894 / 100000000)\<rparr>,
        it_amount = jint 0\<rparr>,
      \<lparr>it_id = Str ''10'', it_code = ''DECGRP'', it_name = ''Deckerr Gruppe'', it_description = ''Deckerr Gruppe'', it_productId = jint 1,
        it_productName = ''Share'',
        it_price = \<lparr>ip_timestamp = ''2023-07-28T12:46:00Z'', ip_open = fl (91635185 / 100000000), ip_close = fl (91524074 / 100000000),
          ip_low = fl (9064131 / 10000000), ip_high = fl (92611086 / 100000000)\<rparr>,
        it_amount = jint 0\<rparr>,
      \<lparr>it_id = Str ''11'', it_code = ''PETBAN'', it_name = ''Peters Bank'', it_description = ''Peters Bank'', it_productId = jint 2,
        it_productName = ''ETF'',
        it_price = \<lparr>ip_timestamp = ''2023-07-28T12:46:00Z'', ip_open = fl (364435185 / 100000000), ip_close = fl (364324074 / 100000000),
          ip_low = fl (36044698 / 10000000), ip_high = fl (368361082 / 100000000)\<rparr>,
        it_amount = jint 0\<rparr>,
      \<lparr>it_id = Str ''12'', it_code = ''BATBAT'', it_name = ''Batista - Batista'', it_description = ''Batista - Batista'', it_productId = jint 3,
        it_productName = ''Crypto'',
        it_price = \<lparr>ip_timestamp = ''2023-07-28T12:46:00Z'', ip_open = fl (839488889 / 100000000), ip_close = fl (840155556 / 100000000),
          ip_low = fl (831721199 / 100000000), ip_high = fl (847018505 / 100000000)\<rparr>,
        it_amount = jint 0\<rparr>,
      \<lparr>it_id = Str ''13'', it_code = ''STOLLC'', it_name = ''Stokes LLC'', it_description = ''Stokes LLC'', it_productId = jint 1,
        it_productName = ''Share'',
        it_price = \<lparr>ip_timestamp = ''2023-07-28T12:46:00Z'', ip_open = fl (43719444 / 100000000), ip_close = fl (43752778 / 100000000),
          ip_low = fl (43348289 / 100000000), ip_high = fl (44106881 / 100000000)\<rparr>,
        it_amount = jint 0\<rparr>,
      \<lparr>it_id = Str ''14'', it_code = ''LEBRGA'', it_name = ''Lemke - Braun Garden'', it_description = ''Lemke - Braun Garden'', it_productId = jint 2,
        it_productName = ''ETF'',
        it_price = \<lparr>ip_timestamp = ''2023-07-28T12:46:00Z'', ip_open = fl (8946759 / 100000000), ip_close = fl (8941204 / 100000000),
          ip_low = fl (8808759 / 100000000), ip_high = fl (908183 / 10000000)\<rparr>,
        it_amount = jint 0\<rparr>,
      \<lparr>it_id = Str ''15'', it_code = ''MOROBA'', it_name = ''Mohr Royalty Bank'', it_description = ''Mohr Royalty Bank'', it_productId = jint 3,
        it_productName = ''Crypto'',
        it_price = \<lparr>ip_timestamp = ''2023-07-28T12:46:00Z'', ip_open = fl (1109662 / 10000000), ip_close = fl (11099398 / 100000000),
          ip_low = fl (10957413 / 100000000), ip_high = fl (11220813 / 100000000)\<rparr>,
        it_amount = jint 0\<rparr>]"

definition INSTRUMENTS :: "Instrument list" where
  "INSTRUMENTS = first_instruments @ other_instruments"

lemmas instruments_defs = INSTRUMENTS_def first_instruments_def other_instruments_def

record MockUser =
  mu_password :: string
  mu_id :: jsnum
  mu_packageId :: jsnum
  mu_firstName :: string
  mu_lastName :: string
  mu_username :: string
  mu_email :: string
  mu_hashedPassword :: string
  mu_origin :: string
  mu_creationDate :: string
  mu_packageActivationDate :: string
  mu_accountActive :: bool
  mu_address :: string

definition USERS :: "MockUser list" where
  "USERS =
     [\<lparr>mu_password = ''pass_james_123'', mu_id = jint 6, mu_packageId = jint 3, mu_firstName = ''James'', mu_lastName = ''Norton'',
        mu_username = ''james_norton'', mu_email = ''james.norton@yahoo.com'',
        mu_hashedPassword = ''65593378630b74fd4d77eb54473a6a389e8eb23a7b67faefd798835543aa3967'',
        mu_origin = ''PRESET'', mu_creationDate = ''2022-01-08 15:01:21'', mu_packageActivationDate = ''2022-01-08 15:01:21'',
        mu_accountActive = True, mu_address = ''test address 123''\<rparr>,
      \<lparr>mu_password = ''pass_jessica_123'', mu_id = jint 7, mu_packageId = jint 1, mu_firstName = ''Jessica'', mu_lastName = ''Smith'',
        mu_username = ''jessica_smith'', mu_email = ''jessica.smith@gmail.com'',
        mu_hashedPassword = ''3488b51313c45f71c34ccabbc40b42e700f7977e1acd6fb8dd5d9c96c808f66f'',
        mu_origin = ''PRESET'', mu_creationDate = ''2021-12-30 08:54:00'', mu_packageActivationDate = ''2021-12-30 08:54:00'',
        mu_accountActive = True, mu_address = ''test address 123''\<rparr>,
      \<lparr>mu_password = ''pass_tracy_123'', mu_id = jint 8, mu_packageId = jint 3, mu_firstName = ''Tracy'', mu_lastName = ''Wright'',
        mu_username = ''tracy_wright'', mu_email = ''tracy.wright@gmail.com'',
        mu_hashedPassword = ''4f359e89e46e0988e4abf0b248074c815b682d5417bced6e88f955f12313859f'',
        mu_origin = ''PRESET'', mu_creationDate = ''2022-01-10 04:20:11'', mu_packageActivationDate = ''2022-01-10 04:20:11'',
        mu_accountActive = True, mu_address = ''test address 123''\<rparr>]"

record PresetUser =
  ps_id :: jsnum
  ps_username :: string
  ps_firstName :: string
  ps_lastName :: string

definition PRESET_USERS :: "PresetUser list" where
  "PRESET_USERS = map (\<lambda>u. \<lparr>ps_id = mu_id u, ps_username = mu_username u, ps_firstName = mu_firstName u,
     ps_lastName = mu_lastName u\<rparr>) USERS"

record PriceEntry =
  pe_id :: jsnum
  pe_instrumentId :: jsnum
  pe_timestamp :: string
  pe_open :: jsnum
  pe_high :: jsnum
  pe_low :: jsnum
  pe_close :: jsnum

definition LATEST_PRICES :: "PriceEntry list" where
  "LATEST_PRICES =
     [\<lparr>pe_id = jint 256846, pe_instrumentId = jint 1, pe_timestamp = ''2023-04-04T13:05:00Z'',
        pe_open = fl (13768958333 / 100000000), pe_high = fl (13907805518 / 100000000), pe_low = fl (13637064957 / 100000000),
        pe_close = fl (13773125 / 100000)\<rparr>,
      \<lparr>pe_id = jint 256847, pe_instrumentId = jint 2, pe_timestamp = ''2023-04-04T13:05:00Z'',
        pe_open = fl (9486888889 / 100000000), pe_high = fl (9544784334 / 100000000), pe_low = fl (9431277586 / 100000000),
        pe_close = fl (9491333333 / 100000000)\<rparr>,
      \<lparr>pe_id = jint 256848, pe_instrumentId = jint 3, pe_timestamp = ''2023-04-04T13:05:00Z'',
        pe_open = fl (1807583333 / 100000000), pe_high = fl (1827412251 / 100000000), pe_low = fl (1787590367 / 100000000),
        pe_close = fl (180925 / 10000)\<rparr>,
      \<lparr>pe_id = jint 256849, pe_instrumentId = jint 4, pe_timestamp = ''2023-04-04T13:05:00Z'',
        pe_open = fl (22982778 / 100000000), pe_high = fl (23174109 / 100000000), pe_low = fl (22786974 / 100000000),
        pe_close = fl (22971667 / 100000000)\<rparr>,
      \<lparr>pe_id = jint 256850, pe_instrumentId = jint 5, pe_timestamp = ''2023-04-04T13:05:00Z'',
        pe_open = fl (27348264 / 100000000), pe_high = fl (2754496 / 10000000), pe_low = fl (27158477 / 100000000),
        pe_close = fl (27355208 / 100000000)\<rparr>,
      \<lparr>pe_id = jint 256851, pe_instrumentId = jint 6, pe_timestamp = ''2023-04-04T13:05:00Z'',
        pe_open = fl (194572222 / 100000000), pe_high = fl (196486361 / 100000000), pe_low = fl (192615336 / 100000000),
        pe_close = fl (194683333 / 100000000)\<rparr>,
      \<lparr>pe_id = jint 256852, pe_instrumentId = jint 7, pe_timestamp = ''2023-04-04T13:05:00Z'',
        pe_open = fl (130906944 / 100000000), pe_high = fl (132804647 / 100000000), pe_low = fl (128942186 / 100000000),
        pe_close = fl (130879167 / 100000000)\<rparr>,
      \<lparr>pe_id = jint 256853, pe_instrumentId = jint 8, pe_timestamp = ''2023-04-04T13:05:00Z'',
        pe_open = fl (820030556 / 100000000), pe_high = fl (827920498 / 100000000), pe_low = fl (81219989 / 10000000),
        pe_close = fl (820308333 / 100000000)\<rparr>,
      \<lparr>pe_id = jint 256854, pe_instrumentId = jint 9, pe_timestamp = ''2023-04-04T13:05:00Z'',
        pe_open = fl (473492778 / 100000000), pe_high = fl (477447025 / 100000000), pe_low = fl (469544523 / 100000000),
        pe_close = fl (473681667 / 100000000)\<rparr>,
      \<lparr>pe_id = jint 256855, pe_instrumentId = jint 10, pe_timestamp = ''2023-04-04T13:05:00Z'',
        pe_open = fl (89527778 / 100000000), pe_high = fl (90478886 / 100000000), pe_low = fl (8856325 / 10000000),
        pe_close = fl (89416667 / 100000000)\<rparr>,
      \<lparr>pe_id = jint 256856, pe_instrumentId = jint 11, pe_timestamp = ''2023-04-04T13:05:00Z'',
        pe_open = fl (362327778 / 100000000), pe_high = fl (365957571 / 100000000), pe_low = fl (358399074 / 100000000),
        pe_close = fl (362216667 / 100000000)\<rparr>,
      \<lparr>pe_id = jint 256857, pe_instrumentId = jint 12, pe_timestamp = ''2023-04-04T13:05:00Z'',
        pe_open = fl (852133333 / 100000000), pe_high = fl (859939838 / 100000000), pe_low = fl (844446944 / 100000000),
        pe_close = fl (8528 / 1000)\<rparr>,
      \<lparr>pe_id = jint 256858, pe_instrumentId = jint 13, pe_timestamp = ''2023-04-04T13:05:00Z'',
        pe_open = fl (44351667 / 100000000), pe_high = fl (44729446 / 100000000), pe_low = fl (43956996 / 100000000),
        pe_close = fl (44385 / 100000)\<rparr>,
      \<lparr>pe_id = jint 256859, pe_instrumentId = jint 14, pe_timestamp = ''2023-04-04T13:05:00Z'',
        pe_open = fl (8841389 / 100000000), pe_high = fl (8975643 / 100000000), pe_low = fl (8706928 / 100000000),
        pe_close = fl (8835833 / 100000000)\<rparr>,
      \<lparr>pe_id = jint 256860, pe_instrumentId = jint 15, pe_timestamp = ''2023-04-04T13:05:00Z'',
        pe_open = fl (11149306 / 100000000), pe_high = fl (11285592 / 100000000), pe_low = fl (11019602 / 100000000),
        pe_close = fl (11152083 / 100000000)\<rparr>]"

definition mock_transactions :: "fe_transaction list" where
  "mock_transactions =
     [\<lparr>ft_id = 1, ft_actionType = ''SELL'', ft_instrumentName = ''EasyHotels'', ft_amount = Num (jint 8460),
        ft_price = Num (fl (2317 / 100)), ft_status = ''FAIL'', ft_endTime = Str ''2023-03-20T12:15:00''\<rparr>,
      \<lparr>ft_id = 2, ft_actionType = ''BUY'', ft_instrumentName = ''Charles - Mathieu'', ft_amount = Num (jint 7),
        ft_price = Num (fl (37136 / 10)), ft_status = ''SUCCESS'', ft_endTime = Str ''2023-03-22T15:03:00''\<rparr>,
      \<lparr>ft_id = 3, ft_actionType = ''BUY'', ft_instrumentName = ''Janssen Groep'', ft_amount = Num (jint 234),
        ft_price = Num (fl (3736 / 10)), ft_status = ''FAIL'', ft_endTime = Str ''2023-03-21T08:04:00''\<rparr>,
      \<lparr>ft_id = 4, ft_actionType = ''SELL'', ft_instrumentName = ''BlueStar Craft'', ft_amount = Num (jint 56),
        ft_price = Num (fl (100023 / 100)), ft_status = ''SUCCESS'', ft_endTime = Str ''2023-03-22T03:03:00''\<rparr>,
      \<lparr>ft_id = 5, ft_actionType = ''BUY'', ft_instrumentName = ''Charles - Mathieu'', ft_amount = Num (jint 10),
        ft_price = Num (fl (37136 / 10)), ft_status = ''FAIL'', ft_endTime = Str ''2023-03-21T20:03:00''\<rparr>,
      \<lparr>ft_id = 6, ft_actionType = ''BUY'', ft_instrumentName = ''EasyHotels'', ft_amount = Num (jint 12),
        ft_price = Num (fl (2317 / 100)), ft_status = ''SUCCESS'', ft_endTime = Str ''2023-03-20T18:03:00''\<rparr>,
      \<lparr>ft_id = 7, ft_actionType = ''SELL'', ft_instrumentName = ''EasyHotels'', ft_amount = Num (jint 239),
        ft_price = Num (fl (2317 / 100)), ft_status = ''ACTIVE'', ft_endTime = Str ''2023-04-20T18:03:00''\<rparr>,
      \<lparr>ft_id = 8, ft_actionType = ''BUY'', ft_instrumentName = ''Mohr Royalty Bank'', ft_amount = Num (jint 4731),
        ft_price = Num (jint 11), ft_status = ''ACTIVE'', ft_endTime = Str ''2023-05-21T13:03:00''\<rparr>,
      \<lparr>ft_id = 9, ft_actionType = ''SELL'', ft_instrumentName = ''Peters Bank'', ft_amount = Num (jint 321),
        ft_price = Num (fl (23017 / 100)), ft_status = ''ACTIVE'', ft_endTime = Str ''2023-05-01T18:03:00''\<rparr>,
      \<lparr>ft_id = 10, ft_actionType = ''BUY'', ft_instrumentName = ''EasyHotels'', ft_amount = Num (jint 102),
        ft_price = Num (fl (2532 / 100)), ft_status = ''ACTIVE'', ft_endTime = Str ''2023-04-17T18:03:00''\<rparr>,
      \<lparr>ft_id = 11, ft_actionType = ''BUY'', ft_instrumentName = ''Charles - Mathieu'', ft_amount = Num (jint 428),
        ft_price = Num (fl (2101 / 10)), ft_status = ''ACTIVE'', ft_endTime = Str ''2023-04-10T18:03:00''\<rparr>]"

definition VERSIONS :: "ServiceVersion list" where
  "VERSIONS =
     [VersionSuccess ''Broker Service'' (Obj [(''buildVersion'', Str ''Mock Broker Service version''), (''buildDate'', Str ''Date''),
        (''buildCommit'', Str ''Commit'')]),
      VersionSuccess ''Login Service'' (Obj [(''buildVersion'', Str ''Mock Login Service version''), (''buildDate'', Str ''Date''),
        (''buildCommit'', Str ''Commit'')]),
      VersionSuccess ''Pricing Service'' (Obj [(''buildVersion'', Str ''Mock Pricing Service version''), (''buildDate'', Str ''Date''),
        (''buildCommit'', Str ''Commit'')])]"

definition lorem_ipsum :: string where
  "lorem_ipsum =
     (let s = ''Lorem ipsum dolor sit amet, consectetur adipiscing elit. Suspendisse malesuada lacus ex, sit amet '' @
        ''blandit leo lobortis eget.'' in s @ '' '' @ s)"

definition FEATURE_FLAGS :: jsval where
  "FEATURE_FLAGS = Obj [(''results'', Arr
     [Obj [(''id'', Str ''1''), (''name'', Str ''ergo_aggregator_slowdown''), (''description'', Str lorem_ipsum),
        (''enabled'', Bool False), (''isModifiable'', Bool True), (''tag'', Str ''problem_pattern'')],
      Obj [(''id'', Str ''2''), (''name'', Str ''db_not_responding''), (''description'', Str lorem_ipsum),
        (''enabled'', Bool False), (''isModifiable'', Bool True), (''tag'', Str ''problem_pattern'')],
      Obj [(''id'', Str ''3''), (''name'', Str ''frontend_feature_flag_management''), (''description'', Str lorem_ipsum),
        (''enabled'', Bool False), (''isModifiable'', Bool True), (''tag'', Str ''config'')]])]"


section \<open>Handlers\<close>

type_synonym 'a mock = "nat \<times> (js_error, 'a) result"

definition after :: "nat \<Rightarrow> 'a \<Rightarrow> 'a mock" where "after ms x = (ms, Inr x)"

definition loginMock :: "string \<Rightarrow> string \<Rightarrow> jsval mock" where
  "loginMock user pass =
     after 2000 (case find (\<lambda>u. mu_username u = user \<and> mu_password u = pass) USERS of
         Some u \<Rightarrow> Obj [(''id'', Str (num_to_string (mu_id u)))]
       | None \<Rightarrow> Obj [(''error'', Str ''Login or password invalid'')])"

definition logout_mock :: "unit mock" where "logout_mock = after 0 ()"

definition getUserMock :: "string \<Rightarrow> fe_user mock" where
  "getUserMock userId =
     (case find (\<lambda>u. num_to_string (mu_id u) = userId) USERS of
        None \<Rightarrow> (1000, Inl (ErrorMsg (''User with id ['' @ userId @ ''] not found'')))
      | Some u \<Rightarrow> after 1000
          \<lparr>fu_id = num_to_string (mu_id u), fu_firstName = Str (mu_firstName u), fu_lastName = Str (mu_lastName u),
           fu_packageType = num_to_string (mu_packageId u), fu_email = Str (mu_email u), fu_address = Str (mu_address u)\<rparr>)"

definition getPresetUsersMock :: "jsval list mock" where
  "getPresetUsersMock = after 1000 (map (\<lambda>u.
     Obj [(''id'', Str (num_to_string (ps_id u))), (''firstName'', Str (ps_firstName u)), (''lastName'', Str (ps_lastName u))])
     PRESET_USERS)"

definition getInstrumentsMock :: "Instrument list mock" where
  "getInstrumentsMock = after 1000 INSTRUMENTS"

definition getLatestPricesMock :: "(string \<times> string \<times> InstrumentPrice) list mock" where
  "getLatestPricesMock = after 1000 (map (\<lambda>p. (num_to_string (pe_id p), num_to_string (pe_instrumentId p),
     \<lparr>ip_timestamp = pe_timestamp p, ip_open = pe_open p, ip_close = pe_close p, ip_low = pe_low p, ip_high = pe_high p\<rparr>))
     LATEST_PRICES)"

definition getAllVersionsMock :: "ServiceVersion list mock" where
  "getAllVersionsMock = after 1000 VERSIONS"

definition quickBuyMock :: "string \<Rightarrow> string \<Rightarrow> jsnum \<Rightarrow> jsnum \<Rightarrow> HandlerResponse mock" where
  "quickBuyMock userId instrumentId amount price =
     after 2000 (Some (''There once was a ship that put to sea, the name of the ship was '' @ [CHR 0x22] @
       ''Ahh yerr got an error!'' @ [CHR 0x22]))"

definition quickSellMock :: "string \<Rightarrow> string \<Rightarrow> jsnum \<Rightarrow> jsnum \<Rightarrow> HandlerResponse mock" where
  "quickSellMock userId instrumentId amount price = after 2000 None"

definition buyMock :: "string \<Rightarrow> string \<Rightarrow> jsnum \<Rightarrow> jsnum \<Rightarrow> jsnum \<Rightarrow> HandlerResponse mock" where
  "buyMock userId instrumentId amount price time = after 2000 None"

definition sellMock :: "string \<Rightarrow> string \<Rightarrow> jsnum \<Rightarrow> jsnum \<Rightarrow> jsnum \<Rightarrow> HandlerResponse mock" where
  "sellMock userId instrumentId amount price time = after 2000 None"

definition signupMock :: "SignupRequest \<Rightarrow> HandlerResponse mock" where
  "signupMock request = after 3000 None"

text \<open>The message of the withdrawal is the one of the deposit, as in the code.\<close>

definition deposit_handlerMock :: "DepositRequest \<Rightarrow> bool \<Rightarrow> HandlerResponse mock" where
  "deposit_handlerMock request fails =
     after 3000 (if fails then Some ''There was an error processing the deposit'' else None)"

definition getDepositHandlerMock :: "bool option \<Rightarrow> DepositRequest \<Rightarrow> HandlerResponse mock" where
  "getDepositHandlerMock fails = (\<lambda>request. deposit_handlerMock request (opt_or fails False))"

definition withdraw_handlerMock :: "WithdrawRequest \<Rightarrow> bool \<Rightarrow> HandlerResponse mock" where
  "withdraw_handlerMock request fails =
     after 3000 (if fails then Some ''There was an error processing the deposit'' else None)"

definition getWithdrawHandlerMock :: "bool option \<Rightarrow> WithdrawRequest \<Rightarrow> HandlerResponse mock" where
  "getWithdrawHandlerMock fails = (\<lambda>request. withdraw_handlerMock request (opt_or fails False))"

text \<open>The mock of the flags keeps its state in the data. The first flag cannot be set.\<close>

definition with_enabled :: "bool \<Rightarrow> jsval \<Rightarrow> jsval" where
  "with_enabled enabled f = (case f of
      Obj kvs \<Rightarrow> Obj (if ''enabled'' \<in> fst ` set kvs
        then map (\<lambda>(k, v). (k, if k = ''enabled'' then Bool enabled else v)) kvs
        else kvs @ [(''enabled'', Bool enabled)])
    | v \<Rightarrow> v)"

definition mockHandleFlagToggle :: "string \<Rightarrow> bool \<Rightarrow> jsval \<Rightarrow> HandlerResponse mock \<times> jsval" where
  "mockHandleFlagToggle flagId enabled flags =
     (if flagId = ''1'' then (after 2000 (Some (''You'' @ [CHR 0x27] @ ''re an Error Harry!'')), flags)
      else case find (\<lambda>(i, f). strict_eq (opt_prop f ''id'') (Str flagId)) (enumerate 0 (results_of flags)) of
          None \<Rightarrow> (after 2000 (Some ''Flag not found''), flags)
        | Some (index, f) \<Rightarrow>
            (after 2000 None, Obj [(''results'', Arr ((results_of flags)[index := with_enabled enabled f]))]))"

definition mockGetFeatureFlags :: "jsval \<Rightarrow> jsval mock" where
  "mockGetFeatureFlags flags = after 2000 flags"

section \<open>The data agree\<close>

lemma small_number: "0 \<le> n \<Longrightarrow> n \<le> 1000000 \<Longrightarrow> num_to_string (jint n) = dec (nat n)"
  using num_to_string_nat [of "nat n"] by simp

text \<open>Each mock user can sign in, and the id that is given finds this user again.\<close>

lemma mock_session:
  assumes "u \<in> set USERS"
  shows "loginMock (mu_username u) (mu_password u) = after 2000 (Obj [(''id'', Str (num_to_string (mu_id u)))])"
    "getUserMock (num_to_string (mu_id u)) = after 1000
       \<lparr>fu_id = num_to_string (mu_id u), fu_firstName = Str (mu_firstName u), fu_lastName = Str (mu_lastName u),
        fu_packageType = num_to_string (mu_packageId u), fu_email = Str (mu_email u), fu_address = Str (mu_address u)\<rparr>"
proof -
  have "\<forall>u \<in> set USERS. find (\<lambda>v. mu_username v = mu_username u \<and> mu_password v = mu_password u) USERS = Some u"
    by (simp add: USERS_def)
  with assms show "loginMock (mu_username u) (mu_password u) = after 2000 (Obj [(''id'', Str (num_to_string (mu_id u)))])"
    by (simp add: loginMock_def)
  have "\<forall>u \<in> set USERS. find (\<lambda>v. num_to_string (mu_id v) = num_to_string (mu_id u)) USERS = Some u"
    by (simp add: USERS_def small_number dec.simps digit_char_def)
  with assms show "getUserMock (num_to_string (mu_id u)) = after 1000
       \<lparr>fu_id = num_to_string (mu_id u), fu_firstName = Str (mu_firstName u), fu_lastName = Str (mu_lastName u),
        fu_packageType = num_to_string (mu_packageId u), fu_email = Str (mu_email u), fu_address = Str (mu_address u)\<rparr>"
    by (simp add: getUserMock_def)
qed

text \<open>There is a latest price for each instrument, in the same order, and their ids can stand in a URL.\<close>

lemma mock_prices: "map (\<lambda>p. Str (num_to_string (pe_instrumentId p))) LATEST_PRICES = map it_id INSTRUMENTS"
  by (simp add: LATEST_PRICES_def instruments_defs small_number dec.simps digit_char_def char_of_def bit_Suc_0_iff)

lemma mock_preset_ids:
  "getPresetUsersMock = after 1000 (map (\<lambda>u.
     Obj [(''id'', Str (num_to_string (mu_id u))), (''firstName'', Str (mu_firstName u)), (''lastName'', Str (mu_lastName u))]) USERS)"
  by (simp add: getPresetUsersMock_def PRESET_USERS_def o_def)

text \<open>The mock flags have the type declared for the answer of the service, and setting one keeps it: of the flag that
  is set nothing but the state changes.\<close>

lemma mock_flags_typed: "has_type FlagResponseContainer_t FEATURE_FLAGS"
  by (simp add: FEATURE_FLAGS_def FlagResponseContainer_t_def results_t_def RawFeatureFlag_t_def opt_prop_def)

lemma map_of_with_enabled:
  "map_of (map (\<lambda>(k, v). (k, if k = ''enabled'' then Bool b else v)) kvs) k =
     map_option (\<lambda>v. if k = ''enabled'' then Bool b else v) (map_of kvs k)"
  by (induction kvs) auto

lemma with_enabled_prop:
  "opt_prop (with_enabled b (Obj kvs)) k = (if k = ''enabled'' then Bool b else opt_prop (Obj kvs) k)"
proof (cases "''enabled'' \<in> fst ` set kvs")
  case True
  then obtain v where "map_of kvs ''enabled'' = Some v" by (metis map_of_eq_None_iff not_None_eq)
  with True show ?thesis by (auto simp: with_enabled_def opt_prop_def map_of_with_enabled split: option.splits)
next
  case False
  then have "map_of kvs ''enabled'' = None" by (simp add: map_of_eq_None_iff)
  with False show ?thesis by (auto simp: with_enabled_def opt_prop_def map_add_def split: option.splits)
qed

lemma with_enabled_typed: "has_type RawFeatureFlag_t f \<Longrightarrow> has_type RawFeatureFlag_t (with_enabled b f)"
proof -
  assume typed: "has_type RawFeatureFlag_t f"
  then obtain kvs where f: "f = Obj kvs" using typed_base(5) unfolding RawFeatureFlag_t_def by blast
  obtain kvs' where f': "with_enabled b f = Obj kvs'" by (auto simp: with_enabled_def f)
  have "opt_prop (Obj kvs') k = (if k = ''enabled'' then Bool b else opt_prop (Obj kvs) k)" for k
    using with_enabled_prop [of b kvs k] f' unfolding f by simp
  then show ?thesis using typed unfolding f' unfolding f RawFeatureFlag_t_def typed_obj_iff by simp
qed

lemma mock_toggle_typed:
  assumes "has_type FlagResponseContainer_t flags"
  shows "has_type FlagResponseContainer_t (snd (mockHandleFlagToggle i b flags))"
proof (cases "find (\<lambda>(k, f). strict_eq (opt_prop f ''id'') (Str i)) (enumerate 0 (results_of flags))")
  case None
  then show ?thesis using assms by (simp add: mockHandleFlagToggle_def)
next
  case (Some p)
  have "(''results'', TArr RawFeatureFlag_t) \<in> set [(''results'', TArr RawFeatureFlag_t)]" by simp
  note field = typed_obj [OF assms [unfolded FlagResponseContainer_t_def results_t_def] this]
  obtain vs where vs: "opt_prop flags ''results'' = Arr vs" "list_all (has_type RawFeatureFlag_t) vs"
    using typed_base(4) [OF field(2)] by blast
  obtain k f where p: "p = (k, f)" by (cases p)
  have "(k, f) \<in> set (enumerate 0 vs)" using Some unfolding p find_Some_iff by (auto simp: results_of_def vs(1) in_set_conv_nth)
  then have kf: "k < length vs" "f = vs ! k" by (auto simp: in_set_enumerate_eq)
  have "list_all (has_type RawFeatureFlag_t) (vs[k := with_enabled b f])"
    using vs(2) kf by (auto simp: list_all_length nth_list_update with_enabled_typed)
  then have "has_type FlagResponseContainer_t (Obj [(''results'', Arr (vs[k := with_enabled b f]))])"
    by (simp add: FlagResponseContainer_t_def results_t_def opt_prop_def)
  moreover have "results_of flags = vs" by (simp add: results_of_def vs(1))
  ultimately show ?thesis using assms Some by (simp add: mockHandleFlagToggle_def p)
qed

end
