(* ===== verification/Site_Complete.thy ===== *)
theory Site_Complete
  imports Site_Account Fe_Mocks Loadgen_Provider
begin

text \<open>
  The visits of the load generator on the frontend, from the first page to the end of the session: they return,
  they leave the user signed out, and the forms they sent are these. The locale is interpreted on the
  documented libraries.
\<close>

section \<open>What a visit sends\<close>

text \<open>The forms, in order; the amounts and prices of the trades are those the visit computed. A trade is sent from the
  page of an instrument, a sale from that of one that is owned.\<close>

fun visit_sends :: "site \<Rightarrow> visit \<Rightarrow> card_data \<Rightarrow> sent list \<Rightarrow> bool" where
  "visit_sends S (DepositAndBuyVisit nm url user depositValue) cards k \<longleftrightarrow>
     (\<exists>u \<in> instrument_urls (si_instruments S). \<exists>amount.
        k = [login_sent user, deposit_sent user depositValue, quick_sent u QuickBuyTab amount])"
| "visit_sends S (DepositAndLongBuyVisit nm c url user depositValue duration) cards k \<longleftrightarrow>
     (\<exists>u \<in> instrument_urls (si_instruments S). \<exists>price amount.
        k = [login_sent user, deposit_sent user depositValue, long_sent u BuyTab price duration amount])"
| "visit_sends S (LongSellVisit nm c url user sellRatio duration) cards k \<longleftrightarrow>
     (\<exists>u \<in> instrument_urls (owned_of (si_instruments S)). \<exists>price amount.
        k = [login_sent user, long_sent u SellTab price duration amount])"
| "visit_sends S (OrderCreditCardVisit nm url user cardType) cards k \<longleftrightarrow>
     k = [login_sent user] @ (if card_page (fst cards) = Some ''status'' then [] else [order_sent user cardType])"
| "visit_sends S (SellAndWithdrawVisit nm url user sellRatio least) cards k \<longleftrightarrow>
     (\<exists>u \<in> instrument_urls (owned_of (si_instruments S)). \<exists>amount money.
        k = [login_sent user, quick_sent u QuickSellTab amount, withdraw_sent user money])"

text \<open>A visit whose calculator returns, or whose card is one that is sold.\<close>

fun visit_returns :: "visit \<Rightarrow> bool" where
  "visit_returns (DepositAndLongBuyVisit nm c url user depositValue duration) \<longleftrightarrow> (\<forall>opt. computes (c opt))"
| "visit_returns (LongSellVisit nm c url user sellRatio duration) \<longleftrightarrow> (\<forall>opt. computes (c opt))"
| "visit_returns (OrderCreditCardVisit nm url user cardType) \<longleftrightarrow> cardType \<in> set EASYTRADE_CREDIT_CARD_TYPES"
| "visit_returns v \<longleftrightarrow> True"

lemma computes_bind:
  assumes "computes m" "\<And>x. computes (f x)"
  shows "computes (pbind m f)"
  unfolding computes_def
proof (intro allI)
  fix b s
  obtain x where x: "fst (m b s) = Inr x" "se_log (snd (m b s)) = se_log s" using assms(1) by (auto simp: computes_def)
  obtain y where y: "fst (f x b (snd (m b s))) = Inr y" "se_log (snd (f x b (snd (m b s)))) = se_log (snd (m b s))"
    using assms(2) [of x] by (auto simp: computes_def)
  have "pbind m f b s = f x b (snd (m b s))" using x(1) by (cases "m b s") (simp add: pbind_def)
  with x y show "\<exists>y. fst (pbind m f b s) = Inr y \<and> se_log (snd (pbind m f b s)) = se_log s" by auto
qed

lemma computes_simps: "computes (preturn x)" "computes (randomBetween lo hi)"
  by (simp_all add: computes_def preturn_def randomBetween_def draw_def)

lemma calculators_compute:
  "computes (successBuyCalculator b)" "computes (timeoutBuyCalculator b)" "computes (errorBuyCalculator b)"
  "computes (successSellCalculator s)" "computes (timeoutSellCalculator s)" "computes (errorSellCalculator s)"
  unfolding successBuyCalculator_def timeoutBuyCalculator_def errorBuyCalculator_def
    successSellCalculator_def timeoutSellCalculator_def errorSellCalculator_def Let_def
  by (intro computes_bind computes_simps)+

section \<open>The visits\<close>

definition signed_out :: "site \<Rightarrow> sent list \<Rightarrow> ui \<Rightarrow> bool" where
  "signed_out S k s \<longleftrightarrow> ui_user s = Null \<and> ui_url s = ''/login'' \<and> ui_sent s = filter (goes_out S) k \<and> ui_ended s"

text \<open>The answers a visit depends on: that of the login, and for an order that of the revocation of an active card.\<close>

definition visit_goes_on :: "site \<Rightarrow> visit \<Rightarrow> card_data \<Rightarrow> bool" where
  "visit_goes_on S v cards \<longleftrightarrow> login_accepted S (visit_user v) \<and>
     (case v of OrderCreditCardVisit nm url user cardType \<Rightarrow> order_goes_on S cards | _ \<Rightarrow> True)"

text \<open>What a visit leaves behind when it stops.\<close>

definition visit_stopped :: "site \<Rightarrow> User \<Rightarrow> card_data \<Rightarrow> ui \<Rightarrow> bool" where
  "visit_stopped S user c s \<longleftrightarrow> ui_sent s = filter (goes_out S) [login_sent user] \<and> \<not> ui_ended s \<and> ui_cards s = c \<and>
     (if login_accepted S user then ui_user s \<noteq> Null \<and> ui_url s = ''/credit-card/active''
      else ui_user s = Null \<and> ui_url s = ''/login'')"

context site_run
begin

lemma wp_arrive:
  assumes "ui_user s = Null" "url_string url = si_address S" "ui_cards s = c" "ui_sent s = []" "login_accepted S user"
    and "\<And>s. fresh ''/home'' c [login_sent user] initial_tab s \<Longrightarrow> wp m Q s"
  shows "wp (pseq (gotoPage (url_string url)) (pseq (login user) m)) Q s"
proof -
  have "wp (login user) (\<lambda>_. wp m Q) s'" if "at_login (ui_cards s) [] s' \<and> ui_filled s' = []" for s'
    using that assms(3,5,6) by (intro wp_mono [OF wp_login [of c "[]"]]) auto
  then show ?thesis by (intro wp_seq wp_mono [OF wp_gotoPage [OF assms(1,2,4)]]) simp
qed

lemma stops_arrive:
  assumes "ui_user s = Null" "url_string url = si_address S" "ui_cards s = c" "ui_sent s = []"
    and "\<And>s. login_accepted S user \<Longrightarrow> fresh ''/home'' c [login_sent user] initial_tab s \<Longrightarrow> stops m K s"
    and "\<And>s. \<not> login_accepted S user \<Longrightarrow> at_login c [login_sent user] s \<Longrightarrow> stops m K s"
  shows "stops (pseq (gotoPage (url_string url)) (pseq (login user) m)) K s"
proof -
  have "wp (login user) (\<lambda>_. stops m K) s'" if "at_login (ui_cards s) [] s' \<and> ui_filled s' = []" for s'
    using that assms(3,5,6) by (intro wp_mono [OF wp_login [of c "[]"]]) (auto split: if_splits)
  then show ?thesis by (intro stops_seq(2) wp_mono [OF wp_gotoPage [OF assms(1,2,4)]]) simp
qed

lemma wp_leave:
  assumes "at_card c k t s"
  shows "wp (pseq logout endDtSession) (\<lambda>_. signed_out S k) s"
  by (intro wp_seq wp_mono [OF wp_logout [OF assms]] wp_delay) (simp add: signed_out_def)

lemma wp_finish:
  assumes "here u c k t s" "form_at n s" "card_settled c"
  shows "wp (pseq gotoCreditCardPage (pseq logout endDtSession)) (\<lambda>_. signed_out S k) s"
  by (intro wp_seq [OF wp_mono [OF wp_gotoCreditCardPage [OF assms]]] wp_leave) (erule conjunct1)

lemma wp_finish_trade:
  assumes "here u c k t s" "instrument_at u" "card_settled c"
  shows "wp (pseq gotoCreditCardPage (pseq logout endDtSession)) (\<lambda>_. signed_out S k) s"
  using here_instrument [OF assms(1,2)] wp_finish [OF assms(1) _ assms(3)] by blast

lemma form_here:
  "here ''/home'' c k t s \<Longrightarrow> form_at (Home_node (si_home S)) s"
  "here ''/deposit'' c k t s \<Longrightarrow> form_at (payment_page (DepositForm (si_balance S) (ui_errors s) False (ui_status s))) s"
  "here ''/withdraw'' c k t s \<Longrightarrow> form_at (payment_page (WithdrawForm (si_balance S) (ui_errors s) False (ui_status s))) s"
  using form_pages(1) form_payment by (simp_all add: here_def)

text \<open>From the home page: a deposit, then a page of an instrument.\<close>

lemma wp_deposit_and_choose:
  assumes "here ''/home'' c k t s"
    and "\<And>u s. fresh u c (k @ [deposit_sent user v]) initial_tab s \<Longrightarrow> instrument_at u \<Longrightarrow> wp m Q s"
  shows "wp (pseq gotoDepositPage (pseq (deposit user v) (pseq gotoRandomInstrument m))) Q s"
proof -
  have "wp gotoRandomInstrument (\<lambda>_. wp m Q) s'" if "here ''/deposit'' c (k @ [deposit_sent user v]) t s'" for s' t
    using assms(2) by (intro wp_mono [OF wp_gotoRandomInstrument [OF that form_here(2) [OF that]]]) blast
  then show ?thesis
    by (intro wp_seq [OF wp_mono [OF wp_goto_account(1) [OF assms(1) form_here(1) [OF assms(1)]]]] wp_seq [OF wp_mono [OF wp_deposit]]
        wp_seq)
qed

lemma wp_choose_owned:
  assumes "here ''/home'' c k t s" "\<And>u s. fresh u c k initial_tab s \<Longrightarrow> u \<in> instrument_urls (owned_of (si_instruments S)) \<Longrightarrow> wp m Q s"
  shows "wp (pseq gotoRandomOwnedInstrument m) Q s"
  using assms(2) by (intro wp_seq wp_mono [OF wp_gotoRandomOwnedInstrument [OF assms(1) form_here(1) [OF assms(1)]]]) blast

text \<open>The end of a visit from a page of an instrument.\<close>

lemma wp_end_trade:
  assumes "here u c k t s" "instrument_at u" "card_settled c" "P k"
  shows "wp (pseq gotoCreditCardPage (pseq logout endDtSession)) (\<lambda>_ s'. \<exists>k. P k \<and> signed_out S k s') s"
  using assms(4) by (intro wp_mono [OF wp_finish_trade [OF assms(1-3)]]) blast

lemma wp_DepositAndBuy:
  assumes "ui_user s = Null" "url_string url = si_address S" "ui_cards s = c" "ui_sent s = []" "login_accepted S user" "card_settled c"
  shows "wp (DepositAndBuyVisit_run url user dv)
    (\<lambda>_ s'. \<exists>k. visit_sends S (DepositAndBuyVisit nm url user dv) c k \<and> signed_out S k s') s" (is "wp _ ?Q s")
proof -
  have finish: "wp (pseq gotoCreditCardPage (pseq logout endDtSession)) ?Q s"
    if "here u c ([login_sent user, deposit_sent user dv] @ [quick_sent u QuickBuyTab amount]) QuickBuyTab s" "instrument_at u" for u s amount
    by (rule wp_end_trade [OF that assms(6)]) (use that(2) in \<open>simp only: visit_sends.simps append.simps, blast\<close>)
  have trade: "wp (pbind getInstrumentPrice (\<lambda>instrumentPrice. pbind getCurrentBalance (\<lambda>currentBalance.
      pbind getInstrumentName (\<lambda>instrumentName. pbind (randomBetween (jint 1) (jdiv dv instrumentPrice)) (\<lambda>r.
      let buyAmount = jfloor r in pseq (trade buyAmount) (pseq gotoCreditCardPage (pseq logout endDtSession))))))) ?Q s"
    if "fresh u c [login_sent user, deposit_sent user dv] QuickBuyTab s" "instrument_at u" for u s
    unfolding Let_def
    by (intro wp_bind wp_reads [OF freshD(1) [OF that(1)] that(2)] wp_between wp_seq wp_mono [OF wp_trade [OF that]] finish [OF _ that(2)] refl) assumption
  have select: "wp (pseq selectQuickBuy m) ?Q s"
    if "fresh u c [login_sent user, deposit_sent user dv] initial_tab s" "instrument_at u"
      "\<And>s. fresh u c [login_sent user, deposit_sent user dv] QuickBuyTab s \<Longrightarrow> wp m ?Q s" for m u s
    by (intro wp_seq wp_mono [OF wp_selects(1) [OF freshD(1) [OF that(1)] that(2)]] that(3))
  show ?thesis
    unfolding DepositAndBuyVisit_run_def
    by (intro wp_arrive [OF assms(1-5)] wp_deposit_and_choose, erule freshD(1)) (intro select trade; simp)
qed

lemma wp_DepositAndLongBuy:
  assumes "ui_user s = Null" "url_string url = si_address S" "ui_cards s = c" "ui_sent s = []" "login_accepted S user" "card_settled c"
    and calc: "\<And>opt. computes (calculator opt)"
  shows "wp (DepositAndLongBuyVisit_run calculator url user dv duration)
    (\<lambda>_ s'. \<exists>k. visit_sends S (DepositAndLongBuyVisit nm calculator url user dv duration) c k \<and> signed_out S k s') s" (is "wp _ ?Q s")
proof -
  let ?k = "[login_sent user, deposit_sent user dv]"
  have finish: "wp (pseq gotoCreditCardPage (pseq logout endDtSession)) ?Q s"
    if "here u c (?k @ [long_sent u BuyTab price duration amount]) BuyTab s" "instrument_at u" for u s price amount
    by (rule wp_end_trade [OF that assms(6)]) (use that(2) in \<open>simp only: visit_sends.simps append.simps, blast\<close>)
  have trade: "wp (pbind getInstrumentPrice (\<lambda>instrumentPrice. pbind getInstrumentName (\<lambda>instrumentName.
      pbind (calculator \<lparr>bo_balance = currentBalance, bo_askPrice = instrumentPrice, bo_maxCost = dv\<rparr>) (\<lambda>r.
      pseq (scheduleTransaction (tr_price r) duration (tr_amount r)) (pseq gotoCreditCardPage (pseq logout endDtSession)))))) ?Q s"
    if "fresh u c ?k BuyTab s" "instrument_at u" for u s currentBalance
    by (intro wp_bind wp_reads(1,2) [OF freshD(1) [OF that(1)] that(2)] wp_computes [OF calc] wp_seq wp_mono [OF wp_schedule [OF that]] finish [OF _ that(2)])
      simp_all
  have start: "wp (pbind getCurrentBalance (\<lambda>currentBalance. pseq selectBuy (m currentBalance))) ?Q s"
    if "fresh u c ?k initial_tab s" "instrument_at u" "\<And>b s. fresh u c ?k BuyTab s \<Longrightarrow> wp (m b) ?Q s" for m u s
    by (intro wp_bind wp_reads(3) [OF freshD(1) [OF that(1)] that(2)] wp_seq wp_mono [OF wp_selects(3) [OF freshD(1) [OF that(1)] that(2)]] that(3)) (simp_all add: initial_tab_def)
  show ?thesis
    unfolding DepositAndLongBuyVisit_run_def
    by (intro wp_arrive [OF assms(1-5)] wp_deposit_and_choose, erule freshD(1)) (intro start trade; simp)
qed

lemma wp_LongSell:
  assumes "ui_user s = Null" "url_string url = si_address S" "ui_cards s = c" "ui_sent s = []" "login_accepted S user" "card_settled c"
    and calc: "\<And>opt. computes (calculator opt)"
  shows "wp (LongSellVisit_run calculator url user ratio duration)
    (\<lambda>_ s'. \<exists>k. visit_sends S (LongSellVisit nm calculator url user ratio duration) c k \<and> signed_out S k s') s" (is "wp _ ?Q s")
proof -
  let ?k = "[login_sent user]"
  have finish: "wp (pseq gotoCreditCardPage (pseq logout endDtSession)) ?Q s"
    if "here u c (?k @ [long_sent u SellTab price duration amount]) SellTab s" "u \<in> instrument_urls (owned_of (si_instruments S))" for u s price amount
    by (rule wp_end_trade [OF that(1) owned_at [OF that(2)] assms(6)])
      (use that(2) in \<open>simp only: visit_sends.simps append.simps, blast\<close>)
  have trade: "wp (pbind getInstrumentPrice (\<lambda>instrumentPrice. pbind getInstrumentName (\<lambda>instrumentName.
      pbind (calculator \<lparr>so_askPrice = instrumentPrice, so_ownedAmount = owned, so_ratio = ratio\<rparr>) (\<lambda>r.
      pseq (scheduleTransaction (tr_price r) duration (tr_amount r)) (pseq gotoCreditCardPage (pseq logout endDtSession)))))) ?Q s"
    if "fresh u c ?k SellTab s" "u \<in> instrument_urls (owned_of (si_instruments S))" for u s owned
    by (intro wp_bind wp_reads(1,2) [OF freshD(1) [OF that(1)] owned_at [OF that(2)]] wp_computes [OF calc] wp_seq wp_mono [OF wp_schedule [OF that(1) owned_at [OF that(2)]]] finish [OF _ that(2)])
      simp_all
  have next_tab: "wp (pbind getInstrumentPossessedAmount (\<lambda>owned. pseq selectSell (m owned))) ?Q s"
    if "fresh u c ?k QuickSellTab s" "u \<in> instrument_urls (owned_of (si_instruments S))" "\<And>b s. fresh u c ?k SellTab s \<Longrightarrow> wp (m b) ?Q s" for m u s
    by (intro wp_bind wp_reads(4) [OF freshD(1) [OF that(1)] owned_at [OF that(2)]] wp_seq wp_mono [OF wp_selects(4) [OF freshD(1) [OF that(1)] owned_at [OF that(2)]]] that(3)) simp_all
  have start: "wp (pseq selectQuickSell m) ?Q s"
    if "fresh u c ?k initial_tab s" "u \<in> instrument_urls (owned_of (si_instruments S))" "\<And>s. fresh u c ?k QuickSellTab s \<Longrightarrow> wp m ?Q s" for m u s
    by (intro wp_seq wp_mono [OF wp_selects(2) [OF freshD(1) [OF that(1)] owned_at [OF that(2)]]] that(3))
  show ?thesis
    unfolding LongSellVisit_run_def
    by (intro wp_arrive [OF assms(1-5)] wp_choose_owned, erule freshD(1)) (intro start next_tab trade; assumption)
qed

lemma wp_SellAndWithdraw:
  assumes "ui_user s = Null" "url_string url = si_address S" "ui_cards s = c" "ui_sent s = []" "login_accepted S user" "card_settled c"
  shows "wp (SellAndWithdrawVisit_run url user ratio least)
    (\<lambda>_ s'. \<exists>k. visit_sends S (SellAndWithdrawVisit nm url user ratio least) c k \<and> signed_out S k s') s" (is "wp _ ?Q s")
proof -
  let ?k = "[login_sent user]"
  have finish: "wp (pseq gotoCreditCardPage (pseq logout endDtSession)) ?Q s"
    if "here ''/withdraw'' c ((?k @ [quick_sent u QuickSellTab amount]) @ [withdraw_sent user money]) t s"
      "u \<in> instrument_urls (owned_of (si_instruments S))" for u s t amount money
    by (rule wp_mono [OF wp_finish [OF that(1) form_here(3) [OF that(1)] assms(6)]])
      (use that(2) in \<open>simp only: visit_sends.simps append.simps, blast\<close>)
  have leave: "wp (pseq gotoWithdrawPage (pseq (withdraw user money) (pseq gotoCreditCardPage (pseq logout endDtSession)))) ?Q s"
    if here: "here u c (?k @ [quick_sent u QuickSellTab amount]) QuickSellTab s" and u: "u \<in> instrument_urls (owned_of (si_instruments S))" for u s amount money
  proof -
    obtain n where "form_at n s" using here_instrument [OF here owned_at [OF u]] by blast
    then show ?thesis
      by (intro wp_seq [OF wp_mono [OF wp_goto_account(2) [OF here]]] wp_seq [OF wp_mono [OF wp_withdraw]] finish [OF _ u])
  qed
  have trade: "wp (pbind getInstrumentPossessedAmount (\<lambda>owned. pbind getInstrumentPrice (\<lambda>instrumentPrice.
      pbind getInstrumentName (\<lambda>instrumentName. pbind (randomBetween (jint 1) (jmul owned ratio)) (\<lambda>r.
      let sellAmount = jfloor r in pseq (trade sellAmount)
       (let withdrawAmount = jmax least (jmul instrumentPrice sellAmount) in pseq gotoWithdrawPage
       (pseq (withdraw user withdrawAmount) (pseq gotoCreditCardPage (pseq logout endDtSession))))))))) ?Q s"
    if "fresh u c ?k QuickSellTab s" "u \<in> instrument_urls (owned_of (si_instruments S))" for u s
    unfolding Let_def
    by (intro wp_bind wp_reads [OF freshD(1) [OF that(1)] owned_at [OF that(2)]] wp_between wp_seq [OF wp_mono [OF wp_trade [OF that(1) owned_at [OF that(2)]]]] leave [OF _ that(2)] refl) assumption
  have start: "wp (pseq selectQuickSell m) ?Q s"
    if "fresh u c ?k initial_tab s" "u \<in> instrument_urls (owned_of (si_instruments S))" "\<And>s. fresh u c ?k QuickSellTab s \<Longrightarrow> wp m ?Q s" for m u s
    by (intro wp_seq wp_mono [OF wp_selects(2) [OF freshD(1) [OF that(1)] owned_at [OF that(2)]]] that(3))
  show ?thesis
    unfolding SellAndWithdrawVisit_run_def
    by (intro wp_arrive [OF assms(1-5)] wp_choose_owned, erule freshD(1)) (intro start trade; assumption)
qed

lemma wp_OrderCreditCard:
  assumes "ui_user s = Null" "url_string url = si_address S" "ui_cards s = c" "ui_sent s = []" "login_accepted S user" "card_settled c"
    and "order_goes_on S c" "cardType \<in> set EASYTRADE_CREDIT_CARD_TYPES"
  shows "wp (OrderCreditCardVisit_run url user cardType)
    (\<lambda>_ s'. \<exists>k. visit_sends S (OrderCreditCardVisit nm url user cardType) c k \<and> signed_out S k s') s" (is "wp _ ?Q s")
proof -
  let ?k = "[login_sent user]"
  let ?after = "if card_page (fst c) = Some ''status'' then ?k else ?k @ [order_sent user cardType]"
  have finish: "wp (pseq logout endDtSession) ?Q s'" if "\<exists>c'. at_card c' ?after t s'" for t s'
    using that by (elim exE) (rule wp_mono [OF wp_leave], assumption, auto)
  have order: "wp (pseq (visit_orderCard user cardType) (pseq logout endDtSession)) ?Q s'"
    if "at_card c ?k t s' \<and> ui_filled s' = []" for t s'
    using that by (intro wp_seq wp_mono [OF wp_visit_orderCard [OF _ _ assms(7,8)]] finish) auto
  have go: "wp (pseq gotoCreditCardPage (pseq (visit_orderCard user cardType) (pseq logout endDtSession))) ?Q s'"
    if "here ''/home'' c ?k t s'" for t s'
    by (intro wp_seq [OF wp_mono [OF wp_gotoCreditCardPage [OF that form_here(1) [OF that] assms(6)]]] order)
  show ?thesis
    unfolding OrderCreditCardVisit_run_def by (intro wp_arrive [OF assms(1-5)] go freshD(1))
qed

lemma wp_run_visit:
  assumes "ui_user s = Null" "url_string (visit_url v) = si_address S" "ui_sent s = []" "card_settled (ui_cards s)"
    and "visit_goes_on S v (ui_cards s)" "visit_returns v"
  shows "wp (run_visit v) (\<lambda>_ s'. \<exists>k. visit_sends S v (ui_cards s) k \<and> signed_out S k s') s"
  using assms
  by (cases v) (simp_all add: visit_goes_on_def wp_DepositAndBuy wp_DepositAndLongBuy wp_LongSell wp_SellAndWithdraw wp_OrderCreditCard
      del: visit_sends.simps)

text \<open>Without a user a visit stops at the first page it wants to go to.\<close>

lemma stops_first_page:
  assumes "at_login c k s"
  shows "stops (pseq gotoDepositPage m) (at_login c k) s" "stops (pseq gotoRandomOwnedInstrument m) (at_login c k) s"
    "stops (pseq gotoCreditCardPage m) (at_login c k) s"
  unfolding gotoDepositPage_def gotoRandomOwnedInstrument_def gotoInstrumentsPage_def gotoCreditCardPage_def
  by (intro stops_seq(1) stops_at_login assms)+

lemma visit_opening:
  obtains g m where "run_visit v = pseq (gotoPage (url_string (visit_url v))) (pseq (login (visit_user v)) (pseq g m))"
    "g \<in> {gotoDepositPage, gotoRandomOwnedInstrument, gotoCreditCardPage}"
  by (cases v; simp add: DepositAndBuyVisit_run_def DepositAndLongBuyVisit_run_def LongSellVisit_run_def
      OrderCreditCardVisit_run_def SellAndWithdrawVisit_run_def; blast)

lemma stops_run_visit:
  assumes "ui_user s = Null" "url_string (visit_url v) = si_address S" "ui_sent s = []" "card_settled (ui_cards s)"
    and "\<not> visit_goes_on S v (ui_cards s)"
  shows "stops (run_visit v) (visit_stopped S (visit_user v) (ui_cards s)) s"
proof -
  let ?c = "ui_cards s" let ?u = "visit_user v" let ?K = "visit_stopped S ?u ?c"
  show ?thesis
  proof (cases "login_accepted S ?u")
    case False
    obtain g m where v: "run_visit v = pseq (gotoPage (url_string (visit_url v))) (pseq (login ?u) (pseq g m))"
      "g \<in> {gotoDepositPage, gotoRandomOwnedInstrument, gotoCreditCardPage}" using visit_opening .
    have "stops (pseq g m) ?K s'" if "at_login ?c [login_sent ?u] s'" for s'
      using stops_first_page [OF that] v(2)
      by (auto intro!: stops_mono [where K = "at_login ?c [login_sent ?u]" and K' = ?K] simp: False visit_stopped_def at_login_def)
    with False show ?thesis unfolding v(1) by (intro stops_arrive [OF assms(1,2) refl assms(3)]) simp_all
  next
    case True
    then obtain nm url user cardType where v: "v = OrderCreditCardVisit nm url user cardType" "\<not> order_goes_on S ?c"
      using assms(5) by (auto simp: visit_goes_on_def split: visit.splits)
    have order: "stops (pseq (visit_orderCard user cardType) m) ?K s'" if "at_card ?c [login_sent ?u] t s' \<and> ui_filled s' = []"
      for t s' and m :: "unit page"
      by (rule stops_seq(1), rule stops_mono [OF stops_visit_orderCard [OF conjunct1 [OF that] v(2)]])
        (use True in \<open>simp add: visit_stopped_def here_def quiet_def signed_def\<close>)
    have go: "stops (pseq gotoCreditCardPage (pseq (visit_orderCard user cardType) m)) ?K s'"
      if "fresh ''/home'' ?c [login_sent ?u] t s'" for t s' and m :: "unit page"
      using freshD(1) [OF that]
      by (intro stops_seq(2) wp_mono [OF wp_gotoCreditCardPage [OF _ form_here(1) assms(4)] order])
    show ?thesis
      using True go assms(2) unfolding v(1) run_visit.simps OrderCreditCardVisit_run_def
      by (intro stops_arrive [OF assms(1) _ refl assms(3)]) (simp_all add: v(1))
  qed
qed

end

section \<open>The visits that are handed out\<close>

text \<open>A visit of the provider returns: its calculator is one of the six, its card is one that is sold.\<close>

lemma regular_visit_returns:
  assumes "ok_run (regular_visit config user nm) b s (Some v) s'"
  shows "visit_returns v \<and> visit_url v = easytradeUrl (visitsConfig config)"
  using assms
  by (cases nm; cases user)
    (auto simp: long_buy_visit_def long_sell_visit_def ok_bind with_user_def calculators_compute)

lemma rare_visit_returns:
  assumes "ok_run (getRareProviderFunction users config) b s (Some v) s'"
  shows "visit_returns v \<and> visit_url v = easytradeUrl (visitsConfig config)"
proof -
  obtain user s1 cardType s2 where c: "ok_run (arrayRandom EASYTRADE_CREDIT_CARD_TYPES) b s1 cardType s2"
    "Some v = (case cardType of None \<Rightarrow> None | Some ct \<Rightarrow> with_user user (\<lambda>u.
       OrderCreditCardVisit order_credit_card (easytradeUrl (visitsConfig config)) u ct))"
    using assms unfolding getRareProviderFunction_def ok_bind by auto
  then show ?thesis using arrayRandom_elem [OF c(1)] by (cases user; cases cardType) (auto simp: with_user_def)
qed

section \<open>The documented libraries\<close>

text \<open>A selection of branches with the parameter of the instruments.\<close>

definition pattern_select :: "string \<Rightarrow> branch" where
  "pattern_select url =
     (let i = drop (length instrument_prefix) url
      in if url = instrument_prefix @ i \<and> i \<noteq> [] \<and> CHR ''/'' \<notin> set i then branches ! 14 else exact_select url)"

lemma pattern_select_documented: "router_documented pattern_select" "params_documented pattern_select"
proof -
  have b14: "branches ! 14 \<in> set branches" "br_path (branches ! 14) = ''/instruments/:id''" by (simp_all add: branches_eq)
  have only: "\<forall>b \<in> set branches. (\<exists>i. br_path b = instrument_prefix @ i) \<longrightarrow> b = branches ! 14"
    by (simp add: branches_eq instrument_prefix_def)
  have "pattern_select (br_path b) = b" if "b \<in> set branches" for b
    using that only exact_select_documented by (auto simp: pattern_select_def Let_def router_documented_def)
  moreover have "pattern_select url \<in> set branches" for url
    using b14(1) exact_select_documented by (simp add: pattern_select_def Let_def router_documented_def)
  ultimately show "router_documented pattern_select" by (simp add: router_documented_def)
  show "params_documented pattern_select"
    using b14 by (simp add: params_documented_def pattern_select_def Let_def)
qed

interpretation documented: site_libraries mui_document pattern_select parsed_query
  by unfold_locales
    (simp_all add: mui_documented_def pattern_select_documented query_documented_def parsed_query_def)

text \<open>The site with the data of the mock API, of which the user has bought one instrument.\<close>

definition plain_intl :: intl where
  "plain_intl = \<lparr>currencyFormatter = num_to_string, smallCurrencyFormatter = num_to_string, percentFormatter = num_to_string,
     timeFormatter = (\<lambda>x. Inr (num_to_string x)), dateFormatter = (\<lambda>x. Inr (num_to_string x)),
     relativeDateFormatter = (\<lambda>x unit. Inr (num_to_string x))\<rparr>"

definition mock_site :: "card_data \<Rightarrow> site" where
  "mock_site ordered =
     \<lparr>si_address = ''http://easytrade/'', si_intl = plain_intl, si_locale_string = num_to_string,
      si_build = (\<lambda>_. Undefined), si_users = (case snd getPresetUsersMock of Inr us \<Rightarrow> us | Inl e \<Rightarrow> []),
      si_login_values = (\<lambda>_. Undefined), si_user_id = Str (num_to_string (mu_id (hd USERS))),
      si_first_name = Some (mu_firstName (hd USERS)), si_balance = None,
      si_instruments = INSTRUMENTS[0 := (INSTRUMENTS ! 0)\<lparr>it_amount := jint 1\<rparr>],
      si_home = \<lparr>hp_account = (Null, Null), hp_bars = InstrumentsChart INSTRUMENTS, hp_instruments = [], hp_statuses = [],
        hp_actions = [], hp_transactions = [], hp_cached = mock_transactions\<rparr>,
      si_timeline = (Null, []), si_ordered = ordered, si_flags = 0,
      si_outcome = (\<lambda>x. Accepted useStatusDisplay), si_revocation = None, si_values = (\<lambda>m. ''1'')\<rparr>"

lemma mock_site_stocked:
  assumes "card_settled ordered"
  shows "site_stocked (mock_site ordered)"
proof -
  have "num_to_string (jint 6) = dec 6" using small_number [of 6] by simp
  then have "si_user_id (mock_site ordered) = Str (dec 6)" by (simp add: mock_site_def USERS_def)
  moreover have "dec 6 \<noteq> []" by (simp add: dec.simps)
  moreover have "\<forall>i \<in> set (si_instruments (mock_site ordered)). url_id (it_id i)" "length (si_instruments (mock_site ordered)) = 15"
    by (simp_all add: mock_site_def instruments_defs url_id_def)
  moreover have "jlt (jint 0) (it_amount (hd (si_instruments (mock_site ordered))))" "si_instruments (mock_site ordered) \<noteq> []"
    by (simp_all add: mock_site_def instruments_defs jint_def)
  then have "\<exists>i \<in> set (si_instruments (mock_site ordered)). jlt (jint 0) (it_amount i)" by (metis hd_in_set)
  moreover have "card_settled (si_ordered (mock_site ordered))" using assms by (simp add: mock_site_def)
  ultimately show ?thesis by (simp add: site_stocked_def)
qed

interpretation mock_run: site_run mui_document pattern_select parsed_query "mock_site (Some StatusNotFound, None)" "\<lambda>_. Fin 0"
    "\<lambda>_ lo hi. lo"
  using mock_site_stocked [of "(Some StatusNotFound, None)"] fl_of_int [of 0]
  by unfold_locales (simp_all add: card_settled_def card_page_def draws_documented_def is_double_def jint_def)

lemma visit_runs:
  assumes "mui_documented render" "router_documented select" "params_documented select" "query_documented query"
    and "site_stocked S" "draws_documented draws"
    and "url_string (visit_url v) = si_address S" "visit_returns v" "visit_goes_on S v (ui_cards s)"
    and "ui_user s = Null" "ui_sent s = []" "card_settled (ui_cards s)"
  shows "\<exists>ses s' k. run_visit v (site_browser render select query S draws drawsBetween s) \<lparr>se_log = [], se_draws = n\<rparr> = (Inr (), ses) \<and>
    walk (ui_step render select query S) (se_log ses) s = Some s' \<and>
    visit_sends S v (ui_cards s) k \<and> ui_sent s' = filter (goes_out S) k \<and> ui_user s' = Null \<and> ui_url s' = ''/login'' \<and> ui_ended s'"
proof -
  have locale_holds: "site_run render select query S draws" using assms(1-6) by unfold_locales
  have "site_run.wp render select query S draws drawsBetween (run_visit v)
      (\<lambda>_ s'. \<exists>k. visit_sends S v (ui_cards s) k \<and> signed_out S k s') s"
    using site_run.wp_run_visit [OF locale_holds assms(10,7,11,12,9,8)] .
  then show ?thesis
    unfolding site_run.wp_def [OF locale_holds] by (force simp: signed_out_def)
qed

section \<open>Properties\<close>

text \<open>C1 (visits run to their end). On a frontend whose libraries behave as documented, with instruments of
  which one is owned, and whatever the state of the card of the user, a visit whose login is accepted (and, when it
  orders a card while one is active, whose revocation is) runs to its end, if its calculator returns
  (or the card it orders is of a known type): no element is missing, no control is disabled and no
  navigation fails, whatever the services answer to its payments, trades and orders. It leaves the user signed out on
  the login page and the session ended. The forms it submits are exactly those of the
  visit, in order, with every field filled in: the login, then the payment, trade or order; the valid ones are
  sent. An order that is pending is left alone.\<close>

theorem visits_complete:
  assumes "mui_documented render" "router_documented select" "params_documented select" "query_documented query"
    and "site_stocked S" "draws_documented draws"
    and "url_string (visit_url v) = si_address S" "visit_returns v" "visit_goes_on S v (ui_cards s)"
    and "ui_user s = Null" "ui_sent s = []" "card_settled (ui_cards s)"
  shows "\<exists>ses s' k. run_visit v (site_browser render select query S draws drawsBetween s) \<lparr>se_log = [], se_draws = n\<rparr> = (Inr (), ses) \<and>
    walk (ui_step render select query S) (se_log ses) s = Some s' \<and>
    visit_sends S v (ui_cards s) k \<and> ui_sent s' = filter (goes_out S) k \<and> ui_user s' = Null \<and> ui_url s' = ''/login'' \<and> ui_ended s'"
  by (rule visit_runs [OF assms])

definition first_state :: "card_data \<Rightarrow> ui" where
  "first_state cards = \<lparr>ui_user = Null, ui_cards = cards, ui_url = ''/'', ui_tab = initial_tab, ui_nav = True, ui_dark = False,
     ui_versions = False, ui_menu = False, ui_autofill = False, ui_select = None, ui_status = useStatusDisplay, ui_errors = False,
     ui_handles = [], ui_filled = [], ui_sent = [], ui_ended = False\<rparr>"

text \<open>The same site with services that refuse an order and a revocation.\<close>

definition strict_site :: "card_data \<Rightarrow> site" where
  "strict_site ordered = (mock_site ordered)
     \<lparr>si_outcome := (\<lambda>x. if fst (snd x) = ''order'' then Denied (setError (Text ''No cards left'') useStatusDisplay) else Accepted useStatusDisplay),
      si_revocation := Some (setError (Text ''Card is in use'') useStatusDisplay)\<rparr>"

lemma strict_site:
  "card_settled ordered \<Longrightarrow> site_stocked (strict_site ordered)" "si_address (strict_site ordered) = ''http://easytrade/''"
  "goes_out (strict_site ordered) x" "login_accepted (strict_site ordered) user" "si_revocation (strict_site ordered) \<noteq> None"
proof -
  show "card_settled ordered \<Longrightarrow> site_stocked (strict_site ordered)"
    using mock_site_stocked [of ordered] by (simp add: site_stocked_def strict_site_def)
qed (simp_all add: strict_site_def mock_site_def goes_out_def login_accepted_def login_sent_def is_accepted_def)

abbreviation no_card :: card_data where "no_card \<equiv> (Some StatusNotFound, None)"

lemma strict_site_goes_on: "visit_goes_on (strict_site ordered) v no_card"
  by (cases v) (simp_all add: visit_goes_on_def strict_site order_goes_on_def card_page_def)

lemma visits_complete_witness:
  "\<exists>ses s'. run_visit (OrderCreditCardVisit order_credit_card sample_url sample_user ''Gold'')
      (site_browser mui_document pattern_select parsed_query (strict_site no_card) (\<lambda>_. Fin 0) (\<lambda>_ lo hi. lo) (first_state no_card))
      \<lparr>se_log = [], se_draws = 0\<rparr> = (Inr (), ses) \<and>
    walk (ui_step mui_document pattern_select parsed_query (strict_site no_card)) (se_log ses) (first_state no_card) = Some s' \<and>
    ui_sent s' = [login_sent sample_user, order_sent sample_user ''Gold''] \<and> ui_user s' = Null \<and> ui_url s' = ''/login'' \<and> ui_ended s'"
  using visits_complete [OF documented.render documented.router documented.params documented.query strict_site(1) mock_run.draws,
      of no_card "OrderCreditCardVisit order_credit_card sample_url sample_user ''Gold''" "first_state no_card" "\<lambda>_ lo hi. lo" 0]
  by (simp add: strict_site sample_url_def EASYTRADE_CREDIT_CARD_TYPES_def first_state_def card_settled_def card_page_def
      strict_site_goes_on)


definition active_card :: card_data where
  "active_card = (Some (StatusSuccess \<lparr>oe_status = Str ''card_delivered'', oe_orderId = Str ''1'', oe_timestamp = Str ''t'', oe_details = Null\<rparr>),
     None)"


text \<open>C11 (the provider and the site agree). Whatever visit the provider's functions hand out, regular or rare, for
  whatever users, configuration and random numbers: on the site at the configured address it runs to its end
  as above.\<close>

theorem provided_visits_complete:
  assumes "mui_documented render" "router_documented select" "params_documented select" "query_documented query"
    and "site_stocked S" "draws_documented draws"
    and "ok_run (getRegularProviderFunction users config nm) b s0 (Some v) s1 \<or>
         ok_run (getRareProviderFunction users config) b s0 (Some v) s1"
    and "url_string (easytradeUrl (visitsConfig config)) = si_address S" "visit_goes_on S v (ui_cards s)"
    and "ui_user s = Null" "ui_sent s = []" "card_settled (ui_cards s)"
  shows "\<exists>ses s' k. run_visit v (site_browser render select query S draws drawsBetween s) \<lparr>se_log = [], se_draws = n\<rparr> = (Inr (), ses) \<and>
    walk (ui_step render select query S) (se_log ses) s = Some s' \<and>
    visit_sends S v (ui_cards s) k \<and> ui_sent s' = filter (goes_out S) k \<and> ui_user s' = Null \<and> ui_url s' = ''/login'' \<and> ui_ended s'"
proof -
  have "visit_returns v \<and> visit_url v = easytradeUrl (visitsConfig config)"
    using assms(7) rare_visit_returns regular_visit_returns
    unfolding getRegularProviderFunction_def ok_bind by blast
  then show ?thesis using assms(8) by (intro visit_runs [OF assms(1-6) _ _ assms(9-12)]) simp_all
qed

lemma provided_visits_complete_witness:
  "\<exists>v ses s'. run_visit v
      (site_browser mui_document pattern_select parsed_query (strict_site no_card) (\<lambda>_. Fin 0) (\<lambda>_ lo hi. lo)
        (first_state no_card)) \<lparr>se_log = [], se_draws = 0\<rparr> = (Inr (), ses) \<and>
    walk (ui_step mui_document pattern_select parsed_query (strict_site no_card)) (se_log ses)
      (first_state no_card) = Some s' \<and>
    visit_sends (strict_site no_card) v no_card (ui_sent s') \<and> ui_user s' = Null \<and> ui_ended s'"
proof -
  obtain v s1 where "ok_run (getRegularProviderFunction [sample_user] sample_config sell_and_withdraw_success)
      quiet_browser \<lparr>se_log = [], se_draws = 0\<rparr> (Some v) s1"
    using getRandomUser_ok [OF quiet_browser_ok, of "[sample_user]" "\<lparr>se_log = [], se_draws = 0\<rparr>"]
    unfolding getRegularProviderFunction_def ok_bind by (fastforce simp: with_user_def)
  then show ?thesis
    using provided_visits_complete [OF documented.render documented.router documented.params documented.query strict_site(1)
        mock_run.draws, of no_card "[sample_user]" sample_config sell_and_withdraw_success quiet_browser "\<lparr>se_log = [], se_draws = 0\<rparr>" v s1
        "first_state no_card" "\<lambda>_ lo hi. lo" 0]
    by (auto simp: strict_site sample_config_def sample_url_def first_state_def card_settled_def card_page_def strict_site_goes_on)
qed

end
