(* ===== verification/Site_Fields.thy ===== *)
theory Site_Fields
  imports Site_Complete Fe_Account_Forms Fe_Trading
begin

text \<open>
  The fields of the forms against their schemas, and the data the load generator puts into them against the
  checks of the schemas and the requests of the API.
\<close>

section \<open>Fields of a tree\<close>

text \<open>A component of the form library registers a field under its name.\<close>

definition registers :: "mui \<Rightarrow> bool" where
  "registers c \<longleftrightarrow> c \<in> set [TextFieldElement, NumberFormField, SelectElement, CheckboxElement]"

fun field_names :: "node \<Rightarrow> string list" where
  "field_names (Txt s) = []"
| "field_names (El c ps on kids) =
     (if registers c then (case str_prop ps ''name'' of Some n \<Rightarrow> [n] | None \<Rightarrow> []) else []) @ concat (map field_names kids)"

abbreviation schema_keys :: "schema \<Rightarrow> string list" where
  "schema_keys S \<equiv> map fst (sc_fields S)"

lemma registers_simps [simp]:
  "registers TextFieldElement" "registers NumberFormField" "registers SelectElement" "registers CheckboxElement"
  "\<not> registers TextField" "\<not> registers Button" "\<not> registers IconButton" "\<not> registers Tab" "\<not> registers MenuItem"
  "\<not> registers Typography" "\<not> registers FormContainer" "\<not> registers Menu" "\<not> registers (Layout l)"
  by (simp_all add: registers_def)

lemma no_fields [simp]: "field_names (StatusDisplay_node st) = []"
  by (simp add: StatusDisplay_node_def StatusDisplay_def)

lemma option_fields [simp]: "field_names (case x of (i, l) \<Rightarrow> El (Layout c) (ps i l) on []) = []"
  by (cases x) simp

lemmas schema_defs = LoginForm_schema_def DefaultLoginForm_schema_def SignupForm_schema_def DepositForm_schema_def
  WithdrawForm_schema_def CreditCardForm_schema_def QuickBuyForm_schema_def QuickSellForm_schema_def BuyForm_schema_def
  SellForm_schema_def long_schema_def

section \<open>What is typed\<close>

text \<open>The values of a form, from its default values, after its fields were written: a number where the field is one,
  the ticked box, text elsewhere.\<close>

definition typed_value :: "string \<Rightarrow> string \<Rightarrow> jsval" where
  "typed_value name v =
     (if name \<in> set [''amount'', ''price'', ''time''] then Num (Number_of_string v)
      else if name = ''agreementCheck'' then Bool True else Str v)"

definition form_values :: "form_data \<Rightarrow> (string \<times> string) list \<Rightarrow> form_data" where
  "form_values defaults vs = foldl (\<lambda>d (name, v). d(name := typed_value name v)) defaults vs"

abbreviation filled_in :: "sent \<Rightarrow> (string \<times> string) list" where
  "filled_in x \<equiv> snd (snd x)"

text \<open>A user whose data are such as the schemas ask for.\<close>

definition valid_user :: "(string \<Rightarrow> bool) \<Rightarrow> (string \<Rightarrow> bool) \<Rightarrow> User \<Rightarrow> bool" where
  "valid_user is_email isCreditCard user \<longleftrightarrow>
     username user \<noteq> [] \<and> password user \<noteq> [] \<and> address user \<noteq> [] \<and> email user \<noteq> [] \<and> is_email (email user) \<and>
     credit_card_number user \<noteq> [] \<and> isCreditCard (credit_card_number user) \<and> cvvRegex (credit_card_cvv user)"

lemma full_name_some: "full_name user \<noteq> []" "Suc 0 \<le> length (full_name user)"
  by (simp_all add: full_name_def)

lemma length_some: "xs \<noteq> [] \<Longrightarrow> Suc 0 \<le> length xs"
  by (cases xs) simp_all

lemma provider_id_some: "provider_id p \<noteq> []" "Suc 0 \<le> length (provider_id p)"
  by (cases p; simp)+

text \<open>The four forms, one by one.\<close>

lemma typed_simps [simp]:
  "typed_value ''amount'' v = Num (Number_of_string v)" "typed_value ''price'' v = Num (Number_of_string v)"
  "typed_value ''time'' v = Num (Number_of_string v)" "typed_value ''agreementCheck'' v = Bool True"
  "name \<notin> set [''amount'', ''price'', ''time'', ''agreementCheck''] \<Longrightarrow> typed_value name v = Str v"
  by (auto simp: typed_value_def)

lemma typed_amount:
  assumes "1 \<le> n" "n \<le> 2 ^ 53"
  shows "Number_of_string (num_to_string (jint (int n))) = jint (int n)" "jint (int n) \<noteq> NaN" "jlt (Fin 0) (jint (int n))"
  using Number_toString_nat [OF assms(2)] assms(1) by (simp_all add: jint_def)

lemma valid_facts:
  assumes "valid_user is_email isCreditCard user"
  shows "username user \<noteq> []" "password user \<noteq> []" "address user \<noteq> []" "email user \<noteq> []" "is_email (email user)"
    "credit_card_number user \<noteq> []" "isCreditCard (credit_card_number user)" "cvvRegex (credit_card_cvv user)"
    "credit_card_cvv user \<noteq> []"
  using assms by (auto simp: valid_user_def cvvRegex_def)

lemmas filled = form_values_def payment_data_def schema_parse_def parsed_data_def Suc_le_eq full_name_some provider_id_some

lemma deposit_accepted:
  assumes "valid_user is_email isCreditCard user" "1 \<le> n" "n \<le> 2 ^ 53"
  shows "\<exists>d. schema_parse is_email (DepositForm_schema isCreditCard) (form_values DepositForm_defaults (filled_in (deposit_sent user (jint (int n))))) = Some d \<and>
      deposit_request userId d = \<lparr>wr_accountId = to_number userId, wr_amount = jint (int n), wr_name = full_name user,
        wr_address = address user, wr_email = email user, wr_cardNumber = credit_card_number user,
        wr_cardType = provider_id (credit_card_provider user), dr_cvv = credit_card_cvv user\<rparr>"
  by (simp add: filled DepositForm_schema_def deposit_sent_def deposit_request_def typed_amount [OF assms(2,3)] valid_facts [OF assms(1)])

lemma withdraw_accepted:
  assumes "valid_user is_email isCreditCard user" "1 \<le> n" "n \<le> 2 ^ 53"
  shows "\<exists>d. schema_parse is_email (WithdrawForm_schema isCreditCard) (form_values WithdrawForm_defaults (filled_in (withdraw_sent user (jint (int n))))) = Some d \<and>
      withdraw_request userId d = \<lparr>wr_accountId = to_number userId, wr_amount = jint (int n), wr_name = full_name user,
        wr_address = address user, wr_email = email user, wr_cardNumber = credit_card_number user,
        wr_cardType = provider_id (credit_card_provider user)\<rparr>"
  by (simp add: filled WithdrawForm_schema_def withdraw_sent_def withdraw_request_def typed_amount [OF assms(2,3)] valid_facts [OF assms(1)])

lemma order_accepted:
  assumes "valid_user is_email isCreditCard user"
  shows "\<exists>d. schema_parse is_email CreditCardForm_schema (form_values CreditCardForm_defaults (filled_in (order_sent user cardType))) = Some d \<and>
      order_request d = \<lparr>co_accountId = NaN, co_name = full_name user, co_email = email user,
        co_shippingAddress = address user, co_cardLevel = card_type_id cardType\<rparr>"
  by (simp add: filled CreditCardForm_schema_def order_sent_def order_request_def card_type_id_def valid_facts [OF assms])

lemma login_accepted:
  "valid_user is_email isCreditCard user \<Longrightarrow> schema_parse is_email LoginForm_schema (form_values LoginForm_defaults (filled_in (login_sent user))) \<noteq> None"
  by (simp add: filled LoginForm_schema_def login_sent_def valid_facts)

section \<open>Properties\<close>

text \<open>C12 (forms and schemas). Every form registers exactly the fields its schema has, once each and in the same
  order: no field is validated that is not on the page, and none is on the page that is not validated.\<close>

theorem fields_match_schemas:
  "field_names (LoginForm p st) = schema_keys LoginForm_schema \<and>
   field_names (DefaultLoginForm users vals) = schema_keys DefaultLoginForm_schema \<and>
   field_names (SignupForm p st) = schema_keys SignupForm_schema \<and>
   field_names (DepositForm b e p st) = schema_keys (DepositForm_schema isCreditCard) \<and>
   field_names (WithdrawForm b e p st) = schema_keys (WithdrawForm_schema isCreditCard) \<and>
   field_names (CreditCardForm e p st) = schema_keys CreditCardForm_schema \<and>
   field_names (QuickBuyForm p st) = schema_keys QuickBuyForm_schema \<and>
   field_names (QuickSellForm p st) = schema_keys QuickSellForm_schema \<and>
   field_names (BuyForm m p st) = schema_keys BuyForm_schema \<and>
   field_names (SellForm m p st) = schema_keys SellForm_schema \<and>
   list_all (\<lambda>S. distinct (schema_keys S)) [LoginForm_schema, DefaultLoginForm_schema, SignupForm_schema, DepositForm_schema isCreditCard,
      WithdrawForm_schema isCreditCard, CreditCardForm_schema, QuickBuyForm_schema, QuickSellForm_schema, BuyForm_schema,
      SellForm_schema]"
  by (intro conjI) (simp_all add: schema_defs form_defs SignupForm_def DefaultLoginForm_def)

text \<open>C13 (generated data). For a user of the load generator whose data are valid and a whole positive amount, what the
  visits type into the login, deposit, withdraw and card forms passes the schema of the form, and the request that
  is then sent to the API carries the user's own data, the amount and the card type that was chosen.\<close>

theorem generated_data_accepted:
  assumes "valid_user is_email isCreditCard user" "1 \<le> n" "n \<le> 2 ^ 53"
  shows "schema_parse is_email LoginForm_schema (form_values LoginForm_defaults (filled_in (login_sent user))) \<noteq> None \<and>
    (\<exists>d. schema_parse is_email (DepositForm_schema isCreditCard) (form_values DepositForm_defaults (filled_in (deposit_sent user (jint (int n))))) = Some d \<and>
      deposit_request userId d = \<lparr>wr_accountId = to_number userId, wr_amount = jint (int n), wr_name = full_name user,
        wr_address = address user, wr_email = email user, wr_cardNumber = credit_card_number user,
        wr_cardType = provider_id (credit_card_provider user), dr_cvv = credit_card_cvv user\<rparr>) \<and>
    (\<exists>d. schema_parse is_email (WithdrawForm_schema isCreditCard) (form_values WithdrawForm_defaults (filled_in (withdraw_sent user (jint (int n))))) = Some d \<and>
      withdraw_request userId d = \<lparr>wr_accountId = to_number userId, wr_amount = jint (int n), wr_name = full_name user,
        wr_address = address user, wr_email = email user, wr_cardNumber = credit_card_number user,
        wr_cardType = provider_id (credit_card_provider user)\<rparr>) \<and>
    (\<exists>d. schema_parse is_email CreditCardForm_schema (form_values CreditCardForm_defaults (filled_in (order_sent user cardType))) = Some d \<and>
      order_request d = \<lparr>co_accountId = NaN, co_name = full_name user, co_email = email user,
        co_shippingAddress = address user, co_cardLevel = card_type_id cardType\<rparr>)"
  using login_accepted [OF assms(1)] deposit_accepted [OF assms] withdraw_accepted [OF assms] order_accepted [OF assms(1)] by blast

lemma generated_data_accepted_witness:
  "\<exists>d. schema_parse (\<lambda>s. CHR ''@'' \<in> set s) (DepositForm_schema (\<lambda>s. length s = 16)) (form_values DepositForm_defaults (filled_in (deposit_sent sample_user (jint 500)))) = Some d \<and>
     deposit_request (Str ''6'') d = \<lparr>wr_accountId = to_number (Str ''6''), wr_amount = jint 500, wr_name = full_name sample_user,
       wr_address = address sample_user, wr_email = email sample_user, wr_cardNumber = credit_card_number sample_user,
       wr_cardType = ''mastercard'', dr_cvv = ''661''\<rparr>"
proof -
  have "valid_user (\<lambda>s. CHR ''@'' \<in> set s) (\<lambda>s. length s = 16) sample_user"
    by (simp add: valid_user_def sample_user_def cvvRegex_def is_digit_def)
  from generated_data_accepted [OF this, of 500 "Str ''6''" "''Gold''"] show ?thesis by (simp add: sample_user_def)
qed

end
