(* ===== verification/Site_Services.thy ===== *)
theory Site_Services
  imports Site_Fields
begin

text \<open>
  The services behind the site. What becomes of a form that is sent is computed by the form's own component: its
  schema, its mutation and the API function its page hands to it. A visit can so be followed from the load
  generator to the requests that reach the services.
\<close>

section \<open>Running a form\<close>

text \<open>The surroundings of the frontend: the backends and the network, the window with the monitoring agent, the XML
  library, the checks of zod and of the validator package, the query client with its cache, and whether the form
  library notifies the watchers of a form of a change by the program.\<close>

record 'c stack =
  sk_backends :: backends
  sk_send :: send
  sk_window :: window
  sk_build_xml :: xml_builder
  sk_parse_xml :: xml_parser
  sk_is_email :: "string \<Rightarrow> bool"
  sk_isCreditCard :: "string \<Rightarrow> bool"
  sk_client :: "'c query_client"
  sk_cache :: 'c
  sk_notifies :: bool

definition start_page :: "'c stack \<Rightarrow> jsval \<Rightarrow> form_data \<Rightarrow> 'c page_state" where
  "start_page K userId vals = (blank_page (sk_cache K) vals)\<lparr>pg_auth := \<lparr>au_userId = userId\<rparr>\<rparr>"

definition form_outcome ::
  "'c stack \<Rightarrow> schema \<Rightarrow> (form_data \<Rightarrow> 'v) \<Rightarrow> ('v, 'r, 'c page_state) mutation \<Rightarrow> 'c page_state
   \<Rightarrow> outcome \<times> effect list" where
  "form_outcome K S vars m s =
     (let s' = submit_form (schema_parse (sk_is_email K)) run_mutation S vars m s
      in (case schema_parse (sk_is_email K) S (pg_values s) of
            None \<Rightarrow> Invalid
          | Some d \<Rightarrow> (case fst (mutationFn m (vars d) (onMutate m (vars d) s)) of
                Inl e \<Rightarrow> Denied (pg_status s') | Inr r \<Rightarrow> Accepted (pg_status s')),
          pg_log s'))"

text \<open>A login is accepted when the session then has a user.\<close>

definition login_page_after :: "'c stack \<Rightarrow> (string \<times> string) list \<Rightarrow> 'c page_state" where
  "login_page_after K fs =
     submit_form (schema_parse (sk_is_email K)) run_mutation LoginForm_schema (\<lambda>d. d)
       (LoginForm_mutation (api_login (sk_backends K) (sk_send K) (sk_build_xml K) (sk_parse_xml K)))
       (start_page K Null (form_values LoginForm_defaults fs))"

definition login_outcome :: "'c stack \<Rightarrow> (string \<times> string) list \<Rightarrow> outcome \<times> effect list" where
  "login_outcome K fs =
     (let s' = login_page_after K fs
      in (if schema_parse (sk_is_email K) LoginForm_schema (form_values LoginForm_defaults fs) = None then Invalid
          else if isLoggedIn (pg_auth s') then Accepted (pg_status s') else Denied (pg_status s'),
          pg_log s'))"

text \<open>The fields of a trade are written one after the other, with the effects that keep the total.\<close>

definition typed_in ::
  "('c page_state \<Rightarrow> 'c page_state) \<Rightarrow> (string \<times> string) list \<Rightarrow> 'c page_state \<Rightarrow> 'c page_state" where
  "typed_in effects fs s = foldl (\<lambda>s (n, v). user_edits watch_change effects n (typed_value n v) s) (effects s) fs"

definition trade_outcome_of :: "'c stack \<Rightarrow> site \<Rightarrow> IInstrumentContext \<Rightarrow> string \<Rightarrow> (string \<times> string) list \<Rightarrow> outcome \<times> effect list" where
  "trade_outcome_of K S ctx f fs =
     (let i = ic_instrument ctx; userId = si_user_id S; notifies = sk_notifies K
      in if f = ''quick-buy'' then
           form_outcome K QuickBuyForm_schema quick_amount
             (QuickBuyForm_mutation ctx (sk_client K) userId (si_balance S) notifies)
             (typed_in (quick_total notifies i) fs (start_page K userId (QuickBuyForm_defaults i (si_balance S))))
         else if f = ''quick-sell'' then
           form_outcome K QuickSellForm_schema quick_amount (QuickSellForm_mutation ctx (sk_client K) notifies)
             (typed_in (quick_total notifies i) fs (start_page K userId (QuickSellForm_defaults i)))
         else if f = ''buy'' then
           form_outcome K BuyForm_schema (\<lambda>d. d) (BuyForm_mutation ctx (sk_client K) notifies)
             (typed_in (long_total notifies) fs (start_page K userId (BuyForm_defaults i)))
         else
           form_outcome K SellForm_schema (\<lambda>d. d) (SellForm_mutation ctx (sk_client K) notifies)
             (typed_in (long_total notifies) fs (start_page K userId (SellForm_defaults i))))"

definition served :: "'c stack \<Rightarrow> site \<Rightarrow> sent \<Rightarrow> outcome \<times> effect list" where
  "served K S x =
     (let (url, f, fs) = x; be = sk_backends K; send = sk_send K; win = sk_window K; userId = si_user_id S
      in if f = ''login'' then login_outcome K fs
         else if f = ''deposit'' then
           form_outcome K (DepositForm_schema (sk_isCreditCard K)) (\<lambda>d. d)
             (DepositForm_mutation (api_deposit be send win) (sk_client K) userId (sk_notifies K))
             (start_page K userId (form_values DepositForm_defaults fs))
         else if f = ''withdraw'' then
           form_outcome K (WithdrawForm_schema (sk_isCreditCard K)) (\<lambda>d. d)
             (WithdrawForm_mutation (api_withdraw be send win) (sk_client K) userId (sk_notifies K))
             (start_page K userId (form_values WithdrawForm_defaults fs))
         else if f = ''order'' then
           form_outcome K CreditCardForm_schema (\<lambda>d. d)
             (CreditCardForm_mutation (\<lambda>u. orderCreditCard be send (to_str u)) (sk_client K) userId)
             (start_page K userId (form_values CreditCardForm_defaults fs))
         else
           (case Instrument_page be send win userId (si_instruments S) (drop (length instrument_prefix) url) of
              NavigateToInstruments \<Rightarrow> (Invalid, [])
            | InstrumentPage ctx \<Rightarrow> trade_outcome_of K S ctx f fs))"

definition revocation :: "'c stack \<Rightarrow> site \<Rightarrow> status option" where
  "revocation K S =
     (let m = CreditCardActive_mutation (\<lambda>u. revokeCreditCard (sk_backends K) (sk_send K) (to_str u)) (sk_client K) (si_user_id S);
          s = start_page K (si_user_id S) (\<lambda>_. Undefined)
      in case fst (mutationFn m () (onMutate m () s)) of Inr r \<Rightarrow> None | Inl e \<Rightarrow> Some (pg_status (run_mutation m () s)))"

text \<open>The site answers as its forms and services do, and the user of the session is the one of the login.\<close>

definition served_by :: "'c stack \<Rightarrow> site \<Rightarrow> User \<Rightarrow> bool" where
  "served_by K S user \<longleftrightarrow>
     (\<forall>x. si_outcome S x = fst (served K S x)) \<and> si_revocation S = revocation K S \<and>
     si_user_id S = au_userId (pg_auth (login_page_after K (filled_in (login_sent user))))"

section \<open>Requests\<close>

definition requests :: "effect list \<Rightarrow> http_request list" where
  "requests es = concat (map (\<lambda>e. case e of Sent rq \<Rightarrow> [rq] | BizEvent ty b \<Rightarrow> []) es)"

lemma requests_simps [simp]:
  "requests [] = []" "requests (Sent rq # es) = rq # requests es" "requests (BizEvent ty b # es) = requests es"
  "requests (es @ fs) = requests es @ requests fs" "requests (biz win ty b) = []"
  by (simp_all add: requests_def biz_def)

lemma requests_reported [simp]: "requests (snd (reported win send pre body rq msg)) = [rq]"
  by (simp add: reported_def split: sum.splits)

lemma start_page_simps [simp]:
  "pg_log (start_page K u vals) = []" "pg_values (start_page K u vals) = vals" "pg_auth (start_page K u vals) = \<lparr>au_userId = u\<rparr>"
  by (simp_all add: start_page_def blank_page_def)

lemma form_outcome_log:
  "snd (form_outcome K S vars m s) = pg_log (submit_form (schema_parse (sk_is_email K)) run_mutation S vars m s)"
  by (simp add: form_outcome_def Let_def)

text \<open>Of a form that is not valid nothing is sent.\<close>

lemma form_outcome_invalid: "fst (form_outcome K S vars m s) = Invalid \<Longrightarrow> snd (form_outcome K S vars m s) = pg_log s"
  by (auto simp: form_outcome_def Let_def submit_form_def split: option.splits sum.splits)

lemma effect_logs [simp]:
  "pg_log (quick_total notifies i s) = pg_log s" "pg_log (long_total notifies s) = pg_log s"
  by (simp_all add: quick_total_def long_total_def set_watched_def setValue_def Let_def)

lemma typed_in_log:
  assumes "\<And>s. pg_log (effects s) = pg_log s"
  shows "pg_log (typed_in effects fs s) = pg_log s"
proof -
  have "pg_log (foldl (\<lambda>s (n, v). user_edits watch_change effects n (typed_value n v) s) s' fs) = pg_log s'" for s'
    by (induction fs arbitrary: s') (auto simp: user_edits_def assms setValue_def)
  then show ?thesis by (simp add: typed_in_def assms)
qed

lemma served_invalid: "fst (served K S x) = Invalid \<Longrightarrow> snd (served K S x) = []"
proof -
  have trades: "fst (trade_outcome_of K S ctx f fs) = Invalid \<Longrightarrow> snd (trade_outcome_of K S ctx f fs) = []" for ctx f fs
    unfolding trade_outcome_of_def Let_def
    by (auto dest!: form_outcome_invalid simp: typed_in_log split: if_splits)
  have login: "fst (login_outcome K fs) = Invalid \<Longrightarrow> snd (login_outcome K fs) = []" for fs
    by (auto simp: login_outcome_def login_page_after_def submit_form_def Let_def split: if_splits)
  obtain url f fs where x: "x = (url, f, fs)" by (cases x)
  show "fst (served K S x) = Invalid \<Longrightarrow> snd (served K S x) = []"
    unfolding x served_def Let_def prod.case
    by (auto dest!: form_outcome_invalid trades login split: if_splits instrument_page.splits)
qed

text \<open>The requests of the forms that are sent are those of the forms that are submitted.\<close>

definition form_requests :: "'c stack \<Rightarrow> site \<Rightarrow> sent list \<Rightarrow> http_request list" where
  "form_requests K S xs = concat (map (\<lambda>x. requests (snd (served K S x))) xs)"

lemma form_requests_simps [simp]:
  "form_requests K S [] = []" "form_requests K S (x # xs) = requests (snd (served K S x)) @ form_requests K S xs"
  by (simp_all add: form_requests_def)

lemma form_requests_sent:
  assumes "\<forall>x. si_outcome S x = fst (served K S x)"
  shows "form_requests K S (filter (goes_out S) xs) = form_requests K S xs"
proof -
  have "goes_out S = (\<lambda>x. fst (served K S x) \<noteq> Invalid)" by (rule ext) (use assms in \<open>simp only: goes_out_def\<close>)
  then show ?thesis by (simp only:) (induction xs, auto simp: served_invalid)
qed

section \<open>The requests of the forms\<close>

text \<open>The requests a user's data make.\<close>

definition login_requests :: "'c stack \<Rightarrow> User \<Rightarrow> http_request list" where
  "login_requests K user = (case sk_build_xml K (login_body (username user) (password user)) of
      Inl e \<Rightarrow> [] | Inr body \<Rightarrow> [loginXml (be_users (sk_backends K)) body])"

definition user_withdrawal :: "User \<Rightarrow> jsval \<Rightarrow> jsnum \<Rightarrow> WithdrawRequest" where
  "user_withdrawal user userId amount =
     \<lparr>wr_accountId = to_number userId, wr_amount = amount, wr_name = full_name user, wr_address = address user,
      wr_email = email user, wr_cardNumber = credit_card_number user, wr_cardType = provider_id (credit_card_provider user)\<rparr>"

definition user_deposit :: "User \<Rightarrow> jsval \<Rightarrow> jsnum \<Rightarrow> DepositRequest" where
  "user_deposit user userId amount =
     \<lparr>wr_accountId = to_number userId, wr_amount = amount, wr_name = full_name user, wr_address = address user,
      wr_email = email user, wr_cardNumber = credit_card_number user, wr_cardType = provider_id (credit_card_provider user),
      dr_cvv = credit_card_cvv user\<rparr>"

definition user_order :: "User \<Rightarrow> jsval \<Rightarrow> string \<Rightarrow> CreditCardOrderRequest" where
  "user_order user userId cardType =
     \<lparr>co_accountId = Number_of_string (to_str userId), co_name = full_name user, co_email = email user,
      co_shippingAddress = address user, co_cardLevel = card_type_id cardType\<rparr>"

text \<open>The trades a form may ask for: of an instrument, for the account of the user.\<close>

definition quick_requests ::
  "(TransactionBackend \<Rightarrow> QuickTransactionRequest \<Rightarrow> http_request) \<Rightarrow> 'c stack \<Rightarrow> jsval \<Rightarrow> Instrument list \<Rightarrow> http_request set" where
  "quick_requests endpoint K userId is =
     {endpoint (be_transactions (sk_backends K))
        \<lparr>qt_accountId = Number_of_string (to_str userId), qt_instrumentId = Number_of_string (to_str (it_id i)), qt_amount = a\<rparr>
      | i a. i \<in> set is \<and> jlt (Fin 0) a}"

definition long_requests ::
  "(TransactionBackend \<Rightarrow> LongTransactionRequest \<Rightarrow> http_request) \<Rightarrow> 'c stack \<Rightarrow> jsval \<Rightarrow> jsnum \<Rightarrow> Instrument list \<Rightarrow> http_request set" where
  "long_requests endpoint K userId duration is =
     {endpoint (be_transactions (sk_backends K)) (long_request (to_str userId) (to_str (it_id i)) a p duration)
      | i a p. i \<in> set is \<and> jlt (Fin 0) a \<and> jlt (Fin 0) p}"

text \<open>A form that may be invalid sends at most one of them.\<close>

definition at_most_one :: "'a set \<Rightarrow> 'a list \<Rightarrow> bool" where
  "at_most_one A xs \<longleftrightarrow> xs = [] \<or> (\<exists>x \<in> A. xs = [x])"

lemma served_payments:
  "served K S (deposit_sent user v) = form_outcome K (DepositForm_schema (sk_isCreditCard K)) (\<lambda>d. d)
     (DepositForm_mutation (api_deposit (sk_backends K) (sk_send K) (sk_window K)) (sk_client K) (si_user_id S) (sk_notifies K))
     (start_page K (si_user_id S) (form_values DepositForm_defaults (filled_in (deposit_sent user v))))"
  "served K S (withdraw_sent user v) = form_outcome K (WithdrawForm_schema (sk_isCreditCard K)) (\<lambda>d. d)
     (WithdrawForm_mutation (api_withdraw (sk_backends K) (sk_send K) (sk_window K)) (sk_client K) (si_user_id S) (sk_notifies K))
     (start_page K (si_user_id S) (form_values WithdrawForm_defaults (filled_in (withdraw_sent user v))))"
  "served K S (order_sent user cardType) = form_outcome K CreditCardForm_schema (\<lambda>d. d)
     (CreditCardForm_mutation (\<lambda>u. orderCreditCard (sk_backends K) (sk_send K) (to_str u)) (sk_client K) (si_user_id S))
     (start_page K (si_user_id S) (form_values CreditCardForm_defaults (filled_in (order_sent user cardType))))"
  "served K S (login_sent user) = login_outcome K (filled_in (login_sent user))"
  by (simp_all add: served_def deposit_sent_def withdraw_sent_def order_sent_def login_sent_def Let_def)

lemma deposit_requests:
  assumes "valid_user (sk_is_email K) (sk_isCreditCard K) user" "1 \<le> n" "n \<le> 2 ^ 53" "reporter_ok (sk_window K)"
  shows "requests (snd (served K S (deposit_sent user (jint (int n))))) =
    [cc_deposit (be_creditCards (sk_backends K)) (user_deposit user (si_user_id S) (jint (int n)))]"
proof -
  obtain d where d: "schema_parse (sk_is_email K) (DepositForm_schema (sk_isCreditCard K))
      (form_values DepositForm_defaults (filled_in (deposit_sent user (jint (int n))))) = Some d"
    "deposit_request (si_user_id S) d = user_deposit user (si_user_id S) (jint (int n))"
    using deposit_accepted [OF assms(1-3), of "si_user_id S"] unfolding user_deposit_def by blast
  show ?thesis
    unfolding served_payments form_outcome_log deposit_form.submit_log [OF documented_libraries]
    by (simp only: start_page_simps d option.case deposit_reported [OF assms(4)] append_Nil requests_reported)
qed

lemma number_typed: "typed_value ''amount'' v = Num (Number_of_string v)"
  by simp

text \<open>A withdrawal of any amount: none, or one of a positive amount.\<close>

lemma withdraw_requests:
  assumes "valid_user (sk_is_email K) (sk_isCreditCard K) user" "reporter_ok (sk_window K)"
  shows "at_most_one {cc_withdraw (be_creditCards (sk_backends K)) (user_withdrawal user (si_user_id S) a) | a. jlt (Fin 0) a}
    (requests (snd (served K S (withdraw_sent user v))))"
proof -
  let ?vals = "form_values WithdrawForm_defaults (filled_in (withdraw_sent user v))"
  show ?thesis
  proof (cases "schema_parse (sk_is_email K) (WithdrawForm_schema (sk_isCreditCard K)) ?vals")
    case None
    then show ?thesis
      unfolding served_payments form_outcome_log withdraw_form.submit_log [OF documented_libraries] by (simp add: at_most_one_def)
  next
    case (Some d)
    have valid: "valid_payment (sk_is_email K) (sk_isCreditCard K) (si_user_id S) ?vals (withdraw_request (si_user_id S) d)"
      by (rule withdraw_valid [OF Some])
    have "?vals ''cardholderName'' = Str (full_name user)" "?vals ''address'' = Str (address user)" "?vals ''email'' = Str (email user)"
      "?vals ''cardNumber'' = Str (credit_card_number user)" "?vals ''cardType'' = Str (provider_id (credit_card_provider user))"
      by (simp_all add: form_values_def withdraw_sent_def payment_data_def)
    with valid have "withdraw_request (si_user_id S) d = user_withdrawal user (si_user_id S) (wr_amount (withdraw_request (si_user_id S) d))"
      "jlt (Fin 0) (wr_amount (withdraw_request (si_user_id S) d))"
      by (simp_all add: valid_payment_def user_withdrawal_def)
    then obtain a where a: "withdraw_request (si_user_id S) d = user_withdrawal user (si_user_id S) a" "jlt (Fin 0) a" by blast
    have "requests (snd (served K S (withdraw_sent user v))) =
        [cc_withdraw (be_creditCards (sk_backends K)) (user_withdrawal user (si_user_id S) a)]"
      unfolding served_payments form_outcome_log withdraw_form.submit_log [OF documented_libraries]
      by (simp only: start_page_simps Some option.case a(1) withdraw_reported [OF assms(2)] append_Nil requests_reported)
    with a(2) show ?thesis by (auto simp: at_most_one_def)
  qed
qed

lemma order_requests:
  assumes "valid_user (sk_is_email K) (sk_isCreditCard K) user"
  shows "requests (snd (served K S (order_sent user cardType))) =
    [cc_orderCard (be_creditCards (sk_backends K)) (user_order user (si_user_id S) cardType)]"
proof -
  obtain d where d: "schema_parse (sk_is_email K) CreditCardForm_schema
      (form_values CreditCardForm_defaults (filled_in (order_sent user cardType))) = Some d"
    "(order_request d)\<lparr>co_accountId := Number_of_string (to_str (si_user_id S))\<rparr> = user_order user (si_user_id S) cardType"
    using order_accepted [OF assms, of cardType] unfolding user_order_def by auto
  have sent: "snd (orderCreditCard (sk_backends K) (sk_send K) (to_str (si_user_id S)) (order_request d)) =
      [Sent (cc_orderCard (be_creditCards (sk_backends K)) (user_order user (si_user_id S) cardType))]"
    unfolding orderCreditCard_def d(2) by (rule caught_parts(2))
  show ?thesis
    unfolding served_payments form_outcome_log
    by (simp add: submit_form_def d(1) run_mutation_def CreditCardForm_mutation_def Let_def sent split: sum.splits)
qed

lemma caught_effects: "snd (ccatch (r, es) (\<lambda>e. creturn x)) = es" "snd (cbind (r, es) (\<lambda>x. (g x, []))) = es"
  by (cases r; simp)+

lemma login_run_log: "pg_log (login_run h l p s) = pg_log s @ snd (fst (auth_login h l p (pg_auth s)))"
  by (simp add: run_login Let_def split: prod.splits sum.splits)

lemma login_run_requests:
  assumes "valid_user (sk_is_email K) (sk_isCreditCard K) user"
  shows "requests (snd (served K S (login_sent user))) = login_requests K user"
    "login_page_after K (filled_in (login_sent user)) =
       login_run (api_login (sk_backends K) (sk_send K) (sk_build_xml K) (sk_parse_xml K)) (username user) (password user)
         (start_page K Null (form_values LoginForm_defaults (filled_in (login_sent user))))"
    "schema_parse (sk_is_email K) LoginForm_schema (form_values LoginForm_defaults (filled_in (login_sent user))) \<noteq> None"
proof -
  let ?vals = "form_values LoginForm_defaults (filled_in (login_sent user))"
  have vals: "?vals ''login'' = Str (username user)" "?vals ''password'' = Str (password user)"
    by (simp_all add: form_values_def login_sent_def)
  have parse: "schema_parse (sk_is_email K) LoginForm_schema ?vals =
      Some ((\<lambda>_. Undefined)(''login'' := Str (username user), ''password'' := Str (password user)))"
    using login_data [of "start_page K Null ?vals" "username user" "password user" "sk_is_email K"] vals valid_facts(1,2) [OF assms]
    by simp
  then show "schema_parse (sk_is_email K) LoginForm_schema ?vals \<noteq> None" by simp
  show run: "login_page_after K (filled_in (login_sent user)) =
       login_run (api_login (sk_backends K) (sk_send K) (sk_build_xml K) (sk_parse_xml K)) (username user) (password user)
         (start_page K Null ?vals)"
    by (simp only: login_page_after_def submit_form_def start_page_simps parse option.case)
  have "requests (snd (fst (auth_login (api_login (sk_backends K) (sk_send K) (sk_build_xml K) (sk_parse_xml K)) (username user)
      (password user) s))) = login_requests K user" for s
    by (auto simp: auth_login_def cbind_pick2 Let_def api_login_def login_requests_def cbind_lift cbind_csend lift_result_def caught_effects
        split: sum.splits)
  then show "requests (snd (served K S (login_sent user))) = login_requests K user"
    unfolding served_payments login_outcome_def Let_def snd_conv run login_run_log by simp
qed

text \<open>The page of an instrument's URL trades that instrument, or one with the same id.\<close>

lemma page_of_instrument:
  assumes "\<forall>i \<in> set is. url_id (it_id i)" "i \<in> set is"
  obtains j where "Instrument_page be send win userId is (drop (length instrument_prefix) (''/instruments/'' @ to_str (it_id i))) =
      InstrumentPage (instrument_context be send win userId j)" "to_str (it_id j) = to_str (it_id i)"
proof -
  have "url_id (it_id i)" using assms by blast
  then obtain w where w: "it_id i = Str w" by (cases "it_id i") (simp_all add: url_id_def)
  then have "\<exists>j. find (\<lambda>x. loose_eq_str (it_id x) w) is = Some j"
    using assms(2) by (cases "find (\<lambda>x. loose_eq_str (it_id x) w) is") (auto simp: find_None_iff loose_eq_str_def)
  then obtain j where j: "find (\<lambda>x. loose_eq_str (it_id x) w) is = Some j" ..
  then have "j \<in> set is" "loose_eq_str (it_id j) w" by (auto simp: find_Some_iff)
  then have "to_str (it_id j) = to_str (it_id i)"
    using bspec [OF assms(1), of j] w by (cases "it_id j") (simp_all add: url_id_def loose_eq_str_def)
  then show thesis using that [of j] j w by (simp add: Instrument_page_def instrument_prefix_def)
qed

lemma quick_forms_send:
  assumes "reporter_ok (sk_window K)" "ctx = instrument_context (sk_backends K) (sk_send K) (sk_window K) (si_user_id S) j"
  shows "at_most_one (quick_requests tx_quickBuy K (si_user_id S) [j]) (requests (snd (trade_outcome_of K S ctx ''quick-buy'' fs)))"
    "at_most_one (quick_requests tx_quickSell K (si_user_id S) [j]) (requests (snd (trade_outcome_of K S ctx ''quick-sell'' fs)))"
proof -
  let ?b = "typed_in (quick_total (sk_notifies K) (ic_instrument ctx)) fs
      (start_page K (si_user_id S) (QuickBuyForm_defaults (ic_instrument ctx) (si_balance S)))"
  have b: "snd (trade_outcome_of K S ctx ''quick-buy'' fs) = (case schema_parse (sk_is_email K) QuickBuyForm_schema (pg_values ?b) of
      None \<Rightarrow> [] | Some d \<Rightarrow> snd (ic_quickBuyHandler ctx (quick_amount d)))"
    by (simp add: trade_outcome_of_def Let_def form_outcome_log quick_buy_form.submit_log [OF documented_libraries] typed_in_log
        cong: if_cong option.case_cong)
  show "at_most_one (quick_requests tx_quickBuy K (si_user_id S) [j]) (requests (snd (trade_outcome_of K S ctx ''quick-buy'' fs)))"
  proof (cases "schema_parse (sk_is_email K) QuickBuyForm_schema (pg_values ?b)")
    case (Some d)
    obtain a where a: "quick_amount d = a" "jlt (Fin 0) a" using quick_buy_checked [OF Some] by blast
    have "requests (snd (ic_quickBuyHandler ctx a)) = [tx_quickBuy (be_transactions (sk_backends K))
        \<lparr>qt_accountId = Number_of_string (to_str (si_user_id S)), qt_instrumentId = Number_of_string (to_str (it_id j)), qt_amount = a\<rparr>]"
      unfolding assms(2) ctx_simps quickBuy_reported [OF assms(1)] requests_reported ..
    then show ?thesis using a by (auto simp: b Some at_most_one_def quick_requests_def)
  qed (simp add: b at_most_one_def)
  let ?s = "typed_in (quick_total (sk_notifies K) (ic_instrument ctx)) fs
      (start_page K (si_user_id S) (QuickSellForm_defaults (ic_instrument ctx)))"
  have s: "snd (trade_outcome_of K S ctx ''quick-sell'' fs) = (case schema_parse (sk_is_email K) QuickSellForm_schema (pg_values ?s) of
      None \<Rightarrow> [] | Some d \<Rightarrow> snd (ic_quickSellHandler ctx (quick_amount d)))"
    by (simp add: trade_outcome_of_def Let_def form_outcome_log quick_sell_form.submit_log [OF documented_libraries] typed_in_log
        cong: if_cong option.case_cong)
  show "at_most_one (quick_requests tx_quickSell K (si_user_id S) [j]) (requests (snd (trade_outcome_of K S ctx ''quick-sell'' fs)))"
  proof (cases "schema_parse (sk_is_email K) QuickSellForm_schema (pg_values ?s)")
    case (Some d)
    obtain a where a: "quick_amount d = a" "jlt (Fin 0) a" using quick_sell_checked [OF Some] by blast
    have "requests (snd (ic_quickSellHandler ctx a)) = [tx_quickSell (be_transactions (sk_backends K))
        \<lparr>qt_accountId = Number_of_string (to_str (si_user_id S)), qt_instrumentId = Number_of_string (to_str (it_id j)), qt_amount = a\<rparr>]"
      unfolding assms(2) ctx_simps quickSell_reported [OF assms(1)] requests_reported ..
    then show ?thesis using a by (auto simp: s Some at_most_one_def quick_requests_def)
  qed (simp add: s at_most_one_def)
qed

text \<open>A scheduled trade that passes has a positive amount and price, and the duration that was typed.\<close>

lemma long_checked:
  assumes "schema_parse is_email long_schema vals = Some d" "vals ''time'' = Num t"
  shows "jlt (Fin 0) (to_number (d ''amount''))" "jlt (Fin 0) (to_number (d ''price''))" "to_number (d ''time'') = t"
proof -
  have field: "\<exists>x. d k = Num x \<and> x \<noteq> NaN \<and> (\<forall>c \<in> set cs. num_passes x c)"
    if "map_of (sc_fields long_schema) k = Some (ZNumber True m cs)" for k m cs
    by (rule number_field [OF schema_parse_field [OF assms(1) that]])
  show "jlt (Fin 0) (to_number (d ''amount''))" "jlt (Fin 0) (to_number (d ''price''))"
    using field [of "''amount''"] field [of "''price''"] by (auto simp: long_schema_def)
  have "field_parse is_email (ZNumber True ''Time range is required'' [AtLeast 1 ''Time range must be at least 1h'',
      AtMost 24 ''Time range must be at most 24h'']) (vals ''time'') = Some (d ''time'')"
    by (rule schema_parse_field [OF assms(1)]) (simp add: long_schema_def)
  then have "d ''time'' = Num t" using assms(2) by (simp split: if_splits)
  then show "to_number (d ''time'') = t" by simp
qed

lemma long_forms_send:
  assumes "ctx = instrument_context (sk_backends K) (sk_send K) (sk_window K) (si_user_id S) j"
    and "fs = [(''amount'', x), (''price'', y), (''time'', z)]"
  shows "at_most_one (long_requests tx_buy K (si_user_id S) (Number_of_string z) [j]) (requests (snd (trade_outcome_of K S ctx ''buy'' fs)))"
    "at_most_one (long_requests tx_sell K (si_user_id S) (Number_of_string z) [j]) (requests (snd (trade_outcome_of K S ctx ''sell'' fs)))"
proof -
  have time: "pg_values (typed_in (long_total n) fs s) ''time'' = Num (Number_of_string z)" for n and s :: "'c page_state"
    by (simp add: assms(2) typed_in_def user_edits_def long_total_def Let_def)
  let ?b = "typed_in (long_total (sk_notifies K)) fs (start_page K (si_user_id S) (BuyForm_defaults (ic_instrument ctx)))"
  let ?s = "typed_in (long_total (sk_notifies K)) fs (start_page K (si_user_id S) (SellForm_defaults (ic_instrument ctx)))"
  have b: "snd (trade_outcome_of K S ctx ''buy'' fs) = (case schema_parse (sk_is_email K) BuyForm_schema (pg_values ?b) of
      None \<Rightarrow> [] | Some d \<Rightarrow> snd (ic_buyHandler ctx (to_number (d ''amount'')) (to_number (d ''price'')) (to_number (d ''time''))))"
    and s: "snd (trade_outcome_of K S ctx ''sell'' fs) = (case schema_parse (sk_is_email K) SellForm_schema (pg_values ?s) of
      None \<Rightarrow> [] | Some d \<Rightarrow> snd (ic_sellHandler ctx (to_number (d ''amount'')) (to_number (d ''price'')) (to_number (d ''time''))))"
    by (simp_all add: trade_outcome_of_def Let_def form_outcome_log buy_form.submit_log [OF documented_libraries]
        sell_form.submit_log [OF documented_libraries] typed_in_log cong: if_cong option.case_cong)
  have sent: "snd (buy be send u i n p t) = [Sent (tx_buy (be_transactions be) (long_request u i n p t))]"
    "snd (sell be send u i n p t) = [Sent (tx_sell (be_transactions be) (long_request u i n p t))]" for be send u i n p t
    by (simp_all add: buy_def sell_def cbind_csend split: sum.splits)
  show "at_most_one (long_requests tx_buy K (si_user_id S) (Number_of_string z) [j]) (requests (snd (trade_outcome_of K S ctx ''buy'' fs)))"
  proof (cases "schema_parse (sk_is_email K) BuyForm_schema (pg_values ?b)")
    case (Some d)
    note checked = long_checked [OF Some [unfolded BuyForm_schema_def] time]
    have "snd (ic_buyHandler ctx n p w) = [Sent (tx_buy (be_transactions (sk_backends K))
        (long_request (to_str (si_user_id S)) (to_str (it_id j)) n p w))]" for n p w
      unfolding assms(1) ctx_simps sent ..
    then show ?thesis using checked by (auto simp: b Some at_most_one_def long_requests_def)
  qed (simp add: b at_most_one_def)
  show "at_most_one (long_requests tx_sell K (si_user_id S) (Number_of_string z) [j]) (requests (snd (trade_outcome_of K S ctx ''sell'' fs)))"
  proof (cases "schema_parse (sk_is_email K) SellForm_schema (pg_values ?s)")
    case (Some d)
    note checked = long_checked [OF Some [unfolded SellForm_schema_def] time]
    have "snd (ic_sellHandler ctx n p w) = [Sent (tx_sell (be_transactions (sk_backends K))
        (long_request (to_str (si_user_id S)) (to_str (it_id j)) n p w))]" for n p w
      unfolding assms(1) ctx_simps sent ..
    then show ?thesis using checked by (auto simp: s Some at_most_one_def long_requests_def)
  qed (simp add: s at_most_one_def)
qed

lemma at_most_one_mono: "at_most_one A xs \<Longrightarrow> A \<subseteq> B \<Longrightarrow> at_most_one B xs"
  by (auto simp: at_most_one_def)

lemma trade_requests:
  assumes "\<forall>i \<in> set (si_instruments S). url_id (it_id i)" "u \<in> instrument_urls is" "set is \<subseteq> set (si_instruments S)"
    and "reporter_ok (sk_window K)"
  shows "at_most_one (quick_requests tx_quickBuy K (si_user_id S) is) (requests (snd (served K S (quick_sent u QuickBuyTab a))))"
    "at_most_one (quick_requests tx_quickSell K (si_user_id S) is) (requests (snd (served K S (quick_sent u QuickSellTab a))))"
    "at_most_one (long_requests tx_buy K (si_user_id S) (Number_of_string (num_to_string t)) is)
       (requests (snd (served K S (long_sent u BuyTab p t a))))"
    "at_most_one (long_requests tx_sell K (si_user_id S) (Number_of_string (num_to_string t)) is)
       (requests (snd (served K S (long_sent u SellTab p t a))))"
proof -
  obtain i where i: "i \<in> set is" "u = ''/instruments/'' @ to_str (it_id i)" using assms(2) by (auto simp: instrument_urls_def)
  obtain j where j: "Instrument_page (sk_backends K) (sk_send K) (sk_window K) (si_user_id S) (si_instruments S)
      (drop (length instrument_prefix) u) = InstrumentPage (instrument_context (sk_backends K) (sk_send K) (sk_window K) (si_user_id S) j)"
    "to_str (it_id j) = to_str (it_id i)"
    using page_of_instrument [OF assms(1)] i assms(3) by blast
  have quick: "quick_requests e K (si_user_id S) [j] \<subseteq> quick_requests e K (si_user_id S) is" for e
    using i(1) j(2) by (auto simp: quick_requests_def)
  have long: "long_requests e K (si_user_id S) d [j] \<subseteq> long_requests e K (si_user_id S) d is" for e d
    using i(1) j(2) by (auto simp: long_requests_def)
  have served: "served K S (u, f, fs) = trade_outcome_of K S (instrument_context (sk_backends K) (sk_send K) (sk_window K) (si_user_id S) j) f fs"
    if "f \<notin> {''login'', ''deposit'', ''withdraw'', ''order''}" for f fs
    using that j(1) by (simp add: served_def Let_def)
  show "at_most_one (quick_requests tx_quickBuy K (si_user_id S) is) (requests (snd (served K S (quick_sent u QuickBuyTab a))))"
    "at_most_one (quick_requests tx_quickSell K (si_user_id S) is) (requests (snd (served K S (quick_sent u QuickSellTab a))))"
    unfolding quick_sent_def tab_value.simps
    by (subst served, simp, rule at_most_one_mono [OF quick_forms_send(1) [OF assms(4) refl] quick])
      (subst served, simp, rule at_most_one_mono [OF quick_forms_send(2) [OF assms(4) refl] quick])
  show "at_most_one (long_requests tx_buy K (si_user_id S) (Number_of_string (num_to_string t)) is)
       (requests (snd (served K S (long_sent u BuyTab p t a))))"
    "at_most_one (long_requests tx_sell K (si_user_id S) (Number_of_string (num_to_string t)) is)
       (requests (snd (served K S (long_sent u SellTab p t a))))"
    unfolding long_sent_def tab_value.simps
    by (subst served, simp, rule at_most_one_mono [OF long_forms_send(1) [OF refl refl] long])
      (subst served, simp, rule at_most_one_mono [OF long_forms_send(2) [OF refl refl] long])
qed

section \<open>From a visit to the services\<close>

text \<open>The amounts and durations a visit is made with are whole and positive, as the provider draws them.\<close>

definition whole :: "jsnum \<Rightarrow> bool" where
  "whole v \<longleftrightarrow> (\<exists>n \<le> 2 ^ 53. 1 \<le> n \<and> v = jint (int n))"

fun whole_amounts :: "visit \<Rightarrow> bool" where
  "whole_amounts (DepositAndBuyVisit nm url user depositValue) \<longleftrightarrow> whole depositValue"
| "whole_amounts (DepositAndLongBuyVisit nm c url user depositValue duration) \<longleftrightarrow> whole depositValue \<and> whole duration"
| "whole_amounts (LongSellVisit nm c url user sellRatio duration) \<longleftrightarrow> whole duration"
| "whole_amounts v \<longleftrightarrow> True"

text \<open>The requests a visit makes through its forms: the login; a deposit with the data of the user; at most one trade of an
  instrument, or of one that is owned; at most one withdrawal; an order unless one is pending.\<close>

fun visit_requests :: "'c stack \<Rightarrow> site \<Rightarrow> visit \<Rightarrow> card_data \<Rightarrow> http_request list \<Rightarrow> bool" where
  "visit_requests K S (DepositAndBuyVisit nm url user depositValue) cards rqs \<longleftrightarrow>
     (\<exists>rs. rqs = login_requests K user @ [cc_deposit (be_creditCards (sk_backends K)) (user_deposit user (si_user_id S) depositValue)] @ rs \<and>
        at_most_one (quick_requests tx_quickBuy K (si_user_id S) (si_instruments S)) rs)"
| "visit_requests K S (DepositAndLongBuyVisit nm c url user depositValue duration) cards rqs \<longleftrightarrow>
     (\<exists>rs. rqs = login_requests K user @ [cc_deposit (be_creditCards (sk_backends K)) (user_deposit user (si_user_id S) depositValue)] @ rs \<and>
        at_most_one (long_requests tx_buy K (si_user_id S) duration (si_instruments S)) rs)"
| "visit_requests K S (LongSellVisit nm c url user sellRatio duration) cards rqs \<longleftrightarrow>
     (\<exists>rs. rqs = login_requests K user @ rs \<and>
        at_most_one (long_requests tx_sell K (si_user_id S) duration (owned_of (si_instruments S))) rs)"
| "visit_requests K S (OrderCreditCardVisit nm url user cardType) cards rqs \<longleftrightarrow>
     rqs = login_requests K user @ (if card_page (fst cards) = Some ''status'' then []
       else [cc_orderCard (be_creditCards (sk_backends K)) (user_order user (si_user_id S) cardType)])"
| "visit_requests K S (SellAndWithdrawVisit nm url user sellRatio least) cards rqs \<longleftrightarrow>
     (\<exists>rs ws. rqs = login_requests K user @ rs @ ws \<and>
        at_most_one (quick_requests tx_quickSell K (si_user_id S) (owned_of (si_instruments S))) rs \<and>
        at_most_one {cc_withdraw (be_creditCards (sk_backends K)) (user_withdrawal user (si_user_id S) a) | a. jlt (Fin 0) a} ws)"

lemma typed_duration: "whole t \<Longrightarrow> Number_of_string (num_to_string t) = t"
  using typed_amount(1) by (auto simp: whole_def)

lemma visit_form_requests:
  assumes "visit_sends S v cards k" "whole_amounts v" "valid_user (sk_is_email K) (sk_isCreditCard K) (visit_user v)"
    and "reporter_ok (sk_window K)" "\<forall>i \<in> set (si_instruments S). url_id (it_id i)"
  shows "visit_requests K S v cards (form_requests K S k)"
proof -
  have all: "set (si_instruments S) \<subseteq> set (si_instruments S)" "set (owned_of (si_instruments S)) \<subseteq> set (si_instruments S)"
    by (auto simp: owned_of_def)
  note trades = trade_requests [OF assms(5) _ all(1) assms(4)] and sales = trade_requests [OF assms(5) _ all(2) assms(4)]
  have deposit: "requests (snd (served K S (deposit_sent (visit_user v) a))) =
      [cc_deposit (be_creditCards (sk_backends K)) (user_deposit (visit_user v) (si_user_id S) a)]" if "whole a" for a
    using that deposit_requests [OF assms(3) _ _ assms(4)] by (auto simp: whole_def)
  note user = login_run_requests(1) [OF assms(3)] order_requests [OF assms(3)] withdraw_requests [OF assms(3,4)]
  show ?thesis
  proof (cases v)
    case (DepositAndBuyVisit nm url u dv)
    then show ?thesis
      using assms(1,2) user deposit trades(1) by force
  next
    case (DepositAndLongBuyVisit nm c url u dv duration)
    then show ?thesis
      using assms(1,2) user deposit trades(3) [where t = duration] typed_duration [of duration] by force
  next
    case (LongSellVisit nm c url u ratio duration)
    then show ?thesis
      using assms(1,2) user sales(4) [where t = duration] typed_duration [of duration] by force
  next
    case (OrderCreditCardVisit nm url u cardType)
    then show ?thesis using assms(1) user by simp
  next
    case (SellAndWithdrawVisit nm url u ratio least)
    then obtain w amount money where k: "k = [login_sent u, quick_sent w QuickSellTab amount, withdraw_sent u money]"
      "w \<in> instrument_urls (owned_of (si_instruments S))" using assms(1) by auto
    have "form_requests K S k = login_requests K u @ requests (snd (served K S (quick_sent w QuickSellTab amount))) @
        requests (snd (served K S (withdraw_sent u money)))"
      using user(1) by (simp add: k(1) SellAndWithdrawVisit)
    moreover have "at_most_one {cc_withdraw (be_creditCards (sk_backends K)) (user_withdrawal u (si_user_id S) a) | a. jlt (Fin 0) a}
        (requests (snd (served K S (withdraw_sent u money))))"
      using user(3) by (simp add: SellAndWithdrawVisit)
    ultimately show ?thesis unfolding SellAndWithdrawVisit visit_requests.simps using sales(2) [OF k(2)] by blast
  qed
qed

lemma served_login:
  assumes "served_by K S user" "valid_user (sk_is_email K) (sk_isCreditCard K) user" "si_user_id S \<noteq> Null"
  shows "login_accepted S user"
proof -
  have "isLoggedIn (pg_auth (login_page_after K (filled_in (login_sent user))))"
    using assms(1,3) by (simp add: served_by_def isLoggedIn_def)
  then have "fst (login_outcome K (filled_in (login_sent user))) = Accepted (pg_status (login_page_after K (filled_in (login_sent user))))"
    using login_run_requests(3) [OF assms(2)] by (simp add: login_outcome_def Let_def)
  then show ?thesis
    using assms(1) unfolding login_accepted_def served_by_def by (simp only: served_payments is_accepted_def outcome.case)
qed

lemma served_revocation:
  assumes "sk_send K (deleteCardAndOrder (be_creditCards (sk_backends K)) (Number_of_string (to_str (si_user_id S)))) = Inr r"
  shows "revocation K S = None"
  using assms by (simp add: revocation_def CreditCardActive_mutation_def revokeCreditCard_def cbind_csend Let_def)

section \<open>Properties\<close>

text \<open>C3 (visits reach the services). When the site answers as its own forms and API functions do, on any network, and the
  login has given the session its user: a visit of a user with valid data and whole amounts runs to its end, and the
  requests its forms make are exactly these, in this order: the login; for a deposit the POST of the user's own data
  and the amount to the account of the user; at most one trade, for that account, of an instrument of the site (for a
  sale, of one that is owned), with a positive amount and the duration of the visit; at most one withdrawal with the
  user's data; the order of the card type unless an order is pending. A form whose data are not valid makes no request.\<close>

theorem visits_reach_services:
  assumes "mui_documented render" "router_documented select" "params_documented select" "query_documented query"
    and "site_stocked S" "draws_documented draws"
    and "served_by K S (visit_user v)" "valid_user (sk_is_email K) (sk_isCreditCard K) (visit_user v)" "reporter_ok (sk_window K)"
    and "card_page (fst (ui_cards s)) = Some ''active'' \<Longrightarrow>
      \<exists>r. sk_send K (deleteCardAndOrder (be_creditCards (sk_backends K)) (Number_of_string (to_str (si_user_id S)))) = Inr r"
    and "url_string (visit_url v) = si_address S" "visit_returns v" "whole_amounts v"
    and "ui_user s = Null" "ui_sent s = []" "card_settled (ui_cards s)"
  shows "\<exists>ses s'. run_visit v (site_browser render select query S draws drawsBetween s) \<lparr>se_log = [], se_draws = n\<rparr> = (Inr (), ses) \<and>
    walk (ui_step render select query S) (se_log ses) s = Some s' \<and>
    visit_requests K S v (ui_cards s) (form_requests K S (ui_sent s')) \<and> ui_user s' = Null \<and> ui_ended s'"
proof -
  have user: "si_user_id S \<noteq> Null" and ids: "\<forall>i \<in> set (si_instruments S). url_id (it_id i)"
    using assms(5) by (simp_all add: site_stocked_def)
  have outcomes: "\<forall>x. si_outcome S x = fst (served K S x)" and revoked: "si_revocation S = revocation K S"
    using assms(7) by (simp_all add: served_by_def)
  have "order_goes_on S (ui_cards s)"
    using assms(10) served_revocation revoked unfolding order_goes_on_def by metis
  then have "visit_goes_on S v (ui_cards s)"
    using served_login [OF assms(7,8) user] by (simp add: visit_goes_on_def split: visit.splits)
  from visit_runs [OF assms(1-6) assms(11,12) this assms(14-16), of drawsBetween n]
  obtain ses s' k where run: "run_visit v (site_browser render select query S draws drawsBetween s) \<lparr>se_log = [], se_draws = n\<rparr> = (Inr (), ses)"
    "walk (ui_step render select query S) (se_log ses) s = Some s'" "visit_sends S v (ui_cards s) k"
    "ui_sent s' = filter (goes_out S) k" "ui_user s' = Null" "ui_ended s'" by blast
  have "visit_requests K S v (ui_cards s) (form_requests K S (ui_sent s'))"
    unfolding run(4) form_requests_sent [OF outcomes] by (rule visit_form_requests [OF run(3) assms(13,8,9) ids])
  with run show ?thesis by blast
qed

text \<open>A site with the answers of a stack.\<close>

definition served_site :: "'c stack \<Rightarrow> site \<Rightarrow> site" where
  "served_site K S = S\<lparr>si_outcome := (\<lambda>x. fst (served K S x)), si_revocation := revocation K S\<rparr>"

lemma served_updates:
  "served K (S\<lparr>si_outcome := f, si_revocation := r\<rparr>) = served K S"
  "revocation K (S\<lparr>si_outcome := f, si_revocation := r\<rparr>) = revocation K S"
proof -
  have "trade_outcome_of K (S\<lparr>si_outcome := f, si_revocation := r\<rparr>) = trade_outcome_of K S"
    by (intro ext) (simp add: trade_outcome_of_def Let_def cong: if_cong)
  then show "served K (S\<lparr>si_outcome := f, si_revocation := r\<rparr>) = served K S"
    by (intro ext) (simp add: served_def Let_def cong: if_cong instrument_page.case_cong)
qed (simp add: revocation_def)

lemma served_site: "served K (served_site K S) = served K S" "revocation K (served_site K S) = revocation K S"
  "si_user_id (served_site K S) = si_user_id S" "si_address (served_site K S) = si_address S"
  "site_stocked (served_site K S) = site_stocked S"
  "si_outcome (served_site K S) x = fst (served K S x)" "si_revocation (served_site K S) = revocation K S"
  by (simp_all add: served_site_def served_updates site_stocked_def)

definition sample_stack :: "(query_key \<Rightarrow> (query_data \<times> bool) option) stack" where
  "sample_stack =
     \<lparr>sk_backends = mk_backends ''http://easytrade'', sk_send = (\<lambda>rq. Inr \<lparr>rs_status = 200, rs_statusText = ''OK'', rs_data = Str []\<rparr>),
      sk_window = \<lparr>win_dynatrace = None, win_reportError = None\<rparr>, sk_build_xml = (\<lambda>v. Inr ''xml''),
      sk_parse_xml = (\<lambda>v. Inr (Obj [(''IdResponse'', Obj [(''id'', si_user_id (mock_site no_card))])])),
      sk_is_email = (\<lambda>s. CHR ''@'' \<in> set s), sk_isCreditCard = (\<lambda>s. length s = 16),
      sk_client = map_client, sk_cache = (\<lambda>k. None), sk_notifies = False\<rparr>"

lemma visits_reach_services_witness:
  "\<exists>ses s' rs. run_visit (DepositAndBuyVisit deposit_and_buy_success sample_url sample_user (jint 500))
      (site_browser mui_document pattern_select parsed_query (served_site sample_stack (mock_site no_card)) (\<lambda>_. Fin 0) (\<lambda>_ lo hi. lo)
        (first_state no_card)) \<lparr>se_log = [], se_draws = 0\<rparr> = (Inr (), ses) \<and>
    walk (ui_step mui_document pattern_select parsed_query (served_site sample_stack (mock_site no_card))) (se_log ses)
      (first_state no_card) = Some s' \<and>
    form_requests sample_stack (served_site sample_stack (mock_site no_card)) (ui_sent s') =
      [loginXml (be_users (mk_backends ''http://easytrade'')) ''xml'',
       cc_deposit (be_creditCards (mk_backends ''http://easytrade'')) (user_deposit sample_user (si_user_id (mock_site no_card)) (jint 500))] @ rs"
proof -
  have valid: "valid_user (sk_is_email sample_stack) (sk_isCreditCard sample_stack) sample_user"
    by (simp add: sample_stack_def valid_user_def sample_user_def cvvRegex_def is_digit_def)
  have "login_answer (sk_backends sample_stack) (sk_send sample_stack) (sk_build_xml sample_stack) (sk_parse_xml sample_stack)
      (username sample_user) (password sample_user) = Inr (Obj [(''id'', si_user_id (mock_site no_card))])"
    by (simp add: login_answer_def sample_stack_def)
  from login_answered(1) [OF this]
  have "au_userId (pg_auth (login_page_after sample_stack (filled_in (login_sent sample_user)))) = si_user_id (mock_site no_card)"
    unfolding login_run_requests(2) [OF valid] by (simp add: opt_prop_def mock_site_def)
  then have served: "served_by sample_stack (served_site sample_stack (mock_site no_card)) sample_user"
    by (simp add: served_by_def served_site)
  have stocked: "site_stocked (served_site sample_stack (mock_site no_card))"
    using mock_run.stocked by (simp only: served_site)
  show ?thesis
    using visits_reach_services [OF documented.render documented.router documented.params documented.query stocked mock_run.draws,
        of sample_stack "DepositAndBuyVisit deposit_and_buy_success sample_url sample_user (jint 500)" "first_state no_card" "\<lambda>_ lo hi. lo" 0]
      served valid
    by (simp add: served_site) (auto simp: mock_site_def sample_url_def first_state_def card_settled_def card_page_def
        sample_stack_def reporter_ok_def login_requests_def whole_def intro!: exI [of _ 500])
qed

end
