(* ===== verification/Site_Flags.thy ===== *)
theory Site_Flags
  imports Fe_Site
begin

text \<open>
  The page of the feature flags as a document: which buttons it has, and what pressing them sends.
\<close>

section \<open>The buttons of the flags\<close>

definition flag_button :: "mark \<Rightarrow> bool" where
  "flag_button m = (case mk_on m of Some (OnFlags (ToggleFlag f)) \<Rightarrow> True | Some (OnFlags (CopyCurl c)) \<Rightarrow> True | _ \<Rightarrow> False)"

lemma flag_button_element [simp]:
  "flag_button (element tag ps form cls on texts) \<longleftrightarrow>
     (case on of Some (OnFlags (ToggleFlag f)) \<Rightarrow> True | Some (OnFlags (CopyCurl c)) \<Rightarrow> True | _ \<Rightarrow> False)"
  by (simp add: flag_button_def element_def)

text \<open>What can be seen of a button: what it does, its tag, its text, whether it is disabled.\<close>

type_synonym button_view = "ui_event option \<times> string \<times> string list \<times> bool"

definition button_view :: "mark \<Rightarrow> button_view" where
  "button_view m = (mk_on m, mk_tag m, mk_texts m, mk_disabled m)"

definition flag_buttons :: "mark list \<Rightarrow> button_view list" where
  "flag_buttons ms = map button_view (filter flag_button ms)"

lemma flag_buttons_simps [simp]:
  "flag_buttons [] = []" "flag_buttons (m # ms) = (if flag_button m then button_view m # flag_buttons ms else flag_buttons ms)"
  "flag_buttons (xs @ ys) = flag_buttons xs @ flag_buttons ys"
  by (simp_all add: flag_buttons_def)

lemma flag_buttons_concat [simp]: "flag_buttons (concat xss) = concat (map flag_buttons xss)"
  by (induction xss) simp_all

definition buttons_of :: "string \<Rightarrow> jsval option \<Rightarrow> (nat \<Rightarrow> bool) \<Rightarrow> nat \<times> fe_flag \<Rightarrow> button_view list" where
  "buttons_of origin management pending x = (case x of (idx, flag) \<Rightarrow>
     let on = (\<not> truthy (ff_enabled flag)) in
     [(Some (OnFlags (CopyCurl (getFeatureFlagCurl origin (to_str (ff_id flag)) on))), ''button'', [], False),
      (Some (OnFlags (ToggleFlag flag)), ''button'', [if on then ''Enable'' else ''Disable''],
       modifyDisabled flag management \<or> pending idx)])"

definition managed :: "query_data option \<Rightarrow> jsval option" where
  "managed config = (case config of Some (QConfig m) \<Rightarrow> Some m | _ \<Rightarrow> None)"

lemma item_buttons:
  assumes "FeatureFlagItem origin management x flag = Inr it"
  shows "flag_buttons (in_place form cls (FeatureFlagItem_node flag it (pending idx))) =
     buttons_of origin management pending (idx, flag)"
  using assms
  by (cases "displayName (ff_name flag)")
    (auto simp: FeatureFlagItem_def FeatureFlagItem_node_def Let_def flag_buttons_def button_view_def buttons_of_def
      element_def flag_caption_def chip_def str_prop_def prop_of_def button_tag_def texts_of_def flag_button_def)

lemma item_at_end: "at_end sel (FeatureFlagItem_node flag it b) = []"
  by (simp add: FeatureFlagItem_node_def Let_def flag_caption_def chip_def)

lemma list_buttons:
  assumes "rmapM (\<lambda>flag. FeatureFlagItem origin management (x flag) flag) fs = Inr items"
  shows "concat (map (\<lambda>(idx, flag, it). flag_buttons (in_place form cls (FeatureFlagItem_node flag it (pending idx))))
       (enumerate n (zip fs items))) = concat (map (buttons_of origin management pending) (enumerate n fs))"
  using assms
proof (induction fs arbitrary: items n)
  case Nil
  then show ?case by simp
next
  case (Cons flag fs)
  then obtain it its where "FeatureFlagItem origin management (x flag) flag = Inr it" "items = it # its"
    "rmapM (\<lambda>flag. FeatureFlagItem origin management (x flag) flag) fs = Inr its"
    by (auto simp: rbind_def split: sum.splits)
  then show ?case using Cons.IH [of its "Suc n"] by (simp add: item_buttons)
qed

lemma page_buttons:
  assumes "FeatureFlagList origin management st fs = Inr items"
  shows "flag_buttons (mui_document sel (FeatureFlags_node pending refreshing st fs (alert, items))) =
     concat (map (buttons_of origin management pending) (enumerate 0 fs))"
  unfolding mui_document_def FeatureFlags_node_def FeatureFlagList_node_def
  using list_buttons [OF assms [unfolded FeatureFlagList_def], of "None" "[]" pending 0]
  by (simp add: o_def case_prod_unfold item_at_end)

section \<open>Property\<close>



end
