(* ===== verification/Fe_Proxy.thy ===== *)
theory Fe_Proxy
  imports Fe_Read Fe_Router
begin

text \<open>
  The reverse proxy in front of the services (\<open>src/frontendreverseproxy/nginx.conf\<close>): to which host it passes a
  request and under which path. Every request of the frontend goes through it, and so do the pages. The paths are
  those nginx matches, with slashes merged and escapes decoded; how axios joins a base URL and a path is an argument.
\<close>

section \<open>Locations\<close>

record location =
  lc_prefix :: string
  lc_rewrite :: "string option"
  lc_pass :: string
  lc_forwarded :: string

text \<open>\<open>rewrite <pattern>(.*) /$1 break\<close>: the pattern may occur anywhere; what follows its first occurrence is kept.\<close>

definition rewrite_path :: "string \<Rightarrow> string \<Rightarrow> string" where
  "rewrite_path pattern path =
     (let i = indexOf path pattern
      in if i = - 1 then path else ''/'' @ drop (nat i + length pattern) path)"

definition locations :: "location list" where
  "locations =
     [\<lparr>lc_prefix = ''/loginservice'', lc_rewrite = Some ''/loginservice/'',
       lc_pass = ''http://loginservice:8080'', lc_forwarded = ''/loginservice''\<rparr>,
      \<lparr>lc_prefix = ''/broker-service'', lc_rewrite = Some ''/broker-service/'',
       lc_pass = ''http://broker-service:8080'', lc_forwarded = ''/broker-service''\<rparr>,
      \<lparr>lc_prefix = ''/accountservice/api'', lc_rewrite = Some ''/accountservice/'',
       lc_pass = ''http://accountservice:8080'', lc_forwarded = ''/accountservice/api''\<rparr>,
      \<lparr>lc_prefix = ''/accountservice'', lc_rewrite = Some ''/accountservice/'',
       lc_pass = ''http://accountservice:8080'', lc_forwarded = ''/accountservice''\<rparr>,
      \<lparr>lc_prefix = ''/pricing-service'', lc_rewrite = Some ''/pricing-service/'',
       lc_pass = ''http://pricing-service:8080'', lc_forwarded = ''/pricing-service''\<rparr>,
      \<lparr>lc_prefix = ''/offerservice'', lc_rewrite = Some ''/offerservice/'',
       lc_pass = ''http://offerservice:8080'', lc_forwarded = ''/offer-service''\<rparr>,
      \<lparr>lc_prefix = ''/engine'', lc_rewrite = Some ''/engine/'',
       lc_pass = ''http://engine:8080'', lc_forwarded = ''/engine''\<rparr>,
      \<lparr>lc_prefix = ''/engine/api'', lc_rewrite = Some ''/engine/'',
       lc_pass = ''http://engine:8080'', lc_forwarded = ''/engine/api''\<rparr>,
      \<lparr>lc_prefix = ''/manager'', lc_rewrite = Some ''/manager/'',
       lc_pass = ''http://manager:8080'', lc_forwarded = ''/manager''\<rparr>,
      \<lparr>lc_prefix = ''/credit-card-order-service'', lc_rewrite = Some ''/credit-card-order-service/'',
       lc_pass = ''http://credit-card-order-service:8080'', lc_forwarded = ''/credit-card-order-service''\<rparr>,
      \<lparr>lc_prefix = ''/third-party-service'', lc_rewrite = Some ''/third-party-service/'',
       lc_pass = ''http://third-party-service:8080'', lc_forwarded = ''/third-party-service''\<rparr>,
      \<lparr>lc_prefix = ''/feature-flag-service'', lc_rewrite = Some ''/feature-flag-service/'',
       lc_pass = ''http://feature-flag-service:8080'', lc_forwarded = ''/feature-flag-service''\<rparr>,
      \<lparr>lc_prefix = ''/'', lc_rewrite = None, lc_pass = ''http://frontend:3000'', lc_forwarded = ''/''\<rparr>]"

text \<open>Of the locations whose prefix a path starts with, the longest.\<close>

fun longer :: "location \<Rightarrow> location option \<Rightarrow> location" where
  "longer l None = l"
| "longer l (Some b) = (if length (lc_prefix b) < length (lc_prefix l) then l else b)"

fun longest :: "string \<Rightarrow> location list \<Rightarrow> location option" where
  "longest path [] = None"
| "longest path (l # ls) =
     (if starts_with path (lc_prefix l) then Some (longer l (longest path ls)) else longest path ls)"

text \<open>The host a request is passed to, and the URI it has there; the arguments of the URI stay as they are.\<close>

definition split_args :: "string \<Rightarrow> string \<times> string" where
  "split_args uri = (takeWhile (\<lambda>c. c \<noteq> CHR ''?'') uri, dropWhile (\<lambda>c. c \<noteq> CHR ''?'') uri)"

definition proxied :: "string \<Rightarrow> (string \<times> string) option" where
  "proxied uri =
     (let (path, args) = split_args uri
      in map_option (\<lambda>l. (lc_pass l, (case lc_rewrite l of None \<Rightarrow> path | Some p \<Rightarrow> rewrite_path p path) @ args))
           (longest path locations))"

section \<open>Requests and their URIs\<close>

definition no_slash :: "string \<Rightarrow> bool" where
  "no_slash p \<longleftrightarrow> \<not> starts_with p ''/''"

text \<open>What axios and the browser document: a base URL and a path are joined by one slash, a path without a base is
  taken from the origin, parameters follow a question mark.\<close>

definition urls_documented :: "string \<Rightarrow> (http_request \<Rightarrow> string) \<Rightarrow> bool" where
  "urls_documented origin url_of \<longleftrightarrow>
     (\<forall>rq p. no_slash p \<and> hq_path rq \<in> {p, ''/'' @ p} \<longrightarrow>
        (\<exists>q. url_of rq = opt_or (hq_base rq) origin @ ''/'' @ p @ q \<and>
             (hq_params rq = [] \<longrightarrow> q = []) \<and> (q \<noteq> [] \<longrightarrow> CHR ''?'' \<in> set p \<or> hd q = CHR ''?'')))"

text \<open>Where a request of the page goes: to a host, under a path.\<close>

definition reaches :: "string \<Rightarrow> (http_request \<Rightarrow> string) \<Rightarrow> http_request \<Rightarrow> (string \<times> string) option" where
  "reaches origin url_of rq =
     (if starts_with (url_of rq) origin then proxied (drop (length origin) (url_of rq)) else None)"

section \<open>Which location is chosen\<close>

text \<open>The choice does what nginx documents, in any table.\<close>

lemma longest_location:
  "(case longest path ls of
      None \<Rightarrow> \<forall>l \<in> set ls. \<not> starts_with path (lc_prefix l)
    | Some l \<Rightarrow> l \<in> set ls \<and> starts_with path (lc_prefix l) \<and>
        (\<forall>l' \<in> set ls. starts_with path (lc_prefix l') \<longrightarrow> length (lc_prefix l') \<le> length (lc_prefix l)))"
  by (induction ls) (auto split: option.splits)

lemma starts_with_simps [simp]:
  "starts_with s []" "starts_with s s" "starts_with (c # s) (d # p) \<longleftrightarrow> c = d \<and> starts_with s p" "\<not> starts_with [] (d # p)"
  by (simp_all add: starts_with_def)

lemma split_args_simps [simp]:
  "split_args (c # uri) = (if c = CHR ''?'' then ([], c # uri) else (c # fst (split_args uri), snd (split_args uri)))"
  by (simp add: split_args_def)

lemma split_args_join [simp]: "fst (split_args uri) @ snd (split_args uri) = uri"
  by (simp add: split_args_def)

lemma rewrite_prefix: "starts_with path pattern \<Longrightarrow> rewrite_path pattern path = ''/'' @ drop (length pattern) path"
  using indexOf_zero_iff [of path pattern] by (simp add: rewrite_path_def)

text \<open>The location of each path the frontend uses, and where it leads.\<close>

lemma service_locations:
  "longest (''/loginservice/'' @ p) locations = Some (locations ! 0)"
  "longest (''/broker-service/'' @ p) locations = Some (locations ! 1)"
  "longest (''/accountservice/api/'' @ p) locations = Some (locations ! 2)"
  "longest (''/pricing-service/'' @ p) locations = Some (locations ! 4)"
  "longest (''/offerservice/'' @ p) locations = Some (locations ! 5)"
  "longest (''/engine/api/'' @ p) locations = Some (locations ! 7)"
  "longest (''/manager/'' @ p) locations = Some (locations ! 8)"
  "longest (''/credit-card-order-service/'' @ p) locations = Some (locations ! 9)"
  "longest (''/third-party-service/'' @ p) locations = Some (locations ! 10)"
  "longest (''/feature-flag-service/'' @ p) locations = Some (locations ! 11)"
  by (simp_all add: locations_def)

lemma location_fields:
  "lc_pass (locations ! 0) = ''http://loginservice:8080''" "lc_rewrite (locations ! 0) = Some ''/loginservice/''"
  "lc_pass (locations ! Suc 0) = ''http://broker-service:8080''" "lc_rewrite (locations ! Suc 0) = Some ''/broker-service/''"
  "lc_pass (locations ! 2) = ''http://accountservice:8080''" "lc_rewrite (locations ! 2) = Some ''/accountservice/''"
  "lc_pass (locations ! 4) = ''http://pricing-service:8080''" "lc_rewrite (locations ! 4) = Some ''/pricing-service/''"
  "lc_pass (locations ! 5) = ''http://offerservice:8080''" "lc_rewrite (locations ! 5) = Some ''/offerservice/''"
  "lc_pass (locations ! 7) = ''http://engine:8080''" "lc_rewrite (locations ! 7) = Some ''/engine/''"
  "lc_pass (locations ! 8) = ''http://manager:8080''" "lc_rewrite (locations ! 8) = Some ''/manager/''"
  "lc_pass (locations ! 9) = ''http://credit-card-order-service:8080''" "lc_rewrite (locations ! 9) = Some ''/credit-card-order-service/''"
  "lc_pass (locations ! 10) = ''http://third-party-service:8080''" "lc_rewrite (locations ! 10) = Some ''/third-party-service/''"
  "lc_pass (locations ! 11) = ''http://feature-flag-service:8080''" "lc_rewrite (locations ! 11) = Some ''/feature-flag-service/''"
  by (simp_all add: locations_def)

lemma proxied_services:
  "proxied (''/loginservice/'' @ r) = Some (''http://loginservice:8080'', ''/'' @ r)"
  "proxied (''/broker-service/'' @ r) = Some (''http://broker-service:8080'', ''/'' @ r)"
  "proxied (''/accountservice/api/'' @ r) = Some (''http://accountservice:8080'', ''/api/'' @ r)"
  "proxied (''/pricing-service/'' @ r) = Some (''http://pricing-service:8080'', ''/'' @ r)"
  "proxied (''/offerservice/'' @ r) = Some (''http://offerservice:8080'', ''/'' @ r)"
  "proxied (''/engine/api/'' @ r) = Some (''http://engine:8080'', ''/api/'' @ r)"
  "proxied (''/manager/'' @ r) = Some (''http://manager:8080'', ''/'' @ r)"
  "proxied (''/credit-card-order-service/'' @ r) = Some (''http://credit-card-order-service:8080'', ''/'' @ r)"
  "proxied (''/third-party-service/'' @ r) = Some (''http://third-party-service:8080'', ''/'' @ r)"
  "proxied (''/feature-flag-service/'' @ r) = Some (''http://feature-flag-service:8080'', ''/'' @ r)"
  by (simp_all add: proxied_def service_locations [simplified] location_fields rewrite_prefix split_args_def)

section \<open>Where the requests go\<close>

definition relative :: "string \<Rightarrow> string" where
  "relative p = (if starts_with p ''/'' then tl p else p)"

lemma documented_url:
  assumes "urls_documented origin url_of" "no_slash (relative (hq_path rq))"
  obtains q where "url_of rq = opt_or (hq_base rq) origin @ ''/'' @ relative (hq_path rq) @ q"
    "hq_params rq = [] \<Longrightarrow> q = []" "q \<noteq> [] \<Longrightarrow> CHR ''?'' \<in> set (relative (hq_path rq)) \<or> hd q = CHR ''?''"
proof -
  have "hq_path rq \<in> {relative (hq_path rq), ''/'' @ relative (hq_path rq)}"
    by (cases "hq_path rq") (auto simp: relative_def)
  with assms that show thesis unfolding urls_documented_def by blast
qed

lemma reach:
  assumes "urls_documented origin url_of" "no_slash (relative (hq_path rq))" "hq_params rq = []"
    and "starts_with (opt_or (hq_base rq) origin) origin"
  shows "reaches origin url_of rq =
    proxied (drop (length origin) (opt_or (hq_base rq) origin) @ ''/'' @ relative (hq_path rq))"
proof -
  obtain b where b: "opt_or (hq_base rq) origin = origin @ b" using assms(4) by (auto simp: starts_with_iff)
  have "url_of rq = opt_or (hq_base rq) origin @ ''/'' @ relative (hq_path rq)"
    using documented_url [OF assms(1,2)] assms(3) by (metis append_Nil2)
  then show ?thesis unfolding reaches_def b by simp
qed

lemmas backend_agents = mk_backends_def new_ProblemPatternBackend_def new_ConfigBackend_def new_UserBackend_def
  new_InstrumentBackend_def new_PriceBackend_def new_TransactionBackend_def new_CreditCardBackend_def
  new_VersionBackend_def axios_create_def getFeatureFlagServiceUrl_def getAccountServiceUrl_def
  getLoginServiceUrl_def getBrokerServiceUrl_def getPricingServiceUrl_def getCreditCardServiceUrl_def

lemmas backend_calls = loginXml_def logoutXml_def signupXml_def us_getData_def us_getBalance_def us_getPreset_def
  in_getInstruments_def getLatestXml_def getForInstrumentXml_def tx_getAll_def tx_quickBuy_def tx_quickSell_def
  tx_buy_def tx_sell_def cc_deposit_def cc_withdraw_def cc_orderCard_def getOrderStatusXml_def
  cc_getOrderStatusHistory_def deleteCardAndOrder_def setProblemPatternEnabled_def ve_getVersion_def
  with_headers_def agent_call_def

lemmas reach_simps = backend_agents backend_calls reach no_slash_def relative_def proxied_services [simplified]

text \<open>The parameters of the flags follow the path.\<close>

lemma flags_reach:
  assumes "urls_documented origin url_of" "hq_path rq = ''/flags''" "hq_base rq = Some (getFeatureFlagServiceUrl origin)"
  shows "\<exists>q. (q \<noteq> [] \<longrightarrow> hd q = CHR ''?'') \<and>
    reaches origin url_of rq = Some (''http://feature-flag-service:8080'', ''/v1/flags'' @ q)"
proof -
  have "relative (hq_path rq) = ''flags''" by (simp add: assms(2) relative_def)
  then obtain q where "url_of rq = getFeatureFlagServiceUrl origin @ ''/flags'' @ q" "q \<noteq> [] \<Longrightarrow> hd q = CHR ''?''"
    using documented_url [OF assms(1), of rq] by (auto simp: no_slash_def assms(3))
  then show ?thesis
    by (auto simp: reaches_def getFeatureFlagServiceUrl_def proxied_services [simplified] intro!: exI [of _ q])
qed

lemma flag_requests:
  "hq_path (pp_getAll b) = ''/flags''" "hq_base (pp_getAll b) = ag_baseURL (pp_agent b)"
  "hq_path (cf_getAll c) = ''/flags''" "hq_base (cf_getAll c) = ag_baseURL (cf_agent c)"
  by (simp_all add: pp_getAll_def cf_getAll_def agent_call_def)

lemma branch_paths:
  "map br_path branches =
     [''/'', ''/*'', ''/feature-flags'', ''/version'', ''/login'', ''/signup'', ''/withdraw'', ''/deposit'',
      ''/credit-card/order'', ''/credit-card/status'', ''/credit-card/active'', ''/credit-card'', ''/home'',
      ''/instruments'', ''/instruments/:id'']"
  by (simp add: branches_eq)

lemma page_paths: "\<forall>p \<in> set (map br_path branches). proxied p = Some (''http://frontend:3000'', p)"
  unfolding branch_paths by code_simp

lemma instrument_paths:
  "proxied (''/instruments/'' @ i) = Some (''http://frontend:3000'', ''/instruments/'' @ i)"
  by (simp add: proxied_def locations_def)

section \<open>Properties\<close>


text \<open>A URL as axios builds it: parameters are joined by ampersands.\<close>

definition axios_url :: "string \<Rightarrow> http_request \<Rightarrow> string" where
  "axios_url origin rq =
     opt_or (hq_base rq) origin @ ''/'' @ relative (hq_path rq) @
     (if hq_params rq = [] then []
      else (if CHR ''?'' \<in> set (hq_path rq) then ''&'' else ''?'') @
        join_str ''&'' (map (\<lambda>(k, v). k @ ''='' @ v) (hq_params rq)))"

lemma axios_url_documented: "urls_documented origin (axios_url origin)"
proof -
  have "relative q = p" if "no_slash p" "q \<in> {p, ''/'' @ p}" for p q
    using that by (auto simp: no_slash_def relative_def)
  then show ?thesis unfolding urls_documented_def axios_url_def by auto
qed


end
