(* ===== verification/Fe_Offer.thy ===== *)
theory Fe_Offer
  imports Fe_Proxy Fe_View Offer_Requests
begin

text \<open>
  The one service the frontend asks whose code is here, from the page of the versions to the handler: the request of
  the frontend, the proxy that passes it on, the layers of the offer service, the answer, the row of the table.
\<close>

section \<open>A request that arrives\<close>

fun method_name :: "http_method \<Rightarrow> string" where
  "method_name GET = ''GET''"
| "method_name POST = ''POST''"
| "method_name PUT = ''PUT''"
| "method_name DELETE = ''DELETE''"

text \<open>The incoming request at a URI; how express reads the arguments of the URI is left open.\<close>

definition arrives :: "http_request \<Rightarrow> string \<Rightarrow> incoming \<Rightarrow> bool" where
  "arrives rq uri inc \<longleftrightarrow>
     in_method inc = method_name (hq_method rq) \<and> in_path inc = fst (split_args uri) \<and>
     in_accept inc = map_of (hq_headers rq) ''Accept''"

text \<open>What the network and axios document: a request the proxy passes to the offer service, which it answers
  with a status the request accepts and in less than its timeout, resolves with the data of the answer.\<close>

definition delivers :: "string \<Rightarrow> (http_request \<Rightarrow> string) \<Rightarrow> server \<Rightarrow> layer list \<Rightarrow> send \<Rightarrow> bool" where
  "delivers origin url_of sv layers send \<longleftrightarrow>
     (\<forall>rq uri r v ms.
        reaches origin url_of rq = Some (''http://offerservice:8080'', uri) \<and>
        (\<forall>inc. arrives rq uri inc \<longrightarrow>
           (\<exists>x. serve sv inc layers new_exchange = Replied x r \<and> sum_list (ex_waited x) = ms)) \<and>
        rp_body r = JsonBody v \<and> hq_validateStatus rq (rp_status r) \<and>
        (\<forall>t. hq_timeout rq = Some t \<longrightarrow> ms < t) \<longrightarrow>
        (\<exists>txt. send rq = Inr \<lparr>rs_status = rp_status r, rs_statusText = txt, rs_data = v\<rparr>))"

text \<open>A request without a body is parsed, and the route of the version matches its own path.\<close>

definition version_documented :: "server \<Rightarrow> bool" where
  "version_documented sv \<longleftrightarrow>
     (\<forall>rq. in_method rq = ''GET'' \<longrightarrow> (\<exists>body. parse_body sv rq = Inr body)) \<and> sv_match sv GET_VERSION GET_VERSION \<noteq> None"

section \<open>The version on its way\<close>

definition offer_version_request :: "string \<Rightarrow> http_request" where
  "offer_version_request origin = ve_getVersion (be_versions (mk_backends origin)) (snd (services ! 7))"

lemma offer_version_reaches:
  "urls_documented origin url_of \<Longrightarrow>
     reaches origin url_of (offer_version_request origin) = Some (''http://offerservice:8080'', GET_VERSION)"
  by (simp add: offer_version_request_def services_def GET_VERSION_def reach_simps)

lemma version_answered:
  assumes "start_app (sv_mkURL sv) (sv_penv sv) random = Inr app" "random_ok random" "routes_documented sv"
    and "\<forall>url. sdk_evaluates (sv_boolean sv url) (sv_get sv) url" "version_documented sv"
    and "in_method inc = ''GET''" "in_path inc = GET_VERSION"
  shows "\<exists>x. serve sv inc (run_layers app) new_exchange = Replied x (getVersion (sv_version sv) (in_accept inc)) \<and>
    ex_waited x = []"
proof -
  obtain body where body: "parse_body sv inc = Inr body"
    using assms(5,6) unfolding version_documented_def by blast
  obtain params where params: "sv_match sv GET_VERSION (in_path inc) = Some params"
    using assms(5,7) unfolding version_documented_def by auto
  have "sv_match sv GET_OFFERS (in_path inc) = None"
    using assms(3) params unfolding routes_documented_def by (metis option.distinct(1) option.exhaust)
  then have routed: "routed sv inc = Some (VersionHandler, params)"
    by (simp add: routed_def assms(6) params)
  then show ?thesis
    using app_serves [OF assms(1,2,4)] body unslowed [OF assms(3) routed]
    by (auto simp: call_handler_def)
qed

lemma version_sent:
  assumes "start_app (sv_mkURL sv) (sv_penv sv) random = Inr app" "random_ok random" "routes_documented sv"
    and "\<forall>url. sdk_evaluates (sv_boolean sv url) (sv_get sv) url" "version_documented sv"
    and "urls_documented origin url_of" "delivers origin url_of sv (run_layers app) send"
  shows "\<exists>txt. send (offer_version_request origin) =
    Inr \<lparr>rs_status = 200, rs_statusText = txt, rs_data = version_to_js (sv_version sv)\<rparr>"
proof -
  let ?rq = "offer_version_request origin"
  let ?r = "getVersion (sv_version sv) (Some ''application/json'')"
  have parts: "hq_method ?rq = GET" "map_of (hq_headers ?rq) ''Accept'' = Some ''application/json''"
    "hq_timeout ?rq = Some 1000" "hq_validateStatus ?rq = success_status"
    by (simp_all add: offer_version_request_def mk_backends_def new_VersionBackend_def ve_getVersion_def agent_call_def
        accept_json_def)
  have "\<exists>x. serve sv inc (run_layers app) new_exchange = Replied x ?r \<and> sum_list (ex_waited x) = 0"
    if "arrives ?rq GET_VERSION inc" for inc
  proof -
    have "in_method inc = ''GET''" "in_path inc = GET_VERSION" "in_accept inc = Some ''application/json''"
      using that by (simp_all add: arrives_def parts split_args_def GET_VERSION_def)
    then show ?thesis using version_answered [OF assms(1-5), of inc] by auto
  qed
  then have "\<forall>inc. arrives ?rq GET_VERSION inc \<longrightarrow>
      (\<exists>x. serve sv inc (run_layers app) new_exchange = Replied x ?r \<and> sum_list (ex_waited x) = 0)" by blast
  moreover have "rp_body ?r = JsonBody (version_to_js (sv_version sv))" "rp_status ?r = 200"
    by (simp_all add: getVersion_def)
  moreover note delivered = assms(7) [unfolded delivers_def, THEN spec [of _ ?rq], THEN spec [of _ GET_VERSION],
      THEN spec [of _ ?r], THEN spec [of _ "version_to_js (sv_version sv)"], THEN spec [of _ 0]]
  ultimately show ?thesis
    using mp [OF delivered] offer_version_reaches [OF assms(6)] by (simp add: parts success_status_def)
qed

text \<open>The row of the offer service: its version, and where it differs from that of the frontend.\<close>

definition offer_version_row :: "server \<Rightarrow> (string \<Rightarrow> jsval) \<Rightarrow> version_row" where
  "offer_version_row sv build =
     (let v = sv_version sv
      in VersionRow ''Offer Service''
           [(Str (buildVersion v), Str (buildVersion v) \<noteq> build ''buildVersion''),
            (Str (buildDate v), Str (buildDate v) \<noteq> build ''buildDate''),
            (Str (buildCommit v), Str (buildCommit v) \<noteq> build ''buildCommit'')])"

lemma offer_version_item:
  "VersionsTableItem build (VersionSuccess ''Offer Service'' (version_to_js (sv_version sv))) =
     Inr (offer_version_row sv build)"
  by (simp add: VersionsTableItem_def offer_version_row_def version_to_js_def DifferenceWarning_def Let_def)

section \<open>Properties\<close>

text \<open>C5 (offer version). When the offer service runs behind the proxy, the page of the versions lists it as a success,
  with the version it was built with, whatever the other services answer; in its row a cell is marked exactly when
  the frontend was built differently.\<close>

theorem offer_service_listed:
  assumes "start_app (sv_mkURL sv) (sv_penv sv) random = Inr app" "random_ok random" "routes_documented sv"
    and "\<forall>url. sdk_evaluates (sv_boolean sv url) (sv_get sv) url" "version_documented sv"
    and "urls_documented origin url_of" "delivers origin url_of sv (run_layers app) send"
  shows "\<exists>vs. fst (getAllVersions (mk_backends origin) send) = Inr vs \<and> length vs = length services \<and>
    vs ! 7 = VersionSuccess ''Offer Service'' (version_to_js (sv_version sv)) \<and>
    (\<forall>build rows. VersionPage build False (Some (QVersions vs)) = Versions (Inr rows) \<longrightarrow>
      rows ! 8 = offer_version_row sv build)"
proof -
  let ?entry = "\<lambda>s. case send (ve_getVersion (be_versions (mk_backends origin)) (snd s)) of
      Inr r \<Rightarrow> VersionSuccess (fst s) (rs_data r)
    | Inl e \<Rightarrow> VersionError (fst s) (fst s @ '' didn'' @ [CHR 0x27] @ ''t respond'')"
  have vs: "fst (getAllVersions (mk_backends origin) send) = Inr (map ?entry services)"
    by (simp add: getAllVersions_entries)
  have seven: "7 < length services" "fst (services ! 7) = ''Offer Service''" by (simp_all add: services_def)
  have offer: "map ?entry services ! 7 = VersionSuccess ''Offer Service'' (version_to_js (sv_version sv))"
    using version_sent [OF assms] by (auto simp: offer_version_request_def seven)
  have "rows ! 8 = offer_version_row sv build"
    if "VersionPage build False (Some (QVersions (map ?entry services))) = Versions (Inr rows)" for build rows
  proof -
    have "rmapM (VersionsTableItem build) (getFrontendVersion build # map ?entry services) = Inr rows"
      using that by (simp add: VersionPage_def)
    from rmapM_nth [OF this, of 8] seven(1) have "VersionsTableItem build (map ?entry services ! 7) = Inr (rows ! 8)"
      by simp
    then show ?thesis unfolding offer by (simp add: offer_version_item)
  qed
  with vs offer show ?thesis by (intro exI [of _ "map ?entry services"]) simp
qed

text \<open>A network that asks the server itself.\<close>

definition simulated_send :: "string \<Rightarrow> (http_request \<Rightarrow> string) \<Rightarrow> server \<Rightarrow> layer list \<Rightarrow> send" where
  "simulated_send origin url_of sv layers rq =
     (case reaches origin url_of rq of
        None \<Rightarrow> Inl (ErrorMsg ''Network Error'')
      | Some (host, uri) \<Rightarrow>
          (case serve sv \<lparr>in_method = method_name (hq_method rq), in_path = fst (split_args uri), in_query = (\<lambda>k. Undefined),
              in_query_text = [], in_accept = map_of (hq_headers rq) ''Accept''\<rparr> layers new_exchange of
             Replied x r \<Rightarrow>
               (case rp_body r of
                  JsonBody v \<Rightarrow> Inr \<lparr>rs_status = rp_status r, rs_statusText = [], rs_data = v\<rparr>
                | _ \<Rightarrow> Inl (ErrorMsg ''Unexpected answer''))
           | _ \<Rightarrow> Inl (ErrorMsg ''No answer'')))"

lemma simulated_delivers: "delivers origin url_of sv layers (simulated_send origin url_of sv layers)"
  unfolding delivers_def
proof (intro allI impI, elim conjE)
  fix rq :: http_request and uri r v and ms :: nat
  let ?inc = "\<lparr>in_method = method_name (hq_method rq), in_path = fst (split_args uri), in_query = (\<lambda>k. Undefined),
    in_query_text = [], in_accept = map_of (hq_headers rq) ''Accept''\<rparr>"
  assume to: "reaches origin url_of rq = Some (''http://offerservice:8080'', uri)" and body: "rp_body r = JsonBody v"
    and "\<forall>inc. arrives rq uri inc \<longrightarrow>
      (\<exists>x. serve sv inc layers new_exchange = Replied x r \<and> sum_list (ex_waited x) = ms)"
  then obtain x where "serve sv ?inc layers new_exchange = Replied x r" by (force simp: arrives_def)
  with to body show "\<exists>txt. simulated_send origin url_of sv layers rq = Inr \<lparr>rs_status = rp_status r, rs_statusText = txt, rs_data = v\<rparr>"
    by (simp add: simulated_send_def)
qed

lemma offer_service_listed_witness:
  "\<exists>app vs. start_app (sv_mkURL sample_server) (sv_penv sample_server) (\<lambda>k. Fin 0) = Inr app \<and>
     fst (getAllVersions (mk_backends ''http://easytrade'')
       (simulated_send ''http://easytrade'' (axios_url ''http://easytrade'') sample_server (run_layers app))) = Inr vs \<and>
     vs ! 7 = VersionSuccess ''Offer Service''
       (Obj [(''buildVersion'', Str ''1''), (''buildDate'', Str ''d''), (''buildCommit'', Str ''c'')])"
proof -
  obtain app where app: "start_app (sv_mkURL sample_server) (sv_penv sample_server) (\<lambda>k. Fin 0) = Inr app"
    by (rule sample_server_starts)
  have version: "version_documented sample_server"
    unfolding version_documented_def using sample_server_documented(4)
    by (simp add: sample_server_def Let_def GET_VERSION_def GET_OFFERS_def)
  have listed: "version_to_js (sv_version sample_server) =
      Obj [(''buildVersion'', Str ''1''), (''buildDate'', Str ''d''), (''buildCommit'', Str ''c'')]"
    by (simp add: version_to_js_def sample_server_def Let_def)
  from offer_service_listed [OF app random_zero_ok sample_server_documented(1,2) version axios_url_documented simulated_delivers,
      of "''http://easytrade''", unfolded listed]
  show ?thesis using app by blast
qed

end
