(* ===== verification/Spec2Isabelle.thy ===== *)
theory Spec2Isabelle
  imports Offer_Requests Offer_Log Loadgen_Provider Loadgen_Log Fe_Loaders Fe_Trading Fe_Account_Forms Fe_Flags Fe_Contexts Fe_Types
    Site_Services Site_Flags Fe_Offer
begin

text \<open>
  EasyTrade is a demonstration broker. This development verifies its TypeScript programs, below
  \<open>src/src\<close> of the repository: the offer service (\<open>offerservice/src\<close>), the load generator
  (\<open>loadgen/src\<close>) and the frontend (\<open>frontend/src\<close>). They meet in two places. The frontend sends the
  requests of its API to services, of which the offer service is one, through a reverse proxy; \<open>Fe_Proxy\<close> and
  \<open>Fe_Offer\<close> follow them there. The load generator drives a browser on the
  pages of the frontend: it finds elements by XPath, fills in forms and follows links. The second meeting is
  the subject of the \<open>Site_\<close> theories, where the visits of the load generator run against the pages the
  frontend makes.

  Foundations.
  \<open>Prelude\<close>: the result type of code that throws (\<open>Inl\<close> the thrown value), strings.
  \<open>JS_Num\<close>: the \<open>number\<close> type, doubles with their rounding, overflow to infinity and \<open>NaN\<close>; the two zeros are
  one. \<open>JS_Value\<close>: values of unknown shape, property access with its \<open>TypeError\<close>, conversions. A number is
  written as the shortest of 1 to 17 digits that reads back; integers up to \<open>2 ^ 53\<close> are written exactly,
  which is what the properties with that bound rely on. \<open>Ordered_Map\<close>: \<open>Map\<close> (locale \<open>js_map\<close>).

  Offer service.
  \<open>Offer_Env\<close>: \<open>env\<close>, the registered variables, their defaults, the check at the start; \<open>config_source\<close> is what
  the rest of the service asks of it. \<open>Offer_Log\<close>: \<open>logger.ts\<close>. \<open>Offer_Urls\<close>: \<open>urls\<close>. \<open>Offer_Offers\<close>: \<open>offers\<close>,
  the catalogue, the filters, the providers (locales \<open>offer_source\<close>, \<open>total_offer_source\<close>, \<open>offers_backend\<close>) and
  the handler. \<open>Offer_Plugins\<close>: \<open>plugins\<close>, \<open>utils.ts\<close>, the sampling, the slowdown and its flag (locale
  \<open>iplugin\<close>). \<open>Offer_App\<close>: \<open>signups\<close>, \<open>version\<close>, \<open>routes\<close>, \<open>app.ts\<close>. \<open>Offer_Requests\<close>: a request on its way through
  the layers of the started application.
  Shown: no read of the environment fails after the check; what an offer request answers for every filter and
  failing service, and when it rejects; what the slowdown does to which requests; the status of a sign-up; which
  handler a request reaches and in which state, and which requests get no answer.

  Load generator.
  \<open>Loadgen_Page\<close>: programs over the page object, which log their calls; \<open>shape\<close> is the set of logs a program
  may leave. \<open>Loadgen_Selectors\<close>: \<open>selectors.ts\<close>. \<open>Loadgen_Helpers\<close>: \<open>helpers\<close>, \<open>user\<close>. \<open>Loadgen_Visits\<close>: \<open>visits\<close>,
  the five classes as one datatype, and their specification by logs (locale \<open>visit_contract\<close>).
  \<open>Loadgen_Log\<close>: the same runs with the messages of the logger in their places. \<open>Loadgen_Amounts\<close>: the six
  calculators over doubles. \<open>Loadgen_Provider\<close>: \<open>config\<close>, \<open>provider\<close>, \<open>main.ts\<close>.
  Shown: a visit makes the calls of its specification in order, whatever the page answers, and ends the recording
  only when complete; its messages do not change it, tell the amounts it enters, and of the user only the name; a
  card is ordered only without a pending order, and after revoking an active card; prices and amounts are in their
  bounds; which visit is provided when.

  Frontend, data.
  \<open>Fe_Backend\<close>: \<open>env\<close>, \<open>api/backend\<close>, the requests. \<open>Fe_Api\<close> and \<open>Fe_Read\<close>: \<open>api\<close>, what is sent, what is
  reported, what the answers become. \<open>Fe_Types\<close>: the declared types, and that typed answers are read completely.
  \<open>Fe_Mocks\<close>: the mock data and functions. \<open>Fe_Query\<close> and \<open>Fe_Loaders\<close>: \<open>contexts/QueryContext\<close>, keys,
  loaders (locale \<open>cached_loader\<close>), hooks, invalidation. \<open>Fe_Auth\<close>: \<open>contexts/AuthContext\<close>,
  \<open>UserContext\<close>. \<open>Fe_Router\<close>: \<open>router.tsx\<close>, the layouts, and where a navigation settles.

  Frontend, forms and views.
  \<open>Fe_Form\<close>: the status line, schemas, mutations (locales \<open>handled_form\<close>, \<open>settled_form\<close>).
  \<open>Fe_Payment_Forms\<close>, \<open>Fe_Trade_Forms\<close>, \<open>Fe_Trading\<close> (locale \<open>quick_form\<close>), \<open>Fe_Account_Forms\<close>: the forms of
  \<open>components/forms\<close>, \<open>components/creditCard\<close>, \<open>components/instrument\<close>. \<open>Fe_Flags\<close>: \<open>components/featureFlags\<close>.
  \<open>Fe_View\<close>: formatter, tables, charts, navigation, theme. \<open>Fe_Contexts\<close>: the contexts with their providers and
  hooks, and the hooks of every component.
  Shown: only checked payments and covered trades are sent; what each outcome leaves in the form, the cache and the
  status; logging out forgets what was read for the user; the guards of the pages; loaders do not reject; on no
  route a hook is called outside its provider.

  Frontend, services.
  \<open>Fe_Proxy\<close>: \<open>frontendreverseproxy/nginx.conf\<close>, its locations (the longest prefix decides, as nginx documents) and
  where they lead. \<open>Fe_Offer\<close>: the version of the offer service, asked for by the frontend.
  Shown: every request of the API reaches its service under the path of its method, and no page path is taken for
  that of a service; the page of the versions shows the version the offer service was built with.

  Frontend, pages.
  \<open>Fe_Markup\<close>, \<open>Fe_Reports\<close>, \<open>Fe_Pages\<close>: the JSX of the components as trees with their props and handlers.
  \<open>Fe_Document\<close>: the elements such a tree becomes and the XPath expressions. \<open>Fe_Site\<close>: the state of the page and
  what the calls of the page object do to it; a form that is sent is invalid, refused or accepted, as the record
  \<open>site\<close> says. \<open>Site_Pages\<close> and \<open>Site_Steps\<close>: where each selector leads (locale \<open>site_libraries\<close>). \<open>Site_Visits\<close>,
  \<open>Site_Runs\<close>, \<open>Site_Account\<close>: weakest preconditions of the helpers (locale \<open>site_run\<close>), and their counterpart
  \<open>stops\<close> for runs that fail. \<open>Site_Complete\<close>: every visit, started on a stocked site, returns, signs out and has
  submitted its forms, in order, if its login (and the revocation it asks for) is accepted; else it stops, and
  where; also the visit the provider chooses. \<open>Site_Fields\<close>: the fields of the forms are those of their schemas,
  and what the load generator fills in passes the checks of the schemas. \<open>Site_Services\<close>: the answers of the site
  computed by the forms themselves, over any network; a visit then makes exactly the requests of its class.
  \<open>Site_Flags\<close>: the buttons of the flags, from the element to the request.

  Third-party code is an argument of the definitions, and what is used of it a hypothesis with a witness:
  axios (\<open>send\<close>), the URL constructor, \<open>JSON.parse\<close>, the XML parser, luxon, \<open>Intl\<close>, the clock and the random draws,
  the flag client of OpenFeature, the page object and configuration of the load generator library, the resolver of
  the forms (\<open>submit_documented\<close>), the mutations and the query client (\<open>mutate_documented\<close>,
  \<open>documented_client\<close>), the component library (\<open>mui_document\<close>), the matching of routes (\<open>router_documented\<close>),
  the evaluation of XPath (\<open>query_documented\<close>), the URLs axios builds
  (\<open>urls_documented\<close>), the network between the frontend and the offer service (\<open>delivers\<close>). Their instances in the witnesses are executable.

  Bounds. Redirects are followed with fuel; \<open>navigation_settles\<close> shows that one is enough for every route, but
  for a user with the empty id, who is sent back and forth for ever. All other recursions are total. The data shown on
  the site (instruments, balance, the card but for the orders and revocations of the visit) stay as they are during a
  visit; what becomes of a form depends on its data, the page and the surroundings, not on the forms sent before.
  Following a link starts with empty forms and leaves the drawer of the navigation as it is.

  Not modelled: styling, the drawing of charts and data grids, the pages of versions and flags as part of the site
  (no visit opens them; \<open>Site_Flags\<close> treats the flags alone), the console and the log lines of the offer service
  other than that of a request, the matching of routes and the default error handler of express, what nginx makes of a
  path before it matches it (slashes merged, escapes decoded), its log and the headers it adds, what winston and
  the statistics of the load generator library make of their settings; test files and build configuration; React's
  scheduling of effects beyond their order after a change; the services in other languages and the databases,
  whose answers are arguments. What is left of the TypeScript sources are imports, re-exports, comments, and types
  that only name a function or a property list.
\<close>

end
